(* ===== verification/Prelude.thy ===== *)
theory Prelude
  imports Main "HOL-Library.Multiset" "HOL-Library.Sublist"
begin

text \<open>
  Shared foundations of the MultiSpeed web-console development: the part of the JavaScript
  language and its standard library that the modelled files use, the interfaces (locales) that
  several components share, and the generic lemmas their proofs rest on.

  A JavaScript string is a \<^typ>\<open>string\<close>, one \<^typ>\<open>char\<close> per UTF-16 code unit, restricted to code
  units below 256. White space, case mapping, digits and the length limits of the forms are exact
  on that range. Literals of the source with a code unit beyond it (the em dash of the formatters)
  are named constants; no function looks inside them.
\<close>

named_theorems js_simps \<open>equations that evaluate the modelled standard library\<close>

type_synonym js_string = string

abbreviation code_unit :: "char \<Rightarrow> nat" where
  "code_unit c \<equiv> of_char c"

subsection \<open>Characters\<close>

text \<open>The class \<open>\\d\<close> of a regular expression, and the value of a digit.\<close>

definition is_digit :: "char \<Rightarrow> bool" where
  "is_digit c \<longleftrightarrow> 48 \<le> code_unit c \<and> code_unit c \<le> 57"

definition digit_value :: "char \<Rightarrow> nat" where
  "digit_value c = code_unit c - 48"

definition is_alpha :: "char \<Rightarrow> bool" where
  "is_alpha c \<longleftrightarrow>
     (65 \<le> code_unit c \<and> code_unit c \<le> 90) \<or> (97 \<le> code_unit c \<and> code_unit c \<le> 122)"

text \<open>
  White space as \<open>String.prototype.trim\<close> and the class \<open>\\s\<close> see it: tab, line feed, vertical tab,
  form feed, carriage return, space, no-break space.
\<close>

definition is_space :: "char \<Rightarrow> bool" where
  "is_space c \<longleftrightarrow>
     (9 \<le> code_unit c \<and> code_unit c \<le> 13) \<or> code_unit c = 32 \<or> code_unit c = 160"

text \<open>\<open>toLowerCase\<close>: the ASCII capitals and the Latin-1 capitals, without the multiplication sign.\<close>

definition lower_char :: "char \<Rightarrow> char" where
  "lower_char c =
     (if (65 \<le> code_unit c \<and> code_unit c \<le> 90) \<or>
         (192 \<le> code_unit c \<and> code_unit c \<le> 222 \<and> code_unit c \<noteq> 215)
      then char_of (code_unit c + 32) else c)"

definition to_lower :: "string \<Rightarrow> string" where
  "to_lower s = map lower_char s"

lemmas char_class_defs = is_digit_def is_alpha_def is_space_def

subsection \<open>Strings\<close>

definition trim_start :: "string \<Rightarrow> string" where
  "trim_start s = dropWhile is_space s"

definition trim :: "string \<Rightarrow> string" where
  "trim s = rev (dropWhile is_space (rev (trim_start s)))"

text \<open>\<open>s.split(c)\<close> for a one-character separator.\<close>

fun split_char :: "char \<Rightarrow> string \<Rightarrow> string list" where
  "split_char c [] = [[]]"
| "split_char c (x # xs) =
     (if x = c then [] # split_char c xs
      else (case split_char c xs of [] \<Rightarrow> [[x]] | w # ws \<Rightarrow> (x # w) # ws))"

text \<open>\<open>s.split(/\\s+/)\<close>: every maximal run of white space separates two parts.\<close>

function split_space :: "string \<Rightarrow> string list" where
  "split_space s =
     (let w = takeWhile (\<lambda>c. \<not> is_space c) s; r = dropWhile (\<lambda>c. \<not> is_space c) s
      in if r = [] then [w] else w # split_space (dropWhile is_space r))"
  by pat_completeness auto
termination
proof (relation "measure length", goal_cases)
  case 1
  show ?case by simp
next
  case (2 s w r)
  have "length r \<le> length s"
    using 2 by (simp add: length_dropWhile_le)
  moreover obtain c cs where "r = c # cs" "is_space c"
    using 2 by (metis hd_dropWhile list.exhaust list.sel(1))
  moreover have "length (dropWhile is_space cs) \<le> length cs"
    by (rule length_dropWhile_le)
  ultimately show ?case by simp
qed

declare split_space.simps [simp del]

text \<open>\<open>Number(s)\<close> of a string of decimal digits.\<close>

definition digits_value :: "string \<Rightarrow> nat" where
  "digits_value s = foldl (\<lambda>n c. 10 * n + digit_value c) 0 s"

definition all_digits :: "string \<Rightarrow> bool" where
  "all_digits s \<longleftrightarrow> s \<noteq> [] \<and> list_all is_digit s"

text \<open>Decimal rendering of a natural number and of an integer (\<open>String(n)\<close>).\<close>

definition digit_char :: "nat \<Rightarrow> char" where
  "digit_char d = char_of (48 + d)"

fun nat_string :: "nat \<Rightarrow> string" where
  "nat_string n =
     (if n < 10 then [digit_char n] else nat_string (n div 10) @ [digit_char (n mod 10)])"

declare nat_string.simps [simp del]

definition int_string :: "int \<Rightarrow> string" where
  "int_string i = (if i < 0 then CHR ''-'' # nat_string (nat (- i)) else nat_string (nat i))"

text \<open>\<open>s.padStart(n, c)\<close>\<close>

definition pad_start :: "nat \<Rightarrow> char \<Rightarrow> string \<Rightarrow> string" where
  "pad_start n c s = replicate (n - length s) c @ s"

text \<open>\<open>xs.join(sep)\<close>\<close>

fun join :: "string \<Rightarrow> string list \<Rightarrow> string" where
  "join sep [] = []"
| "join sep [x] = x"
| "join sep (x # y # zs) = x @ sep @ join sep (y # zs)"

subsection \<open>Arrays\<close>

text \<open>\<open>[...new Set(xs)]\<close>: the first occurrence of every element, in order.\<close>

definition unique :: "'a list \<Rightarrow> 'a list" where
  "unique xs = rev (remdups (rev xs))"

text \<open>
  \<open>xs.sort(cmp)\<close>. The language fixes the result to be the stable sorted permutation when the
  comparison is consistent; insertion sort computes it. Only the sign of a comparison matters.
\<close>

fun insert_by :: "('a \<Rightarrow> 'a \<Rightarrow> int) \<Rightarrow> 'a \<Rightarrow> 'a list \<Rightarrow> 'a list" where
  "insert_by cmp x [] = [x]"
| "insert_by cmp x (y # ys) = (if cmp x y \<le> 0 then x # y # ys else y # insert_by cmp x ys)"

definition sort_by :: "('a \<Rightarrow> 'a \<Rightarrow> int) \<Rightarrow> 'a list \<Rightarrow> 'a list" where
  "sort_by cmp xs = foldr (insert_by cmp) xs []"

text \<open>The default order of \<open>xs.sort()\<close> on strings: code units, lexicographically.\<close>

fun compare_units :: "string \<Rightarrow> string \<Rightarrow> int" where
  "compare_units [] [] = 0"
| "compare_units [] (y # ys) = - 1"
| "compare_units (x # xs) [] = 1"
| "compare_units (x # xs) (y # ys) =
     (if code_unit x < code_unit y then - 1
      else if code_unit y < code_unit x then 1 else compare_units xs ys)"

text \<open>\<open>xs.slice(-n)\<close> for \<open>n > 0\<close>: the last \<open>n\<close> elements.\<close>

definition slice_last :: "nat \<Rightarrow> 'a list \<Rightarrow> 'a list" where
  "slice_last n xs = drop (length xs - n) xs"

text \<open>
  A \<open>Set\<close>, by its elements in insertion order: \<open>add\<close>, \<open>delete\<close>, and the toggle the pages build from
  them. A plain array of choices is toggled the same way.
\<close>

definition set_add :: "'a \<Rightarrow> 'a list \<Rightarrow> 'a list" where
  "set_add x xs = (if x \<in> set xs then xs else xs @ [x])"

definition set_delete :: "'a \<Rightarrow> 'a list \<Rightarrow> 'a list" where
  "set_delete x xs = filter (\<lambda>y. y \<noteq> x) xs"

definition set_toggle :: "'a \<Rightarrow> 'a list \<Rightarrow> 'a list" where
  "set_toggle x xs = (if x \<in> set xs then set_delete x xs else xs @ [x])"

text \<open>\<open>new Map(pairs)\<close> read at a key: the last pair wins.\<close>

definition map_get :: "('k \<times> 'v) list \<Rightarrow> 'k \<Rightarrow> 'v option" where
  "map_get ps k = map_of (rev ps) k"

subsection \<open>Lemmas on characters and strings\<close>

lemma is_digit_not_space [simp]: "is_digit c \<Longrightarrow> \<not> is_space c"
  by (auto simp: char_class_defs)

lemma digit_char_digit [simp]: "d < 10 \<Longrightarrow> is_digit (digit_char d)"
  by (simp add: digit_char_def is_digit_def)

lemma digit_value_digit_char [simp]: "d < 10 \<Longrightarrow> digit_value (digit_char d) = d"
  by (simp add: digit_char_def digit_value_def)

lemma digit_char_value [simp]: "is_digit c \<Longrightarrow> digit_char (digit_value c) = c"
  by (simp add: digit_char_def digit_value_def is_digit_def)

lemma digit_value_less [simp]: "is_digit c \<Longrightarrow> digit_value c < 10"
  by (auto simp: digit_value_def is_digit_def)

lemma digits_value_snoc [simp]: "digits_value (s @ [c]) = 10 * digits_value s + digit_value c"
  by (simp add: digits_value_def)

lemma digits_value_Nil [simp]: "digits_value [] = 0"
  by (simp add: digits_value_def)

lemma digits_value_zeros: "digits_value (replicate k CHR ''0'' @ s) = digits_value s"
  by (induction k) (simp_all add: digits_value_def digit_value_def)

lemma all_digits_nat_string [simp]: "all_digits (nat_string n)"
proof (induction n rule: nat_string.induct)
  case (1 n)
  then show ?case
    by (subst nat_string.simps) (auto simp: all_digits_def)
qed

lemma nat_string_nonempty [simp]: "nat_string n \<noteq> []"
  using all_digits_nat_string [of n] by (auto simp: all_digits_def)

lemma nat_string_digits: "c \<in> set (nat_string n) \<Longrightarrow> is_digit c"
  using all_digits_nat_string [of n] by (auto simp: all_digits_def list_all_iff)

text \<open>Reading a rendered number gives the number back.\<close>

lemma digits_value_nat_string [simp]: "digits_value (nat_string n) = n"
proof (induction n rule: nat_string.induct)
  case (1 n)
  show ?case
  proof (cases "n < 10")
    case True
    then show ?thesis
      by (subst nat_string.simps) (simp add: digits_value_def)
  next
    case False
    with 1 show ?thesis
      by (subst nat_string.simps) simp
  qed
qed

lemma nat_string_inject [simp]: "nat_string m = nat_string n \<longleftrightarrow> m = n"
  by (metis digits_value_nat_string)

lemma dropWhile_all: "list_all P xs \<Longrightarrow> dropWhile P xs = []"
  by (induction xs) auto

lemma trim_no_space:
  "list_all (\<lambda>c. \<not> is_space c) s \<Longrightarrow> trim s = s"
proof -
  assume a: "list_all (\<lambda>c. \<not> is_space c) s"
  have d: "dropWhile is_space t = t" if "list_all (\<lambda>c. \<not> is_space c) t" for t
    using that by (cases t) auto
  show ?thesis
    using a by (simp add: trim_def trim_start_def d)
qed

text \<open>A string is trimmed iff it neither starts nor ends with white space.\<close>

lemma trim_fixed:
  "s \<noteq> [] \<Longrightarrow> \<not> is_space (hd s) \<Longrightarrow> \<not> is_space (last s) \<Longrightarrow> trim s = s"
proof -
  assume a: "s \<noteq> []" "\<not> is_space (hd s)" "\<not> is_space (last s)"
  have "dropWhile is_space s = s"
    using a by (cases s) auto
  moreover have "dropWhile is_space (rev s) = rev s"
    using a by (cases s rule: rev_cases) auto
  ultimately show ?thesis
    by (simp add: trim_def trim_start_def)
qed

lemma hd_trim: "trim s \<noteq> [] \<Longrightarrow> \<not> is_space (hd (trim s))"
proof -
  assume a: "trim s \<noteq> []"
  let ?t = "trim_start s"
  have "suffix (dropWhile is_space (rev ?t)) (rev ?t)"
    by (rule suffix_dropWhile)
  then have p: "prefix (trim s) ?t"
    by (simp add: trim_def suffix_to_prefix)
  have "?t \<noteq> []"
    using a p by auto
  then have "\<not> is_space (hd ?t)"
    by (simp add: trim_start_def hd_dropWhile)
  moreover have "hd (trim s) = hd ?t"
    using a p by (auto simp: prefix_def)
  ultimately show ?thesis by simp
qed

lemma last_trim: "trim s \<noteq> [] \<Longrightarrow> \<not> is_space (last (trim s))"
  by (simp add: trim_def last_rev hd_dropWhile)

lemma trim_idem [simp]: "trim (trim s) = trim s"
proof (cases "trim s = []")
  case True
  have "trim [] = []" by (simp add: trim_def trim_start_def)
  with True show ?thesis by simp
next
  case False
  then show ?thesis
    by (simp add: trim_fixed hd_trim last_trim)
qed

lemma length_trim_le: "length (trim s) \<le> length s"
proof -
  have "length (trim s) \<le> length (trim_start s)"
    using length_dropWhile_le [of is_space "rev (trim_start s)"] by (simp add: trim_def)
  also have "\<dots> \<le> length s"
    by (simp add: trim_start_def length_dropWhile_le)
  finally show ?thesis .
qed

lemma split_char_none: "c \<notin> set s \<Longrightarrow> split_char c s = [s]"
  by (induction s) auto

lemma split_char_append: "c \<notin> set w \<Longrightarrow> split_char c (w @ c # t) = w # split_char c t"
  by (induction w) auto

lemma split_char_join:
  "ws \<noteq> [] \<Longrightarrow> list_all (\<lambda>w. c \<notin> set w) ws \<Longrightarrow> split_char c (join [c] ws) = ws"
  by (induction "[c]" ws rule: join.induct) (auto simp: split_char_none split_char_append)

lemma set_trim_subset: "set (trim s) \<subseteq> set s"
  by (auto simp: trim_def trim_start_def dest!: set_dropWhileD)

subsection \<open>Lemmas on arrays\<close>

lemma distinct_unique [simp]: "distinct (unique xs)"
  by (simp add: unique_def)

lemma set_unique [simp]: "set (unique xs) = set xs"
  by (simp add: unique_def)

lemma unique_distinct [simp]: "distinct xs \<Longrightarrow> unique xs = xs"
  by (simp add: unique_def distinct_remdups_id)

lemma set_set_add [simp]: "set (set_add x xs) = insert x (set xs)"
  by (auto simp: set_add_def)

lemma distinct_set_add [simp]: "distinct xs \<Longrightarrow> distinct (set_add x xs)"
  by (simp add: set_add_def)

lemma set_set_delete [simp]: "set (set_delete x xs) = set xs - {x}"
  by (auto simp: set_delete_def)

lemma distinct_set_delete [simp]: "distinct xs \<Longrightarrow> distinct (set_delete x xs)"
  by (simp add: set_delete_def)

lemma set_toggle_set: "set (set_toggle x xs) = (if x \<in> set xs then set xs - {x} else insert x (set xs))"
  by (simp add: set_toggle_def)

lemma distinct_set_toggle [simp]: "distinct xs \<Longrightarrow> distinct (set_toggle x xs)"
  by (simp add: set_toggle_def)

lemma set_fold_add: "set (fold set_add ys xs) = set xs \<union> set ys"
  by (induction ys arbitrary: xs) auto

lemma set_fold_delete: "set (fold set_delete ys xs) = set xs - set ys"
  by (induction ys arbitrary: xs) auto

lemma distinct_fold_set: "distinct xs \<Longrightarrow> distinct (fold set_add ys xs) \<and> distinct (fold set_delete ys xs)"
  by (induction ys arbitrary: xs) auto

lemma map_get_Some: "map_get ps k = Some v \<Longrightarrow> (k, v) \<in> set ps"
  by (auto simp: map_get_def dest: map_of_SomeD)

lemma map_get_None: "map_get ps k = None \<longleftrightarrow> k \<notin> fst ` set ps"
  by (auto simp: map_get_def map_of_eq_None_iff)

lemma mset_insert_by [simp]: "mset (insert_by cmp x xs) = {#x#} + mset xs"
  by (induction xs) auto

lemma mset_sort_by [simp]: "mset (sort_by cmp xs) = mset xs"
  by (induction xs) (auto simp: sort_by_def)

lemma set_sort_by [simp]: "set (sort_by cmp xs) = set xs"
  by (metis mset_sort_by set_mset_mset)

lemma length_sort_by [simp]: "length (sort_by cmp xs) = length xs"
  by (metis mset_sort_by size_mset)

lemma distinct_sort_by [simp]: "distinct (sort_by cmp xs) = distinct xs"
  by (metis distinct_count_atmost_1 mset_sort_by set_sort_by)

lemma sort_by_Cons: "sort_by cmp (x # xs) = insert_by cmp x (sort_by cmp xs)"
  by (simp add: sort_by_def)

lemma sort_by_Nil [simp]: "sort_by cmp [] = []"
  by (simp add: sort_by_def)

lemma length_slice_last: "length (slice_last n xs) = min n (length xs)"
  by (simp add: slice_last_def)

lemma set_slice_last: "set (slice_last n xs) \<subseteq> set xs"
  by (simp add: slice_last_def set_drop_subset)

subsection \<open>Interfaces\<close>

text \<open>
  A consistent comparison function: what \<open>Array.prototype.sort\<close> asks of its argument. Its clients
  are the sorted lists the pages show.
\<close>

locale comparator =
  fixes cmp :: "'a \<Rightarrow> 'a \<Rightarrow> int"
  assumes total: "cmp x y \<le> 0 \<or> cmp y x \<le> 0"
    and trans: "cmp x y \<le> 0 \<Longrightarrow> cmp y z \<le> 0 \<Longrightarrow> cmp x z \<le> 0"
begin

lemma refl: "cmp x x \<le> 0"
  using total by blast

lemma insert_sorted:
  "sorted_wrt (\<lambda>a b. cmp a b \<le> 0) xs \<Longrightarrow> sorted_wrt (\<lambda>a b. cmp a b \<le> 0) (insert_by cmp x xs)"
proof (induction xs)
  case Nil
  then show ?case by simp
next
  case (Cons y ys)
  have s: "set (insert_by cmp x ys) = insert x (set ys)"
    by (metis mset_insert_by set_mset_add_mset_insert set_mset_mset add_mset_add_single
        union_commute)
  show ?case
  proof (cases "cmp x y \<le> 0")
    case True
    with Cons.prems show ?thesis by (auto intro: trans)
  next
    case False
    then have "cmp y x \<le> 0" using total by blast
    with Cons False show ?thesis by (auto simp: s)
  qed
qed

lemma sort_sorted: "sorted_wrt (\<lambda>a b. cmp a b \<le> 0) (sort_by cmp xs)"
  by (induction xs) (simp_all add: sort_by_Cons insert_sorted)

lemma sort_hd_least:
  assumes "x \<in> set xs"
  shows "cmp (hd (sort_by cmp xs)) x \<le> 0"
proof -
  have x: "x \<in> set (sort_by cmp xs)"
    using assms by simp
  then obtain y ys where e: "sort_by cmp xs = y # ys"
    by (cases "sort_by cmp xs") auto
  with sort_sorted [of xs] x show ?thesis
    by (auto intro: refl)
qed

end

text \<open>
  An encoder with its decoder, correct on the well-formed values. What its clients use is that two
  values with the same encoding are equal.
\<close>

locale codec =
  fixes enc :: "'a \<Rightarrow> 'b" and dec :: "'b \<Rightarrow> 'a option" and wf :: "'a \<Rightarrow> bool"
  assumes decode_encode: "wf x \<Longrightarrow> dec (enc x) = Some x"
begin

lemma encode_inject: "wf x \<Longrightarrow> wf y \<Longrightarrow> enc x = enc y \<longleftrightarrow> x = y"
  by (metis decode_encode option.inject)

end

text \<open>
  A printer whose output can be followed by other text: the parser stops where the value ends, as
  long as what follows satisfies \<open>ok\<close>. It gives a codec on whole strings.
\<close>

locale prefix_codec =
  fixes enc :: "'a \<Rightarrow> string" and parse :: "string \<Rightarrow> ('a \<times> string) option"
    and wf :: "'a \<Rightarrow> bool" and ok :: "string \<Rightarrow> bool"
  assumes parse_encode: "wf x \<Longrightarrow> ok r \<Longrightarrow> parse (enc x @ r) = Some (x, r)"
    and ok_Nil: "ok []"

sublocale prefix_codec \<subseteq> whole: codec enc
  "\<lambda>s. case parse s of Some (x, []) \<Rightarrow> Some x | _ \<Rightarrow> None" wf
proof
  fix x
  assume "wf x"
  then have "parse (enc x) = Some (x, [])"
    using parse_encode [of x "[]"] ok_Nil by simp
  then show "(case parse (enc x) of Some (x, []) \<Rightarrow> Some x | _ \<Rightarrow> None) = Some x"
    by simp
qed

text \<open>
  A deterministic state machine with an invariant: every event keeps it, so every run does.
\<close>

locale machine =
  fixes step :: "'s \<Rightarrow> 'e \<Rightarrow> 's" and inv :: "'s \<Rightarrow> bool"
  assumes step_inv: "inv s \<Longrightarrow> inv (step s e)"
begin

lemma run_inv: "inv s \<Longrightarrow> inv (foldl step s es)"
  by (induction es arbitrary: s) (auto intro: step_inv)

end

text \<open>
  A machine that also emits outputs: with an invariant that makes every output good for the state it
  is emitted in, every output of every run from a good state is good.
\<close>

locale emitting_machine = machine step inv
  for step :: "'s \<Rightarrow> 'e \<Rightarrow> 's" and inv :: "'s \<Rightarrow> bool" +
  fixes emits :: "'s \<Rightarrow> 'e \<Rightarrow> 'o list" and good :: "'s \<Rightarrow> 'o \<Rightarrow> bool"
  assumes emits_good: "inv s \<Longrightarrow> o' \<in> set (emits s e) \<Longrightarrow> good s o'"
begin

lemma run_emits_good:
  "inv s \<Longrightarrow> o' \<in> set (emits (foldl step s es) e) \<Longrightarrow> good (foldl step s es) o'"
  by (rule emits_good) (rule run_inv)

end

lemma compare_units_nonpos_total: "compare_units s t \<le> 0 \<or> compare_units t s \<le> 0"
  by (induction s t rule: compare_units.induct) auto

lemma compare_units_eq_0 [simp]: "compare_units s t = 0 \<longleftrightarrow> s = t"
  by (induction s t rule: compare_units.induct) auto

lemma compare_units_trans:
  "compare_units s t \<le> 0 \<Longrightarrow> compare_units t u \<le> 0 \<Longrightarrow> compare_units s u \<le> 0"
proof (induction s t arbitrary: u rule: compare_units.induct)
  case 1
  then show ?case by simp
next
  case (2 y ys)
  then show ?case by (cases u) auto
next
  case (3 x xs)
  then show ?case by simp
next
  case (4 x xs y ys)
  show ?case
  proof (cases u)
    case Nil
    with "4.prems" show ?thesis by simp
  next
    case (Cons z zs)
    with "4.prems" have "code_unit x \<le> code_unit y" "code_unit y \<le> code_unit z"
      by (simp_all split: if_splits)
    then consider "code_unit x < code_unit z" | "code_unit x = code_unit y" "code_unit y = code_unit z"
      by linarith
    then show ?thesis
    proof cases
      case 1
      with Cons show ?thesis by simp
    next
      case 2
      then have eq: "x = y" "y = z" by simp_all
      with "4.prems" Cons have "compare_units xs ys \<le> 0" "compare_units ys zs \<le> 0"
        by simp_all
      with "4.IH" eq have "compare_units xs zs \<le> 0" by simp
      with Cons eq show ?thesis by simp
    qed
  qed
qed

interpretation units: comparator compare_units
proof
  show "compare_units s t \<le> 0 \<or> compare_units t s \<le> 0" for s t
    by (rule compare_units_nonpos_total)
  show "compare_units s t \<le> 0 \<Longrightarrow> compare_units t u \<le> 0 \<Longrightarrow> compare_units s u \<le> 0" for s t u
    by (rule compare_units_trans)
qed

lemma compare_units_antisym:
  "compare_units s t \<le> 0 \<Longrightarrow> compare_units t s \<le> 0 \<Longrightarrow> s = t"
  by (induction s t rule: compare_units.induct) (auto split: if_splits)

end
