(* ===== verification/JsRegex.thy ===== *)
theory JsRegex
  imports Prelude
begin

text \<open>
  The regular expressions the source tests whole strings with (\<open>/^...$/.test(s)\<close>): their syntax,
  their declarative meaning as an inductive predicate, and an executable matcher by derivatives
  that agrees with it. A character class is a predicate on characters.
\<close>

datatype rx =
    RNone
  | REps
  | RCls "char \<Rightarrow> bool"
  | RSeq rx rx
  | RAlt rx rx
  | RStar rx

definition ROpt :: "rx \<Rightarrow> rx" where
  "ROpt r = RAlt r REps"

definition RPlus :: "rx \<Rightarrow> rx" where
  "RPlus r = RSeq r (RStar r)"

fun RLit :: "string \<Rightarrow> rx" where
  "RLit [] = REps"
| "RLit (c # cs) = RSeq (RCls (\<lambda>x. x = c)) (RLit cs)"

text \<open>\<open>r{0,n}\<close> and \<open>r{n}\<close>\<close>

fun RUpto :: "nat \<Rightarrow> rx \<Rightarrow> rx" where
  "RUpto 0 r = REps"
| "RUpto (Suc n) r = ROpt (RSeq r (RUpto n r))"

fun RTimes :: "nat \<Rightarrow> rx \<Rightarrow> rx" where
  "RTimes 0 r = REps"
| "RTimes (Suc n) r = RSeq r (RTimes n r)"

subsection \<open>Meaning\<close>

inductive rx_lang :: "rx \<Rightarrow> string \<Rightarrow> bool" where
  eps: "rx_lang REps []"
| cls: "p c \<Longrightarrow> rx_lang (RCls p) [c]"
| seq: "rx_lang r s \<Longrightarrow> rx_lang q t \<Longrightarrow> rx_lang (RSeq r q) (s @ t)"
| left: "rx_lang r s \<Longrightarrow> rx_lang (RAlt r q) s"
| right: "rx_lang q s \<Longrightarrow> rx_lang (RAlt r q) s"
| star_nil: "rx_lang (RStar r) []"
| star_step: "rx_lang r s \<Longrightarrow> s \<noteq> [] \<Longrightarrow> rx_lang (RStar r) t \<Longrightarrow> rx_lang (RStar r) (s @ t)"

inductive_simps rx_lang_none [simp]: "rx_lang RNone s"
inductive_simps rx_lang_eps [simp]: "rx_lang REps s"
inductive_simps rx_lang_cls: "rx_lang (RCls p) s"
inductive_simps rx_lang_seq: "rx_lang (RSeq r q) s"
inductive_simps rx_lang_alt [simp]: "rx_lang (RAlt r q) s"
inductive_cases rx_lang_starE: "rx_lang (RStar r) s"

lemma rx_lang_cls_iff [simp]: "rx_lang (RCls p) s \<longleftrightarrow> (\<exists>c. s = [c] \<and> p c)"
  by (auto simp: rx_lang_cls)

lemma rx_lang_seq_iff: "rx_lang (RSeq r q) s \<longleftrightarrow> (\<exists>u v. s = u @ v \<and> rx_lang r u \<and> rx_lang q v)"
  by (auto simp: rx_lang_seq)

lemma rx_lang_star_iff:
  "rx_lang (RStar r) s \<longleftrightarrow> (\<exists>ws. s = concat ws \<and> list_all (\<lambda>w. w \<noteq> [] \<and> rx_lang r w) ws)"
proof
  assume "rx_lang (RStar r) s"
  then show "\<exists>ws. s = concat ws \<and> list_all (\<lambda>w. w \<noteq> [] \<and> rx_lang r w) ws"
  proof (induction "RStar r" s rule: rx_lang.induct)
    case star_nil
    then show ?case by (intro exI [of _ "[]"]) simp
  next
    case (star_step s t)
    then obtain ws where "t = concat ws" "list_all (\<lambda>w. w \<noteq> [] \<and> rx_lang r w) ws"
      by blast
    with star_step show ?case by (intro exI [of _ "s # ws"]) simp
  qed
next
  assume "\<exists>ws. s = concat ws \<and> list_all (\<lambda>w. w \<noteq> [] \<and> rx_lang r w) ws"
  then obtain ws where s: "s = concat ws" and ws: "list_all (\<lambda>w. w \<noteq> [] \<and> rx_lang r w) ws"
    by blast
  from ws have "rx_lang (RStar r) (concat ws)"
    by (induction ws) (auto intro: rx_lang.intros)
  with s show "rx_lang (RStar r) s" by simp
qed

lemma rx_lang_seq_cls [simp]:
  "rx_lang (RSeq (RCls p) q) s \<longleftrightarrow> (\<exists>c t. s = c # t \<and> p c \<and> rx_lang q t)"
  by (simp add: rx_lang_seq_iff) (metis append_Cons append_Nil)

lemma rx_lang_lit [simp]: "rx_lang (RLit cs) s \<longleftrightarrow> s = cs"
  by (induction cs arbitrary: s) auto

declare RLit.simps [simp del]

lemma rx_lang_seq_lit [simp]:
  "rx_lang (RSeq (RLit cs) q) s \<longleftrightarrow> (\<exists>t. s = cs @ t \<and> rx_lang q t)"
  by (auto simp: rx_lang_seq_iff)

lemma rx_lang_opt [simp]: "rx_lang (ROpt r) s \<longleftrightarrow> rx_lang r s \<or> s = []"
  by (auto simp: ROpt_def)

text \<open>One or more characters of a class, as \<open>[...]+\<close> and \<open>\\d+\<close> use it.\<close>

lemma rx_lang_star_cls [simp]: "rx_lang (RStar (RCls p)) s \<longleftrightarrow> list_all p s"
proof
  assume "rx_lang (RStar (RCls p)) s"
  then show "list_all p s"
    unfolding rx_lang_star_iff by (fastforce simp: list_all_iff)
next
  assume "list_all p s"
  then have "s = concat (map (\<lambda>c. [c]) s) \<and>
      list_all (\<lambda>w. w \<noteq> [] \<and> rx_lang (RCls p) w) (map (\<lambda>c. [c]) s)"
    by (simp add: list_all_iff)
  then show "rx_lang (RStar (RCls p)) s"
    unfolding rx_lang_star_iff by blast
qed

lemma rx_lang_plus_cls [simp]: "rx_lang (RPlus (RCls p)) s \<longleftrightarrow> s \<noteq> [] \<and> list_all p s"
  by (cases s) (auto simp: RPlus_def)

lemma rx_lang_upto_cls [simp]:
  "rx_lang (RUpto n (RCls p)) s \<longleftrightarrow> length s \<le> n \<and> list_all p s"
proof (induction n arbitrary: s)
  case (Suc n)
  then show ?case by (cases s) auto
qed auto

lemma rx_lang_times_cls [simp]:
  "rx_lang (RTimes n (RCls p)) s \<longleftrightarrow> length s = n \<and> list_all p s"
proof (induction n arbitrary: s)
  case (Suc n)
  then show ?case by (cases s) auto
qed auto

subsection \<open>An executable matcher\<close>

fun nullable :: "rx \<Rightarrow> bool" where
  "nullable RNone = False"
| "nullable REps = True"
| "nullable (RCls p) = False"
| "nullable (RSeq r q) = (nullable r \<and> nullable q)"
| "nullable (RAlt r q) = (nullable r \<or> nullable q)"
| "nullable (RStar r) = True"

text \<open>Constructors that simplify, so that derivatives stay small.\<close>

fun mk_seq :: "rx \<Rightarrow> rx \<Rightarrow> rx" where
  "mk_seq RNone q = RNone"
| "mk_seq REps q = q"
| "mk_seq r q = RSeq r q"

fun mk_alt :: "rx \<Rightarrow> rx \<Rightarrow> rx" where
  "mk_alt RNone q = q"
| "mk_alt r RNone = r"
| "mk_alt r q = RAlt r q"

fun deriv :: "char \<Rightarrow> rx \<Rightarrow> rx" where
  "deriv c RNone = RNone"
| "deriv c REps = RNone"
| "deriv c (RCls p) = (if p c then REps else RNone)"
| "deriv c (RSeq r q) =
     (if nullable r then mk_alt (mk_seq (deriv c r) q) (deriv c q) else mk_seq (deriv c r) q)"
| "deriv c (RAlt r q) = mk_alt (deriv c r) (deriv c q)"
| "deriv c (RStar r) = mk_seq (deriv c r) (RStar r)"

fun rx_match :: "rx \<Rightarrow> string \<Rightarrow> bool" where
  "rx_match r [] = nullable r"
| "rx_match r (c # cs) = rx_match (deriv c r) cs"

lemma nullable_iff: "nullable r \<longleftrightarrow> rx_lang r []"
  by (induction r) (auto simp: rx_lang_seq_iff intro: rx_lang.intros)

lemma rx_lang_mk_seq [simp]: "rx_lang (mk_seq r q) s \<longleftrightarrow> rx_lang (RSeq r q) s"
  by (cases r) (auto simp: rx_lang_seq_iff)

lemma rx_lang_mk_alt [simp]: "rx_lang (mk_alt r q) s \<longleftrightarrow> rx_lang (RAlt r q) s"
  by (cases r; cases q) auto

lemma seq_Cons_iff:
  "rx_lang (RSeq r q) (c # s) \<longleftrightarrow>
     (\<exists>u v. s = u @ v \<and> rx_lang r (c # u) \<and> rx_lang q v) \<or> (rx_lang r [] \<and> rx_lang q (c # s))"
  by (auto simp: rx_lang_seq_iff Cons_eq_append_conv)

lemma star_Cons_iff:
  "rx_lang (RStar r) (c # s) \<longleftrightarrow> (\<exists>u v. s = u @ v \<and> rx_lang r (c # u) \<and> rx_lang (RStar r) v)"
proof
  assume "rx_lang (RStar r) (c # s)"
  then show "\<exists>u v. s = u @ v \<and> rx_lang r (c # u) \<and> rx_lang (RStar r) v"
    by (cases rule: rx_lang_starE) (fastforce simp: Cons_eq_append_conv)+
next
  assume "\<exists>u v. s = u @ v \<and> rx_lang r (c # u) \<and> rx_lang (RStar r) v"
  then obtain u v where "s = u @ v" "rx_lang r (c # u)" "rx_lang (RStar r) v"
    by blast
  then show "rx_lang (RStar r) (c # s)"
    using rx_lang.star_step [of r "c # u" v] by simp
qed

lemma deriv_lang: "rx_lang (deriv c r) s \<longleftrightarrow> rx_lang r (c # s)"
proof (induction r arbitrary: s)
  case (RSeq r q)
  have "rx_lang (RSeq (deriv c r) q) s \<longleftrightarrow>
      (\<exists>u v. s = u @ v \<and> rx_lang r (c # u) \<and> rx_lang q v)"
    by (simp add: rx_lang_seq_iff RSeq.IH)
  then show ?case
    by (simp add: seq_Cons_iff nullable_iff RSeq.IH)
next
  case (RStar r)
  then show ?case
    by (simp add: star_Cons_iff rx_lang_seq_iff)
qed auto

lemma rx_match_lang: "rx_match r s \<longleftrightarrow> rx_lang r s"
  by (induction s arbitrary: r) (simp_all add: nullable_iff deriv_lang)

end
