(* ===== verification/Cron.thy ===== *)
theory Cron
  imports JsRegex
begin

text \<open>
  The schedule helpers of \<open>web/src/lib/cron.ts\<close>: presets, the validation and the description of a
  five-field cron expression, the timezone list and the preview of the next runs.

  The reference is an abstract syntax of cron fields with its printer; validation is proved to
  accept exactly the printed fields whose plain numbers are in range. The third-party
  \<open>cron-parser\<close> and the runtime's timezone database are arguments.
\<close>

record SchedulePreset =
  preset_id :: string
  preset_label :: string
  preset_description :: string
  preset_expression :: string

definition preset :: "string \<Rightarrow> string \<Rightarrow> string \<Rightarrow> string \<Rightarrow> SchedulePreset" where
  "preset i l d e =
     \<lparr>preset_id = i, preset_label = l, preset_description = d, preset_expression = e\<rparr>"

definition schedulePresets :: "SchedulePreset list" where
  "schedulePresets =
    [preset ''15m'' ''Every 15 minutes'' ''Four checks per hour'' ''*/15 * * * *'',
     preset ''hourly'' ''Hourly'' ''At the start of every hour'' ''0 * * * *'',
     preset ''six-hours'' ''Every 6 hours'' ''At 00:00, 06:00, 12:00, and 18:00'' ''0 */6 * * *'',
     preset ''daily'' ''Daily'' ''Every day at 06:00'' ''0 6 * * *'',
     preset ''weekly'' ''Weekly'' ''Every Monday at 06:00'' ''0 6 * * 1'']"

subsection \<open>Validation\<close>

definition rx_digits :: rx where
  "rx_digits = RPlus (RCls is_digit)"

definition cronItem :: rx where
  "cronItem = RSeq rx_digits
     (RSeq (ROpt (RSeq (RLit ''-'') rx_digits)) (ROpt (RSeq (RLit ''/'') rx_digits)))"

definition cronPart :: rx where
  "cronPart = RSeq (RAlt (RLit ''*'') (RAlt cronItem (RSeq (RLit ''*/'') rx_digits)))
     (RStar (RSeq (RLit '','') cronItem))"

definition at_most :: "nat \<Rightarrow> nat option \<Rightarrow> bool" where
  "at_most hi v = (case v of None \<Rightarrow> True | Some n \<Rightarrow> n \<le> hi)"

definition within :: "nat \<Rightarrow> nat \<Rightarrow> nat option \<Rightarrow> bool" where
  "within lo hi v = (case v of None \<Rightarrow> True | Some n \<Rightarrow> lo \<le> n \<and> n \<le> hi)"

definition numeric_part :: "string \<Rightarrow> nat option" where
  "numeric_part part = (if rx_match rx_digits part then Some (digits_value part) else None)"

definition validateCron :: "string \<Rightarrow> bool" where
  "validateCron expression =
    (let parts = split_space (trim expression) in
     if length parts \<noteq> 5 \<or> \<not> list_all (rx_match cronPart) parts then False
     else let numeric = map numeric_part parts in
       at_most 59 (numeric ! 0) \<and> at_most 23 (numeric ! 1) \<and> within 1 31 (numeric ! 2) \<and>
       within 1 12 (numeric ! 3) \<and> at_most 7 (numeric ! 4))"

subsection \<open>Description\<close>

definition invalid_description :: string where
  "invalid_description = ''Invalid five-field cron expression''"

definition describeCron :: "string \<Rightarrow> string" where
  "describeCron expression =
    (case find (\<lambda>item. preset_expression item = expression) schedulePresets of
       Some p \<Rightarrow> preset_description p
     | None \<Rightarrow>
       (case split_space (trim expression) of
          [minute, hour, day, month, weekday] \<Rightarrow>
            if prefix ''*/'' minute \<and> hour = ''*'' \<and> day = ''*'' \<and> month = ''*'' \<and> weekday = ''*''
            then ''Every '' @ drop 2 minute @ '' minutes''
            else if minute = ''0'' \<and> prefix ''*/'' hour \<and> day = ''*'' \<and> month = ''*'' \<and> weekday = ''*''
            then ''Every '' @ drop 2 hour @ '' hours''
            else if rx_match rx_digits minute \<and> rx_match rx_digits hour \<and>
                    day = ''*'' \<and> month = ''*'' \<and> weekday = ''*''
            then ''Daily at '' @ pad_start 2 CHR ''0'' hour @ '':'' @ pad_start 2 CHR ''0'' minute
            else if validateCron expression then ''Custom schedule: '' @ expression
            else invalid_description
        | _ \<Rightarrow> invalid_description))"

subsection \<open>Timezones and the preview of the next runs\<close>

definition commonTimezones :: "string list" where
  "commonTimezones =
    [''UTC'', ''Europe/Berlin'', ''Europe/London'', ''America/New_York'', ''America/Chicago'',
     ''America/Denver'', ''America/Los_Angeles'', ''Asia/Kolkata'', ''Asia/Singapore'',
     ''Asia/Tokyo'', ''Australia/Sydney'']"

text \<open>
  \<open>supportedValuesOf\<close> may be missing (\<open>Some None\<close>), return a list (\<open>Some (Some zs)\<close>) or throw
  (\<open>None\<close>); \<open>collate\<close> is the runtime's \<open>localeCompare\<close>.
\<close>

definition ianaTimezones ::
  "(string \<Rightarrow> string \<Rightarrow> int) \<Rightarrow> string list option option \<Rightarrow> string list" where
  "ianaTimezones collate supportedValuesOf =
    (case supportedValuesOf of
       None \<Rightarrow> commonTimezones
     | Some found \<Rightarrow>
         let discovered = (case found of None \<Rightarrow> [] | Some zs \<Rightarrow> zs)
         in sort_by collate (unique (commonTimezones @ discovered)))"

text \<open>\<open>new Intl.DateTimeFormat('en', { timeZone })\<close> throws for a zone the runtime does not know.\<close>

definition isValidTimezone :: "(string \<Rightarrow> bool) \<Rightarrow> string \<Rightarrow> bool" where
  "isValidTimezone known v = known v"

text \<open>
  The third-party parser: \<open>parse expression timezone\<close> is \<open>None\<close> when it throws, otherwise an
  iterator whose \<open>i\<close>-th \<open>next()\<close> is a date or throws (\<open>None\<close>).
\<close>

fun take_runs :: "(nat \<Rightarrow> int option) \<Rightarrow> nat \<Rightarrow> nat \<Rightarrow> int list option" where
  "take_runs it i 0 = Some []"
| "take_runs it i (Suc n) =
     (case it i of None \<Rightarrow> None
      | Some d \<Rightarrow> map_option ((#) d) (take_runs it (Suc i) n))"

definition nextCronRuns ::
  "(string \<Rightarrow> string \<Rightarrow> (nat \<Rightarrow> int option) option) \<Rightarrow> string \<Rightarrow> string \<Rightarrow> nat \<Rightarrow> int list" where
  "nextCronRuns parse expression timezone n =
    (if \<not> validateCron expression then []
     else case parse expression timezone of
       None \<Rightarrow> []
     | Some interval \<Rightarrow> (case take_runs interval 0 n of None \<Rightarrow> [] | Some ds \<Rightarrow> ds))"

subsection \<open>The reference: abstract cron fields\<close>

datatype cron_item = Cron_Item string "string option" "string option"
datatype cron_head = Every | Every_Step string | Item cron_item
datatype cron_field = Cron_Field cron_head "cron_item list"

definition show_tail :: "char \<Rightarrow> string option \<Rightarrow> string" where
  "show_tail c v = (case v of None \<Rightarrow> [] | Some d \<Rightarrow> c # d)"

fun show_item :: "cron_item \<Rightarrow> string" where
  "show_item (Cron_Item first till step) = first @ show_tail CHR ''-'' till @ show_tail CHR ''/'' step"

fun show_head :: "cron_head \<Rightarrow> string" where
  "show_head Every = ''*''"
| "show_head (Every_Step n) = ''*/'' @ n"
| "show_head (Item i) = show_item i"

fun show_field :: "cron_field \<Rightarrow> string" where
  "show_field (Cron_Field h rest) = show_head h @ concat (map (\<lambda>i. CHR '','' # show_item i) rest)"

fun wf_item :: "cron_item \<Rightarrow> bool" where
  "wf_item (Cron_Item first till step) \<longleftrightarrow>
     all_digits first \<and> pred_option all_digits till \<and> pred_option all_digits step"

fun wf_head :: "cron_head \<Rightarrow> bool" where
  "wf_head Every = True"
| "wf_head (Every_Step n) = all_digits n"
| "wf_head (Item i) = wf_item i"

fun wf_field :: "cron_field \<Rightarrow> bool" where
  "wf_field (Cron_Field h rest) \<longleftrightarrow> wf_head h \<and> list_all wf_item rest"

text \<open>The range check applies to a field that is one plain number, and to no other field.\<close>

fun field_in_range :: "nat \<Rightarrow> nat \<Rightarrow> cron_field \<Rightarrow> bool" where
  "field_in_range lo hi (Cron_Field (Item (Cron_Item d None None)) []) \<longleftrightarrow>
     lo \<le> digits_value d \<and> digits_value d \<le> hi"
| "field_in_range lo hi _ \<longleftrightarrow> True"

fun cron_in_range :: "cron_field list \<Rightarrow> bool" where
  "cron_in_range [minute, hour, day, month, weekday] \<longleftrightarrow>
     field_in_range 0 59 minute \<and> field_in_range 0 23 hour \<and> field_in_range 1 31 day \<and>
     field_in_range 1 12 month \<and> field_in_range 0 7 weekday"
| "cron_in_range _ \<longleftrightarrow> False"

subsection \<open>Validation accepts exactly the printed fields\<close>

lemma rx_digits_lang [simp]: "rx_lang rx_digits s \<longleftrightarrow> all_digits s"
  by (simp add: rx_digits_def all_digits_def)

lemma numeric_part_eq: "numeric_part p = (if all_digits p then Some (digits_value p) else None)"
  by (simp add: numeric_part_def rx_match_lang)

lemma tail_lang:
  "rx_lang (ROpt (RSeq (RLit [c]) rx_digits)) s \<longleftrightarrow>
     (\<exists>v. pred_option all_digits v \<and> s = show_tail c v)"
proof
  assume "rx_lang (ROpt (RSeq (RLit [c]) rx_digits)) s"
  then consider "s = []" | d where "s = c # d" "all_digits d"
    by (auto simp: rx_lang_seq_iff)
  then show "\<exists>v. pred_option all_digits v \<and> s = show_tail c v"
  proof cases
    case 1
    then show ?thesis by (intro exI [of _ None]) (simp add: show_tail_def)
  next
    case 2
    then show ?thesis by (intro exI [of _ "Some d"]) (simp add: show_tail_def)
  qed
next
  assume "\<exists>v. pred_option all_digits v \<and> s = show_tail c v"
  then show "rx_lang (ROpt (RSeq (RLit [c]) rx_digits)) s"
    by (auto simp: show_tail_def rx_lang_seq_iff split: option.splits)
qed

lemma cronItem_lang: "rx_lang cronItem s \<longleftrightarrow> (\<exists>i. wf_item i \<and> s = show_item i)"
proof
  assume "rx_lang cronItem s"
  then obtain a b d where "s = a @ b @ d" "all_digits a"
      "rx_lang (ROpt (RSeq (RLit ''-'') rx_digits)) b" "rx_lang (ROpt (RSeq (RLit ''/'') rx_digits)) d"
    unfolding cronItem_def rx_lang_seq_iff [of rx_digits] rx_lang_seq_iff [of "ROpt r" for r]
    by auto
  then obtain v w where "s = a @ show_tail CHR ''-'' v @ show_tail CHR ''/'' w"
      "wf_item (Cron_Item a v w)"
    unfolding tail_lang by auto
  then show "\<exists>i. wf_item i \<and> s = show_item i"
    by (intro exI [of _ "Cron_Item a v w"]) simp
next
  assume "\<exists>i. wf_item i \<and> s = show_item i"
  then obtain a v w where s: "s = a @ show_tail CHR ''-'' v @ show_tail CHR ''/'' w"
      and wf: "all_digits a" "pred_option all_digits v" "pred_option all_digits w"
    by (metis cron_item.exhaust show_item.simps wf_item.simps)
  have "rx_lang (RSeq (ROpt (RSeq (RLit ''-'') rx_digits)) (ROpt (RSeq (RLit ''/'') rx_digits)))
      (show_tail CHR ''-'' v @ show_tail CHR ''/'' w)"
    by (rule rx_lang.seq) (use wf tail_lang in blast)+
  with s wf show "rx_lang cronItem s"
    unfolding cronItem_def by (auto intro: rx_lang.seq)
qed

lemma items_lang:
  "rx_lang (RStar (RSeq (RLit '','') cronItem)) s \<longleftrightarrow>
     (\<exists>is. list_all wf_item is \<and> s = concat (map (\<lambda>i. CHR '','' # show_item i) is))"
proof
  assume "rx_lang (RStar (RSeq (RLit '','') cronItem)) s"
  then obtain ws where s: "s = concat ws" and
      ws: "list_all (\<lambda>w. w \<noteq> [] \<and> rx_lang (RSeq (RLit '','') cronItem) w) ws"
    unfolding rx_lang_star_iff by blast
  from ws have "\<exists>is. list_all wf_item is \<and> ws = map (\<lambda>i. CHR '','' # show_item i) is"
  proof (induction ws)
    case (Cons w ws)
    then obtain i "is" where "w = CHR '','' # show_item i" "wf_item i"
        "list_all wf_item is" "ws = map (\<lambda>i. CHR '','' # show_item i) is"
      by (auto simp: rx_lang_seq_iff cronItem_lang)
    then show ?case by (intro exI [of _ "i # is"]) simp
  qed simp
  with s show "\<exists>is. list_all wf_item is \<and> s = concat (map (\<lambda>i. CHR '','' # show_item i) is)"
    by blast
next
  assume "\<exists>is. list_all wf_item is \<and> s = concat (map (\<lambda>i. CHR '','' # show_item i) is)"
  then obtain "is" where "list_all wf_item is" "s = concat (map (\<lambda>i. CHR '','' # show_item i) is)"
    by blast
  moreover have "rx_lang (RSeq (RLit '','') cronItem) (CHR '','' # show_item i)" if "wf_item i" for i
    using that by (auto simp: cronItem_lang)
  ultimately show "rx_lang (RStar (RSeq (RLit '','') cronItem)) s"
    unfolding rx_lang_star_iff
    by (intro exI [of _ "map (\<lambda>i. CHR '','' # show_item i) is"]) (auto simp: list_all_iff)
qed

lemma head_lang:
  "rx_lang (RAlt (RLit ''*'') (RAlt cronItem (RSeq (RLit ''*/'') rx_digits))) s \<longleftrightarrow>
     (\<exists>h. wf_head h \<and> s = show_head h)"
proof
  assume "rx_lang (RAlt (RLit ''*'') (RAlt cronItem (RSeq (RLit ''*/'') rx_digits))) s"
  then consider "s = ''*''" | i where "wf_item i" "s = show_item i"
      | d where "all_digits d" "s = ''*/'' @ d"
    by (auto simp: cronItem_lang rx_lang_seq_iff)
  then show "\<exists>h. wf_head h \<and> s = show_head h"
    by (cases; metis show_head.simps wf_head.simps)
next
  assume "\<exists>h. wf_head h \<and> s = show_head h"
  then obtain h where "wf_head h" "s = show_head h" by blast
  then show "rx_lang (RAlt (RLit ''*'') (RAlt cronItem (RSeq (RLit ''*/'') rx_digits))) s"
    by (cases h) (auto simp: cronItem_lang rx_lang_seq_iff)
qed

lemma cronPart_lang: "rx_match cronPart s \<longleftrightarrow> (\<exists>f. wf_field f \<and> s = show_field f)"
proof -
  have "rx_match cronPart s \<longleftrightarrow>
      (\<exists>u v. s = u @ v \<and> (\<exists>h. wf_head h \<and> u = show_head h) \<and>
        (\<exists>is. list_all wf_item is \<and> v = concat (map (\<lambda>i. CHR '','' # show_item i) is)))"
    unfolding rx_match_lang cronPart_def rx_lang_seq_iff [of "RAlt a b" for a b]
      head_lang items_lang ..
  also have "\<dots> \<longleftrightarrow> (\<exists>f. wf_field f \<and> s = show_field f)"
    by (metis cron_field.exhaust show_field.simps wf_field.simps)
  finally show ?thesis .
qed

text \<open>A printed field is all digits only when it is one plain number.\<close>

lemma digits_no_mark: "all_digits s \<Longrightarrow> c \<in> set s \<Longrightarrow> is_digit c"
  by (auto simp: all_digits_def list_all_iff)

lemma not_digit_marks [simp]:
  "\<not> is_digit CHR ''*''" "\<not> is_digit CHR ''/''" "\<not> is_digit CHR ''-''" "\<not> is_digit CHR '',''"
  by (simp_all add: is_digit_def)

lemma digits_field:
  assumes "all_digits (show_field f)"
  shows "\<exists>d. f = Cron_Field (Item (Cron_Item d None None)) []"
proof -
  obtain h rest where f: "f = Cron_Field h rest" by (cases f)
  have rest: "rest = []"
    using assms digits_no_mark [OF assms, of "CHR '',''"] f by (cases rest) auto
  obtain d v w where h: "h = Item (Cron_Item d v w)"
    using assms f rest
    by (cases h) (auto simp: all_digits_def intro: cron_item.exhaust)
  have "v = None" "w = None"
    using assms f rest h by (auto simp: all_digits_def show_tail_def split: option.splits)
  with f rest h show ?thesis by simp
qed

lemma numeric_show_field:
  "wf_field f \<Longrightarrow>
     numeric_part (show_field f) =
       (case f of Cron_Field (Item (Cron_Item d None None)) [] \<Rightarrow> Some (digits_value d) | _ \<Rightarrow> None)"
proof (cases "all_digits (show_field f)")
  case True
  then show ?thesis
    using digits_field [OF True] by (auto simp: numeric_part_eq show_tail_def)
next
  case False
  then show "wf_field f \<Longrightarrow> ?thesis"
    by (auto simp: numeric_part_eq show_tail_def
        split: cron_field.split cron_head.split cron_item.split option.split list.split)
qed

lemma in_range_show_field:
  assumes "wf_field f"
  shows "within lo hi (numeric_part (show_field f)) \<longleftrightarrow> field_in_range lo hi f"
    and "at_most hi (numeric_part (show_field f)) \<longleftrightarrow> field_in_range 0 hi f"
  by (auto simp: numeric_show_field [OF assms] within_def at_most_def
      split: cron_field.split cron_head.split cron_item.split option.split list.split)

lemma parts_show_fields:
  "list_all (rx_match cronPart) ps \<longleftrightarrow> (\<exists>fs. list_all wf_field fs \<and> ps = map show_field fs)"
proof
  assume "list_all (rx_match cronPart) ps"
  then show "\<exists>fs. list_all wf_field fs \<and> ps = map show_field fs"
  proof (induction ps)
    case (Cons p ps)
    then obtain f fs where "wf_field f" "p = show_field f" "list_all wf_field fs"
        "ps = map show_field fs"
      by (auto simp: cronPart_lang)
    then show ?case by (intro exI [of _ "f # fs"]) simp
  qed simp
next
  assume "\<exists>fs. list_all wf_field fs \<and> ps = map show_field fs"
  then show "list_all (rx_match cronPart) ps"
    by (auto simp: cronPart_lang list_all_iff) blast
qed

lemma cron_in_range_fields:
  assumes "list_all wf_field fs" "length fs = 5"
  shows "cron_in_range fs \<longleftrightarrow>
    (let numeric = map numeric_part (map show_field fs) in
       at_most 59 (numeric ! 0) \<and> at_most 23 (numeric ! 1) \<and> within 1 31 (numeric ! 2) \<and>
       within 1 12 (numeric ! 3) \<and> at_most 7 (numeric ! 4))"
proof -
  obtain a b c d e where "fs = [a, b, c, d, e]"
    using assms(2) by (auto simp: length_Suc_conv numeral_eq_Suc)
  with assms(1) show ?thesis
    by (simp add: in_range_show_field)
qed

lemma cron_in_range_length: "cron_in_range fs \<Longrightarrow> length fs = 5"
  by (cases fs rule: cron_in_range.cases) auto

subsection \<open>Splitting a printed expression\<close>

lemma split_space_word:
  "list_all (\<lambda>c. \<not> is_space c) w \<Longrightarrow> split_space w = [w]"
  by (subst split_space.simps) (simp add: takeWhile_eq_all_conv list_all_iff)

lemma split_space_cons:
  assumes "list_all (\<lambda>c. \<not> is_space c) w" "is_space b" "t \<noteq> []" "\<not> is_space (hd t)"
  shows "split_space (w @ b # t) = w # split_space t"
proof -
  have "takeWhile (\<lambda>c. \<not> is_space c) (w @ b # t) = w"
    using assms by (simp add: takeWhile_append2 list_all_iff)
  moreover have "dropWhile (\<lambda>c. \<not> is_space c) (w @ b # t) = b # t"
    using assms by (simp add: dropWhile_append2 list_all_iff)
  moreover have "dropWhile is_space (b # t) = t"
    using assms by (cases t) auto
  ultimately show ?thesis
    by (subst split_space.simps) simp
qed

abbreviation word :: "string \<Rightarrow> bool" where
  "word w \<equiv> w \<noteq> [] \<and> list_all (\<lambda>c. \<not> is_space c) w"

lemma hd_join: "ws \<noteq> [] \<Longrightarrow> list_all word ws \<Longrightarrow> join sep ws \<noteq> [] \<and> hd (join sep ws) = hd (hd ws)"
  by (induction sep ws rule: join.induct) auto

lemma last_join: "ws \<noteq> [] \<Longrightarrow> list_all word ws \<Longrightarrow> last (join sep ws) = last (last ws)"
proof (induction sep ws rule: join.induct)
  case (3 sep x y zs)
  then have "join sep (y # zs) \<noteq> []" using hd_join by simp
  with 3 show ?case by simp
qed auto

lemma split_space_join:
  "ws \<noteq> [] \<Longrightarrow> list_all word ws \<Longrightarrow> split_space (join '' '' ws) = ws"
proof (induction "'' ''" ws rule: join.induct)
  case (2 x)
  then show ?case by (simp add: split_space_word)
next
  case (3 x y zs)
  have "join '' '' (y # zs) \<noteq> []" "\<not> is_space (hd (join '' '' (y # zs)))"
    using 3 hd_join [of "y # zs"] by (auto simp: neq_Nil_conv)
  with 3 show ?case
    using split_space_cons [of x "CHR '' ''" "join '' '' (y # zs)"] by (simp add: is_space_def)
qed simp

lemma trim_join:
  assumes "ws \<noteq> []" "list_all word ws"
  shows "trim (join sep ws) = join sep ws"
proof (rule trim_fixed)
  have h: "word (hd ws)" "word (last ws)"
    using assms by (auto simp: list_all_iff)
  show "join sep ws \<noteq> []" "\<not> is_space (hd (join sep ws))"
    using hd_join [OF assms] h by (auto simp: list_all_iff)
  show "\<not> is_space (last (join sep ws))"
    using last_join [OF assms] h by (auto simp: list_all_iff)
qed

lemma all_digits_no_space: "all_digits s \<Longrightarrow> word s"
  by (auto simp: all_digits_def list_all_iff)

lemma no_space_marks [simp]:
  "\<not> is_space CHR ''*''" "\<not> is_space CHR ''/''" "\<not> is_space CHR ''-''" "\<not> is_space CHR '',''"
  by (simp_all add: is_space_def)

lemma show_tail_no_space:
  "pred_option all_digits v \<Longrightarrow> \<not> is_space c \<Longrightarrow> list_all (\<lambda>c. \<not> is_space c) (show_tail c v)"
  by (auto simp: show_tail_def all_digits_no_space split: option.splits)

lemma show_item_word: "wf_item i \<Longrightarrow> word (show_item i)"
  by (cases i) (auto simp: all_digits_no_space show_tail_no_space)

lemma show_field_word: "wf_field f \<Longrightarrow> word (show_field f)"
proof (cases f)
  case (Cron_Field h rest)
  assume "wf_field f"
  with Cron_Field have h: "wf_head h" and r: "list_all wf_item rest" by simp_all
  have "word (show_head h)"
    using h by (cases h) (use all_digits_no_space show_item_word in auto)
  moreover have "list_all (\<lambda>c. \<not> is_space c) (concat (map (\<lambda>i. CHR '','' # show_item i) rest))"
    using r by (induction rest) (auto simp: show_item_word)
  ultimately show ?thesis
    using Cron_Field by auto
qed

subsection \<open>Properties\<close>

text \<open>
  C8. \<open>validateCron\<close> accepts an expression exactly when it splits into five printed cron fields
  (a star, a star with a step, or comma-separated numbers, ranges and steps) whose plain numbers
  are in the range of their position.
\<close>

theorem validateCron_spec:
  "validateCron e \<longleftrightarrow>
     (\<exists>fs. split_space (trim e) = map show_field fs \<and> list_all wf_field fs \<and> cron_in_range fs)"
proof
  assume v: "validateCron e"
  then obtain fs where fs: "list_all wf_field fs" "split_space (trim e) = map show_field fs"
    by (auto simp: validateCron_def Let_def parts_show_fields split: if_splits)
  with v have "length fs = 5"
    by (auto simp: validateCron_def Let_def split: if_splits)
  with fs v have "cron_in_range fs"
    unfolding cron_in_range_fields [OF fs(1) \<open>length fs = 5\<close>] validateCron_def
    by (simp add: Let_def split: if_splits)
  with fs show "\<exists>fs. split_space (trim e) = map show_field fs \<and> list_all wf_field fs \<and> cron_in_range fs"
    by blast
next
  assume "\<exists>fs. split_space (trim e) = map show_field fs \<and> list_all wf_field fs \<and> cron_in_range fs"
  then obtain fs where fs: "list_all wf_field fs" "split_space (trim e) = map show_field fs"
      "cron_in_range fs" by blast
  then have "list_all (rx_match cronPart) (map show_field fs)"
    using parts_show_fields by blast
  moreover have "length fs = 5"
    using fs(3) by (rule cron_in_range_length)
  ultimately show "validateCron e"
    using fs cron_in_range_fields [OF fs(1)] by (simp add: validateCron_def Let_def)
qed

text \<open>
  Printing five well-formed fields with single spaces gives an expression that validates
  exactly when the fields are in range: nothing is lost or rejected between the abstract schedule
  and its text.
\<close>

theorem validateCron_printed:
  assumes "list_all wf_field fs" "length fs = 5"
  shows "validateCron (join '' '' (map show_field fs)) \<longleftrightarrow> cron_in_range fs"
proof -
  have w: "map show_field fs \<noteq> []" "list_all word (map show_field fs)"
    using assms show_field_word by (auto simp: list_all_iff)
  have "split_space (trim (join '' '' (map show_field fs))) = map show_field fs"
    using w by (simp add: trim_join split_space_join)
  moreover have "list_all (rx_match cronPart) (map show_field fs)"
    using assms(1) parts_show_fields by blast
  ultimately show ?thesis
    using assms cron_in_range_fields [OF assms] by (simp add: validateCron_def Let_def)
qed

theorem validateCron_printed_witness:
  "validateCron (join '' '' (map show_field
     [Cron_Field (Every_Step ''15'') [], Cron_Field (Item (Cron_Item ''8'' (Some ''18'') (Some ''2''))) [],
      Cron_Field Every [], Cron_Field Every [], Cron_Field (Item (Cron_Item ''1'' None None)) []]))"
  by (subst validateCron_printed) (simp_all add: all_digits_def is_digit_def digits_value_def digit_value_def)

lemma split_five_fields:
  assumes "word a" "word b" "word c" "word d" "word e"
  shows "split_space (trim (a @ '' '' @ b @ '' '' @ c @ '' '' @ d @ '' '' @ e)) = [a, b, c, d, e]"
proof -
  have j: "a @ '' '' @ b @ '' '' @ c @ '' '' @ d @ '' '' @ e = join '' '' [a, b, c, d, e]"
    by simp
  have "list_all word [a, b, c, d, e]"
    using assms by simp
  then show ?thesis
    unfolding j by (simp only: trim_join split_space_join list.simps not_False_eq_True)
qed

text \<open>
  A step in the minute field is described as \<open>Every w minutes\<close> for every text \<open>w\<close> without
  white space (the quarter-hour preset apart): the description does not look at whether the step
  is a number, let alone a valid one.
\<close>

theorem describeCron_step_minutes:
  assumes "word w" "w \<noteq> ''15''"
  shows "describeCron (''*/'' @ w @ '' * * * *'') = ''Every '' @ w @ '' minutes''"
proof -
  let ?e = "''*/'' @ w @ '' * * * *''"
  have "?e \<noteq> ''*/15 * * * *''"
  proof
    assume "?e = ''*/15 * * * *''"
    then have "w @ '' * * * *'' = ''15'' @ '' * * * *''" by simp
    then have "w = ''15''" by (simp only: append_same_eq)
    with assms(2) show False by simp
  qed
  then have f: "find (\<lambda>item. preset_expression item = ?e) schedulePresets = None"
    by (simp add: schedulePresets_def preset_def)
  have "split_space (trim ((''*/'' @ w) @ '' '' @ ''*'' @ '' '' @ ''*'' @ '' '' @ ''*'' @ '' '' @ ''*''))
      = [''*/'' @ w, ''*'', ''*'', ''*'', ''*'']"
    by (rule split_five_fields) (use assms in auto)
  then have "split_space (trim ?e) = [''*/'' @ w, ''*'', ''*'', ''*'', ''*'']"
    by simp
  with f show ?thesis
    unfolding describeCron_def by simp
qed

theorem describeCron_step_minutes_witness:
  "describeCron ''*/abc * * * *'' = ''Every abc minutes'' \<and> \<not> validateCron ''*/abc * * * *''"
proof
  show "describeCron ''*/abc * * * *'' = ''Every abc minutes''"
    using describeCron_step_minutes [of "''abc''"] by (simp add: is_space_def)
  show "\<not> validateCron ''*/abc * * * *''" by code_simp
qed

lemma take_runs_Some:
  "take_runs it i n = Some ds \<Longrightarrow> length ds = n \<and> (\<forall>k < n. it (i + k) = Some (ds ! k))"
proof (induction n arbitrary: i ds)
  case (Suc n)
  then obtain d es where d: "it i = Some d" and es: "take_runs it (Suc i) n = Some es" "ds = d # es"
    by (auto split: option.splits)
  have ih: "length es = n" "\<forall>k < n. it (Suc i + k) = Some (es ! k)"
    using Suc.IH [OF es(1)] by simp_all
  have "it (i + k) = Some (ds ! k)" if "k < Suc n" for k
    using d es(2) ih that by (cases k) auto
  with ih es(2) show ?case by simp
qed simp

lemma take_runs_complete:
  "\<forall>k < n. it (i + k) \<noteq> None \<Longrightarrow> \<exists>ds. take_runs it i n = Some ds"
proof (induction n arbitrary: i)
  case (Suc n)
  then obtain d where "it i = Some d" by force
  moreover have "\<exists>ds. take_runs it (Suc i) n = Some ds"
  proof (rule Suc.IH, intro allI impI)
    fix k assume "k < n"
    with Suc.prems have "it (i + Suc k) \<noteq> None" by blast
    then show "it (Suc i + k) \<noteq> None" by simp
  qed
  ultimately show ?case by auto
qed simp

text \<open>
  The preview lists exactly the first \<open>n\<close> dates of the third-party iterator when the expression
  validates, the parser accepts it and none of the \<open>n\<close> calls throws; in every other case it is
  empty. It is never a partial list.
\<close>

theorem nextCronRuns_all_or_nothing:
  "nextCronRuns parse e tz n =
     (case (if validateCron e then parse e tz else None) of
        None \<Rightarrow> []
      | Some it \<Rightarrow> if list_all (\<lambda>i. it i \<noteq> None) [0..<n] then map (\<lambda>i. the (it i)) [0..<n] else [])"
proof (cases "if validateCron e then parse e tz else None")
  case None
  then show ?thesis by (auto simp: nextCronRuns_def split: if_splits)
next
  case (Some it)
  then have v: "validateCron e" "parse e tz = Some it" by (auto split: if_splits)
  show ?thesis
  proof (cases "take_runs it 0 n")
    case None
    then have "\<not> (\<forall>k < n. it (0 + k) \<noteq> None)"
      using take_runs_complete [of n it 0] by (metis option.distinct(1))
    then have "\<not> list_all (\<lambda>i. it i \<noteq> None) [0..<n]"
      by (auto simp: list_all_iff)
    with None v show ?thesis by (simp add: nextCronRuns_def)
  next
    case (Some ds)
    have "length ds = n" "\<forall>k < n. it k = Some (ds ! k)"
      using take_runs_Some [OF Some] by simp_all
    then have "list_all (\<lambda>i. it i \<noteq> None) [0..<n]" "map (\<lambda>i. the (it i)) [0..<n] = ds"
      by (auto simp: list_all_iff intro: nth_equalityI)
    with Some v show ?thesis by (simp add: nextCronRuns_def)
  qed
qed

text \<open>
  The timezone list offered by the editor has no duplicates and always holds the eleven common
  zones; what else it holds is what the runtime reports, whatever its collation.
\<close>

theorem ianaTimezones_complete:
  "distinct (ianaTimezones collate found) \<and> set commonTimezones \<subseteq> set (ianaTimezones collate found) \<and>
   (case found of Some (Some zs) \<Rightarrow> set (ianaTimezones collate found) = set commonTimezones \<union> set zs
    | _ \<Rightarrow> set (ianaTimezones collate found) = set commonTimezones)"
  by (auto simp: ianaTimezones_def Let_def commonTimezones_def split: option.splits)

end
