(* ===== verification/JsNumber.thy ===== *)
theory JsNumber
  imports Prelude "HOL-Library.Log_Nat"
begin

text \<open>
  JavaScript numbers. A finite number is the rational it denotes; \<open>rnd\<close> is the IEEE-754 binary64
  rounding (to nearest, ties to even) that every arithmetic operation applies to its exact result.
  The sign of zero is not represented: no modelled function depends on it.
\<close>

datatype js_number = Fin rat | Inf | NInf | NaN

subsection \<open>Rounding to binary64\<close>

text \<open>The largest integer \<open>e\<close> with \<open>2 ^ e \<le> x\<close>, for a positive \<open>x\<close>.\<close>

definition flog2 :: "rat \<Rightarrow> int" where
  "flog2 x =
     (let (p, q) = quotient_of x;
          e = int (floorlog 2 (nat p)) - int (floorlog 2 (nat q))
      in if 2 powi e \<le> x then e else e - 1)"

definition round_half_even :: "rat \<Rightarrow> int" where
  "round_half_even x =
     (let f = \<lfloor>x\<rfloor>; d = x - of_int f
      in if d < 1 / 2 then f else if 1 / 2 < d then f + 1 else if even f then f else f + 1)"

definition ulp_exponent :: "rat \<Rightarrow> int" where
  "ulp_exponent x = max (flog2 x - 52) (- 1074)"

definition rnd_pos :: "rat \<Rightarrow> rat" where
  "rnd_pos x =
     (let e = ulp_exponent x in of_int (round_half_even (x * 2 powi (- e))) * 2 powi e)"

definition rnd :: "rat \<Rightarrow> rat" where
  "rnd x = (if x = 0 then 0 else if 0 < x then rnd_pos x else - rnd_pos (- x))"

definition to_number :: "rat \<Rightarrow> js_number" where
  "to_number x =
     (let r = rnd x in if 2 ^ 1024 \<le> r then Inf else if r \<le> - (2 ^ 1024) then NInf else Fin r)"

definition representable :: "rat \<Rightarrow> bool" where
  "representable x \<longleftrightarrow> (\<exists>m e :: int. x = of_int m * 2 powi e \<and> \<bar>m\<bar> \<le> 2 ^ 53 \<and> - 1074 \<le> e)"

subsection \<open>Printing\<close>

text \<open>The integer \<open>n\<close> with \<open>10 ^ (n - 1) \<le> x < 10 ^ n\<close>, for a positive \<open>x\<close>.\<close>

definition dec_exponent :: "rat \<Rightarrow> int" where
  "dec_exponent x =
     (let (p, q) = quotient_of x;
          e = int (floorlog 10 (nat p)) - int (floorlog 10 (nat q))
      in if x < 10 powi e then e else e + 1)"

text \<open>
  The shortest decimal digits that read back as \<open>x\<close>: the least \<open>k\<close> for which the integer nearest to
  \<open>x / 10 ^ (n - k)\<close> does; seventeen digits always do.
\<close>

definition digits_at :: "rat \<Rightarrow> nat \<Rightarrow> nat" where
  "digits_at x k = nat \<lfloor>x * 10 powi (int k - dec_exponent x) + 1 / 2\<rfloor>"

definition shortest_digits :: "rat \<Rightarrow> nat" where
  "shortest_digits x =
     (case find (\<lambda>k. rnd (of_nat (digits_at x k) * 10 powi (dec_exponent x - int k)) = x) [1..<17] of
        Some k \<Rightarrow> digits_at x k
      | None \<Rightarrow> digits_at x 17)"

definition positive_string :: "rat \<Rightarrow> string" where
  "positive_string x =
     (let n = dec_exponent x; s = nat_string (shortest_digits x); k = int (length s) in
      if k \<le> n \<and> n \<le> 21 then s @ replicate (nat (n - k)) CHR ''0''
      else if 0 < n \<and> n \<le> 21 then take (nat n) s @ ''.'' @ drop (nat n) s
      else if - 6 < n \<and> n \<le> 0 then ''0.'' @ replicate (nat (- n)) CHR ''0'' @ s
      else let e = n - 1; sgn = (if e < 0 then ''-'' else ''+'')
           in hd s # (if k = 1 then [] else CHR ''.'' # tl s) @ ''e'' @ sgn @ nat_string (nat \<bar>e\<bar>))"

text \<open>\<open>String(x)\<close>; an integer in the safe range prints as its decimal digits.\<close>

definition number_string :: "rat \<Rightarrow> string" where
  "number_string x =
     (if of_int \<lfloor>x\<rfloor> = x \<and> \<bar>x\<bar> \<le> 2 ^ 53 then int_string \<lfloor>x\<rfloor>
      else if x < 0 then ''-'' @ positive_string (- x) else positive_string x)"

definition nonneg_fixed :: "rat \<Rightarrow> nat \<Rightarrow> string" where
  "nonneg_fixed x f =
     (let s = nat_string (nat \<lfloor>x * 10 ^ f + 1 / 2\<rfloor>);
          z = pad_start (f + 1) CHR ''0'' s
      in if f = 0 then s else take (length z - f) z @ ''.'' @ drop (length z - f) z)"

text \<open>\<open>x.toFixed(f)\<close>\<close>

definition to_fixed :: "rat \<Rightarrow> nat \<Rightarrow> string" where
  "to_fixed x f =
     (if 10 ^ 21 \<le> \<bar>x\<bar> then number_string x
      else if x < 0 then ''-'' @ nonneg_fixed (- x) f else nonneg_fixed x f)"

text \<open>\<open>Math.round(x)\<close>\<close>

definition math_round :: "rat \<Rightarrow> int" where
  "math_round x = \<lfloor>x + 1 / 2\<rfloor>"

subsection \<open>Rounding is exact on representable numbers, monotone and close\<close>

lemma pow2_pos [simp]: "0 < (2 :: rat) powi e"
  by (simp add: zero_less_power_int)

lemma pow2_add: "(2 :: rat) powi (a + b) = 2 powi a * 2 powi b"
  by (simp add: power_int_add)

lemma pow2_diff: "(2 :: rat) powi (a - b) = 2 powi a / 2 powi b"
  by (rule power_int_diff) simp

lemma pow2_less_iff [simp]: "(2 :: rat) powi a < 2 powi b \<longleftrightarrow> a < b"
proof
  assume "(2 :: rat) powi a < 2 powi b"
  then show "a < b"
    using power_int_increasing [of b a "2 :: rat"] by (cases "a < b") auto
qed (simp add: power_int_strict_increasing)

lemma pow2_le_iff [simp]: "(2 :: rat) powi a \<le> 2 powi b \<longleftrightarrow> a \<le> b"
  by (simp flip: not_less)

lemma pow2_minus [simp]: "(2 :: rat) powi e * 2 powi (- e) = 1" "(2 :: rat) powi (- e) * 2 powi e = 1"
  by (simp_all flip: pow2_add)

lemma quotient_pos:
  assumes "0 < x" "quotient_of x = (p, q)"
  shows "0 < p" "0 < q" "x = of_int p / of_int q"
proof -
  show q: "0 < q" using assms(2) by (rule quotient_of_denom_pos)
  show e: "x = of_int p / of_int q" using assms(2) by (rule quotient_of_div)
  have "0 < (of_int p :: rat) / of_int q" using assms(1) e by simp
  with q show "0 < p" by (simp add: zero_less_divide_iff)
qed

lemma floorlog_range:
  assumes "0 < p"
  shows "(2 :: rat) powi (int (floorlog 2 (nat p)) - 1) \<le> of_int p"
    and "of_int p < (2 :: rat) powi (int (floorlog 2 (nat p)))"
proof -
  let ?n = "floorlog 2 (nat p)"
  have bd: "2 ^ (?n - 1) \<le> nat p" "nat p < 2 ^ ?n" and pos: "0 < ?n"
    using floorlog_bounds [of "nat p" 2] assms floorlog_eq_zero_iff [of 2 "nat p"] by auto
  have "(of_nat (2 ^ (?n - 1)) :: rat) \<le> of_nat (nat p)"
    using bd(1) by (simp only: of_nat_le_iff)
  moreover have "(of_nat (nat p) :: rat) < of_nat (2 ^ ?n)"
    using bd(2) by (simp only: of_nat_less_iff)
  moreover have "(of_nat (nat p) :: rat) = of_int p"
    using assms by simp
  moreover have "int ?n - 1 = int (?n - 1)"
    using pos by simp
  ultimately show "(2 :: rat) powi (int ?n - 1) \<le> of_int p" "of_int p < (2 :: rat) powi (int ?n)"
    by (simp_all only: power_int_of_nat of_nat_power of_nat_numeral)
qed

lemma flog2_bounds:
  assumes "0 < x"
  shows "2 powi flog2 x \<le> x" and "x < 2 powi (flog2 x + 1)"
proof -
  obtain p q where pq: "quotient_of x = (p, q)" by fastforce
  note q = quotient_pos [OF assms pq]
  let ?a = "int (floorlog 2 (nat p))" and ?b = "int (floorlog 2 (nat q))"
  have p1: "(2 :: rat) powi (?a - 1) \<le> of_int p" "of_int p < (2 :: rat) powi ?a"
    using floorlog_range [of p] q by simp_all
  have q1: "(2 :: rat) powi (?b - 1) \<le> of_int q" "of_int q < (2 :: rat) powi ?b"
    using floorlog_range [of q] q by simp_all
  have "?a - ?b - 1 = (?a - 1) - ?b" by simp
  then have "(2 :: rat) powi (?a - ?b - 1) = 2 powi (?a - 1) / 2 powi ?b"
    by (simp only: pow2_diff)
  also have "\<dots> \<le> of_int p / of_int q"
    using p1 q1 q by (intro frac_le) auto
  finally have lo: "2 powi (?a - ?b - 1) \<le> x" using q by simp
  have "of_int p / of_int q < (2 :: rat) powi ?a / 2 powi (?b - 1)"
    using p1 q1 q by (intro frac_less) auto
  also have "\<dots> = 2 powi (?a - (?b - 1))"
    by (simp only: pow2_diff)
  also have "?a - (?b - 1) = ?a - ?b + 1" by simp
  finally have hi: "x < 2 powi (?a - ?b + 1)" using q by simp
  show "2 powi flog2 x \<le> x" "x < 2 powi (flog2 x + 1)"
    using lo hi by (simp_all add: flog2_def pq Let_def)
qed

lemma flog2_unique:
  assumes "2 powi e \<le> x" "x < 2 powi (e + 1)"
  shows "flog2 x = e"
proof -
  have x: "0 < x" using assms(1) by (meson less_le_trans zero_less_power_int zero_less_numeral)
  have "2 powi flog2 x < (2 :: rat) powi (e + 1)"
    using flog2_bounds(1) [OF x] assms(2) by (rule order.strict_trans1)
  moreover have "(2 :: rat) powi e < 2 powi (flog2 x + 1)"
    using assms(1) flog2_bounds(2) [OF x] by (rule order.strict_trans1)
  ultimately show ?thesis
    by simp
qed

lemma flog2_mono: "0 < x \<Longrightarrow> x \<le> y \<Longrightarrow> flog2 x \<le> flog2 y"
proof -
  assume "0 < x" "x \<le> y"
  then have "2 powi flog2 x < (2 :: rat) powi (flog2 y + 1)"
    using flog2_bounds(1) [of x] flog2_bounds(2) [of y] by linarith
  then show ?thesis by simp
qed

lemma round_half_even_ge: "of_int n \<le> x \<Longrightarrow> n \<le> round_half_even x"
  using le_floor_iff [of n x] by (simp add: round_half_even_def Let_def)

lemma round_half_even_int [simp]: "round_half_even (of_int n) = n"
  by (simp add: round_half_even_def)

lemma round_half_even_mono: "x \<le> y \<Longrightarrow> round_half_even x \<le> round_half_even y"
proof -
  assume xy: "x \<le> y"
  consider "\<lfloor>x\<rfloor> < \<lfloor>y\<rfloor>" | "\<lfloor>x\<rfloor> = \<lfloor>y\<rfloor>"
    using floor_mono [OF xy] by linarith
  then show ?thesis
  proof cases
    case 1
    have "round_half_even x \<le> \<lfloor>x\<rfloor> + 1" "\<lfloor>y\<rfloor> \<le> round_half_even y"
      by (simp_all add: round_half_even_def Let_def)
    with 1 show ?thesis by linarith
  next
    case 2
    with xy show ?thesis by (simp add: round_half_even_def Let_def)
  qed
qed

lemma round_half_even_le: "x \<le> of_int n \<Longrightarrow> round_half_even x \<le> n"
  using round_half_even_mono [of x "of_int n"] by simp

lemma round_half_even_close: "\<bar>of_int (round_half_even x) - x\<bar> \<le> 1 / 2"
proof -
  have "of_int \<lfloor>x\<rfloor> \<le> x" "x < of_int \<lfloor>x\<rfloor> + 1"
    by linarith+
  then show ?thesis by (auto simp: round_half_even_def Let_def abs_le_iff)
qed

text \<open>The scaled significand of a positive number lies below \<open>2 ^ 53\<close>, and above \<open>2 ^ 52\<close> when normal.\<close>

lemma scaled_less: "0 < x \<Longrightarrow> x * 2 powi (- ulp_exponent x) < 2 ^ 53"
proof -
  assume x: "0 < x"
  have "x < 2 powi (ulp_exponent x + 53)"
    using flog2_bounds(2) [OF x] by (rule order.strict_trans2) (simp add: ulp_exponent_def)
  then have "x * 2 powi (- ulp_exponent x) < 2 powi (ulp_exponent x + 53) * 2 powi (- ulp_exponent x)"
    by (rule mult_strict_right_mono) simp
  also have "\<dots> = 2 powi 53"
    by (simp only: flip: pow2_add) simp
  finally show ?thesis by simp
qed

lemma scaled_ge:
  "0 < x \<Longrightarrow> ulp_exponent x = flog2 x - 52 \<Longrightarrow> 2 ^ 52 \<le> x * 2 powi (- ulp_exponent x)"
proof -
  assume x: "0 < x" and e: "ulp_exponent x = flog2 x - 52"
  have "2 powi (flog2 x) * 2 powi (- ulp_exponent x) \<le> x * 2 powi (- ulp_exponent x)"
    using flog2_bounds(1) [OF x] by (rule mult_right_mono) (simp add: less_imp_le)
  moreover have "(2 :: rat) powi (flog2 x) * 2 powi (- ulp_exponent x) = 2 powi 52"
    using e by (simp only: flip: pow2_add) simp
  ultimately show ?thesis by simp
qed

lemma rnd_pos_nonneg: "0 < x \<Longrightarrow> 0 \<le> rnd_pos x"
  using round_half_even_ge [of 0 "x * 2 powi (- ulp_exponent x)"]
  by (simp add: rnd_pos_def Let_def less_imp_le)

lemma rnd_pos_mono:
  assumes "0 < x" "x \<le> y"
  shows "rnd_pos x \<le> rnd_pos y"
proof (cases "ulp_exponent x = ulp_exponent y")
  case True
  have "x * 2 powi (- ulp_exponent x) \<le> y * 2 powi (- ulp_exponent x)"
    using assms(2) by (rule mult_right_mono) (simp add: less_imp_le)
  then have "round_half_even (x * 2 powi (- ulp_exponent x)) \<le> round_half_even (y * 2 powi (- ulp_exponent x))"
    by (rule round_half_even_mono)
  with True show ?thesis
    by (simp add: rnd_pos_def Let_def mult_right_mono less_imp_le)
next
  case False
  have y: "0 < y" using assms by simp
  have lt: "ulp_exponent x < ulp_exponent y"
    using False flog2_mono [OF assms] by (auto simp: ulp_exponent_def max_def split: if_splits)
  have "round_half_even (x * 2 powi (- ulp_exponent x)) \<le> 2 ^ 53"
    using scaled_less [OF assms(1)] by (intro round_half_even_le) simp
  then have "(of_int (round_half_even (x * 2 powi (- ulp_exponent x))) :: rat) \<le> of_int (2 ^ 53)"
    by (simp only: of_int_le_iff)
  then have "rnd_pos x \<le> of_int (2 ^ 53) * 2 powi ulp_exponent x"
    by (simp only: rnd_pos_def Let_def) (rule mult_right_mono, simp_all add: less_imp_le)
  also have "\<dots> = 2 powi (53 + ulp_exponent x)"
    by (simp add: pow2_add)
  also have "\<dots> \<le> 2 powi (52 + ulp_exponent y)"
    using lt by simp
  also have "\<dots> = of_int (2 ^ 52) * 2 powi ulp_exponent y"
    by (simp add: pow2_add)
  also have "\<dots> \<le> rnd_pos y"
  proof -
    have "ulp_exponent y = flog2 y - 52"
      using lt by (auto simp: ulp_exponent_def max_def split: if_splits)
    from scaled_ge [OF y this] have "2 ^ 52 \<le> round_half_even (y * 2 powi (- ulp_exponent y))"
      by (intro round_half_even_ge) simp
    then have "(of_int (2 ^ 52) :: rat) \<le> of_int (round_half_even (y * 2 powi (- ulp_exponent y)))"
      by (simp only: of_int_le_iff)
    then show ?thesis
      by (simp only: rnd_pos_def Let_def) (rule mult_right_mono, simp_all add: less_imp_le)
  qed
  finally show ?thesis .
qed

lemma rnd_mono: "x \<le> y \<Longrightarrow> rnd x \<le> rnd y"
proof -
  assume xy: "x \<le> y"
  consider "0 < x" | "x \<le> 0" "0 \<le> y" | "y < 0" by linarith
  then show ?thesis
  proof cases
    case 1
    with xy show ?thesis by (simp add: rnd_def rnd_pos_mono)
  next
    case 2
    then have "rnd x \<le> 0" "0 \<le> rnd y"
      by (auto simp: rnd_def rnd_pos_nonneg)
    then show ?thesis by (rule order_trans)
  next
    case 3
    with xy show ?thesis by (simp add: rnd_def rnd_pos_mono)
  qed
qed

text \<open>A representable number is rounded to itself.\<close>

lemma rnd_pos_representable:
  assumes "0 < x" "x = of_int m * 2 powi e" "\<bar>m\<bar> \<le> 2 ^ 53" "- 1074 \<le> e"
  shows "rnd_pos x = x"
proof -
  let ?u = "ulp_exponent x"
  have m: "0 < m"
    using assms(1,2) pow2_pos [of e] by (auto simp: zero_less_mult_iff)
  obtain k where k: "x * 2 powi (- ?u) = of_int k"
  proof (cases "?u \<le> e")
    case True
    have "2 powi e * 2 powi (- ?u) = (2 :: rat) powi (e - ?u)"
      using pow2_add [of e "- ?u"] by simp
    then have "x * 2 powi (- ?u) = of_int m * 2 powi (e - ?u)"
      by (metis assms(2) mult.assoc)
    also have "\<dots> = of_int (m * 2 ^ nat (e - ?u))"
      using True by (simp add: power_int_nonneg_exp)
    finally show ?thesis by (rule that)
  next
    case False
    then have "?u = flog2 x - 52" "e < flog2 x - 52"
      using assms(4) by (auto simp: ulp_exponent_def)
    then have "2 powi (e + 53) \<le> (2 :: rat) powi (flog2 x)" by simp
    also have "\<dots> \<le> x" using flog2_bounds(1) [OF assms(1)] .
    finally have "2 powi e * 2 powi 53 \<le> of_int m * (2 :: rat) powi e"
      using assms(2) by (simp add: pow2_add)
    then have "(2 :: rat) ^ 53 \<le> of_int m"
      by (simp add: mult.commute)
    then have "(of_int (2 ^ 53) :: rat) \<le> of_int m" by simp
    then have "2 ^ 53 \<le> m" by (simp only: of_int_le_iff)
    with assms(3) m have m53: "m = 2 ^ 53" by simp
    have "x = 2 powi (e + 53)" using assms(2) m53 by (simp add: pow2_add)
    then have "flog2 x = e + 53" by (intro flog2_unique) auto
    then have "x * 2 powi (- ?u) = 2 powi 52"
      using \<open>x = 2 powi (e + 53)\<close> \<open>?u = flog2 x - 52\<close>
      by (simp only: flip: pow2_add) simp
    then have "x * 2 powi (- ?u) = of_int (2 ^ 52)" by simp
    then show ?thesis by (rule that)
  qed
  then have "rnd_pos x = (x * 2 powi (- ?u)) * 2 powi ?u"
    by (simp add: rnd_pos_def Let_def)
  also have "\<dots> = x" by (simp add: mult.assoc)
  finally show ?thesis .
qed

lemma rnd_representable: "representable x \<Longrightarrow> rnd x = x"
proof -
  assume "representable x"
  then obtain m e where x: "x = of_int m * 2 powi e" "\<bar>m\<bar> \<le> 2 ^ 53" "- 1074 \<le> (e :: int)"
    by (auto simp: representable_def)
  have neg: "- x = of_int (- m) * 2 powi e" "\<bar>- m\<bar> \<le> 2 ^ 53" using x by simp_all
  show ?thesis
    using rnd_pos_representable [OF _ x] rnd_pos_representable [OF _ neg x(3)]
    by (auto simp: rnd_def)
qed

lemma representable_int: "\<bar>n\<bar> \<le> 2 ^ 53 \<Longrightarrow> representable (of_int n)"
  unfolding representable_def by (intro exI [of _ n] exI [of _ 0]) simp

lemma rnd_int [simp]: "\<bar>n\<bar> \<le> 2 ^ 53 \<Longrightarrow> rnd (of_int n) = of_int n"
  by (simp add: rnd_representable representable_int)

lemma rnd_0 [simp]: "rnd 0 = 0"
  by (simp add: rnd_def)

lemma rnd_ge: "representable a \<Longrightarrow> a \<le> x \<Longrightarrow> a \<le> rnd x"
  by (metis rnd_mono rnd_representable)

lemma rnd_le: "representable a \<Longrightarrow> x \<le> a \<Longrightarrow> rnd x \<le> a"
  by (metis rnd_mono rnd_representable)

subsection \<open>Comparing through a rounded difference\<close>

lemma representable_neg: "representable x \<Longrightarrow> representable (- x)"
proof -
  assume "representable x"
  then obtain m e where "x = of_int m * 2 powi e" "\<bar>m\<bar> \<le> 2 ^ 53" "- 1074 \<le> (e :: int)"
    by (auto simp: representable_def)
  then have "- x = of_int (- m) * 2 powi e" "\<bar>- m\<bar> \<le> 2 ^ 53" "- 1074 \<le> e" by simp_all
  then show ?thesis unfolding representable_def by blast
qed

lemma representable_rnd_pos: "0 < x \<Longrightarrow> representable (rnd_pos x)"
proof -
  assume x: "0 < x"
  let ?m = "round_half_even (x * 2 powi (- ulp_exponent x))"
  have "?m \<le> 2 ^ 53"
    using scaled_less [OF x] by (intro round_half_even_le) simp
  moreover have "0 \<le> ?m"
    using x by (intro round_half_even_ge) (simp add: less_imp_le)
  moreover have "- 1074 \<le> ulp_exponent x" by (simp add: ulp_exponent_def)
  ultimately show ?thesis
    unfolding representable_def rnd_pos_def Let_def
    by (intro exI [of _ ?m] exI [of _ "ulp_exponent x"]) simp
qed

lemma representable_rnd [simp]: "representable (rnd x)"
proof -
  consider "x = 0" | "0 < x" | "x < 0" by linarith
  then show ?thesis
  proof cases
    case 1
    then show ?thesis using representable_int [of 0] by simp
  next
    case 2
    then show ?thesis by (simp add: rnd_def representable_rnd_pos)
  next
    case 3
    then show ?thesis by (simp add: rnd_def representable_rnd_pos representable_neg)
  qed
qed

text \<open>Representable numbers are multiples of the least subnormal number.\<close>

lemma representable_multiple: "representable x \<Longrightarrow> \<exists>k :: int. x = of_int k * 2 powi (- 1074)"
proof -
  assume "representable x"
  then obtain m e where x: "x = of_int m * 2 powi e" "- 1074 \<le> (e :: int)"
    by (auto simp: representable_def)
  have "(2 :: rat) powi e = 2 powi (e + 1074) * 2 powi (- 1074)"
    using pow2_add [of "e + 1074" "- 1074"] by simp
  also have "(2 :: rat) powi (e + 1074) = of_int (2 ^ nat (e + 1074))"
    using x(2) by (simp add: power_int_nonneg_exp)
  finally have "x = of_int (m * 2 ^ nat (e + 1074)) * 2 powi (- 1074)"
    using x(1) by simp
  then show ?thesis by blast
qed

lemma rnd_diff_pos:
  assumes "representable x" "representable y" "y < x"
  shows "0 < rnd (x - y)"
proof -
  obtain k l :: int where k: "x = of_int k * 2 powi (- 1074)" and l: "y = of_int l * 2 powi (- 1074)"
    using assms(1,2) representable_multiple by blast
  have pos: "(0 :: rat) < 2 powi (- 1074)" by (rule pow2_pos)
  have d: "x - y = of_int (k - l) * 2 powi (- 1074)"
    unfolding k l of_int_diff by (rule left_diff_distrib [symmetric])
  have "0 < (of_int (k - l) :: rat) * 2 powi (- 1074)"
    using assms(3) d by (metis diff_gt_0_iff_gt)
  then have "0 < (of_int (k - l) :: rat)"
    using pos by (metis zero_less_mult_pos2)
  then have "1 \<le> (of_int (k - l) :: rat)"
    by (metis int_one_le_iff_zero_less of_int_0_less_iff of_int_1_le_iff)
  then have "1 * 2 powi (- 1074) \<le> (of_int (k - l) :: rat) * 2 powi (- 1074)"
    using pos by (intro mult_right_mono) (simp_all only: less_imp_le)
  then have "2 powi (- 1074) \<le> x - y"
    using d by (metis mult_1)
  moreover have "representable (2 powi (- 1074))"
    unfolding representable_def by (intro exI [of _ 1] exI [of _ "- 1074"]) simp
  ultimately have "2 powi (- 1074) \<le> rnd (x - y)" by (rule rnd_ge [rotated])
  with pos show ?thesis by (rule order.strict_trans2)
qed

lemma rnd_diff_le_0: "representable x \<Longrightarrow> representable y \<Longrightarrow> rnd (x - y) \<le> 0 \<longleftrightarrow> x \<le> y"
proof
  assume "representable x" "representable y" "rnd (x - y) \<le> 0"
  then show "x \<le> y" using rnd_diff_pos [of x y] by (meson not_le)
next
  assume "x \<le> y"
  then show "rnd (x - y) \<le> 0" using rnd_mono [of "x - y" 0] by simp
qed

end
