(* ===== verification/Json.thy ===== *)
theory Json
  imports JsNumber
begin

text \<open>
  JSON values, JavaScript objects, \<open>JSON.stringify\<close> and \<open>JSON.parse\<close>. An object is the list of its
  own properties in enumeration order: array-index keys ascending, then the other keys in the order
  they were added. The parser covers the whole JSON grammar (on code units below 256); its fuel is twice
  the length of the text, which is shown to be enough.
\<close>

datatype json =
    JNull
  | JBool bool
  | JNum js_number
  | JStr string
  | JArr "json list"
  | JObj "(string \<times> json) list"

abbreviation jint :: "int \<Rightarrow> json" where
  "jint n \<equiv> JNum (Fin (of_int n))"

subsection \<open>Objects\<close>

text \<open>The array index a key denotes: a canonical decimal number below \<open>2 ^ 32 - 1\<close>.\<close>

definition array_index :: "string \<Rightarrow> nat option" where
  "array_index k =
     (if all_digits k \<and> nat_string (digits_value k) = k \<and> digits_value k < 2 ^ 32 - 1
      then Some (digits_value k) else None)"

fun insert_index :: "nat \<Rightarrow> string \<times> 'v \<Rightarrow> (string \<times> 'v) list \<Rightarrow> (string \<times> 'v) list" where
  "insert_index n p [] = [p]"
| "insert_index n p (q # qs) =
     (case array_index (fst q) of
        None \<Rightarrow> p # q # qs
      | Some m \<Rightarrow> if n < m then p # q # qs else q # insert_index n p qs)"

text \<open>\<open>o[k] = v\<close>: an existing property keeps its place.\<close>

definition obj_put :: "string \<Rightarrow> 'v \<Rightarrow> (string \<times> 'v) list \<Rightarrow> (string \<times> 'v) list" where
  "obj_put k v kvs =
     (if k \<in> set (map fst kvs) then map (\<lambda>(k', v'). (k', if k' = k then v else v')) kvs
      else case array_index k of
        Some n \<Rightarrow> insert_index n (k, v) kvs
      | None \<Rightarrow> kvs @ [(k, v)])"

text \<open>\<open>delete o[k]\<close> and \<open>o[k]\<close>\<close>

definition obj_delete :: "string \<Rightarrow> (string \<times> 'v) list \<Rightarrow> (string \<times> 'v) list" where
  "obj_delete k kvs = filter (\<lambda>p. fst p \<noteq> k) kvs"

definition obj_get :: "(string \<times> 'v) list \<Rightarrow> string \<Rightarrow> 'v option" where
  "obj_get kvs k = map_of kvs k"

definition obj_of_pairs :: "(string \<times> 'v) list \<Rightarrow> (string \<times> 'v) list" where
  "obj_of_pairs ps = foldl (\<lambda>kvs (k, v). obj_put k v kvs) [] ps"

subsection \<open>\<open>JSON.stringify\<close>\<close>

definition hex_char :: "nat \<Rightarrow> char" where
  "hex_char d = (if d < 10 then char_of (48 + d) else char_of (87 + d))"

definition json_escape :: "char \<Rightarrow> string" where
  "json_escape c =
     (let n = code_unit c in
      if n = 34 then [CHR 0x5C, CHR 0x22]
      else if n = 92 then [CHR 0x5C, CHR 0x5C]
      else if n = 8 then [CHR 0x5C, CHR ''b'']
      else if n = 9 then [CHR 0x5C, CHR ''t'']
      else if n = 10 then [CHR 0x5C, CHR ''n'']
      else if n = 12 then [CHR 0x5C, CHR ''f'']
      else if n = 13 then [CHR 0x5C, CHR ''r'']
      else if n < 32 then [CHR 0x5C, CHR ''u'', CHR ''0'', CHR ''0'', hex_char (n div 16), hex_char (n mod 16)]
      else [c])"

definition json_quote :: "string \<Rightarrow> string" where
  "json_quote s = CHR 0x22 # concat (map json_escape s) @ [CHR 0x22]"

definition json_number :: "js_number \<Rightarrow> string" where
  "json_number x = (case x of Fin q \<Rightarrow> number_string q | _ \<Rightarrow> ''null'')"

fun json_string :: "json \<Rightarrow> string" where
  "json_string JNull = ''null''"
| "json_string (JBool b) = (if b then ''true'' else ''false'')"
| "json_string (JNum x) = json_number x"
| "json_string (JStr s) = json_quote s"
| "json_string (JArr vs) = ''['' @ join '','' (map json_string vs) @ '']''"
| "json_string (JObj kvs) =
     ''{'' @ join '','' (map (\<lambda>(k, v). json_quote k @ '':'' @ json_string v) kvs) @ ''}''"

text \<open>\<open>JSON.stringify(v, null, 2)\<close> at nesting depth \<open>d\<close>: one element or member on a line, two blanks per level.\<close>

definition new_line :: "nat \<Rightarrow> string" where
  "new_line d = CHR 0x0A # replicate (2 * d) (CHR '' '')"

fun json_pretty :: "nat \<Rightarrow> json \<Rightarrow> string" where
  "json_pretty d (JArr vs) =
     (if vs = [] then ''[]''
      else ''['' @ new_line (Suc d) @ join ('','' @ new_line (Suc d)) (map (json_pretty (Suc d)) vs) @ new_line d @ '']'')"
| "json_pretty d (JObj kvs) =
     (if kvs = [] then ''{}''
      else ''{'' @ new_line (Suc d) @
        join ('','' @ new_line (Suc d)) (map (\<lambda>(k, v). json_quote k @ '': '' @ json_pretty (Suc d) v) kvs) @
        new_line d @ ''}'')"
| "json_pretty d v = json_string v"

subsection \<open>\<open>JSON.parse\<close>\<close>

definition json_space :: "char \<Rightarrow> bool" where
  "json_space c \<longleftrightarrow> code_unit c \<in> {9, 10, 13, 32}"

definition skip_space :: "string \<Rightarrow> string" where
  "skip_space s = dropWhile json_space s"

definition hex_value :: "char \<Rightarrow> nat option" where
  "hex_value c =
     (let n = code_unit c in
      if 48 \<le> n \<and> n \<le> 57 then Some (n - 48)
      else if 97 \<le> n \<and> n \<le> 102 then Some (n - 87)
      else if 65 \<le> n \<and> n \<le> 70 then Some (n - 55) else None)"

definition parse_hex4 :: "string \<Rightarrow> (nat \<times> string) option" where
  "parse_hex4 s =
     (case s of
        a # b # c # d # r \<Rightarrow>
          (case (hex_value a, hex_value b, hex_value c, hex_value d) of
             (Some w, Some x, Some y, Some z) \<Rightarrow> Some (w * 4096 + x * 256 + y * 16 + z, r)
           | _ \<Rightarrow> None)
      | _ \<Rightarrow> None)"

definition simple_escape :: "char \<Rightarrow> char option" where
  "simple_escape c =
     (if c = CHR 0x22 \<or> c = CHR 0x5C \<or> c = CHR ''/'' then Some c
      else if c = CHR ''b'' then Some (CHR 0x08)
      else if c = CHR ''f'' then Some (CHR 0x0C)
      else if c = CHR ''n'' then Some (CHR 0x0A)
      else if c = CHR ''r'' then Some (CHR 0x0D)
      else if c = CHR ''t'' then Some (CHR 0x09) else None)"

text \<open>
  The characters of a string up to the closing quote. A \<open>\\u\<close> escape of a code unit beyond 255 is
  outside the modelled range and is refused.
\<close>

fun parse_char :: "string \<Rightarrow> (char \<times> string) option" where
  "parse_char [] = None"
| "parse_char (c # r) =
     (if c = CHR 0x5C then
        (case r of
           [] \<Rightarrow> None
         | e # r' \<Rightarrow>
             if e = CHR ''u'' then
               (case parse_hex4 r' of
                  Some (n, r'') \<Rightarrow> if n < 256 then Some (char_of n, r'') else None
                | None \<Rightarrow> None)
             else (case simple_escape e of Some d \<Rightarrow> Some (d, r') | None \<Rightarrow> None))
      else if code_unit c < 32 then None else Some (c, r))"

fun parse_chars :: "nat \<Rightarrow> string \<Rightarrow> (string \<times> string) option" where
  "parse_chars 0 s = None"
| "parse_chars (Suc n) s =
     (case s of
        [] \<Rightarrow> None
      | c # r \<Rightarrow>
          if c = CHR 0x22 then Some ([], r)
          else (case parse_char s of
                  None \<Rightarrow> None
                | Some (d, r') \<Rightarrow> map_option (\<lambda>(ds, r''). (d # ds, r'')) (parse_chars n r')))"

text \<open>\<open>-? (0 | [1-9] digits) (. digits)? ([eE] [+-]? digits)?\<close>\<close>

definition parse_fraction :: "string \<Rightarrow> (string \<times> string) option" where
  "parse_fraction s =
     (case s of
        c # r \<Rightarrow>
          if c = CHR ''.'' then
            let ds = takeWhile is_digit r in if ds = [] then None else Some (ds, dropWhile is_digit r)
          else Some ([], s)
      | [] \<Rightarrow> Some ([], s))"

definition parse_exponent :: "string \<Rightarrow> (int \<times> string) option" where
  "parse_exponent s =
     (case s of
        c # r \<Rightarrow>
          if c = CHR ''e'' \<or> c = CHR ''E'' then
            let neg = (r \<noteq> [] \<and> hd r = CHR ''-'');
                r' = (if r \<noteq> [] \<and> (hd r = CHR ''-'' \<or> hd r = CHR ''+'') then tl r else r);
                ds = takeWhile is_digit r'
            in if ds = [] then None
               else Some ((if neg then - int (digits_value ds) else int (digits_value ds)),
                          dropWhile is_digit r')
          else Some (0, s)
      | [] \<Rightarrow> Some (0, s))"

definition parse_integer :: "string \<Rightarrow> (string \<times> string) option" where
  "parse_integer s =
     (case s of
        [] \<Rightarrow> None
      | c # r \<Rightarrow>
          if c = CHR ''0'' then Some ([c], r)
          else if is_digit c then Some (takeWhile is_digit s, dropWhile is_digit s) else None)"

definition parse_number :: "string \<Rightarrow> (json \<times> string) option" where
  "parse_number s =
     (let neg = (s \<noteq> [] \<and> hd s = CHR ''-''); s' = (if neg then tl s else s) in
      case parse_integer s' of None \<Rightarrow> None | Some (ds, r) \<Rightarrow>
      (case parse_fraction r of None \<Rightarrow> None | Some (fs, r') \<Rightarrow>
      (case parse_exponent r' of None \<Rightarrow> None | Some (e, r'') \<Rightarrow>
         let m = rat_of_nat (digits_value (ds @ fs)) * 10 powi (e - int (length fs))
         in Some (JNum (to_number (if neg then - m else m)), r''))))"

definition parse_literal :: "string \<Rightarrow> json \<Rightarrow> string \<Rightarrow> (json \<times> string) option" where
  "parse_literal w v s = (if prefix w s then Some (v, drop (length w) s) else None)"

fun parse_value :: "nat \<Rightarrow> string \<Rightarrow> (json \<times> string) option"
  and parse_elements :: "nat \<Rightarrow> string \<Rightarrow> (json list \<times> string) option"
  and parse_members :: "nat \<Rightarrow> string \<Rightarrow> ((string \<times> json) list \<times> string) option" where
  "parse_value 0 s = None"
| "parse_value (Suc n) s0 =
     (case skip_space s0 of
        [] \<Rightarrow> None
      | c # r \<Rightarrow>
          if c = CHR 0x22 then
            map_option (\<lambda>(t, r'). (JStr t, r')) (parse_chars (Suc (length r)) r)
          else if c = CHR ''['' then
            (if prefix '']'' (skip_space r) then Some (JArr [], tl (skip_space r))
             else map_option (\<lambda>(vs, r'). (JArr vs, r')) (parse_elements n r))
          else if c = CHR ''{'' then
            (if prefix ''}'' (skip_space r) then Some (JObj [], tl (skip_space r))
             else map_option (\<lambda>(ps, r'). (JObj (obj_of_pairs ps), r')) (parse_members n r))
          else if c = CHR ''t'' then parse_literal ''true'' (JBool True) (c # r)
          else if c = CHR ''f'' then parse_literal ''false'' (JBool False) (c # r)
          else if c = CHR ''n'' then parse_literal ''null'' JNull (c # r)
          else parse_number (c # r))"
| "parse_elements 0 s = None"
| "parse_elements (Suc n) s =
     (case parse_value n s of
        None \<Rightarrow> None
      | Some (v, r) \<Rightarrow>
          (case skip_space r of
             [] \<Rightarrow> None
           | c # r' \<Rightarrow>
               if c = CHR '','' then map_option (\<lambda>(vs, r''). (v # vs, r'')) (parse_elements n r')
               else if c = CHR '']'' then Some ([v], r') else None))"
| "parse_members 0 s = None"
| "parse_members (Suc n) s =
     (case skip_space s of
        [] \<Rightarrow> None
      | q # r0 \<Rightarrow>
          if q \<noteq> CHR 0x22 then None
          else (case parse_chars (Suc (length r0)) r0 of
             None \<Rightarrow> None
           | Some (k, r1) \<Rightarrow>
               (case skip_space r1 of
                  [] \<Rightarrow> None
                | c1 # r2 \<Rightarrow>
                    if c1 \<noteq> CHR '':'' then None
                    else (case parse_value n r2 of
                       None \<Rightarrow> None
                     | Some (v, r3) \<Rightarrow>
                         (case skip_space r3 of
                            [] \<Rightarrow> None
                          | c3 # r4 \<Rightarrow>
                              if c3 = CHR '','' then
                                map_option (\<lambda>(ps, r'). ((k, v) # ps, r')) (parse_members n r4)
                              else if c3 = CHR ''}'' then Some ([(k, v)], r4) else None)))))"

definition json_parse :: "string \<Rightarrow> json option" where
  "json_parse s =
     (case parse_value (Suc (2 * length s)) s of
        Some (v, r) \<Rightarrow> if skip_space r = [] then Some v else None
      | None \<Rightarrow> None)"

subsection \<open>Laws of objects\<close>

lemma obj_get_put_same: "obj_get (obj_put k v kvs) k = Some v"
proof (cases "k \<in> set (map fst kvs)")
  case True
  then have "map_of (map (\<lambda>(k', v'). (k', if k' = k then v else v')) kvs) k = Some v"
    by (induction kvs) auto
  with True show ?thesis by (simp add: obj_get_def obj_put_def)
next
  case False
  have "map_of (insert_index n (k, v) kvs) k = Some v" for n
    using False by (induction kvs) (auto split: option.splits)
  with False show ?thesis
    by (auto simp: obj_get_def obj_put_def map_add_def split: option.splits)
      (metis domI dom_map_of_conv_image_fst)
qed

lemma obj_get_put_other: "k' \<noteq> k \<Longrightarrow> obj_get (obj_put k v kvs) k' = obj_get kvs k'"
proof -
  assume ne: "k' \<noteq> k"
  have "map_of (map (\<lambda>(j, w). (j, if j = k then v else w)) kvs) k' = map_of kvs k'"
    using ne by (induction kvs) auto
  moreover have "map_of (insert_index n (k, v) kvs) k' = map_of kvs k'" for n
    using ne by (induction kvs) (auto split: option.splits)
  ultimately show ?thesis
    using ne by (auto simp: obj_get_def obj_put_def map_add_def split: option.splits)
qed

lemma obj_get_delete: "obj_get (obj_delete k kvs) k' = (if k' = k then None else obj_get kvs k')"
  by (induction kvs) (auto simp: obj_get_def obj_delete_def)

lemma keys_insert_index: "set (map fst (insert_index n p kvs)) = insert (fst p) (set (map fst kvs))"
  by (induction kvs) (auto split: option.splits)

lemma distinct_insert_index:
  "fst p \<notin> set (map fst kvs) \<Longrightarrow> distinct (map fst kvs) \<Longrightarrow> distinct (map fst (insert_index n p kvs))"
proof (induction kvs)
  case (Cons q qs)
  then have "distinct (map fst (insert_index n p qs))" "fst q \<noteq> fst p" "fst q \<notin> fst ` set qs"
    by auto
  with Cons.prems keys_insert_index [of n p qs] show ?case
    by (auto split: option.splits)
qed simp

lemma keys_replace: "map fst (map (\<lambda>(j, w). (j, if j = k then v else w)) kvs) = map fst kvs"
  by (induction kvs) auto

lemma distinct_obj_put: "distinct (map fst kvs) \<Longrightarrow> distinct (map fst (obj_put k v kvs))"
proof (cases "k \<in> set (map fst kvs)")
  case True
  then show "distinct (map fst kvs) \<Longrightarrow> ?thesis"
    using keys_replace [of k v kvs] by (simp add: obj_put_def del: map_map)
next
  case False
  then show "distinct (map fst kvs) \<Longrightarrow> ?thesis"
    using distinct_insert_index [of "(k, v)" kvs] by (auto simp: obj_put_def split: option.splits)
qed

lemma distinct_obj_delete: "distinct (map fst kvs) \<Longrightarrow> distinct (map fst (obj_delete k kvs))"
  by (induction kvs) (auto simp: obj_delete_def)

text \<open>
  The interface of a JavaScript object to the form code: reading after writing and deleting. Its
  client lemmas are about writing several properties.
\<close>

locale js_object =
  fixes get :: "'o \<Rightarrow> string \<Rightarrow> 'v option" and put :: "string \<Rightarrow> 'v \<Rightarrow> 'o \<Rightarrow> 'o"
    and delete :: "string \<Rightarrow> 'o \<Rightarrow> 'o" and invar :: "'o \<Rightarrow> bool"
  assumes get_put: "get (put k v x) k' = (if k' = k then Some v else get x k')"
    and get_delete: "get (delete k x) k' = (if k' = k then None else get x k')"
    and invar_put: "invar x \<Longrightarrow> invar (put k v x)"
    and invar_delete: "invar x \<Longrightarrow> invar (delete k x)"
begin

lemma get_fold_put_other:
  "k' \<notin> fst ` set ps \<Longrightarrow> get (foldl (\<lambda>x (k, v). put k v x) x ps) k' = get x k'"
  by (induction ps arbitrary: x) (auto simp: get_put)

lemma get_fold_put:
  "distinct (map fst ps) \<Longrightarrow> (k, v) \<in> set ps \<Longrightarrow> get (foldl (\<lambda>x (k, v). put k v x) x ps) k = Some v"
proof (induction ps arbitrary: x)
  case (Cons p ps)
  show ?case
  proof (cases "p = (k, v)")
    case True
    with Cons.prems(1) have "k \<notin> fst ` set ps" by simp
    with True show ?thesis by (simp add: get_put get_fold_put_other)
  next
    case False
    with Cons show ?thesis by (auto simp: case_prod_unfold)
  qed
qed simp

lemma invar_fold_put: "invar x \<Longrightarrow> invar (foldl (\<lambda>x (k, v). put k v x) x ps)"
  by (induction ps arbitrary: x) (auto intro: invar_put)

end

interpretation obj: js_object obj_get obj_put obj_delete "\<lambda>kvs. distinct (map fst kvs)"
proof
  show "obj_get (obj_put k v x) k' = (if k' = k then Some v else obj_get x k')"
    for k :: string and v :: 'a and x k'
    by (simp add: obj_get_put_same obj_get_put_other)
qed (simp_all add: obj_get_delete distinct_obj_put distinct_obj_delete)

text \<open>Without array-index keys the order of the pairs is the order of the object.\<close>

lemma obj_of_pairs_plain_aux:
  "distinct (map fst (acc @ ps)) \<Longrightarrow> list_all (\<lambda>p. array_index (fst p) = None) ps \<Longrightarrow>
     foldl (\<lambda>kvs (k, v). obj_put k v kvs) acc ps = acc @ ps"
proof (induction ps arbitrary: acc)
  case (Cons p ps)
  obtain k v where p: "p = (k, v)" by fastforce
  with Cons.prems have "obj_put k v acc = acc @ [p]"
    by (simp add: obj_put_def)
  with Cons.IH [of "acc @ [p]"] Cons.prems p show ?case by simp
qed simp

lemma obj_of_pairs_plain:
  "distinct (map fst ps) \<Longrightarrow> list_all (\<lambda>p. array_index (fst p) = None) ps \<Longrightarrow> obj_of_pairs ps = ps"
  using obj_of_pairs_plain_aux [of "[]" ps] by (simp add: obj_of_pairs_def)

subsection \<open>Parsing what was printed\<close>

fun wf_json :: "json \<Rightarrow> bool" where
  "wf_json (JNum x) \<longleftrightarrow> (case x of Fin q \<Rightarrow> of_int \<lfloor>q\<rfloor> = q \<and> \<bar>q\<bar> \<le> 2 ^ 53 | _ \<Rightarrow> False)"
| "wf_json (JArr vs) \<longleftrightarrow> list_all wf_json vs"
| "wf_json (JObj kvs) \<longleftrightarrow> obj_of_pairs kvs = kvs \<and> list_all (\<lambda>(k, v). wf_json v) kvs"
| "wf_json _ \<longleftrightarrow> True"

definition json_follow :: "string \<Rightarrow> bool" where
  "json_follow r \<longleftrightarrow> r = [] \<or> hd r = CHR '','' \<or> hd r = CHR '']'' \<or> hd r = CHR ''}'' \<or> json_space (hd r)"

lemma hex_value_hex_char: "d < 16 \<Longrightarrow> hex_value (hex_char d) = Some d"
  by (auto simp: hex_value_def hex_char_def)

lemma parse_char_escape: "parse_char (json_escape c @ r) = Some (c, r)"
proof -
  have z: "hex_value CHR ''0'' = Some 0"
    by (simp add: hex_value_def)
  have u: "code_unit c = n \<Longrightarrow> c = char_of n" for n
    by (metis char_of_char)
  have k: "(char_of (34 :: nat) :: char) = CHR 0x22" "(char_of (92 :: nat) :: char) = CHR 0x5C"
      "(char_of (8 :: nat) :: char) = CHR 0x08" "(char_of (9 :: nat) :: char) = CHR 0x09"
      "(char_of (10 :: nat) :: char) = CHR 0x0A" "(char_of (12 :: nat) :: char) = CHR 0x0C"
      "(char_of (13 :: nat) :: char) = CHR 0x0D"
    by (simp_all add: char_of_def bit_0)
  show ?thesis
    by (auto simp: json_escape_def Let_def simple_escape_def parse_hex4_def z hex_value_hex_char k
        dest!: u)
qed

lemma json_escape_hd: "json_escape c \<noteq> [] \<and> hd (json_escape c) \<noteq> CHR 0x22"
  by (auto simp: json_escape_def Let_def)

lemma parse_chars_quote:
  "length s < n \<Longrightarrow> parse_chars n (concat (map json_escape s) @ CHR 0x22 # r) = Some (s, r)"
proof (induction s arbitrary: n)
  case Nil
  then show ?case by (cases n) auto
next
  case (Cons c s)
  then obtain m where n: "n = Suc m" "length s < m" by (cases n) auto
  let ?rest = "concat (map json_escape s) @ CHR 0x22 # r"
  obtain x xs where x: "json_escape c = x # xs" "x \<noteq> CHR 0x22"
    using json_escape_hd [of c] by (cases "json_escape c") auto
  have "parse_char (x # xs @ ?rest) = Some (c, ?rest)"
    using parse_char_escape [of c ?rest] x by simp
  with x n Cons.IH [OF n(2)] show ?case by (simp del: parse_char.simps)
qed

lemma nat_string_hd: "0 < n \<Longrightarrow> hd (nat_string n) \<noteq> CHR ''0''"
proof (induction n rule: nat_string.induct)
  case (1 n)
  show ?case
  proof (cases "n < 10")
    case True
    have "digit_value CHR ''0'' = 0" by (simp add: digit_value_def)
    with 1 True have "digit_char n \<noteq> CHR ''0''"
      by (metis digit_value_digit_char less_numeral_extra(3))
    with True show ?thesis
      by (subst nat_string.simps) simp
  next
    case False
    with 1 have "hd (nat_string (n div 10)) \<noteq> CHR ''0''" by simp
    with False show ?thesis by (subst nat_string.simps) simp
  qed
qed

lemma follow_not_digit: "json_follow r \<Longrightarrow> takeWhile is_digit r = [] \<and> dropWhile is_digit r = r"
  by (cases r) (auto simp: json_follow_def is_digit_def json_space_def)

lemma nat_string_0: "nat_string 0 = ''0''"
  by (subst nat_string.simps) (simp add: digit_char_def char_of_def bit_0)

lemma parse_integer_nat_string:
  assumes "json_follow r"
  shows "parse_integer (nat_string n @ r) = Some (nat_string n, r)"
proof (cases "n = 0")
  case True
  then show ?thesis by (simp add: nat_string_0 parse_integer_def)
next
  case False
  obtain c cs where c: "nat_string n = c # cs"
    by (cases "nat_string n") auto
  have d: "\<forall>x \<in> set (nat_string n). is_digit x"
    using nat_string_digits by blast
  have "takeWhile is_digit (nat_string n @ r) = nat_string n"
      "dropWhile is_digit (nat_string n @ r) = r"
    using d follow_not_digit [OF assms] by (simp_all add: takeWhile_append2 dropWhile_append2)
  moreover have "c \<noteq> CHR ''0''" "is_digit c"
    using nat_string_hd [of n] False d c by auto
  ultimately show ?thesis
    using c by (simp add: parse_integer_def)
qed

lemma to_number_int: "\<bar>i\<bar> \<le> 2 ^ 53 \<Longrightarrow> to_number (of_int i) = Fin (of_int i)"
proof -
  assume i: "\<bar>i\<bar> \<le> 2 ^ 53"
  then have "\<bar>i\<bar> < 2 ^ 1024" by simp
  then have "(of_int i :: rat) < of_int (2 ^ 1024)" "(of_int (- (2 ^ 1024)) :: rat) < of_int i"
    by (simp_all only: of_int_less_iff abs_less_iff) linarith+
  with i show ?thesis
    by (simp add: to_number_def not_le)
qed

lemma parse_number_int:
  assumes "\<bar>i\<bar> \<le> 2 ^ 53" "json_follow r"
  shows "parse_number (int_string i @ r) = Some (jint i, r)"
proof -
  have f: "parse_fraction r = Some ([], r)" "parse_exponent r = Some (0, r)"
    using assms(2) by (cases r; auto simp: json_follow_def json_space_def parse_fraction_def parse_exponent_def)+
  obtain c cs where c: "nat_string (nat i) = c # cs"
    by (cases "nat_string (nat i)") auto
  then have "is_digit c" using nat_string_digits [of c "nat i"] by simp
  then have "c \<noteq> CHR ''-''" by (auto simp: is_digit_def)
  then have h: "hd (nat_string (nat i) @ r) \<noteq> CHR ''-''"
    using c by simp
  note p = parse_integer_nat_string [OF assms(2)] to_number_int [OF assms(1)]
  show ?thesis
  proof (cases "i < 0")
    case True
    then show ?thesis
      using f p by (simp add: parse_number_def int_string_def Let_def of_nat_nat)
  next
    case False
    then show ?thesis
      using f h p by (simp add: parse_number_def int_string_def Let_def of_nat_nat)
  qed
qed

lemma json_number_int:
  assumes "of_int \<lfloor>q\<rfloor> = q" "\<bar>q\<bar> \<le> 2 ^ 53"
  shows "json_number (Fin q) = int_string \<lfloor>q\<rfloor>" and "\<bar>\<lfloor>q\<rfloor>\<bar> \<le> 2 ^ 53"
proof -
  show "json_number (Fin q) = int_string \<lfloor>q\<rfloor>"
    using assms by (simp add: json_number_def number_string_def)
  have "(of_int \<bar>\<lfloor>q\<rfloor>\<bar> :: rat) = \<bar>q\<bar>"
    by (simp only: of_int_abs assms(1))
  with assms(2) have "(of_int \<bar>\<lfloor>q\<rfloor>\<bar> :: rat) \<le> of_int (2 ^ 53)"
    by (simp only: of_int_power of_int_numeral)
  then show "\<bar>\<lfloor>q\<rfloor>\<bar> \<le> 2 ^ 53" by (simp only: of_int_le_iff)
qed

lemma int_string_hd: "int_string i \<noteq> [] \<and> (hd (int_string i) = CHR ''-'' \<or> is_digit (hd (int_string i)))"
  using nat_string_digits [of "hd (nat_string (nat i))" "nat i"]
  by (auto simp: int_string_def)

definition value_start :: "char \<Rightarrow> bool" where
  "value_start c \<longleftrightarrow> \<not> json_space c \<and> c \<noteq> CHR '']'' \<and> c \<noteq> CHR ''}''"

lemma json_string_start: "wf_json v \<Longrightarrow> json_string v \<noteq> [] \<and> value_start (hd (json_string v))"
proof (cases v)
  case (JNum x)
  assume "wf_json v"
  with JNum obtain q where q: "x = Fin q" "of_int \<lfloor>q\<rfloor> = q" "\<bar>q\<bar> \<le> 2 ^ 53"
    by (auto split: js_number.splits)
  have "value_start c" if "c = CHR ''-'' \<or> is_digit c" for c
    using that by (auto simp: value_start_def json_space_def is_digit_def)
  with int_string_hd [of "\<lfloor>q\<rfloor>"] json_number_int(1) [OF q(2,3)] JNum q(1)
  show ?thesis by auto
qed (auto simp: value_start_def json_space_def json_quote_def)

lemma skip_space_start: "s \<noteq> [] \<Longrightarrow> value_start (hd s) \<Longrightarrow> skip_space (s @ r) = s @ r"
  by (cases s) (auto simp: skip_space_def value_start_def)

lemma skip_space_follow [simp]:
  "skip_space (CHR '','' # r) = CHR '','' # r" "skip_space (CHR '']'' # r) = CHR '']'' # r"
  "skip_space (CHR ''}'' # r) = CHR ''}'' # r" "skip_space (CHR '':'' # r) = CHR '':'' # r"
  "skip_space (CHR 0x22 # r) = CHR 0x22 # r" "skip_space (CHR ''['' # r) = CHR ''['' # r"
  "skip_space (CHR ''{'' # r) = CHR ''{'' # r" "skip_space (CHR ''n'' # r) = CHR ''n'' # r"
  "skip_space (CHR ''t'' # r) = CHR ''t'' # r" "skip_space (CHR ''f'' # r) = CHR ''f'' # r"
  by (simp_all add: skip_space_def json_space_def)

lemma json_follow_marks [simp]:
  "json_follow []" "json_follow (CHR '','' # r)" "json_follow (CHR '']'' # r)" "json_follow (CHR ''}'' # r)"
  by (simp_all add: json_follow_def)

text \<open>What the induction below knows of the parts of a value.\<close>

definition parses :: "json \<Rightarrow> bool" where
  "parses v \<longleftrightarrow> (\<forall>n r. length (json_string v) < n \<longrightarrow> json_follow r \<longrightarrow>
     parse_value n (json_string v @ r) = Some (v, r))"

lemma parse_elements_join:
  "vs \<noteq> [] \<Longrightarrow> list_all parses vs \<Longrightarrow> length (join '','' (map json_string vs)) + 1 < n \<Longrightarrow>
     parse_elements n (join '','' (map json_string vs) @ CHR '']'' # r) = Some (vs, r)"
proof (induction vs arbitrary: n)
  case (Cons v vs)
  then obtain m where n: "n = Suc m" by (cases n) auto
  show ?case
  proof (cases vs)
    case Nil
    with Cons.prems n have "parse_value m (json_string v @ CHR '']'' # r) = Some (v, CHR '']'' # r)"
      by (simp add: parses_def)
    with Nil n show ?thesis by simp
  next
    case (Cons w ws)
    let ?rest = "join '','' (map json_string vs) @ CHR '']'' # r"
    have "parse_value m (json_string v @ CHR '','' # ?rest) = Some (v, CHR '','' # ?rest)"
      using Cons Cons.prems n by (simp add: parses_def)
    moreover have "parse_elements m ?rest = Some (vs, r)"
      using Cons.IH [of m] Cons Cons.prems n by simp
    ultimately show ?thesis
      using Cons n by simp
  qed
qed simp

abbreviation member_string :: "string \<times> json \<Rightarrow> string" where
  "member_string \<equiv> \<lambda>(k, v). json_quote k @ '':'' @ json_string v"

lemma length_escape_ge: "length s \<le> length (concat (map json_escape s))"
proof (induction s)
  case (Cons c s)
  have "0 < length (json_escape c)"
    using json_escape_hd [of c] by simp
  then have "1 \<le> length (json_escape c)" by linarith
  with Cons show ?case by simp
qed simp

lemma parse_key:
  "parse_chars (Suc (length (concat (map json_escape k) @ CHR 0x22 # r)))
     (concat (map json_escape k) @ CHR 0x22 # r) = Some (k, r)"
  by (rule parse_chars_quote) (use length_escape_ge [of k] in simp)

lemma parse_members_join:
  "ps \<noteq> [] \<Longrightarrow> list_all (\<lambda>(k, v). parses v) ps \<Longrightarrow> length (join '','' (map member_string ps)) + 1 < n \<Longrightarrow>
     parse_members n (join '','' (map member_string ps) @ CHR ''}'' # r) = Some (ps, r)"
proof (induction ps arbitrary: n)
  case (Cons p ps)
  then obtain m where n: "n = Suc m" by (cases n) auto
  obtain k v where p: "p = (k, v)" by fastforce
  show ?case
  proof (cases ps)
    case Nil
    with Cons.prems n p have "parse_value m (json_string v @ CHR ''}'' # r) = Some (v, CHR ''}'' # r)"
      by (simp add: parses_def json_quote_def)
    with Nil n p parse_key [of k "CHR '':'' # json_string v @ CHR ''}'' # r"] show ?thesis
      by (simp add: json_quote_def del: parse_chars.simps)
  next
    case (Cons q qs)
    let ?rest = "join '','' (map member_string ps) @ CHR ''}'' # r"
    have "parse_value m (json_string v @ CHR '','' # ?rest) = Some (v, CHR '','' # ?rest)"
      using Cons Cons.prems n p by (simp add: parses_def json_quote_def)
    moreover have "parse_members m ?rest = Some (ps, r)"
      using Cons.IH [of m] Cons Cons.prems n p by simp
    ultimately show ?thesis
      using Cons n p parse_key [of k "CHR '':'' # json_string v @ CHR '','' # ?rest"]
      by (simp add: json_quote_def del: parse_chars.simps)
  qed
qed simp

lemma parses_wf: "wf_json v \<Longrightarrow> parses v"
proof (induction v rule: json_string.induct)
  case 1
  show ?case unfolding parses_def by (auto simp: parse_literal_def Suc_less_eq2)
next
  case (2 b)
  show ?case unfolding parses_def by (auto simp: parse_literal_def Suc_less_eq2)
next
  case (3 x)
  then obtain q where q: "x = Fin q" "of_int \<lfloor>q\<rfloor> = q" "\<bar>q\<bar> \<le> 2 ^ 53"
    by (auto split: js_number.splits)
  have s: "json_string (JNum x) = int_string \<lfloor>q\<rfloor>"
    using json_number_int(1) [OF q(2,3)] q(1) by simp
  have b: "\<bar>\<lfloor>q\<rfloor>\<bar> \<le> 2 ^ 53"
    by (rule json_number_int(2) [OF q(2,3)])
  have "parse_value n (int_string \<lfloor>q\<rfloor> @ r) = Some (JNum x, r)"
    if n: "length (int_string \<lfloor>q\<rfloor>) < n" and r: "json_follow r" for n r
  proof -
    obtain c cs where c: "int_string \<lfloor>q\<rfloor> = c # cs" "c = CHR ''-'' \<or> is_digit c"
      using int_string_hd [of "\<lfloor>q\<rfloor>"] by (cases "int_string \<lfloor>q\<rfloor>") auto
    obtain m where m: "n = Suc m" using n by (cases n) auto
    have "skip_space (c # cs @ r) = c # cs @ r"
      using c(2) by (auto simp: skip_space_def json_space_def is_digit_def)
    moreover have "c \<notin> {CHR 0x22, CHR ''['', CHR ''{'', CHR ''t'', CHR ''f'', CHR ''n''}"
      using c(2) by (auto simp: is_digit_def)
    moreover have "parse_number (c # cs @ r) = Some (JNum x, r)"
      using parse_number_int [OF b r] c(1) q(1,2) by simp
    ultimately show ?thesis
      using c(1) m by simp
  qed
  then show ?case unfolding parses_def s by blast
next
  case (4 t)
  have "parse_value n (json_string (JStr t) @ r) = Some (JStr t, r)"
    if "length (json_string (JStr t)) < n" for n r
    using that parse_key [of t r]
    by (cases n) (simp_all add: json_quote_def del: parse_chars.simps)
  then show ?case by (simp add: parses_def del: json_string.simps)
next
  case (5 vs)
  then have all: "list_all parses vs" and wf: "list_all wf_json vs"
    by (auto simp: list_all_iff)
  have "parse_value n (json_string (JArr vs) @ r) = Some (JArr vs, r)"
    if len: "length (json_string (JArr vs)) < n" for n r
  proof (cases vs)
    case Nil
    with len show ?thesis by (cases n) simp_all
  next
    case (Cons v ws)
    let ?j = "join '','' (map json_string vs)"
    obtain m where m: "n = Suc m" using len by (cases n) auto
    have j: "?j \<noteq> [] \<and> hd ?j = hd (json_string v)"
      using Cons wf json_string_start [of v] by (cases ws) auto
    then have "\<not> prefix '']'' (skip_space (?j @ CHR '']'' # r))"
      using Cons wf json_string_start [of v] skip_space_start [of ?j]
      by (cases ?j) (auto simp: value_start_def prefix_def)
    moreover have "parse_elements m (?j @ CHR '']'' # r) = Some (vs, r)"
      using parse_elements_join [OF _ all, of m r] Cons len m by simp
    ultimately show ?thesis using m by simp
  qed
  then show ?case by (simp add: parses_def del: json_string.simps)
next
  case (6 kvs)
  then have all: "list_all (\<lambda>(k, v). parses v) kvs" and o: "obj_of_pairs kvs = kvs"
    by (auto simp: list_all_iff)
  have "parse_value n (json_string (JObj kvs) @ r) = Some (JObj kvs, r)"
    if len: "length (json_string (JObj kvs)) < n" for n r
  proof (cases kvs)
    case Nil
    with len show ?thesis by (cases n) simp_all
  next
    case (Cons p ps)
    let ?j = "join '','' (map member_string kvs)"
    obtain m where m: "n = Suc m" using len by (cases n) auto
    have "?j \<noteq> [] \<and> hd ?j = CHR 0x22"
      using Cons by (cases p; cases ps) (auto simp: json_quote_def)
    then have "\<not> prefix ''}'' (skip_space (?j @ CHR ''}'' # r))"
      by (cases ?j) auto
    moreover have "parse_members m (?j @ CHR ''}'' # r) = Some (kvs, r)"
      using parse_members_join [OF _ all, of m r] Cons len m by simp
    ultimately show ?thesis using m o by simp
  qed
  then show ?case by (simp add: parses_def del: json_string.simps)
qed

interpretation json: prefix_codec json_string "\<lambda>s. parse_value (Suc (2 * length s)) s" wf_json json_follow
proof
  show "parse_value (Suc (2 * length (json_string v @ r))) (json_string v @ r) = Some (v, r)"
    if "wf_json v" "json_follow r" for v r
  proof -
    have "length (json_string v) < Suc (2 * length (json_string v @ r))" by simp
    with parses_wf [OF that(1)] that(2) show ?thesis unfolding parses_def by blast
  qed
qed simp

subsection \<open>Parsing what was printed with indentation\<close>

lemma skip_new_line [simp]: "skip_space (new_line d @ s) = skip_space s"
proof -
  have "dropWhile json_space (replicate n (CHR '' '') @ s) = dropWhile json_space s" for n
    by (induction n) (simp_all add: json_space_def)
  then show ?thesis by (simp add: new_line_def skip_space_def json_space_def)
qed

lemma parse_value_skip: "skip_space s = skip_space t \<Longrightarrow> parse_value n s = parse_value n t"
  by (cases n) simp_all

lemma parse_elements_skip: "skip_space s = skip_space t \<Longrightarrow> parse_elements n s = parse_elements n t"
  by (cases n) (simp_all add: parse_value_skip [of s t])

lemma parse_members_skip: "skip_space s = skip_space t \<Longrightarrow> parse_members n s = parse_members n t"
  by (cases n) simp_all

lemma json_follow_new_line [simp]: "json_follow (new_line d @ r)"
  by (simp add: json_follow_def new_line_def json_space_def)

definition parses_pretty :: "json \<Rightarrow> bool" where
  "parses_pretty v \<longleftrightarrow> (\<forall>n d r. length (json_pretty d v) < n \<longrightarrow> json_follow r \<longrightarrow>
     parse_value n (json_pretty d v @ r) = Some (v, r))"

lemma parse_elements_pretty:
  "vs \<noteq> [] \<Longrightarrow> list_all parses_pretty vs \<Longrightarrow> length (join ('','' @ new_line d) (map (json_pretty d) vs)) + 1 < n \<Longrightarrow>
     parse_elements n (join ('','' @ new_line d) (map (json_pretty d) vs) @ new_line e @ CHR '']'' # r) = Some (vs, r)"
proof (induction vs arbitrary: n)
  case (Cons v vs)
  then obtain m where n: "n = Suc m" by (cases n) auto
  show ?case
  proof (cases vs)
    case Nil
    with Cons.prems n have "parse_value m (json_pretty d v @ new_line e @ CHR '']'' # r) = Some (v, new_line e @ CHR '']'' # r)"
      by (simp add: parses_pretty_def)
    with Nil n show ?thesis by simp
  next
    case (Cons w ws)
    let ?rest = "join ('','' @ new_line d) (map (json_pretty d) vs) @ new_line e @ CHR '']'' # r"
    have "parse_value m (json_pretty d v @ CHR '','' # new_line d @ ?rest) = Some (v, CHR '','' # new_line d @ ?rest)"
      using Cons Cons.prems n by (simp add: parses_pretty_def)
    moreover have "parse_elements m (new_line d @ ?rest) = Some (vs, r)"
      using Cons.IH [of m] Cons Cons.prems n by (subst parse_elements_skip [OF skip_new_line]) simp
    ultimately show ?thesis
      using Cons n by simp
  qed
qed simp

abbreviation member_pretty :: "nat \<Rightarrow> string \<times> json \<Rightarrow> string" where
  "member_pretty d \<equiv> \<lambda>(k, v). json_quote k @ '': '' @ json_pretty d v"

lemma parse_members_pretty:
  "ps \<noteq> [] \<Longrightarrow> list_all (\<lambda>(k, v). parses_pretty v) ps \<Longrightarrow>
     length (join ('','' @ new_line d) (map (member_pretty d) ps)) + 1 < n \<Longrightarrow>
     parse_members n (join ('','' @ new_line d) (map (member_pretty d) ps) @ new_line e @ CHR ''}'' # r) = Some (ps, r)"
proof (induction ps arbitrary: n)
  case (Cons p ps)
  then obtain m where n: "n = Suc m" by (cases n) auto
  obtain k v where p: "p = (k, v)" by fastforce
  have blank: "parse_value m (CHR '' '' # s) = parse_value m s" for s
    by (rule parse_value_skip) (simp add: skip_space_def json_space_def)
  show ?case
  proof (cases ps)
    case Nil
    let ?tail = "new_line e @ CHR ''}'' # r"
    have "parse_value m (json_pretty d v @ ?tail) = Some (v, ?tail)"
      using Nil Cons.prems n p by (simp add: parses_pretty_def json_quote_def)
    with Nil n p blank parse_key [of k "CHR '':'' # CHR '' '' # json_pretty d v @ ?tail"] show ?thesis
      by (simp add: json_quote_def del: parse_chars.simps)
  next
    case (Cons q qs)
    let ?rest = "new_line d @ join ('','' @ new_line d) (map (member_pretty d) ps) @ new_line e @ CHR ''}'' # r"
    have "parse_value m (json_pretty d v @ CHR '','' # ?rest) = Some (v, CHR '','' # ?rest)"
      using Cons Cons.prems n p by (simp add: parses_pretty_def json_quote_def)
    moreover have "parse_members m ?rest = Some (ps, r)"
      using Cons.IH [of m] Cons Cons.prems n p by (subst parse_members_skip [OF skip_new_line]) simp
    ultimately show ?thesis
      using Cons n p blank parse_key [of k "CHR '':'' # CHR '' '' # json_pretty d v @ CHR '','' # ?rest"]
      by (simp add: json_quote_def del: parse_chars.simps)
  qed
qed simp

lemma json_pretty_start: "wf_json v \<Longrightarrow> json_pretty d v \<noteq> [] \<and> value_start (hd (json_pretty d v))"
  using json_string_start [of v] by (cases v) (auto simp: value_start_def json_space_def)

lemma parses_pretty_scalar: "(\<And>d. json_pretty d v = json_string v) \<Longrightarrow> parses v \<Longrightarrow> parses_pretty v"
  by (simp add: parses_def parses_pretty_def)

lemma parses_pretty_wf: "wf_json v \<Longrightarrow> parses_pretty v"
proof (induction v)
  case (JArr vs)
  then have all: "list_all parses_pretty vs" and wf: "list_all wf_json vs"
    by (auto simp: list_all_iff)
  have "parse_value n (json_pretty d (JArr vs) @ r) = Some (JArr vs, r)"
    if len: "length (json_pretty d (JArr vs)) < n" for n d r
  proof (cases vs)
    case Nil
    with len show ?thesis by (cases n) simp_all
  next
    case (Cons v ws)
    let ?j = "join ('','' @ new_line (Suc d)) (map (json_pretty (Suc d)) vs)" and ?tail = "new_line d @ CHR '']'' # r"
    obtain m where m: "n = Suc m" using len by (cases n) auto
    have j: "?j \<noteq> [] \<and> hd ?j = hd (json_pretty (Suc d) v)"
      using Cons wf json_pretty_start [of v "Suc d"] by (cases ws) auto
    then have "\<not> prefix '']'' (skip_space (?j @ ?tail))"
      using Cons wf json_pretty_start [of v "Suc d"] skip_space_start [of ?j]
      by (cases ?j) (auto simp: value_start_def prefix_def)
    moreover have "parse_elements m (new_line (Suc d) @ ?j @ ?tail) = Some (vs, r)"
      using parse_elements_pretty [OF _ all, of "Suc d" m d r] Cons len m
      by (subst parse_elements_skip [OF skip_new_line]) simp
    ultimately show ?thesis using m Cons by simp
  qed
  then show ?case by (simp add: parses_pretty_def del: json_pretty.simps)
next
  case (JObj kvs)
  then have all: "list_all (\<lambda>(k, v). parses_pretty v) kvs" and o: "obj_of_pairs kvs = kvs"
    by (fastforce simp: list_all_iff)+
  have "parse_value n (json_pretty d (JObj kvs) @ r) = Some (JObj kvs, r)"
    if len: "length (json_pretty d (JObj kvs)) < n" for n d r
  proof (cases kvs)
    case Nil
    with len show ?thesis by (cases n) (simp_all add: obj_of_pairs_def)
  next
    case (Cons p ps)
    let ?j = "join ('','' @ new_line (Suc d)) (map (member_pretty (Suc d)) kvs)" and ?tail = "new_line d @ CHR ''}'' # r"
    obtain m where m: "n = Suc m" using len by (cases n) auto
    have "?j \<noteq> [] \<and> hd ?j = CHR 0x22"
      using Cons by (cases p; cases ps) (auto simp: json_quote_def)
    then have "\<not> prefix ''}'' (skip_space (?j @ ?tail))"
      by (cases ?j) auto
    moreover have "parse_members m (new_line (Suc d) @ ?j @ ?tail) = Some (kvs, r)"
      using parse_members_pretty [OF _ all, of "Suc d" m d r] Cons len m
      by (subst parse_members_skip [OF skip_new_line]) simp
    ultimately show ?thesis using m o Cons by simp
  qed
  then show ?case by (simp add: parses_pretty_def del: json_pretty.simps)
qed (auto intro!: parses_pretty_scalar parses_wf)

lemma json_pretty_roundtrip: "wf_json v \<Longrightarrow> skip_space r = [] \<Longrightarrow> json_parse (json_pretty d v @ r) = Some v"
proof -
  assume v: "wf_json v" and r: "skip_space r = []"
  have "json_follow r"
    using r by (cases r) (auto simp: json_follow_def skip_space_def split: if_splits)
  moreover have "length (json_pretty d v) < Suc (2 * length (json_pretty d v @ r))" by simp
  ultimately have "parse_value (Suc (2 * length (json_pretty d v @ r))) (json_pretty d v @ r) = Some (v, r)"
    using parses_pretty_wf [OF v] unfolding parses_pretty_def by blast
  then show ?thesis using r by (simp add: json_parse_def)
qed

subsection \<open>The fuel is enough\<close>

lemma skip_space_le: "length (skip_space s) \<le> length s"
  by (simp add: skip_space_def length_dropWhile_le)

lemma parse_char_less: "parse_char s = Some (c, r) \<Longrightarrow> length r < length s"
  by (cases s) (auto simp: parse_hex4_def split: if_splits list.splits option.splits)

lemma parse_chars_less: "parse_chars n s = Some (t, r) \<Longrightarrow> length r < length s"
proof (induction n arbitrary: s t)
  case (Suc n)
  then show ?case
    by (auto split: list.splits if_splits option.splits dest!: parse_char_less simp del: parse_char.simps)
      fastforce+
qed simp

lemma parse_number_less: "parse_number s = Some (v, r) \<Longrightarrow> length r < length s"
proof -
  assume p: "parse_number s = Some (v, r)"
  have i: "parse_integer t = Some (ds, u) \<Longrightarrow> length u < length t" for t ds u
    using length_dropWhile_le [of is_digit] by (auto simp: parse_integer_def le_imp_less_Suc split: list.splits if_splits)
  have f: "parse_fraction t = Some (fs, u) \<Longrightarrow> length u \<le> length t" for t fs u
    using length_dropWhile_le [of is_digit] by (auto simp: parse_fraction_def Let_def le_SucI split: list.splits if_splits)
  have e: "parse_exponent t = Some (n, u) \<Longrightarrow> length u \<le> length t" for t n u
  proof -
    have d: "length (dropWhile is_digit (tl x)) \<le> Suc (length x)" for x
      using length_dropWhile_le [of is_digit "tl x"] by (cases x) auto
    show "parse_exponent t = Some (n, u) \<Longrightarrow> length u \<le> length t"
      using length_dropWhile_le [of is_digit]
      by (auto simp: parse_exponent_def Let_def le_SucI d split: list.splits if_splits)
  qed
  have "length r < length (if s \<noteq> [] \<and> hd s = CHR ''-'' then tl s else s)"
    using p by (auto simp: parse_number_def Let_def split: option.splits dest!: i f e)
  then show ?thesis by (auto split: if_splits)
qed

lemma parse_consumes:
  "(\<forall>s v r. parse_value n s = Some (v, r) \<longrightarrow> length r < length s) \<and>
   (\<forall>s v r. parse_elements n s = Some (v, r) \<longrightarrow> length r < length s) \<and>
   (\<forall>s v r. parse_members n s = Some (v, r) \<longrightarrow> length r < length s)"
proof (induction n)
  case 0
  then show ?case by simp
next
  case (Suc n)
  have v: "length r < length s" if p: "parse_value (Suc n) s = Some (w, r)" for s w r
  proof (cases "skip_space s")
    case Nil
    with p show ?thesis by simp
  next
    case (Cons c t)
    then have l: "Suc (length t) \<le> length s" using skip_space_le [of s] by simp
    have tl: "length (tl (skip_space t)) \<le> length t" using skip_space_le [of t] by simp
    have lit: "parse_literal u x (c # t) = Some (w, r) \<Longrightarrow> u \<noteq> [] \<Longrightarrow> length r \<le> length t" for u x
      by (cases u) (auto simp: parse_literal_def split: if_splits)
    have sub: "parse_elements n t = Some (a, r) \<Longrightarrow> length r \<le> length t"
        "parse_members n t = Some (b, r) \<Longrightarrow> length r \<le> length t" for a b
      using Suc.IH less_imp_le by blast+
    have "length r \<le> length t"
      using p Cons tl lit
      by (auto simp del: parse_chars.simps split: if_splits
          dest!: parse_chars_less sub dest: parse_number_less)
    with l show ?thesis by simp
  qed
  have e: "length r < length s" if p: "parse_elements (Suc n) s = Some (w, r)" for s w r
  proof -
    from p obtain x t c t' where q: "parse_value n s = Some (x, t)" "skip_space t = c # t'"
        and "r = t' \<or> (\<exists>vs. parse_elements n t' = Some (vs, r))"
      by (auto split: option.splits list.splits if_splits)
    moreover have "length t < length s" using Suc.IH q(1) by blast
    moreover have "length t' < length t" using skip_space_le [of t] q(2) by simp
    ultimately show ?thesis using Suc.IH by (metis less_trans)
  qed
  have m: "length r < length s" if p: "parse_members (Suc n) s = Some (w, r)" for s w r
  proof -
    from p obtain q0 r0 k r1 r2 x t c t' where
        q: "skip_space s = q0 # r0" "parse_chars (Suc (length r0)) r0 = Some (k, r1)"
          "skip_space r1 = CHR '':'' # r2" "parse_value n r2 = Some (x, t)" "skip_space t = c # t'"
        and d: "r = t' \<or> (\<exists>vs. parse_members n t' = Some (vs, r))"
      by (auto simp del: parse_chars.simps split: option.splits list.splits if_splits)
    have "length r0 < length s" using skip_space_le [of s] q(1) by simp
    moreover have "length r1 < length r0" by (rule parse_chars_less [OF q(2)])
    moreover have "length r2 < length r1" using skip_space_le [of r1] q(3) by simp
    moreover have "length t < length r2" using Suc.IH q(4) by blast
    moreover have "length t' < length t" using skip_space_le [of t] q(5) by simp
    ultimately have "length t' < length s" by simp
    with d Suc.IH show ?thesis by (metis less_trans)
  qed
  from v e m show ?case by blast
qed

lemma parse_fuel:
  "(\<forall>n s. 2 * length s < m \<longrightarrow> 2 * length s < n \<longrightarrow> parse_value m s = parse_value n s) \<and>
   (\<forall>n s. 2 * length s + 1 < m \<longrightarrow> 2 * length s + 1 < n \<longrightarrow>
      parse_elements m s = parse_elements n s) \<and>
   (\<forall>n s. 2 * length s + 1 < m \<longrightarrow> 2 * length s + 1 < n \<longrightarrow>
      parse_members m s = parse_members n s)"
proof (induction m)
  case 0
  then show ?case by simp
next
  case (Suc m)
  have ih: "2 * length s < m \<Longrightarrow> 2 * length s < n \<Longrightarrow> parse_value m s = parse_value n s"
      "2 * length s + 1 < m \<Longrightarrow> 2 * length s + 1 < n \<Longrightarrow> parse_elements m s = parse_elements n s"
      "2 * length s + 1 < m \<Longrightarrow> 2 * length s + 1 < n \<Longrightarrow> parse_members m s = parse_members n s"
    for n s
    using Suc.IH by blast+
  have v: "parse_value (Suc m) s = parse_value n s"
    if l: "2 * length s < Suc m" "2 * length s < n" for s n
  proof -
    obtain n' where n: "n = Suc n'" using l by (cases n) auto
    have "parse_elements m r = parse_elements n' r \<and> parse_members m r = parse_members n' r"
      if "skip_space s = c # r" for c r
      using l n skip_space_le [of s] that by (intro conjI ih) auto
    then show ?thesis
      by (auto simp: n simp del: parse_chars.simps split: list.splits)
  qed
  have e: "parse_elements (Suc m) s = parse_elements n s"
    if l: "2 * length s + 1 < Suc m" "2 * length s + 1 < n" for s n
  proof -
    obtain n' where n: "n = Suc n'" using l by (cases n) auto
    have "parse_value m s = parse_value n' s" using l n by (intro ih) auto
    moreover have "parse_elements m t' = parse_elements n' t'"
      if "parse_value n' s = Some (x, t)" "skip_space t = c # t'" for x t c t'
    proof -
      have "length t < length s" using parse_consumes that(1) by blast
      then show ?thesis using l n skip_space_le [of t] that(2) by (intro ih) auto
    qed
    ultimately show ?thesis
      by (auto simp: n split: list.splits option.splits)
  qed
  have "parse_members (Suc m) s = parse_members n s"
    if l: "2 * length s + 1 < Suc m" "2 * length s + 1 < n" for s n
  proof -
    obtain n' where n: "n = Suc n'" using l by (cases n) auto
    have val: "parse_value m r2 = parse_value n' r2 \<and>
        (\<forall>x t c t'. parse_value n' r2 = Some (x, t) \<longrightarrow> skip_space t = c # t' \<longrightarrow>
          parse_members m t' = parse_members n' t')"
      if q: "skip_space s = q0 # r0" "parse_chars (Suc (length r0)) r0 = Some (k, r1)"
        "skip_space r1 = c1 # r2" for q0 r0 k r1 c1 r2
    proof -
      have "length r0 < length s" using skip_space_le [of s] q(1) by simp
      moreover have "length r1 < length r0" by (rule parse_chars_less [OF q(2)])
      moreover have "length r2 < length r1" using skip_space_le [of r1] q(3) by simp
      ultimately have r2: "length r2 < length s" by simp
      have "parse_members m t' = parse_members n' t'"
        if "parse_value n' r2 = Some (x, t)" "skip_space t = c # t'" for x t c t'
      proof -
        have "length t < length r2" using parse_consumes that(1) by blast
        then show ?thesis using l n r2 skip_space_le [of t] that(2) by (intro ih) auto
      qed
      moreover have "parse_value m r2 = parse_value n' r2" using l n r2 by (intro ih) auto
      ultimately show ?thesis by blast
    qed
    show ?thesis
    proof (cases "skip_space s")
      case Nil
      then show ?thesis by (simp add: n)
    next
      case q0: (Cons q0 r0)
      show ?thesis
      proof (cases "parse_chars (Suc (length r0)) r0")
        case None
        with q0 show ?thesis by (simp add: n del: parse_chars.simps)
      next
        case (Some p)
        obtain k r1 where p: "p = (k, r1)" by (cases p)
        show ?thesis
        proof (cases "skip_space r1")
          case Nil
          with q0 Some p show ?thesis by (simp add: n del: parse_chars.simps)
        next
          case r2: (Cons c1 r2)
          note val = val [OF q0 Some [unfolded p] r2]
          then show ?thesis using q0 Some p r2
            by (cases "parse_value n' r2")
              (auto simp: n simp del: parse_chars.simps split: list.splits)
        qed
      qed
    qed
  qed
  with v e show ?case by blast
qed

lemma json_parse_fuel:
  "2 * length s < n \<Longrightarrow>
   json_parse s = (case parse_value n s of
        Some (v, r) \<Rightarrow> if skip_space r = [] then Some v else None
      | None \<Rightarrow> None)"
proof -
  assume n: "2 * length s < n"
  have "parse_value (Suc (2 * length s)) s = parse_value n s"
    using parse_fuel [of "Suc (2 * length s)"] n by (metis lessI)
  then show ?thesis by (simp only: json_parse_def)
qed

lemma json_parse_string: "wf_json v \<Longrightarrow> json_parse (json_string v) = Some v"
  using json.parse_encode [of v "[]"] by (simp add: json_parse_def skip_space_def)

lemmas json_string_inject = json.whole.encode_inject

text \<open>An object literal with distinct keys that start with a letter is well-formed.\<close>

definition letter_key :: "string \<Rightarrow> bool" where
  "letter_key k \<longleftrightarrow> k \<noteq> [] \<and> is_alpha (hd k)"

lemma wf_literal:
  assumes "distinct (map fst kvs)" "list_all (\<lambda>(k, v). letter_key k \<and> wf_json v) kvs"
  shows "wf_json (JObj kvs)"
proof -
  have "array_index k = None" if "letter_key k" for k
    using that by (cases k) (auto simp: letter_key_def array_index_def all_digits_def char_class_defs)
  then have "list_all (\<lambda>p. array_index (fst p) = None) kvs"
    using assms(2) by (auto simp: list_all_iff)
  with assms show ?thesis by (auto simp: obj_of_pairs_plain list_all_iff)
qed

end
