(* ===== verification/TsTypes.thy ===== *)
theory TsTypes
  imports Json
begin

text \<open>
  The TypeScript types that describe JSON documents, as data, with the executable test whether a
  JSON value has a type. Object types are structural: a value may have further properties. The type
  operators \<open>&\<close>, \<open>Required\<close>, \<open>Partial\<close>, \<open>Pick\<close> and \<open>Omit\<close> are functions on types.
\<close>

datatype ts =
    TStr
  | TNum
  | TBool
  | TNull
  | TUnknown
  | TVoid
  | TBlob
  | TRec
  | TLit string
  | TNumLit int
  | TBoolLit bool
  | TUnion "ts list"
  | TArr ts
  | TTuple "ts list"
  | TObj "field list"
and field = Req string ts | Opt string ts

definition lits :: "string list \<Rightarrow> ts" where
  "lits ss = TUnion (map TLit ss)"

fun field_name :: "field \<Rightarrow> string" where
  "field_name (Req k t) = k"
| "field_name (Opt k t) = k"

function (sequential) has_type :: "ts \<Rightarrow> json \<Rightarrow> bool"
  and has_field :: "field \<Rightarrow> (string \<times> json) list \<Rightarrow> bool" where
  "has_type TStr v \<longleftrightarrow> (case v of JStr _ \<Rightarrow> True | _ \<Rightarrow> False)"
| "has_type TNum v \<longleftrightarrow> (case v of JNum _ \<Rightarrow> True | _ \<Rightarrow> False)"
| "has_type TBool v \<longleftrightarrow> (case v of JBool _ \<Rightarrow> True | _ \<Rightarrow> False)"
| "has_type TNull v \<longleftrightarrow> v = JNull"
| "has_type TUnknown v \<longleftrightarrow> True"
| "has_type TVoid v \<longleftrightarrow> False"
| "has_type TBlob v \<longleftrightarrow> False"
| "has_type TRec v \<longleftrightarrow> (case v of JObj _ \<Rightarrow> True | _ \<Rightarrow> False)"
| "has_type (TLit s) v \<longleftrightarrow> v = JStr s"
| "has_type (TNumLit n) v \<longleftrightarrow> v = jint n"
| "has_type (TBoolLit b) v \<longleftrightarrow> v = JBool b"
| "has_type (TUnion us) v \<longleftrightarrow> list_ex (\<lambda>u. has_type u v) us"
| "has_type (TArr t) v \<longleftrightarrow> (case v of JArr vs \<Rightarrow> list_all (has_type t) vs | _ \<Rightarrow> False)"
| "has_type (TTuple us) v \<longleftrightarrow>
     (case v of JArr vs \<Rightarrow> length vs = length us \<and> list_all (\<lambda>(u, w). has_type u w) (zip us vs)
      | _ \<Rightarrow> False)"
| "has_type (TObj fs) v \<longleftrightarrow>
     (case v of JObj kvs \<Rightarrow> list_all (\<lambda>f. has_field f kvs) fs | _ \<Rightarrow> False)"
| "has_field (Req k t) kvs \<longleftrightarrow> (case obj_get kvs k of Some v \<Rightarrow> has_type t v | None \<Rightarrow> False)"
| "has_field (Opt k t) kvs \<longleftrightarrow> (case obj_get kvs k of Some v \<Rightarrow> has_type t v | None \<Rightarrow> True)"
  by pat_completeness auto
termination
proof (relation "measure (case_sum (size \<circ> fst) (size \<circ> fst))", goal_cases)
  case (4 us v vs p u w)
  then have "u \<in> set us" by (metis set_zip_leftD)
  then have "size u \<le> size_list size us" by (rule size_list_estimation') simp
  then show ?case by simp
qed (auto simp: less_Suc_eq_le size_list_estimation')

subsection \<open>Type operators\<close>

fun ts_fields :: "ts \<Rightarrow> field list" where
  "ts_fields (TObj fs) = fs"
| "ts_fields _ = []"

definition ts_inter :: "ts \<Rightarrow> ts \<Rightarrow> ts" where
  "ts_inter a b = TObj (ts_fields a @ ts_fields b)"

fun require :: "field \<Rightarrow> field" where
  "require (Req k t) = Req k t"
| "require (Opt k t) = Req k t"

fun allow :: "field \<Rightarrow> field" where
  "allow (Req k t) = Opt k t"
| "allow (Opt k t) = Opt k t"

definition ts_required :: "ts \<Rightarrow> ts" where
  "ts_required t = TObj (map require (ts_fields t))"

definition ts_partial :: "ts \<Rightarrow> ts" where
  "ts_partial t = TObj (map allow (ts_fields t))"

definition ts_omit :: "ts \<Rightarrow> string list \<Rightarrow> ts" where
  "ts_omit t ks = TObj (filter (\<lambda>f. field_name f \<notin> set ks) (ts_fields t))"

definition ts_pick :: "ts \<Rightarrow> string list \<Rightarrow> ts" where
  "ts_pick t ks = TObj (filter (\<lambda>f. field_name f \<in> set ks) (ts_fields t))"

lemmas ts_ops = ts_inter_def ts_required_def ts_partial_def ts_omit_def ts_pick_def lits_def

lemma has_type_lits: "has_type (lits ss) v \<longleftrightarrow> (\<exists>s\<in>set ss. v = JStr s)"
  by (auto simp: lits_def list_ex_iff)

lemma has_type_inter:
  "ts_fields a \<noteq> [] \<or> ts_fields b \<noteq> [] \<Longrightarrow> a = TObj (ts_fields a) \<Longrightarrow> b = TObj (ts_fields b) \<Longrightarrow>
   has_type (ts_inter a b) v \<longleftrightarrow> has_type a v \<and> has_type b v"
  by (cases v; cases a; cases b) (auto simp: ts_inter_def)

lemma has_field_require: "has_field (require f) kvs \<Longrightarrow> has_field f kvs"
  by (cases f) (auto split: option.splits)

lemma has_field_allow: "has_field f kvs \<Longrightarrow> has_field (allow f) kvs"
  by (cases f) (auto split: option.splits)

text \<open>\<open>Required<T>\<close> is a subtype of \<open>T\<close>, which is a subtype of \<open>Partial<T>\<close>; dropping properties
  from a type widens it.\<close>

lemma has_type_required: "t = TObj fs \<Longrightarrow> has_type (ts_required t) v \<Longrightarrow> has_type t v"
  by (auto simp: ts_required_def list_all_iff has_field_require split: json.splits)

lemma has_type_partial: "t = TObj fs \<Longrightarrow> has_type t v \<Longrightarrow> has_type (ts_partial t) v"
  by (auto simp: ts_partial_def list_all_iff has_field_allow split: json.splits)

lemma has_type_omit: "t = TObj fs \<Longrightarrow> has_type t v \<Longrightarrow> has_type (ts_omit t ks) v"
  by (auto simp: ts_omit_def list_all_iff split: json.splits)

lemma has_type_pick: "t = TObj fs \<Longrightarrow> has_type t v \<Longrightarrow> has_type (ts_pick t ks) v"
  by (auto simp: ts_pick_def list_all_iff split: json.splits)

lemma has_type_objE:
  assumes "has_type (TObj fs) v"
  obtains kvs where "v = JObj kvs" "list_all (\<lambda>f. has_field f kvs) fs"
  using assms by (cases v) auto

subsection \<open>Assignability\<close>

text \<open>
  A decision procedure for \<open>s\<close> being assignable to \<open>t\<close>, sound for \<^const>\<open>has_type\<close>. An optional
  property of the target has to be declared by the source type, since a structural value may carry
  undeclared properties of any type.
\<close>

fun field_type :: "field \<Rightarrow> ts" where
  "field_type (Req k t) = t"
| "field_type (Opt k t) = t"

fun required :: "field \<Rightarrow> bool" where
  "required (Req k t) = True"
| "required (Opt k t) = False"

lemma has_field_iff:
  "has_field f kvs \<longleftrightarrow>
     (case obj_get kvs (field_name f) of Some v \<Rightarrow> has_type (field_type f) v | None \<Rightarrow> \<not> required f)"
  by (cases f) (auto split: option.splits)

lemma has_type_Req:
  "has_type (TObj fs) (JObj kvs) \<Longrightarrow> Req k t \<in> set fs \<Longrightarrow> \<exists>v. obj_get kvs k = Some v \<and> has_type t v"
  by (fastforce simp: list_all_iff split: option.splits)

lemma has_type_Opt:
  "has_type (TObj fs) (JObj kvs) \<Longrightarrow> Opt k t \<in> set fs \<Longrightarrow> pred_option (has_type t) (obj_get kvs k)"
  by (fastforce simp: list_all_iff split: option.splits)

lemma has_field_put:
  "has_field f (obj_put k v kvs) \<longleftrightarrow>
     (if field_name f = k then has_type (field_type f) v else has_field f kvs)"
  by (simp add: has_field_iff obj.get_put)

lemma size_field_type: "f \<in> set fs \<Longrightarrow> size (field_type f) < Suc (size_list size fs)"
proof -
  assume "f \<in> set fs"
  then have "size f \<le> size_list size fs" by (rule size_list_estimation') simp
  moreover have "size (field_type f) < size f" by (cases f) auto
  ultimately show ?thesis by simp
qed

function assignable :: "ts \<Rightarrow> ts \<Rightarrow> bool" where
  "assignable s t \<longleftrightarrow>
     (case s of
        TUnion ss \<Rightarrow> list_all (\<lambda>u. assignable u t) ss
      | _ \<Rightarrow>
        (case t of
           TUnion us \<Rightarrow> list_ex (\<lambda>u. assignable s u) us
         | TUnknown \<Rightarrow> True
         | TStr \<Rightarrow> (case s of TStr \<Rightarrow> True | TLit _ \<Rightarrow> True | _ \<Rightarrow> False)
         | TNum \<Rightarrow> (case s of TNum \<Rightarrow> True | TNumLit _ \<Rightarrow> True | _ \<Rightarrow> False)
         | TBool \<Rightarrow> (case s of TBool \<Rightarrow> True | TBoolLit _ \<Rightarrow> True | _ \<Rightarrow> False)
         | TRec \<Rightarrow> (case s of TRec \<Rightarrow> True | TObj _ \<Rightarrow> True | _ \<Rightarrow> False)
         | TArr b \<Rightarrow> (case s of TArr a \<Rightarrow> assignable a b | _ \<Rightarrow> False)
         | TObj gs \<Rightarrow>
             (case s of
                TObj fs \<Rightarrow>
                  list_all (\<lambda>g. list_ex (\<lambda>f. field_name f = field_name g \<and>
                    (required g \<longrightarrow> required f) \<and> assignable (field_type f) (field_type g)) fs) gs
              | _ \<Rightarrow> False)
         | _ \<Rightarrow> s = t))"
  by pat_completeness auto
termination
  by (relation "measure (\<lambda>(s, t). size s + size t)")
    (auto simp: less_Suc_eq_le size_list_estimation' dest!: size_field_type)

declare assignable.simps [simp del]

lemma assignable_sound: "assignable s t \<Longrightarrow> has_type s v \<Longrightarrow> has_type t v"
proof (induction "size s + size t" arbitrary: s t v rule: less_induct)
  case less
  note a = less.prems(1) [unfolded assignable.simps [of s t]]
  have union: "list_ex (\<lambda>u. assignable s u) us \<Longrightarrow> t = TUnion us \<Longrightarrow> has_type t v" for us
    using less.hyps [of s _ v] less.prems(2) size_list_estimation' [of _ us _ size]
    by (force simp: list_ex_iff less_Suc_eq_le)
  have arr: "has_type t v" if "s = TArr x" "t = TArr y" for x y
    using a less.hyps [of x y] less.prems(2) that by (auto simp: list_all_iff split: json.splits)
  have obj: "has_type t v" if st: "s = TObj fs" "t = TObj gs" for fs gs
  proof -
    obtain kvs where v: "v = JObj kvs" and fs: "list_all (\<lambda>f. has_field f kvs) fs"
      using less.prems(2) st(1) by (cases v) auto
    have "has_field g kvs" if g: "g \<in> set gs" for g
    proof -
      obtain f where f: "f \<in> set fs" "field_name f = field_name g" "required g \<longrightarrow> required f"
          "assignable (field_type f) (field_type g)"
        using a st g by (auto simp: list_all_iff list_ex_iff)
      have "size (field_type f) + size (field_type g) < size s + size t"
        using size_field_type [OF f(1)] size_field_type [OF g] st by simp
      with f(4) have "has_type (field_type f) w \<Longrightarrow> has_type (field_type g) w" for w
        using less.hyps by blast
      with f fs show ?thesis by (auto simp: has_field_iff list_all_iff split: option.splits)
    qed
    with v st show ?thesis by (simp add: list_all_iff)
  qed
  show ?case
  proof (cases "\<exists>ss. s = TUnion ss")
    case True
    then obtain ss where s: "s = TUnion ss" by blast
    have "size u + size t < size s + size t" if "u \<in> set ss" for u
      using that s by (simp add: less_Suc_eq_le size_list_estimation')
    then have "assignable u t \<Longrightarrow> has_type u v \<Longrightarrow> has_type t v" if "u \<in> set ss" for u
      using less.hyps that by blast
    then show ?thesis
      using a less.prems(2) s by (auto simp: list_all_iff list_ex_iff)
  next
    case False
    show ?thesis
    proof (cases t)
      case (TUnion us)
      then have "list_ex (\<lambda>u. assignable s u) us" using a False by (cases s) auto
      with TUnion union show ?thesis by blast
    next
      case (TArr y)
      then obtain x where "s = TArr x" using a False by (cases s) auto
      with TArr arr show ?thesis by blast
    next
      case (TObj gs)
      then obtain fs where "s = TObj fs" using a False by (cases s) auto
      with TObj obj show ?thesis by blast
    qed (use a False less.prems(2) in \<open>cases s; auto split: json.splits\<close>)+
  qed
qed

end
