(* ===== verification/ApiContract.thy ===== *)
theory ApiContract
  imports TsTypes
begin

text \<open>
  The REST contract of the daemon as \<open>web/src/lib/openapi/types.gen.ts\<close> has it: the documents as
  types, and per endpoint its URL template, its path and query parameters, its body, and the types
  of its error and success responses by status.
\<close>

subsection \<open>Documents\<close>

definition Uuid :: ts where
  "Uuid = TStr"

definition IpAddress :: ts where
  "IpAddress = TStr"

definition InterfaceName :: ts where
  "InterfaceName = TStr"

definition ProviderId :: ts where
  "ProviderId = lits [''ookla'', ''librespeed'', ''cloudflare'']"

definition IpFamily :: ts where
  "IpFamily = lits [''auto'', ''ipv4'', ''ipv6'']"

definition ResultStatus :: ts where
  "ResultStatus =
     lits [''queued'', ''validating'', ''running'', ''succeeded'', ''failed'', ''skipped'',
            ''cancelled'']"

definition TriggerType :: ts where
  "TriggerType = lits [''scheduled'', ''manual'']"

definition ErrorEnvelope :: ts where
  "ErrorEnvelope =
     TObj [Req ''error'' (TObj [Req ''code'' TStr, Req ''message'' TStr, Req ''requestId'' TStr])]"

definition Health :: ts where
  "Health =
     TObj [Req ''status'' (TLit ''ok''), Req ''version'' TStr, Req ''uptimeSeconds'' TNum]"

definition Readiness :: ts where
  "Readiness = TObj [Req ''status'' (TLit ''ready'')]"

definition TaskFields :: ts where
  "TaskFields =
     TObj [Req ''name'' TStr, Opt ''description'' TStr, Req ''enabled'' TBool,
      Req ''provider'' ProviderId, Opt ''cronExpression'' TStr, Opt ''timezone'' TStr,
      Opt ''randomJitterSeconds'' TNum,
      Opt ''serverSelectionMode'' (lits [''automatic'', ''fixed'', ''custom'']),
      Opt ''serverId'' TStr, Opt ''serverUrl'' TStr, Opt ''customServerDefinition'' TRec,
      Req ''interfaceName'' InterfaceName, Req ''sourceIp'' IpAddress,
      Opt ''ipFamily'' IpFamily, Opt ''routeProfileId'' (TUnion [Uuid, TNull]),
      Opt ''timeoutSeconds'' TNum, Opt ''providerOptions'' TRec, Opt ''preventOverlap'' TBool,
      Opt ''routeValidation'' (lits [''required'', ''interface-only''])]"

definition TaskInput :: ts where
  "TaskInput = TaskFields"

definition Task :: ts where
  "Task =
     ts_inter TaskFields (TObj [Req ''id'' Uuid, Req ''createdAt'' TStr, Req ''updatedAt'' TStr,
      Req ''lastScheduledAt'' (TUnion [TStr, TNull]),
      Req ''nextScheduledAt'' (TUnion [TStr, TNull]), Req ''networkPathValid'' TBool,
      Req ''networkPathMessage'' TStr])"

definition NextRuns :: ts where
  "NextRuns =
     TObj [Req ''taskId'' Uuid, Req ''cronExpression'' TStr, Req ''timezone'' TStr,
      Req ''nextRuns'' (TTuple [TStr, TStr, TStr, TStr, TStr])]"

definition ResultFields :: ts where
  "ResultFields =
     TObj [Req ''id'' Uuid, Req ''taskId'' Uuid, Req ''routeProfileId'' (TUnion [Uuid, TNull]),
      Req ''trigger'' TriggerType, Req ''provider'' ProviderId, Req ''queuedAt'' TStr,
      Req ''scheduledAt'' (TUnion [TStr, TNull]), Req ''startedAt'' (TUnion [TStr, TNull]),
      Req ''finishedAt'' (TUnion [TStr, TNull]), Req ''status'' ResultStatus,
      Opt ''downloadBitsPerSecond'' (TUnion [TNum, TNull]),
      Opt ''uploadBitsPerSecond'' (TUnion [TNum, TNull]),
      Opt ''latencyMilliseconds'' (TUnion [TNum, TNull]),
      Opt ''jitterMilliseconds'' (TUnion [TNum, TNull]),
      Opt ''packetLossPercent'' (TUnion [TNum, TNull]),
      Opt ''downloadBytes'' (TUnion [TNum, TNull]), Opt ''uploadBytes'' (TUnion [TNum, TNull]),
      Req ''selectedInterface'' InterfaceName, Req ''selectedSourceIp'' IpAddress,
      Req ''detectedPublicIp'' TStr, Req ''serverId'' TStr, Req ''serverName'' TStr,
      Req ''serverHost'' TStr, Req ''serverSponsor'' TStr, Req ''serverLocation'' TStr,
      Req ''serverCountry'' TStr, Req ''providerResultUrl'' TStr, Req ''cloudflareColo'' TStr,
      Req ''executionDurationMs'' TNum, Opt ''processExitCode'' (TUnion [TNum, TNull]),
      Req ''sanitizedError'' TStr, Req ''providerVersion'' TStr,
      Req ''applicationVersion'' TStr, Req ''tlsVerificationDisabled'' TBool]"

definition ResultSummary :: ts where
  "ResultSummary = ResultFields"

definition Result :: ts where
  "Result =
     ts_inter ResultFields (TObj [Req ''routeValidationSnapshot'' TRec, Req ''rawProviderResponse'' TStr])"

definition ResultPage :: ts where
  "ResultPage =
     TObj [Req ''items'' (TArr ResultSummary), Req ''page'' TNum, Req ''pageSize'' TNum,
      Req ''totalItems'' TNum, Req ''totalPages'' TNum]"

definition DashboardTaskResult :: ts where
  "DashboardTaskResult =
     TObj [Req ''taskId'' Uuid, Req ''taskName'' TStr, Req ''enabled'' TBool,
      Req ''interfaceName'' InterfaceName, Req ''sourceIp'' IpAddress,
      Req ''latestResult'' (TUnion [ResultSummary, TNull])]"

definition DashboardPathResult :: ts where
  "DashboardPathResult =
     TObj [Req ''interfaceName'' InterfaceName, Req ''sourceIp'' IpAddress,
      Req ''taskIds'' (TArr Uuid), Req ''latestResult'' (TUnion [ResultSummary, TNull])]"

definition DashboardResultSummary :: ts where
  "DashboardResultSummary =
     TObj [Req ''latestByTask'' (TArr DashboardTaskResult),
      Req ''latestByPath'' (TArr DashboardPathResult), Req ''activeRuns'' (TArr ResultSummary),
      Req ''recentFailures'' (TArr ResultSummary), Req ''failedTaskCount'' TNum]"

definition InterfaceAddress :: ts where
  "InterfaceAddress =
     TObj [Req ''address'' IpAddress, Req ''family'' (lits [''ipv4'', ''ipv6'']),
      Req ''linkLocal'' TBool]"

definition NetworkInterface :: ts where
  "NetworkInterface =
     TObj [Req ''name'' InterfaceName, Req ''index'' TNum, Req ''operational'' TBool,
      Req ''operationalState'' TStr, Req ''loopback'' TBool, Req ''virtual'' TBool,
      Req ''macAddress'' TStr, Req ''mtu'' TNum, Req ''addresses'' (TArr InterfaceAddress)]"

definition InterfaceSnapshot :: ts where
  "InterfaceSnapshot =
     TObj [Req ''items'' (TArr NetworkInterface), Opt ''interfaces'' (TArr NetworkInterface),
      Req ''refreshedAt'' TStr]"

definition RouteProfileFields :: ts where
  "RouteProfileFields =
     TObj [Req ''name'' TStr, Opt ''description'' TStr, Req ''interfaceName'' InterfaceName,
      Req ''sourceIp'' IpAddress, Opt ''expectedGateway'' TStr,
      Opt ''expectedRoutingTable'' TStr, Opt ''validationTarget'' TStr, Opt ''notes'' TStr]"

definition RouteProfileInput :: ts where
  "RouteProfileInput = RouteProfileFields"

definition RouteProfile :: ts where
  "RouteProfile =
     ts_inter RouteProfileFields (TObj [Req ''id'' Uuid, Req ''createdAt'' TStr, Req ''updatedAt'' TStr,
      Req ''lastValidationAt'' (TUnion [TStr, TNull]),
      Req ''lastValidationSucceeded'' (TUnion [TBool, TNull]),
      Req ''lastValidationSnapshot'' TRec])"

definition RouteValidation :: ts where
  "RouteValidation =
     TObj [Req ''success'' TBool, Req ''interfaceName'' TStr, Req ''sourceIp'' TStr,
      Req ''gateway'' TStr, Req ''routingTable'' TStr, Req ''destination'' TStr,
      Req ''detectedPublicIp'' TStr, Req ''reachable'' TBool, Req ''durationMs'' TNum,
      Req ''validatedAt'' TStr, Req ''message'' TStr]"

definition ProviderCapabilities :: ts where
  "ProviderCapabilities =
     TObj [Req ''serverDiscovery'' TBool, Req ''fixedServerIds'' TBool,
      Req ''customServerUrls'' TBool, Req ''interfaceBinding'' TBool,
      Req ''sourceAddressBinding'' TBool, Req ''ipv4'' TBool, Req ''ipv6'' TBool,
      Req ''jitter'' TBool, Req ''packetLoss'' TBool, Req ''resultUrls'' TBool]"

definition ProviderDescriptor :: ts where
  "ProviderDescriptor =
     TObj [Req ''id'' ProviderId, Req ''displayName'' TStr,
      Req ''capabilities'' ProviderCapabilities, Req ''available'' TBool, Req ''version'' TStr,
      Req ''message'' TStr]"

definition OoklaBinaryStatus :: ts where
  "OoklaBinaryStatus =
     TObj [Req ''uploadEnabled'' TBool, Req ''installed'' TBool, Req ''maxUploadBytes'' TNum,
      Req ''message'' TStr]"

definition OoklaBinaryInstallResult :: ts where
  "OoklaBinaryInstallResult =
     TObj [Req ''uploadEnabled'' TBool, Req ''installed'' (TBoolLit True),
      Req ''maxUploadBytes'' TNum, Req ''message'' TStr, Req ''version'' TStr,
      Req ''sha256'' TStr]"

definition ProviderServer :: ts where
  "ProviderServer =
     TObj [Req ''id'' TStr, Req ''name'' TStr, Req ''host'' TStr, Req ''sponsor'' TStr,
      Req ''location'' TStr, Req ''country'' TStr, Opt ''distanceKilometers'' TNum,
      Opt ''url'' TStr]"

definition TestTarget :: ts where
  "TestTarget =
     TObj [Req ''selectionMode'' (lits [''automatic'', ''fixed'', ''custom'']),
      Opt ''serverId'' TStr, Opt ''serverUrl'' TStr, Opt ''customServerDefinition'' TRec]"

definition ProviderServerValidation :: ts where
  "ProviderServerValidation =
     TObj [Req ''selectionMode'' (lits [''automatic'', ''fixed'', ''custom'']),
      Opt ''serverId'' TStr, Opt ''serverUrl'' TStr, Opt ''customServerDefinition'' TRec,
      Opt ''providerOptions'' TRec, Req ''interfaceName'' InterfaceName,
      Req ''sourceIp'' IpAddress, Opt ''ipFamily'' IpFamily]"

definition Settings :: ts where
  "Settings =
     TObj [Req ''displayUnits'' (lits [''bits'', ''bytes'']), Req ''defaultTimezone'' TStr,
      Req ''globalConcurrency'' TNum, Req ''allowSeparateWanConcurrency'' TBool,
      Req ''retentionMode'' (lits [''forever'', ''days'', ''months'']),
      Req ''retentionValue'' TNum,
      Req ''defaultChartRange'' (lits [''24h'', ''7d'', ''30d'', ''90d'']),
      Req ''interfaceRefreshIntervalSeconds'' TNum, Req ''defaultTaskTimeoutSeconds'' TNum,
      Req ''databaseMaintenanceSchedule'' TStr, Opt ''ooklaEulaAccepted'' TBool,
      Opt ''ooklaEulaAcceptedAt'' (TUnion [TStr, TNull]), Opt ''ooklaEulaVersion'' TStr,
      Opt ''ooklaEulaCurrentVersion'' TStr, Opt ''ooklaEulaEffectiveAccepted'' TBool,
      Opt ''ooklaEulaAcceptanceSource'' (lits [''none'', ''persisted'', ''environment''])]"

definition OoklaEulaAcceptanceRequest :: ts where
  "OoklaEulaAcceptanceRequest = TObj [Req ''accepted'' TBool, Req ''confirmed'' TBool]"

definition ConfigurationSettings :: ts where
  "ConfigurationSettings =
     TObj [Req ''displayUnits'' (lits [''bits'', ''bytes'']), Req ''defaultTimezone'' TStr,
      Req ''globalConcurrency'' TNum, Req ''allowSeparateWanConcurrency'' TBool,
      Req ''retentionMode'' (lits [''forever'', ''days'', ''months'']),
      Req ''retentionValue'' TNum,
      Req ''defaultChartRange'' (lits [''24h'', ''7d'', ''30d'', ''90d'']),
      Req ''interfaceRefreshIntervalSeconds'' TNum, Req ''defaultTaskTimeoutSeconds'' TNum,
      Req ''databaseMaintenanceSchedule'' TStr]"

definition ConfigurationRouteProfile :: ts where
  "ConfigurationRouteProfile = ts_inter RouteProfileFields (TObj [Req ''id'' Uuid])"

definition ConfigurationTask :: ts where
  "ConfigurationTask = ts_inter TaskFields (TObj [Req ''id'' Uuid])"

definition ConfigurationDocument :: ts where
  "ConfigurationDocument =
     TObj [Req ''format'' (TLit ''multispeed-config''), Req ''version'' (TNumLit 1),
      Req ''exportedAt'' TStr, Req ''applicationVersion'' TStr,
      Req ''settings'' ConfigurationSettings,
      Req ''routeProfiles'' (TArr ConfigurationRouteProfile),
      Req ''tasks'' (TArr ConfigurationTask)]"

definition ConfigurationImportResult :: ts where
  "ConfigurationImportResult =
     TObj [Req ''importedAt'' TStr, Req ''taskCount'' TNum, Req ''routeProfileCount'' TNum,
      Req ''settingsUpdated'' TBool]"

definition RetentionMetrics :: ts where
  "RetentionMetrics =
     TObj [Req ''mode'' (lits [''forever'', ''days'', ''months'', ''manual'']), Opt ''cutoff'' TStr,
      Req ''startedAt'' TStr, Req ''finishedAt'' TStr, Req ''duration'' TNum,
      Req ''batches'' TNum, Req ''deletedResults'' TNum, Req ''limitReached'' TBool,
      Req ''maintenancePerformed'' TBool]"

definition StatisticsGranularity :: ts where
  "StatisticsGranularity =
     lits [''raw'', ''day'', ''iso-week'', ''month'', ''year'', ''custom'']"

definition StatisticsDimension :: ts where
  "StatisticsDimension =
     lits ['''', ''task'', ''interface'', ''source-ip'', ''provider'', ''server'',
            ''route-profile'', ''public-ip'']"

definition MetricSummary :: ts where
  "MetricSummary =
     TObj [Req ''count'' TNum, Req ''minimum'' (TUnion [TNum, TNull]),
      Req ''maximum'' (TUnion [TNum, TNull]), Req ''average'' (TUnion [TNum, TNull]),
      Req ''median'' (TUnion [TNum, TNull]), Req ''p95'' (TUnion [TNum, TNull]),
      Req ''standardDeviation'' (TUnion [TNum, TNull])]"

definition StatisticsMetrics :: ts where
  "StatisticsMetrics =
     TObj [Req ''downloadBitsPerSecond'' MetricSummary, Req ''uploadBitsPerSecond'' MetricSummary,
      Req ''latencyMilliseconds'' MetricSummary, Req ''jitterMilliseconds'' MetricSummary,
      Req ''packetLossPercent'' MetricSummary,
      Req ''executionDurationMilliseconds'' MetricSummary]"

definition StatisticsCounts :: ts where
  "StatisticsCounts =
     TObj [Req ''total'' TNum, Req ''successful'' TNum, Req ''failed'' TNum, Req ''skipped'' TNum,
      Req ''cancelled'' TNum, Req ''other'' TNum]"

definition StatisticsBucket :: ts where
  "StatisticsBucket =
     TObj [Req ''start'' TStr, Req ''end'' TStr, Req ''label'' TStr, Opt ''resultId'' TStr,
      Req ''counts'' StatisticsCounts, Req ''successRatePercent'' (TUnion [TNum, TNull]),
      Req ''failureRatePercent'' (TUnion [TNum, TNull]), Req ''metrics'' StatisticsMetrics]"

definition StatisticsGroup :: ts where
  "StatisticsGroup =
     TObj [Req ''key'' TStr, Req ''label'' TStr, Req ''overall'' StatisticsBucket,
      Req ''buckets'' (TArr StatisticsBucket)]"

definition StatisticsReport :: ts where
  "StatisticsReport =
     TObj [Req ''from'' TStr, Req ''to'' TStr, Req ''granularity'' StatisticsGranularity,
      Req ''reportingTimezone'' TStr, Opt ''groupBy'' StatisticsDimension,
      Req ''totalResults'' TNum, Req ''overall'' StatisticsBucket,
      Req ''groups'' (TArr StatisticsGroup)]"

definition SystemInformation :: ts where
  "SystemInformation =
     TObj [Req ''product'' (TLit ''MultiSpeed''), Req ''version'' TStr, Req ''gitCommit'' TStr,
      Req ''buildTime'' TStr, Req ''buildDate'' TStr, Req ''goVersion'' TStr,
      Req ''operatingSystem'' (TLit ''linux''), Req ''architecture'' (TLit ''amd64''),
      Req ''hostname'' TStr, Req ''databasePath'' TStr, Req ''databaseSizeBytes'' TNum,
      Req ''schemaVersion'' TNum, Req ''providers'' (TArr ProviderDescriptor),
      Req ''interfaces'' (TArr NetworkInterface), Req ''interfacesRefreshedAt'' TStr,
      Req ''taskCount'' TNum, Req ''resultCount'' TNum, Req ''runningTaskCount'' TNum,
      Req ''uptimeSeconds'' TNum, Req ''authenticationEnabled'' (TBoolLit False),
      Req ''internetExposureWarning'' TStr]"

definition SettingsWritable :: ts where
  "SettingsWritable =
     TObj [Req ''displayUnits'' (lits [''bits'', ''bytes'']), Req ''defaultTimezone'' TStr,
      Req ''globalConcurrency'' TNum, Req ''allowSeparateWanConcurrency'' TBool,
      Req ''retentionMode'' (lits [''forever'', ''days'', ''months'']),
      Req ''retentionValue'' TNum,
      Req ''defaultChartRange'' (lits [''24h'', ''7d'', ''30d'', ''90d'']),
      Req ''interfaceRefreshIntervalSeconds'' TNum, Req ''defaultTaskTimeoutSeconds'' TNum,
      Req ''databaseMaintenanceSchedule'' TStr]"

subsection \<open>Endpoints\<close>

datatype body_spec = NoBody | Body ts | OptBody ts

record contract =
  c_url :: string
  c_path :: "field list"
  c_query :: "field list"
  c_body :: body_spec
  c_errors :: "(nat \<times> ts) list"
  c_responses :: "(nat \<times> ts) list"

definition envelopes :: "nat list \<Rightarrow> (nat \<times> ts) list" where
  "envelopes = map (\<lambda>n. (n, ErrorEnvelope))"

definition getHealth_contract :: contract where
  "getHealth_contract =
     \<lparr>c_url = ''/healthz'',
      c_path = [],
      c_query = [],
      c_body = NoBody,
      c_errors = [],
      c_responses = [(200, Health)]\<rparr>"

definition getReadiness_contract :: contract where
  "getReadiness_contract =
     \<lparr>c_url = ''/readyz'',
      c_path = [],
      c_query = [],
      c_body = NoBody,
      c_errors = envelopes [503],
      c_responses = [(200, Readiness)]\<rparr>"

definition listTasks_contract :: contract where
  "listTasks_contract =
     \<lparr>c_url = ''/tasks'',
      c_path = [],
      c_query = [],
      c_body = NoBody,
      c_errors = envelopes [500],
      c_responses = [(200, TArr Task)]\<rparr>"

definition createTask_contract :: contract where
  "createTask_contract =
     \<lparr>c_url = ''/tasks'',
      c_path = [],
      c_query = [],
      c_body = Body TaskInput,
      c_errors = envelopes [400, 415, 422, 500],
      c_responses = [(201, Task)]\<rparr>"

definition validateTransientTask_contract :: contract where
  "validateTransientTask_contract =
     \<lparr>c_url = ''/tasks/validate'',
      c_path = [],
      c_query = [],
      c_body = Body TaskInput,
      c_errors = [(400, ErrorEnvelope), (415, ErrorEnvelope),
                  (422, TUnion [ErrorEnvelope, RouteValidation]), (500, ErrorEnvelope)],
      c_responses = [(200, RouteValidation)]\<rparr>"

definition deleteTask_contract :: contract where
  "deleteTask_contract =
     \<lparr>c_url = ''/tasks/{id}'',
      c_path = [Req ''id'' Uuid],
      c_query = [],
      c_body = NoBody,
      c_errors = envelopes [404, 409, 500],
      c_responses = [(204, TVoid)]\<rparr>"

definition getTask_contract :: contract where
  "getTask_contract =
     \<lparr>c_url = ''/tasks/{id}'',
      c_path = [Req ''id'' Uuid],
      c_query = [],
      c_body = NoBody,
      c_errors = envelopes [404, 500],
      c_responses = [(200, Task)]\<rparr>"

definition updateTask_contract :: contract where
  "updateTask_contract =
     \<lparr>c_url = ''/tasks/{id}'',
      c_path = [Req ''id'' Uuid],
      c_query = [],
      c_body = Body TaskInput,
      c_errors = envelopes [400, 404, 415, 422, 500],
      c_responses = [(200, Task)]\<rparr>"

definition runTask_contract :: contract where
  "runTask_contract =
     \<lparr>c_url = ''/tasks/{id}/run'',
      c_path = [Req ''id'' Uuid],
      c_query = [],
      c_body = NoBody,
      c_errors = envelopes [404, 409, 429],
      c_responses = [(202, Result)]\<rparr>"

definition validateTask_contract :: contract where
  "validateTask_contract =
     \<lparr>c_url = ''/tasks/{id}/validate'',
      c_path = [Req ''id'' Uuid],
      c_query = [],
      c_body = NoBody,
      c_errors = [(404, ErrorEnvelope), (422, TUnion [ErrorEnvelope, RouteValidation])],
      c_responses = [(200, RouteValidation)]\<rparr>"

definition duplicateTask_contract :: contract where
  "duplicateTask_contract =
     \<lparr>c_url = ''/tasks/{id}/duplicate'',
      c_path = [Req ''id'' Uuid],
      c_query = [],
      c_body = NoBody,
      c_errors = envelopes [404, 500],
      c_responses = [(201, Task)]\<rparr>"

definition getTaskNextRuns_contract :: contract where
  "getTaskNextRuns_contract =
     \<lparr>c_url = ''/tasks/{id}/next-runs'',
      c_path = [Req ''id'' Uuid],
      c_query = [],
      c_body = NoBody,
      c_errors = envelopes [404, 422],
      c_responses = [(200, NextRuns)]\<rparr>"

definition listResults_contract :: contract where
  "listResults_contract =
     \<lparr>c_url = ''/results'',
      c_path = [],
      c_query = [Opt ''page'' TNum, Opt ''pageSize'' TNum, Opt ''taskId'' Uuid,
                 Opt ''provider'' ProviderId, Opt ''status'' ResultStatus,
                 Opt ''interface'' InterfaceName, Opt ''sourceIp'' IpAddress,
                 Opt ''serverId'' TStr, Opt ''from'' TStr, Opt ''to'' TStr,
                 Opt ''sort'' (lits [''startedAt'', ''finishedAt'', ''download'', ''upload'', ''latency'']),
                 Opt ''direction'' (lits [''asc'', ''desc''])],
      c_body = NoBody,
      c_errors = envelopes [400, 500],
      c_responses = [(200, ResultPage)]\<rparr>"

definition getDashboardResultSummary_contract :: contract where
  "getDashboardResultSummary_contract =
     \<lparr>c_url = ''/results/dashboard-summary'',
      c_path = [],
      c_query = [],
      c_body = NoBody,
      c_errors = envelopes [500],
      c_responses = [(200, DashboardResultSummary)]\<rparr>"

definition deleteResult_contract :: contract where
  "deleteResult_contract =
     \<lparr>c_url = ''/results/{id}'',
      c_path = [Req ''id'' Uuid],
      c_query = [],
      c_body = NoBody,
      c_errors = envelopes [404, 500],
      c_responses = [(204, TVoid)]\<rparr>"

definition getResult_contract :: contract where
  "getResult_contract =
     \<lparr>c_url = ''/results/{id}'',
      c_path = [Req ''id'' Uuid],
      c_query = [],
      c_body = NoBody,
      c_errors = envelopes [404, 500],
      c_responses = [(200, Result)]\<rparr>"

definition deleteResultsBatch_contract :: contract where
  "deleteResultsBatch_contract =
     \<lparr>c_url = ''/results/delete-batch'',
      c_path = [],
      c_query = [],
      c_body = Body (TObj [Req ''ids'' (TArr Uuid)]),
      c_errors = envelopes [400, 415],
      c_responses = [(200, TObj [Req ''deleted'' TNum])]\<rparr>"

definition getStatistics_contract :: contract where
  "getStatistics_contract =
     \<lparr>c_url = ''/statistics'',
      c_path = [],
      c_query = [Opt ''from'' TStr, Opt ''to'' TStr, Opt ''granularity'' StatisticsGranularity,
                 Opt ''timezone'' TStr, Opt ''groupBy'' StatisticsDimension,
                 Opt ''taskId'' (TArr Uuid), Opt ''provider'' (TArr ProviderId),
                 Opt ''interface'' (TArr InterfaceName), Opt ''sourceIp'' (TArr IpAddress),
                 Opt ''serverId'' (TArr TStr), Opt ''routeProfileId'' (TArr Uuid),
                 Opt ''publicIp'' (TArr IpAddress)],
      c_body = NoBody,
      c_errors = envelopes [400, 413, 500],
      c_responses = [(200, StatisticsReport)]\<rparr>"

definition listInterfaces_contract :: contract where
  "listInterfaces_contract =
     \<lparr>c_url = ''/interfaces'',
      c_path = [],
      c_query = [Opt ''includeLoopback'' TBool, Opt ''includeDown'' TBool,
                 Opt ''includeVirtual'' TBool],
      c_body = NoBody,
      c_errors = envelopes [400],
      c_responses = [(200, InterfaceSnapshot)]\<rparr>"

definition refreshInterfaces_contract :: contract where
  "refreshInterfaces_contract =
     \<lparr>c_url = ''/interfaces/refresh'',
      c_path = [],
      c_query = [],
      c_body = NoBody,
      c_errors = envelopes [500],
      c_responses = [(200, InterfaceSnapshot)]\<rparr>"

definition listRouteProfiles_contract :: contract where
  "listRouteProfiles_contract =
     \<lparr>c_url = ''/route-profiles'',
      c_path = [],
      c_query = [],
      c_body = NoBody,
      c_errors = envelopes [500],
      c_responses = [(200, TArr RouteProfile)]\<rparr>"

definition createRouteProfile_contract :: contract where
  "createRouteProfile_contract =
     \<lparr>c_url = ''/route-profiles'',
      c_path = [],
      c_query = [],
      c_body = Body RouteProfileInput,
      c_errors = envelopes [400, 415, 422],
      c_responses = [(201, RouteProfile)]\<rparr>"

definition deleteRouteProfile_contract :: contract where
  "deleteRouteProfile_contract =
     \<lparr>c_url = ''/route-profiles/{id}'',
      c_path = [Req ''id'' Uuid],
      c_query = [],
      c_body = NoBody,
      c_errors = envelopes [404, 409],
      c_responses = [(204, TVoid)]\<rparr>"

definition getRouteProfile_contract :: contract where
  "getRouteProfile_contract =
     \<lparr>c_url = ''/route-profiles/{id}'',
      c_path = [Req ''id'' Uuid],
      c_query = [],
      c_body = NoBody,
      c_errors = envelopes [404],
      c_responses = [(200, RouteProfile)]\<rparr>"

definition updateRouteProfile_contract :: contract where
  "updateRouteProfile_contract =
     \<lparr>c_url = ''/route-profiles/{id}'',
      c_path = [Req ''id'' Uuid],
      c_query = [],
      c_body = Body RouteProfileInput,
      c_errors = envelopes [400, 404, 415, 422],
      c_responses = [(200, RouteProfile)]\<rparr>"

definition validateRouteProfile_contract :: contract where
  "validateRouteProfile_contract =
     \<lparr>c_url = ''/route-profiles/{id}/validate'',
      c_path = [Req ''id'' Uuid],
      c_query = [],
      c_body = NoBody,
      c_errors = [(404, ErrorEnvelope), (422, RouteValidation)],
      c_responses = [(200, RouteValidation)]\<rparr>"

definition listProviders_contract :: contract where
  "listProviders_contract =
     \<lparr>c_url = ''/providers'',
      c_path = [],
      c_query = [],
      c_body = NoBody,
      c_errors = [],
      c_responses = [(200, TArr ProviderDescriptor)]\<rparr>"

definition getOoklaBinaryStatus_contract :: contract where
  "getOoklaBinaryStatus_contract =
     \<lparr>c_url = ''/providers/ookla/binary'',
      c_path = [],
      c_query = [],
      c_body = NoBody,
      c_errors = [],
      c_responses = [(200, OoklaBinaryStatus)]\<rparr>"

definition uploadOoklaBinary_contract :: contract where
  "uploadOoklaBinary_contract =
     \<lparr>c_url = ''/providers/ookla/binary'',
      c_path = [],
      c_query = [],
      c_body = Body TBlob,
      c_errors = envelopes [403, 409, 413, 415, 422, 429, 500],
      c_responses = [(201, OoklaBinaryInstallResult)]\<rparr>"

definition listProviderServers_contract :: contract where
  "listProviderServers_contract =
     \<lparr>c_url = ''/providers/{provider}/servers'',
      c_path = [Req ''provider'' ProviderId],
      c_query = [Req ''interface'' InterfaceName, Req ''sourceIp'' IpAddress,
                 Opt ''ipFamily'' IpFamily, Opt ''search'' TStr, Opt ''limit'' TNum],
      c_body = NoBody,
      c_errors = envelopes [404, 422, 429, 502],
      c_responses = [(200, TArr ProviderServer)]\<rparr>"

definition validateProviderServer_contract :: contract where
  "validateProviderServer_contract =
     \<lparr>c_url = ''/providers/{provider}/validate-server'',
      c_path = [Req ''provider'' ProviderId],
      c_query = [],
      c_body = Body ProviderServerValidation,
      c_errors = envelopes [400, 404, 415, 422, 429],
      c_responses = [(200, TObj [Req ''valid'' (TBoolLit True), Req ''success'' (TBoolLit True),
               Req ''message'' TStr, Req ''provider'' ProviderId, Req ''target'' TestTarget])]\<rparr>"

definition getSettings_contract :: contract where
  "getSettings_contract =
     \<lparr>c_url = ''/settings'',
      c_path = [],
      c_query = [],
      c_body = NoBody,
      c_errors = envelopes [500],
      c_responses = [(200, Settings)]\<rparr>"

definition updateSettings_contract :: contract where
  "updateSettings_contract =
     \<lparr>c_url = ''/settings'',
      c_path = [],
      c_query = [],
      c_body = Body SettingsWritable,
      c_errors = envelopes [400, 415, 422],
      c_responses = [(200, Settings)]\<rparr>"

definition updateOoklaEulaAcceptance_contract :: contract where
  "updateOoklaEulaAcceptance_contract =
     \<lparr>c_url = ''/settings/ookla-eula'',
      c_path = [],
      c_query = [],
      c_body = Body OoklaEulaAcceptanceRequest,
      c_errors = envelopes [400, 415, 422, 500],
      c_responses = [(200, Settings)]\<rparr>"

definition cleanupResults_contract :: contract where
  "cleanupResults_contract =
     \<lparr>c_url = ''/retention/cleanup'',
      c_path = [],
      c_query = [],
      c_body = OptBody (TObj [Opt ''before'' TStr]),
      c_errors = envelopes [400, 415, 422, 500],
      c_responses = [(200, RetentionMetrics)]\<rparr>"

definition exportResultsCsv_contract :: contract where
  "exportResultsCsv_contract =
     \<lparr>c_url = ''/exports/results.csv'',
      c_path = [],
      c_query = [Opt ''taskId'' Uuid, Opt ''provider'' ProviderId, Opt ''status'' ResultStatus,
                 Opt ''interface'' InterfaceName, Opt ''sourceIp'' IpAddress,
                 Opt ''serverId'' TStr, Opt ''from'' TStr, Opt ''to'' TStr,
                 Opt ''sort'' (lits [''startedAt'', ''finishedAt'', ''download'', ''upload'', ''latency'']),
                 Opt ''direction'' (lits [''asc'', ''desc''])],
      c_body = NoBody,
      c_errors = envelopes [400],
      c_responses = [(200, TStr)]\<rparr>"

definition exportResultsJson_contract :: contract where
  "exportResultsJson_contract =
     \<lparr>c_url = ''/exports/results.json'',
      c_path = [],
      c_query = [Opt ''taskId'' Uuid, Opt ''provider'' ProviderId, Opt ''status'' ResultStatus,
                 Opt ''interface'' InterfaceName, Opt ''sourceIp'' IpAddress,
                 Opt ''serverId'' TStr, Opt ''from'' TStr, Opt ''to'' TStr,
                 Opt ''sort'' (lits [''startedAt'', ''finishedAt'', ''download'', ''upload'', ''latency'']),
                 Opt ''direction'' (lits [''asc'', ''desc''])],
      c_body = NoBody,
      c_errors = envelopes [400],
      c_responses = [(200, TArr Result)]\<rparr>"

definition exportConfiguration_contract :: contract where
  "exportConfiguration_contract =
     \<lparr>c_url = ''/config/export'',
      c_path = [],
      c_query = [],
      c_body = NoBody,
      c_errors = envelopes [500],
      c_responses = [(200, ConfigurationDocument)]\<rparr>"

definition importConfiguration_contract :: contract where
  "importConfiguration_contract =
     \<lparr>c_url = ''/config/import'',
      c_path = [],
      c_query = [],
      c_body = Body ConfigurationDocument,
      c_errors = envelopes [400, 409, 415, 422, 500],
      c_responses = [(200, ConfigurationImportResult)]\<rparr>"

definition createBackup_contract :: contract where
  "createBackup_contract =
     \<lparr>c_url = ''/backup'',
      c_path = [],
      c_query = [],
      c_body = NoBody,
      c_errors = envelopes [500],
      c_responses = [(200, TBlob)]\<rparr>"

definition streamEvents_contract :: contract where
  "streamEvents_contract =
     \<lparr>c_url = ''/events'',
      c_path = [],
      c_query = [],
      c_body = NoBody,
      c_errors = envelopes [500, 503],
      c_responses = [(200, TStr)]\<rparr>"

definition getSystemInformation_contract :: contract where
  "getSystemInformation_contract =
     \<lparr>c_url = ''/system'',
      c_path = [],
      c_query = [],
      c_body = NoBody,
      c_errors = envelopes [500],
      c_responses = [(200, SystemInformation)]\<rparr>"

definition api_contracts :: "contract list" where
  "api_contracts =
     [getHealth_contract, getReadiness_contract, listTasks_contract, createTask_contract,
      validateTransientTask_contract, deleteTask_contract, getTask_contract,
      updateTask_contract, runTask_contract, validateTask_contract,
      duplicateTask_contract, getTaskNextRuns_contract, listResults_contract,
      getDashboardResultSummary_contract, deleteResult_contract, getResult_contract,
      deleteResultsBatch_contract, getStatistics_contract, listInterfaces_contract,
      refreshInterfaces_contract, listRouteProfiles_contract, createRouteProfile_contract,
      deleteRouteProfile_contract, getRouteProfile_contract, updateRouteProfile_contract,
      validateRouteProfile_contract, listProviders_contract,
      getOoklaBinaryStatus_contract, uploadOoklaBinary_contract,
      listProviderServers_contract, validateProviderServer_contract, getSettings_contract,
      updateSettings_contract, updateOoklaEulaAcceptance_contract,
      cleanupResults_contract, exportResultsCsv_contract, exportResultsJson_contract,
      exportConfiguration_contract, importConfiguration_contract, createBackup_contract,
      streamEvents_contract, getSystemInformation_contract]"

lemmas contract_defs = getHealth_contract_def getReadiness_contract_def listTasks_contract_def
  createTask_contract_def validateTransientTask_contract_def deleteTask_contract_def
  getTask_contract_def updateTask_contract_def runTask_contract_def
  validateTask_contract_def duplicateTask_contract_def getTaskNextRuns_contract_def
  listResults_contract_def getDashboardResultSummary_contract_def
  deleteResult_contract_def getResult_contract_def deleteResultsBatch_contract_def
  getStatistics_contract_def listInterfaces_contract_def refreshInterfaces_contract_def
  listRouteProfiles_contract_def createRouteProfile_contract_def
  deleteRouteProfile_contract_def getRouteProfile_contract_def
  updateRouteProfile_contract_def validateRouteProfile_contract_def
  listProviders_contract_def getOoklaBinaryStatus_contract_def
  uploadOoklaBinary_contract_def listProviderServers_contract_def
  validateProviderServer_contract_def getSettings_contract_def updateSettings_contract_def
  updateOoklaEulaAcceptance_contract_def cleanupResults_contract_def
  exportResultsCsv_contract_def exportResultsJson_contract_def
  exportConfiguration_contract_def importConfiguration_contract_def
  createBackup_contract_def streamEvents_contract_def getSystemInformation_contract_def

end
