(* ===== verification/Types.thy ===== *)
theory Types
  imports ApiContract
begin

text \<open>
  The view types of \<open>web/src/lib/types.ts\<close>. Types derived from the contract are built with the same
  type operators as in the source; they carry the prefix \<open>ui_\<close> because the contract uses the same
  names. The types the pages compute with (statistics) are records.
\<close>

definition ThemeMode :: ts where
  "ThemeMode = lits [''light'', ''dark'', ''system'']"

definition ui_Task :: ts where
  "ui_Task =
     ts_inter (ts_required (ts_omit Task [''networkPathValid'', ''networkPathMessage'']))
       (ts_partial (ts_pick Task [''networkPathValid'', ''networkPathMessage'']))"

definition ui_TaskInput :: ts where
  "ui_TaskInput =
     ts_omit ui_Task [''id'', ''createdAt'', ''updatedAt'', ''lastScheduledAt'', ''nextScheduledAt'',
       ''networkPathValid'', ''networkPathMessage'']"

definition ui_Result :: ts where
  "ui_Result =
     ts_inter (ts_required (ts_omit ResultSummary [''queuedAt'']))
       (ts_inter (ts_partial (ts_pick ResultSummary [''queuedAt'']))
         (ts_partial (ts_pick Result [''rawProviderResponse'', ''routeValidationSnapshot''])))"

definition ui_ResultSummary :: ts where
  "ui_ResultSummary = ts_omit ui_Result [''rawProviderResponse'', ''routeValidationSnapshot'']"

definition DashboardTaskSummary :: ts where
  "DashboardTaskSummary =
     ts_inter (ts_omit DashboardTaskResult [''latestResult''])
       (TObj [Req ''latestResult'' (TUnion [ui_ResultSummary, TNull])])"

definition DashboardPathSummary :: ts where
  "DashboardPathSummary =
     ts_inter (ts_omit DashboardPathResult [''latestResult''])
       (TObj [Req ''latestResult'' (TUnion [ui_ResultSummary, TNull])])"

definition DashboardSummary :: ts where
  "DashboardSummary =
     ts_inter
       (ts_omit DashboardResultSummary
         [''latestByTask'', ''latestByPath'', ''activeRuns'', ''recentFailures''])
       (TObj [Req ''latestByTask'' (TArr DashboardTaskSummary),
         Req ''latestByPath'' (TArr DashboardPathSummary), Req ''activeRuns'' (TArr ui_ResultSummary),
         Req ''recentFailures'' (TArr ui_ResultSummary)])"

definition Page :: "ts \<Rightarrow> ts" where
  "Page t = TObj [Req ''items'' (TArr t), Req ''page'' TNum, Req ''pageSize'' TNum,
     Req ''totalItems'' TNum, Req ''totalPages'' TNum]"

definition ui_NetworkInterface :: ts where
  "ui_NetworkInterface =
     ts_inter (ts_omit NetworkInterface [''operationalState'']) (TObj [Opt ''operationalState'' TStr])"

definition ui_RouteProfile :: ts where
  "ui_RouteProfile =
     ts_inter (ts_omit (ts_required RouteProfile) [''lastValidationSnapshot''])
       (TObj [Req ''lastValidationSnapshot'' (ts_partial RouteValidation)])"

definition ui_RouteProfileInput :: ts where
  "ui_RouteProfileInput =
     ts_omit ui_RouteProfile [''id'', ''createdAt'', ''updatedAt'', ''lastValidationAt'',
       ''lastValidationSucceeded'', ''lastValidationSnapshot'']"

definition ui_Settings :: ts where
  "ui_Settings = ts_required Settings"

definition ui_ConfigurationSettings :: ts where
  "ui_ConfigurationSettings =
     ts_pick ui_Settings [''displayUnits'', ''defaultTimezone'', ''globalConcurrency'',
       ''allowSeparateWanConcurrency'', ''retentionMode'', ''retentionValue'', ''defaultChartRange'',
       ''interfaceRefreshIntervalSeconds'', ''defaultTaskTimeoutSeconds'',
       ''databaseMaintenanceSchedule'']"

definition ui_ConfigurationTask :: ts where
  "ui_ConfigurationTask = ts_inter ui_TaskInput (TObj [Req ''id'' TStr])"

definition ui_ConfigurationRouteProfile :: ts where
  "ui_ConfigurationRouteProfile = ts_inter ui_RouteProfileInput (TObj [Req ''id'' TStr])"

definition SystemInfo :: ts where
  "SystemInfo =
     TObj [Req ''version'' TStr, Req ''gitCommit'' TStr, Req ''buildDate'' TStr, Opt ''buildTime'' TStr,
       Req ''goVersion'' TStr, Req ''operatingSystem'' TStr, Req ''architecture'' TStr,
       Req ''databasePath'' TStr, Req ''databaseSizeBytes'' TNum,
       Req ''schemaVersion'' (TUnion [TStr, TNum]), Req ''uptimeSeconds'' TNum,
       Req ''taskCount'' TNum, Req ''resultCount'' TNum, Req ''runningTaskCount'' TNum,
       Req ''providers'' (TArr ProviderDescriptor), Req ''interfaces'' (TArr ui_NetworkInterface)]"

definition ApiErrorEnvelope :: ts where
  "ApiErrorEnvelope =
     TObj [Req ''error'' (TObj [Req ''code'' TStr, Req ''message'' TStr, Opt ''requestId'' TStr,
       Opt ''details'' TRec])]"

text \<open>
  Statistics as the charts use them. \<open>None\<close> is the absent property or, in an aggregate, \<open>null\<close>.
\<close>

record MetricAggregate =
  ag_min :: "rat option"
  ag_max :: "rat option"
  ag_average :: "rat option"
  ag_median :: "rat option"
  ag_p95 :: "rat option"
  ag_standardDeviation :: "rat option"

record StatisticBucket =
  sb_bucket :: string
  sb_resultId :: "string option"
  sb_timestamp :: "string option"
  sb_label :: "string option"
  sb_sampleCount :: rat
  sb_successfulCount :: rat
  sb_failedCount :: rat
  sb_skippedCount :: rat
  sb_successRate :: "rat option"
  sb_download :: "MetricAggregate option"
  sb_upload :: "MetricAggregate option"
  sb_latency :: "MetricAggregate option"
  sb_jitter :: "MetricAggregate option"
  sb_packetLoss :: "MetricAggregate option"
  sb_duration :: "MetricAggregate option"

record StatisticsSeries =
  ss_id :: string
  ss_name :: string
  ss_overall :: "StatisticBucket option"
  ss_buckets :: "StatisticBucket list"

record StatisticsResponse =
  sr_buckets :: "StatisticBucket list"
  sr_overall :: "StatisticBucket option"
  sr_totals :: "StatisticBucket option"
  sr_summary :: "StatisticBucket option"
  sr_series :: "StatisticsSeries list option"
  sr_timezone :: "string option"
  sr_groupBy :: "string option"

record LiveEvent =
  le_id :: "string option"
  le_type :: string
  le_timestamp :: "string option"
  le_taskId :: "string option"
  le_resultId :: "string option"
  le_payload :: "(string \<times> json) list option"
  le_data :: "json option"

lemmas contract_types = Uuid_def IpAddress_def InterfaceName_def ProviderId_def IpFamily_def

text \<open>
  The view of a persisted task is one the contract also describes, up to the two fields the view
  leaves optional; what the console sends as task input is a contract \<open>TaskInput\<close>.
\<close>

lemma ui_TaskInput_contract: "has_type ui_TaskInput v \<Longrightarrow> has_type TaskInput v"
  by (erule assignable_sound [rotated])
    (simp add: assignable.simps ui_TaskInput_def ui_Task_def Task_def TaskInput_def TaskFields_def
      contract_types ts_ops)

lemma ui_RouteProfileInput_contract: "has_type ui_RouteProfileInput v \<Longrightarrow> has_type RouteProfileInput v"
  by (erule assignable_sound [rotated])
    (simp add: assignable.simps ui_RouteProfileInput_def ui_RouteProfile_def RouteProfile_def
      RouteProfileInput_def RouteProfileFields_def contract_types ts_ops)

lemma ui_Settings_writable: "has_type ui_Settings v \<Longrightarrow> has_type SettingsWritable v"
  by (erule assignable_sound [rotated])
    (simp add: assignable.simps ui_Settings_def Settings_def SettingsWritable_def contract_types ts_ops)

end
