(* ===== verification/Tasks.thy ===== *)
theory Tasks
  imports Types
begin

text \<open>
  Tasks: the enumerations and records the console computes with, their JSON form, and
  \<open>web/src/lib/tasks.ts\<close>. Record objects whose properties the console copies without knowing them
  (\<open>customServerDefinition\<close>, \<open>providerOptions\<close>) are ordered objects; a property set to \<open>undefined\<close> is
  present with the value \<open>None\<close> and is dropped by \<open>JSON.stringify\<close>.
\<close>

datatype provider_id = Ookla | Librespeed | Cloudflare
datatype selection_mode = Automatic | Fixed | Custom
datatype ip_family = Auto | Ipv4 | Ipv6
datatype route_validation = Required | Interface_Only

fun provider_name :: "provider_id \<Rightarrow> string" where
  "provider_name Ookla = ''ookla''"
| "provider_name Librespeed = ''librespeed''"
| "provider_name Cloudflare = ''cloudflare''"

fun mode_name :: "selection_mode \<Rightarrow> string" where
  "mode_name Automatic = ''automatic''"
| "mode_name Fixed = ''fixed''"
| "mode_name Custom = ''custom''"

fun family_name :: "ip_family \<Rightarrow> string" where
  "family_name Auto = ''auto''"
| "family_name Ipv4 = ''ipv4''"
| "family_name Ipv6 = ''ipv6''"

fun route_validation_name :: "route_validation \<Rightarrow> string" where
  "route_validation_name Required = ''required''"
| "route_validation_name Interface_Only = ''interface-only''"

type_synonym js_object = "(string \<times> json option) list"

record task_input =
  ti_name :: string
  ti_description :: string
  ti_enabled :: bool
  ti_provider :: provider_id
  ti_cronExpression :: string
  ti_timezone :: string
  ti_randomJitterSeconds :: js_number
  ti_serverSelectionMode :: selection_mode
  ti_serverId :: string
  ti_serverUrl :: string
  ti_customServerDefinition :: js_object
  ti_interfaceName :: string
  ti_sourceIp :: string
  ti_ipFamily :: ip_family
  ti_routeProfileId :: "string option"
  ti_timeoutSeconds :: js_number
  ti_providerOptions :: js_object
  ti_preventOverlap :: bool
  ti_routeValidation :: route_validation

record task = task_input +
  t_id :: string
  t_createdAt :: string
  t_updatedAt :: string
  t_lastScheduledAt :: "string option"
  t_nextScheduledAt :: "string option"
  t_networkPathValid :: "bool option"
  t_networkPathMessage :: "string option"

definition taskToInput :: "task \<Rightarrow> task_input" where
  "taskToInput t =
     \<lparr>ti_name = ti_name t, ti_description = ti_description t, ti_enabled = ti_enabled t,
      ti_provider = ti_provider t, ti_cronExpression = ti_cronExpression t,
      ti_timezone = ti_timezone t, ti_randomJitterSeconds = ti_randomJitterSeconds t,
      ti_serverSelectionMode = ti_serverSelectionMode t, ti_serverId = ti_serverId t,
      ti_serverUrl = ti_serverUrl t, ti_customServerDefinition = ti_customServerDefinition t,
      ti_interfaceName = ti_interfaceName t, ti_sourceIp = ti_sourceIp t,
      ti_ipFamily = ti_ipFamily t, ti_routeProfileId = ti_routeProfileId t,
      ti_timeoutSeconds = ti_timeoutSeconds t, ti_providerOptions = ti_providerOptions t,
      ti_preventOverlap = ti_preventOverlap t, ti_routeValidation = ti_routeValidation t\<rparr>"

subsection \<open>JSON form\<close>

definition defined_props :: "js_object \<Rightarrow> (string \<times> json) list" where
  "defined_props x = concat (map (\<lambda>(k, v). case v of None \<Rightarrow> [] | Some w \<Rightarrow> [(k, w)]) x)"

definition input_json :: "task_input \<Rightarrow> json" where
  "input_json i =
     JObj [(''name'', JStr (ti_name i)), (''description'', JStr (ti_description i)),
       (''enabled'', JBool (ti_enabled i)), (''provider'', JStr (provider_name (ti_provider i))),
       (''cronExpression'', JStr (ti_cronExpression i)), (''timezone'', JStr (ti_timezone i)),
       (''randomJitterSeconds'', JNum (ti_randomJitterSeconds i)),
       (''serverSelectionMode'', JStr (mode_name (ti_serverSelectionMode i))),
       (''serverId'', JStr (ti_serverId i)), (''serverUrl'', JStr (ti_serverUrl i)),
       (''customServerDefinition'', JObj (defined_props (ti_customServerDefinition i))),
       (''interfaceName'', JStr (ti_interfaceName i)), (''sourceIp'', JStr (ti_sourceIp i)),
       (''ipFamily'', JStr (family_name (ti_ipFamily i))),
       (''routeProfileId'', case ti_routeProfileId i of None \<Rightarrow> JNull | Some r \<Rightarrow> JStr r),
       (''timeoutSeconds'', JNum (ti_timeoutSeconds i)),
       (''providerOptions'', JObj (defined_props (ti_providerOptions i))),
       (''preventOverlap'', JBool (ti_preventOverlap i)),
       (''routeValidation'', JStr (route_validation_name (ti_routeValidation i)))]"

text \<open>\<open>JSON.stringify(input)\<close>\<close>

definition input_text :: "task_input \<Rightarrow> string" where
  "input_text i = json_string (input_json i)"

lemma input_json_typed: "has_type ui_TaskInput (input_json i)"
proof -
  have "\<exists>s\<in>set [''ookla'', ''librespeed'', ''cloudflare'']. provider_name p = s" for p
    by (cases p) simp_all
  moreover have "\<exists>s\<in>set [''automatic'', ''fixed'', ''custom'']. mode_name m = s" for m
    by (cases m) simp_all
  moreover have "\<exists>s\<in>set [''auto'', ''ipv4'', ''ipv6'']. family_name m = s" for m
    by (cases m) simp_all
  moreover have "\<exists>s\<in>set [''required'', ''interface-only'']. route_validation_name m = s" for m
    by (cases m) simp_all
  ultimately show ?thesis
    by (simp add: ui_TaskInput_def ui_Task_def Task_def TaskFields_def ts_ops contract_types
        input_json_def obj_get_def split: option.split)
qed

text \<open>Integers up to \<open>2 ^ 53\<close>; the copied objects contain well-formed JSON under distinct keys.\<close>

definition exact_int :: "js_number \<Rightarrow> bool" where
  "exact_int x = (case x of Fin q \<Rightarrow> of_int \<lfloor>q\<rfloor> = q \<and> \<bar>q\<bar> \<le> 2 ^ 53 | _ \<Rightarrow> False)"

definition wf_input :: "task_input \<Rightarrow> bool" where
  "wf_input i \<longleftrightarrow> exact_int (ti_randomJitterSeconds i) \<and> exact_int (ti_timeoutSeconds i) \<and>
     wf_json (JObj (defined_props (ti_customServerDefinition i))) \<and>
     wf_json (JObj (defined_props (ti_providerOptions i)))"

lemma wf_input_json: "wf_input i \<Longrightarrow> wf_json (input_json i)"
  unfolding input_json_def
  by (rule wf_literal)
    (auto simp: letter_key_def is_alpha_def wf_input_def exact_int_def split: option.split js_number.splits
      simp del: wf_json.simps(3))

lemma input_text_json: "wf_input i \<Longrightarrow> wf_input j \<Longrightarrow> input_text i = input_text j \<longleftrightarrow> input_json i = input_json j"
  unfolding input_text_def by (rule json_string_inject) (simp_all add: wf_input_json)

end
