(* ===== verification/UrlEncoding.thy ===== *)
theory UrlEncoding
  imports Json
begin

text \<open>
  The URL encodings of the language: \<open>encodeURIComponent\<close> and the form encoding of
  \<open>URLSearchParams\<close>, with the decoders a server applies. Both are shown to be codecs, so that no
  identifier or filter value can change the structure of a request URL.
\<close>

subsection \<open>Percent encoding of UTF-8 bytes\<close>

definition utf8_bytes :: "char \<Rightarrow> nat list" where
  "utf8_bytes c =
     (let n = code_unit c in if n < 128 then [n] else [192 + n div 64, 128 + n mod 64])"

fun utf8_decode :: "nat list \<Rightarrow> string option" where
  "utf8_decode [] = Some []"
| "utf8_decode (b # bs) =
     (if b < 128 then map_option ((#) (char_of b)) (utf8_decode bs)
      else if b = 194 \<or> b = 195 then
        (case bs of
           [] \<Rightarrow> None
         | d # ds \<Rightarrow>
             if 128 \<le> d \<and> d < 192
             then map_option ((#) (char_of ((b - 192) * 64 + (d - 128)))) (utf8_decode ds)
             else None)
      else None)"

definition upper_hex :: "nat \<Rightarrow> char" where
  "upper_hex d = (if d < 10 then char_of (48 + d) else char_of (55 + d))"

definition percent :: "nat \<Rightarrow> string" where
  "percent b = [CHR ''%'', upper_hex (b div 16), upper_hex (b mod 16)]"

definition percent_encode :: "(char \<Rightarrow> bool) \<Rightarrow> string \<Rightarrow> string" where
  "percent_encode safe s =
     concat (map (\<lambda>c. if safe c then [c] else concat (map percent (utf8_bytes c))) s)"

text \<open>\<open>None\<close> is a malformed escape, for which \<open>decodeURIComponent\<close> throws.\<close>

fun percent_bytes :: "string \<Rightarrow> nat list option" where
  "percent_bytes [] = Some []"
| "percent_bytes (c # r) =
     (if c = CHR ''%'' then
        (case r of
           a # b # r' \<Rightarrow>
             (case (hex_value a, hex_value b) of
                (Some x, Some y) \<Rightarrow> map_option ((#) (x * 16 + y)) (percent_bytes r')
              | _ \<Rightarrow> None)
         | _ \<Rightarrow> None)
      else map_option ((@) (utf8_bytes c)) (percent_bytes r))"

definition percent_decode :: "string \<Rightarrow> string option" where
  "percent_decode s = Option.bind (percent_bytes s) utf8_decode"

subsection \<open>The two encodings\<close>

definition uri_safe :: "char \<Rightarrow> bool" where
  "uri_safe c \<longleftrightarrow> is_alpha c \<or> is_digit c \<or>
     c \<in> {CHR ''-'', CHR ''_'', CHR ''.'', CHR ''!'', CHR ''~'', CHR ''*'', CHR 0x27, CHR ''('', CHR '')''}"

definition encodeURIComponent :: "string \<Rightarrow> string" where
  "encodeURIComponent s = percent_encode uri_safe s"

definition form_safe :: "char \<Rightarrow> bool" where
  "form_safe c \<longleftrightarrow> is_alpha c \<or> is_digit c \<or>
     c \<in> {CHR ''-'', CHR ''_'', CHR ''.'', CHR ''*'', CHR ''+''}"


text \<open>A space becomes a plus sign, and a plus sign the escape \<open>%2B\<close>.\<close>

definition form_encode :: "string \<Rightarrow> string" where
  "form_encode s =
     concat (map (\<lambda>c. if c = CHR '' '' then ''+''
       else if form_safe c \<and> c \<noteq> CHR ''+'' then [c] else concat (map percent (utf8_bytes c))) s)"

definition form_decode :: "string \<Rightarrow> string option" where
  "form_decode s = percent_decode (map (\<lambda>c. if c = CHR ''+'' then CHR '' '' else c) s)"

text \<open>The serialisation of \<open>URLSearchParams\<close> and the parser of a query string.\<close>

definition pair_string :: "string \<times> string \<Rightarrow> string" where
  "pair_string p = form_encode (fst p) @ ''='' @ form_encode (snd p)"

definition search_string :: "(string \<times> string) list \<Rightarrow> string" where
  "search_string ps = join ''&'' (map pair_string ps)"

definition parse_pair :: "string \<Rightarrow> (string \<times> string) option" where
  "parse_pair s =
     (let k = takeWhile (\<lambda>c. c \<noteq> CHR ''='') s; v = drop 1 (dropWhile (\<lambda>c. c \<noteq> CHR ''='') s) in
      case (form_decode k, form_decode v) of (Some k', Some v') \<Rightarrow> Some (k', v') | _ \<Rightarrow> None)"

fun all_some :: "'a option list \<Rightarrow> 'a list option" where
  "all_some [] = Some []"
| "all_some (None # xs) = None"
| "all_some (Some x # xs) = map_option ((#) x) (all_some xs)"

definition parse_search :: "string \<Rightarrow> (string \<times> string) list option" where
  "parse_search s = all_some (map parse_pair (filter (\<lambda>w. w \<noteq> []) (split_char CHR ''&'' s)))"

subsection \<open>Decoding an encoded string gives it back\<close>

lemma hex_value_upper [simp]: "d < 16 \<Longrightarrow> hex_value (upper_hex d) = Some d"
  by (auto simp: hex_value_def upper_hex_def)

lemma utf8_bytes_less: "b \<in> set (utf8_bytes c) \<Longrightarrow> b < 256"
proof -
  have "code_unit c div 64 < 4"
    by (rule less_mult_imp_div_less) simp
  then have "code_unit c div 64 < 64" by simp
  moreover have "code_unit c mod 64 < 128"
    by (rule less_le_trans [of _ 64]) simp_all
  ultimately show "b \<in> set (utf8_bytes c) \<Longrightarrow> b < 256"
    by (auto simp: utf8_bytes_def Let_def split: if_splits)
qed

lemma utf8_decode_bytes: "utf8_decode (utf8_bytes c @ bs) = map_option ((#) c) (utf8_decode bs)"
proof -
  have "code_unit c div 64 < 4"
    by (rule less_mult_imp_div_less) simp
  then have "code_unit c div 64 = 2 \<or> code_unit c div 64 = 3" if "\<not> code_unit c < 128"
    using that by linarith
  moreover have "code_unit c div 64 * 64 + code_unit c mod 64 = code_unit c" by simp
  ultimately show ?thesis
    by (auto simp: utf8_bytes_def Let_def simp del: div_mult_mod_eq)
qed

lemma utf8_decode_string: "utf8_decode (concat (map utf8_bytes s)) = Some s"
  by (induction s) (simp_all add: utf8_decode_bytes)

lemma percent_bytes_percent: "b < 256 \<Longrightarrow> percent_bytes (percent b @ r) = map_option ((#) b) (percent_bytes r)"
  by (simp add: percent_def)

lemma percent_bytes_percents:
  "list_all (\<lambda>b. b < 256) bs \<Longrightarrow>
   percent_bytes (concat (map percent bs) @ r) = map_option ((@) bs) (percent_bytes r)"
proof (induction bs)
  case Nil
  then show ?case by (cases "percent_bytes r") simp_all
next
  case (Cons b bs)
  then show ?case by (cases "percent_bytes r") (simp_all add: percent_bytes_percent)
qed

lemma percent_bytes_encode:
  assumes "\<And>c. safe c \<Longrightarrow> c \<noteq> CHR ''%''"
  shows "percent_bytes (percent_encode safe s) = Some (concat (map utf8_bytes s))"
proof (induction s)
  case Nil
  then show ?case by (simp add: percent_encode_def)
next
  case (Cons c s)
  have "list_all (\<lambda>b. b < 256) (utf8_bytes c)"
    by (auto simp: list_all_iff utf8_bytes_less)
  with Cons assms [of c] show ?case
    by (simp add: percent_encode_def percent_bytes_percents)
qed

lemma percent_decode_encode:
  assumes "\<And>c. safe c \<Longrightarrow> c \<noteq> CHR ''%''"
  shows "percent_decode (percent_encode safe s) = Some s"
  by (simp add: percent_decode_def percent_bytes_encode [OF assms] utf8_decode_string)

interpretation uri: codec encodeURIComponent percent_decode "\<lambda>_. True"
proof
  show "percent_decode (encodeURIComponent x) = Some x" for x
    unfolding encodeURIComponent_def
    by (rule percent_decode_encode) (auto simp: uri_safe_def char_class_defs)
qed

lemma upper_hex_class: "d < 16 \<Longrightarrow> is_digit (upper_hex d) \<or> is_alpha (upper_hex d)"
  by (auto simp: upper_hex_def char_class_defs)

lemma percent_chars: "b < 256 \<Longrightarrow> c \<in> set (percent b) \<Longrightarrow> c = CHR ''%'' \<or> is_digit c \<or> is_alpha c"
proof -
  assume b: "b < 256" "c \<in> set (percent b)"
  then have "b div 16 < 16" "b mod 16 < 16"
    by (auto intro: less_mult_imp_div_less)
  with b(2) upper_hex_class show ?thesis
    by (auto simp: percent_def simp del: mod_less_divisor)
qed

lemma form_encode_plus:
  "map (\<lambda>c. if c = CHR ''+'' then CHR '' '' else c) (form_encode s) =
   percent_encode (\<lambda>c. form_safe c \<and> c \<noteq> CHR ''+'' \<or> c = CHR '' '') s"
proof (induction s)
  case Nil
  then show ?case by (simp add: form_encode_def percent_encode_def)
next
  case (Cons c s)
  have "map (\<lambda>c. if c = CHR ''+'' then CHR '' '' else c) (percent b) = percent b" if "b < 256" for b
  proof (rule map_idI)
    fix d
    assume "d \<in> set (percent b)"
    from percent_chars [OF that this] show "(if d = CHR ''+'' then CHR '' '' else d) = d"
      by (auto simp: char_class_defs)
  qed
  then have "map (\<lambda>c. if c = CHR ''+'' then CHR '' '' else c) (concat (map percent bs)) =
      concat (map percent bs)" if "list_all (\<lambda>b. b < 256) bs" for bs
    using that by (induction bs) auto
  moreover have "list_all (\<lambda>b. b < 256) (utf8_bytes c)"
    by (auto simp: list_all_iff utf8_bytes_less)
  ultimately show ?case
    using Cons by (auto simp: form_encode_def percent_encode_def)
qed

interpretation form: codec form_encode form_decode "\<lambda>_. True"
proof
  show "form_decode (form_encode x) = Some x" for x
    unfolding form_decode_def form_encode_plus
    by (rule percent_decode_encode) (auto simp: form_safe_def char_class_defs)
qed

subsection \<open>Characters of an encoded string\<close>

lemma encodeURIComponent_chars:
  "c \<in> set (encodeURIComponent s) \<Longrightarrow> uri_safe c \<or> c = CHR ''%''"
  by (auto simp: encodeURIComponent_def percent_encode_def uri_safe_def split: if_splits
      dest!: utf8_bytes_less dest: percent_chars)

lemma form_encode_chars: "c \<in> set (form_encode s) \<Longrightarrow> form_safe c \<or> c = CHR ''%''"
  by (auto simp: form_encode_def form_safe_def split: if_splits
      dest!: utf8_bytes_less dest: percent_chars)

lemma form_encode_no_marks: "c \<in> {CHR ''&'', CHR ''='', CHR ''?'', CHR ''#''} \<Longrightarrow> c \<notin> set (form_encode s)"
  by (auto dest!: form_encode_chars simp: form_safe_def char_class_defs)

lemma parse_pair_string: "parse_pair (pair_string p) = Some p"
proof -
  have n: "\<forall>c\<in>set (form_encode k). c \<noteq> CHR ''=''" for k
    using form_encode_no_marks [of "CHR ''=''" k] by auto
  have "takeWhile (\<lambda>c. c \<noteq> CHR ''='') (pair_string p) = form_encode (fst p)"
    using n by (simp add: pair_string_def takeWhile_append2)
  moreover have "dropWhile (\<lambda>c. c \<noteq> CHR ''='') (pair_string p) = CHR ''='' # form_encode (snd p)"
    using n by (simp add: pair_string_def dropWhile_append2)
  ultimately show ?thesis
    by (simp add: parse_pair_def form.decode_encode)
qed

lemma all_some_map: "all_some (map Some xs) = Some xs"
  by (induction xs) auto

text \<open>A query string decodes to exactly the pairs that were appended.\<close>

lemma parse_search_string: "parse_search (search_string ps) = Some ps"
proof (cases "ps = []")
  case True
  then show ?thesis by (simp add: parse_search_def search_string_def)
next
  case False
  have "CHR ''&'' \<notin> set (pair_string p)" for p
    using form_encode_no_marks [of "CHR ''&''"] by (simp add: pair_string_def)
  then have "split_char CHR ''&'' (search_string ps) = map pair_string ps"
    using False by (simp add: search_string_def split_char_join list_all_iff)
  moreover have "filter (\<lambda>w. w \<noteq> []) (map pair_string ps) = map pair_string ps"
    by (simp add: filter_id_conv pair_string_def)
  moreover have "map (parse_pair \<circ> pair_string) ps = map Some ps"
    by (simp add: parse_pair_string)
  ultimately show ?thesis
    by (simp add: parse_search_def all_some_map del: map_map flip: map_map [symmetric])
      (simp add: all_some_map parse_pair_string comp_def)
qed

end
