(* ===== verification/TaskForm.thy ===== *)
theory TaskForm
  imports Tasks Cron UrlEncoding
begin

text \<open>
  The task form of \<open>web/src/pages/TaskEditorPage.tsx\<close>: its values, the zod schema that validates and
  trims them, the check of custom endpoint paths, and the translation between tasks and form values.

  Arguments of the model: \<open>known_zone\<close> is the runtime's timezone check, \<open>z_url\<close> is zod's URL parser
  restricted to HTTP (\<open>Some\<close> the accepted text), \<open>resolves\<close> is the final check of the endpoint
  resolved by the platform's URL class.
\<close>

record TaskFormValues =
  fv_name :: string
  fv_description :: string
  fv_enabled :: bool
  fv_provider :: provider_id
  fv_cronExpression :: string
  fv_timezone :: string
  fv_randomJitterSeconds :: js_number
  fv_serverSelectionMode :: selection_mode
  fv_serverId :: string
  fv_serverUrl :: string
  fv_customServerName :: string
  fv_customDownloadPath :: string
  fv_customUploadPath :: string
  fv_customPingPath :: string
  fv_customIpPath :: string
  fv_allowInsecureCustomServer :: bool
  fv_interfaceName :: string
  fv_sourceIp :: string
  fv_ipFamily :: ip_family
  fv_routeProfileId :: string
  fv_timeoutSeconds :: js_number
  fv_preventOverlap :: bool
  fv_routeValidation :: route_validation
  fv_skipTlsVerification :: bool

subsection \<open>\<open>decodeURIComponent\<close>\<close>

text \<open>
  The code units of the decoded text, or \<open>None\<close> where the language throws. An escape of a byte
  beyond 127 starts a UTF-8 sequence of escapes; over-long forms, surrogates and values beyond
  \<open>10FFFF\<close> are refused.
\<close>

definition escape_byte :: "string \<Rightarrow> (nat \<times> string) option" where
  "escape_byte s =
     (case s of
        p # a # b # r \<Rightarrow>
          if p = CHR ''%'' then
            (case (hex_value a, hex_value b) of (Some x, Some y) \<Rightarrow> Some (x * 16 + y, r) | _ \<Rightarrow> None)
          else None
      | _ \<Rightarrow> None)"

fun continuation :: "nat \<Rightarrow> nat \<Rightarrow> string \<Rightarrow> (nat \<times> string) option" where
  "continuation 0 acc s = Some (acc, s)"
| "continuation (Suc n) acc s =
     (case escape_byte s of
        Some (b, r) \<Rightarrow> if 128 \<le> b \<and> b < 192 then continuation n (acc * 64 + (b - 128)) r else None
      | None \<Rightarrow> None)"

definition utf8_lead :: "nat \<Rightarrow> (nat \<times> nat \<times> nat) option" where
  "utf8_lead b =
     (if b < 128 then Some (0, b, 0)
      else if 192 \<le> b \<and> b < 224 then Some (1, b - 192, 128)
      else if 224 \<le> b \<and> b < 240 then Some (2, b - 224, 2048)
      else if 240 \<le> b \<and> b < 248 then Some (3, b - 240, 65536) else None)"

definition escape_point :: "string \<Rightarrow> (nat \<times> string) option" where
  "escape_point s =
     (case escape_byte s of
        None \<Rightarrow> None
      | Some (b, r) \<Rightarrow>
          (case utf8_lead b of
             None \<Rightarrow> None
           | Some (n, acc, least) \<Rightarrow>
               (case continuation n acc r of
                  None \<Rightarrow> None
                | Some (p, r') \<Rightarrow>
                    if least \<le> p \<and> p \<le> 1114111 \<and> \<not> (55296 \<le> p \<and> p \<le> 57343) then Some (p, r')
                    else None)))"

definition code_units :: "nat \<Rightarrow> nat list" where
  "code_units p = (if p < 65536 then [p] else [55296 + (p - 65536) div 1024, 56320 + (p - 65536) mod 1024])"

lemma escape_byte_less: "escape_byte s = Some (b, r) \<Longrightarrow> length r < length s"
  by (auto simp: escape_byte_def split: list.splits if_splits option.splits)

lemma continuation_le: "continuation n acc s = Some (p, r) \<Longrightarrow> length r \<le> length s"
  by (induction n acc s rule: continuation.induct)
    (fastforce split: option.splits if_splits dest!: escape_byte_less)+

lemma escape_point_less: "escape_point s = Some (p, r) \<Longrightarrow> length r < length s"
  by (auto simp: escape_point_def split: option.splits if_splits
      dest!: escape_byte_less continuation_le)

function decode_units :: "string \<Rightarrow> nat list option" where
  "decode_units s =
     (case s of
        [] \<Rightarrow> Some []
      | c # r \<Rightarrow>
          if c = CHR ''%'' then
            (case escape_point s of
               None \<Rightarrow> None
             | Some (p, r') \<Rightarrow> map_option ((@) (code_units p)) (decode_units r'))
          else map_option ((#) (code_unit c)) (decode_units r))"
  by pat_completeness auto
termination
  by (relation "measure length") (auto dest: escape_point_less)

declare decode_units.simps [simp del]

subsection \<open>Custom endpoints\<close>

definition isURLControlCharacter :: "char \<Rightarrow> bool" where
  "isURLControlCharacter c \<longleftrightarrow> code_unit c \<le> 31 \<or> code_unit c = 127"

definition str_includes :: "string \<Rightarrow> string \<Rightarrow> bool" where
  "str_includes s w \<longleftrightarrow> list_ex (prefix w) (suffixes s)"

text \<open>\<open>/^[A-Za-z][A-Za-z0-9+.-]*:/\<close>\<close>

definition has_scheme :: "string \<Rightarrow> bool" where
  "has_scheme s =
     (case s of
        [] \<Rightarrow> False
      | c # r \<Rightarrow> is_alpha c \<and>
          prefix '':'' (dropWhile (\<lambda>d. is_alpha d \<or> is_digit d \<or> d \<in> {CHR ''+'', CHR ''.'', CHR ''-''}) r))"

definition safe_segment :: "string \<Rightarrow> bool" where
  "safe_segment seg \<longleftrightarrow> seg \<noteq> [] \<and>
     (case decode_units seg of None \<Rightarrow> False | Some d \<Rightarrow> d \<noteq> [46] \<and> d \<noteq> [46, 46])"

definition endpoint_path :: "string \<Rightarrow> string" where
  "endpoint_path s = takeWhile (\<lambda>c. c \<noteq> CHR ''?'') s"

definition isSafeCustomEndpoint :: "(string \<Rightarrow> bool) \<Rightarrow> string \<Rightarrow> bool" where
  "isSafeCustomEndpoint resolves s =
     (if s = [] then True
      else let lower = to_lower s in
        if prefix ''/'' s \<or> CHR 0x5C \<in> set s \<or> str_includes lower ''%2f'' \<or> str_includes lower ''%5c'' \<or>
           str_includes lower ''%00'' \<or> str_includes lower ''%0a'' \<or> str_includes lower ''%0d'' \<or>
           CHR ''#'' \<in> set s \<or> has_scheme s
        then False
        else let path = endpoint_path s in
          if path = [] then False
          else if \<not> list_all safe_segment (split_char CHR ''/'' path) then False
          else resolves s)"

definition customEndpointSchema :: "(string \<Rightarrow> bool) \<Rightarrow> string \<Rightarrow> string option" where
  "customEndpointSchema resolves s =
     (if length s \<le> 2048 \<and> \<not> list_ex isURLControlCharacter s \<and> isSafeCustomEndpoint resolves (trim s)
      then Some (trim s) else None)"

subsection \<open>The schema\<close>

definition is_int :: "js_number \<Rightarrow> int \<Rightarrow> int \<Rightarrow> bool" where
  "is_int x lo hi =
     (case x of Fin q \<Rightarrow> of_int \<lfloor>q\<rfloor> = q \<and> lo \<le> \<lfloor>q\<rfloor> \<and> \<lfloor>q\<rfloor> \<le> hi | _ \<Rightarrow> False)"

definition trimmed_form :: "TaskFormValues \<Rightarrow> TaskFormValues" where
  "trimmed_form v = v\<lparr>fv_name := trim (fv_name v), fv_description := trim (fv_description v),
     fv_cronExpression := trim (fv_cronExpression v), fv_timezone := trim (fv_timezone v),
     fv_serverId := trim (fv_serverId v), fv_serverUrl := trim (fv_serverUrl v),
     fv_customServerName := trim (fv_customServerName v),
     fv_customDownloadPath := trim (fv_customDownloadPath v),
     fv_customUploadPath := trim (fv_customUploadPath v),
     fv_customPingPath := trim (fv_customPingPath v), fv_customIpPath := trim (fv_customIpPath v),
     fv_interfaceName := trim (fv_interfaceName v), fv_sourceIp := trim (fv_sourceIp v)\<rparr>"

definition fields_ok :: "(string \<Rightarrow> bool) \<Rightarrow> (string \<Rightarrow> bool) \<Rightarrow> TaskFormValues \<Rightarrow> bool" where
  "fields_ok known_zone resolves v \<longleftrightarrow>
     2 \<le> length (trim (fv_name v)) \<and> length (trim (fv_name v)) \<le> 100 \<and>
     length (trim (fv_description v)) \<le> 500 \<and>
     validateCron (trim (fv_cronExpression v)) \<and>
     1 \<le> length (trim (fv_timezone v)) \<and> isValidTimezone known_zone (trim (fv_timezone v)) \<and>
     is_int (fv_randomJitterSeconds v) 0 3600 \<and>
     length (trim (fv_serverId v)) \<le> 200 \<and> length (trim (fv_serverUrl v)) \<le> 2048 \<and>
     length (trim (fv_customServerName v)) \<le> 200 \<and>
     customEndpointSchema resolves (fv_customDownloadPath v) \<noteq> None \<and>
     customEndpointSchema resolves (fv_customUploadPath v) \<noteq> None \<and>
     customEndpointSchema resolves (fv_customPingPath v) \<noteq> None \<and>
     customEndpointSchema resolves (fv_customIpPath v) \<noteq> None \<and>
     1 \<le> length (trim (fv_interfaceName v)) \<and> 1 \<le> length (trim (fv_sourceIp v)) \<and>
     is_int (fv_timeoutSeconds v) 5 3600"

text \<open>The cross-field checks, on the trimmed values.\<close>

definition refinement_ok :: "(string \<Rightarrow> string option) \<Rightarrow> TaskFormValues \<Rightarrow> bool" where
  "refinement_ok z_url v \<longleftrightarrow>
     \<not> (fv_provider v = Cloudflare \<and> fv_serverSelectionMode v \<noteq> Automatic) \<and>
     \<not> (fv_serverSelectionMode v = Fixed \<and> fv_serverId v = []) \<and>
     (fv_serverSelectionMode v = Custom \<longrightarrow>
        fv_provider v = Librespeed \<and>
        (case z_url (fv_serverUrl v) of
           None \<Rightarrow> False
         | Some u \<Rightarrow> \<not> (prefix ''http:'' (to_lower u) \<and> \<not> fv_allowInsecureCustomServer v)))"

definition taskSchema ::
  "(string \<Rightarrow> bool) \<Rightarrow> (string \<Rightarrow> bool) \<Rightarrow> (string \<Rightarrow> string option) \<Rightarrow> TaskFormValues \<Rightarrow> TaskFormValues option" where
  "taskSchema known_zone resolves z_url v =
     (if fields_ok known_zone resolves v \<and> refinement_ok z_url (trimmed_form v)
      then Some (trimmed_form v) else None)"

subsection \<open>Tasks and form values\<close>

definition defaults :: "string \<Rightarrow> TaskFormValues" where
  "defaults runtime_zone =
     \<lparr>fv_name = [], fv_description = [], fv_enabled = True, fv_provider = Cloudflare,
      fv_cronExpression = ''0 */6 * * *'',
      fv_timezone = (if runtime_zone = [] then ''UTC'' else runtime_zone),
      fv_randomJitterSeconds = Fin 0, fv_serverSelectionMode = Automatic, fv_serverId = [],
      fv_serverUrl = [], fv_customServerName = [], fv_customDownloadPath = [], fv_customUploadPath = [],
      fv_customPingPath = [], fv_customIpPath = [], fv_allowInsecureCustomServer = False,
      fv_interfaceName = [], fv_sourceIp = [], fv_ipFamily = Auto, fv_routeProfileId = [],
      fv_timeoutSeconds = Fin 120, fv_preventOverlap = True, fv_routeValidation = Required,
      fv_skipTlsVerification = False\<rparr>"

definition newTaskFormValues :: "string \<Rightarrow> string \<Rightarrow> js_number \<Rightarrow> TaskFormValues" where
  "newTaskFormValues runtime_zone defaultTimezone defaultTaskTimeoutSeconds =
     (defaults runtime_zone)
       \<lparr>fv_timezone := (if defaultTimezone = [] then ''UTC'' else defaultTimezone),
        fv_timeoutSeconds := defaultTaskTimeoutSeconds\<rparr>"

definition prop_of :: "js_object \<Rightarrow> string \<Rightarrow> json option" where
  "prop_of x k = Option.bind (obj_get x k) id"

definition customString :: "js_object \<Rightarrow> string \<Rightarrow> string" where
  "customString x k = (case prop_of x k of Some (JStr s) \<Rightarrow> s | _ \<Rightarrow> [])"

definition setCustomString :: "string \<Rightarrow> string \<Rightarrow> js_object \<Rightarrow> js_object" where
  "setCustomString k v x = (if v \<noteq> [] then obj_put k (Some (JStr v)) x else obj_put k None x)"

definition taskToFormValues :: "task \<Rightarrow> TaskFormValues" where
  "taskToFormValues t =
     \<lparr>fv_name = ti_name t, fv_description = ti_description t, fv_enabled = ti_enabled t,
      fv_provider = ti_provider t, fv_cronExpression = ti_cronExpression t,
      fv_timezone = ti_timezone t, fv_randomJitterSeconds = ti_randomJitterSeconds t,
      fv_serverSelectionMode = ti_serverSelectionMode t, fv_serverId = ti_serverId t,
      fv_serverUrl = ti_serverUrl t,
      fv_customServerName = customString (ti_customServerDefinition t) ''name'',
      fv_customDownloadPath = customString (ti_customServerDefinition t) ''dlURL'',
      fv_customUploadPath = customString (ti_customServerDefinition t) ''ulURL'',
      fv_customPingPath = customString (ti_customServerDefinition t) ''pingURL'',
      fv_customIpPath = customString (ti_customServerDefinition t) ''getIpURL'',
      fv_allowInsecureCustomServer =
        (prop_of (ti_customServerDefinition t) ''allowInsecure'' = Some (JBool True)),
      fv_interfaceName = ti_interfaceName t, fv_sourceIp = ti_sourceIp t,
      fv_ipFamily = ti_ipFamily t,
      fv_routeProfileId = (case ti_routeProfileId t of None \<Rightarrow> [] | Some r \<Rightarrow> r),
      fv_timeoutSeconds = ti_timeoutSeconds t, fv_preventOverlap = ti_preventOverlap t,
      fv_routeValidation = ti_routeValidation t,
      fv_skipTlsVerification =
        (prop_of (ti_providerOptions t) ''skipTlsVerification'' = Some (JBool True))\<rparr>"

definition custom_definition :: "TaskFormValues \<Rightarrow> js_object \<Rightarrow> js_object" where
  "custom_definition d x =
     (if fv_provider d = Librespeed then
        let y = setCustomString ''getIpURL'' (fv_customIpPath d)
              (setCustomString ''pingURL'' (fv_customPingPath d)
              (setCustomString ''ulURL'' (fv_customUploadPath d)
              (setCustomString ''dlURL'' (fv_customDownloadPath d)
              (setCustomString ''name'' (fv_customServerName d) x))))
        in if fv_allowInsecureCustomServer d then obj_put ''allowInsecure'' (Some (JBool True)) y
           else obj_delete ''allowInsecure'' y
      else x)"

definition provider_options :: "TaskFormValues \<Rightarrow> js_object \<Rightarrow> js_object" where
  "provider_options d x =
     (if fv_provider d = Librespeed
      then obj_put ''skipTlsVerification'' (Some (JBool (fv_skipTlsVerification d)))
             (obj_put ''telemetry'' (Some (JBool False)) x)
      else x)"

definition buildTaskInput :: "TaskFormValues \<Rightarrow> task option \<Rightarrow> task_input" where
  "buildTaskInput d existing =
     (let mode = (if fv_provider d = Cloudflare then Automatic else fv_serverSelectionMode d) in
      \<lparr>ti_name = fv_name d, ti_description = fv_description d, ti_enabled = fv_enabled d,
       ti_provider = fv_provider d, ti_cronExpression = fv_cronExpression d,
       ti_timezone = fv_timezone d, ti_randomJitterSeconds = fv_randomJitterSeconds d,
       ti_serverSelectionMode = mode,
       ti_serverId = (if mode = Fixed then fv_serverId d else []),
       ti_serverUrl = (if mode = Custom then fv_serverUrl d else []),
       ti_customServerDefinition = custom_definition d
         (case existing of None \<Rightarrow> [] | Some t \<Rightarrow> ti_customServerDefinition t),
       ti_interfaceName = fv_interfaceName d, ti_sourceIp = fv_sourceIp d,
       ti_ipFamily = fv_ipFamily d,
       ti_routeProfileId = (if fv_routeProfileId d = [] then None else Some (fv_routeProfileId d)),
       ti_timeoutSeconds = fv_timeoutSeconds d,
       ti_providerOptions = provider_options d
         (case existing of None \<Rightarrow> [] | Some t \<Rightarrow> ti_providerOptions t),
       ti_preventOverlap = fv_preventOverlap d, ti_routeValidation = fv_routeValidation d\<rparr>)"

definition taskInputSignature :: "task_input \<Rightarrow> string" where
  "taskInputSignature = input_text"

subsection \<open>Safe endpoints stay below the backend URL\<close>

text \<open>
  How the platform resolves the segments of a relative path against the segments of the base: the
  dot segments, also when written with escapes, are interpreted.
\<close>

definition single_dot :: "string \<Rightarrow> bool" where
  "single_dot seg \<longleftrightarrow> to_lower seg \<in> {''.'', ''%2e''}"

definition double_dot :: "string \<Rightarrow> bool" where
  "double_dot seg \<longleftrightarrow> to_lower seg \<in> {''..'', ''.%2e'', ''%2e.'', ''%2e%2e''}"

definition dot_step :: "string list \<Rightarrow> string \<Rightarrow> string list" where
  "dot_step acc seg = (if double_dot seg then butlast acc else if single_dot seg then acc else acc @ [seg])"

definition resolve_segments :: "string list \<Rightarrow> string list \<Rightarrow> string list" where
  "resolve_segments base segs = foldl dot_step base segs"

lemma lower_char_unit:
  "code_unit (lower_char c) =
     (if (65 \<le> code_unit c \<and> code_unit c \<le> 90) \<or>
         (192 \<le> code_unit c \<and> code_unit c \<le> 222 \<and> code_unit c \<noteq> 215)
      then code_unit c + 32 else code_unit c)"
  by (auto simp: lower_char_def)

lemma char_unit_eq: "c = d \<longleftrightarrow> code_unit c = code_unit d"
  by simp

lemma lower_char_marks:
  "lower_char c = CHR ''.'' \<longleftrightarrow> c = CHR ''.''"
  "lower_char c = CHR ''%'' \<longleftrightarrow> c = CHR ''%''"
  "lower_char c = CHR ''2'' \<longleftrightarrow> c = CHR ''2''"
  "lower_char c = CHR ''e'' \<longleftrightarrow> c = CHR ''e'' \<or> c = CHR ''E''"
  unfolding char_unit_eq [of "lower_char c"] char_unit_eq [of c] lower_char_unit by (simp; linarith)+

lemma decode_units_cons:
  "c \<noteq> CHR ''%'' \<Longrightarrow> decode_units (c # r) = map_option ((#) (code_unit c)) (decode_units r)"
  by (subst decode_units.simps) simp

lemma decode_units_dot: "e = CHR ''e'' \<or> e = CHR ''E'' \<Longrightarrow>
    decode_units (CHR ''%'' # CHR ''2'' # e # r) = map_option ((#) 46) (decode_units r)"
  by (subst decode_units.simps, cases "decode_units r")
    (auto simp: escape_point_def escape_byte_def hex_value_def utf8_lead_def code_units_def)

lemma decode_units_Nil: "decode_units [] = Some []"
  by (subst decode_units.simps) simp

lemma single_dot_decodes: "single_dot seg \<Longrightarrow> decode_units seg = Some [46]"
  by (auto simp: single_dot_def to_lower_def map_eq_Cons_conv lower_char_marks decode_units_cons
      decode_units_dot decode_units_Nil)

lemma double_dot_decodes: "double_dot seg \<Longrightarrow> decode_units seg = Some [46, 46]"
  by (auto simp: double_dot_def to_lower_def map_eq_Cons_conv lower_char_marks decode_units_cons
      decode_units_dot decode_units_Nil)

lemma safe_segment_step: "safe_segment seg \<Longrightarrow> dot_step acc seg = acc @ [seg]"
  by (auto simp: safe_segment_def dot_step_def dest!: single_dot_decodes double_dot_decodes)

lemma safe_segments_resolve: "list_all safe_segment segs \<Longrightarrow> resolve_segments base segs = base @ segs"
  unfolding resolve_segments_def
  by (induction segs arbitrary: base) (auto simp: safe_segment_step)

text \<open>
  C3. A custom endpoint the form accepts cannot leave the configured backend: resolved against any
  base path, its segments are appended below that path unchanged, none is empty, and it contains no
  backslash and no fragment, whatever escapes are used to disguise dot segments.
\<close>

theorem custom_endpoint_contained:
  assumes "customEndpointSchema resolves s = Some e" and "e \<noteq> []"
  shows "resolve_segments base (split_char CHR ''/'' (endpoint_path e)) =
      base @ split_char CHR ''/'' (endpoint_path e) \<and>
    list_all (\<lambda>seg. seg \<noteq> []) (split_char CHR ''/'' (endpoint_path e)) \<and>
    CHR 0x5C \<notin> set e \<and> CHR ''#'' \<notin> set e \<and> \<not> has_scheme e"
proof -
  have safe: "isSafeCustomEndpoint resolves e"
    using assms(1) by (auto simp: customEndpointSchema_def split: if_splits)
  then have segs: "list_all safe_segment (split_char CHR ''/'' (endpoint_path e))"
    and rest: "CHR 0x5C \<notin> set e" "CHR ''#'' \<notin> set e" "\<not> has_scheme e"
    using assms(2) by (auto simp: isSafeCustomEndpoint_def Let_def split: if_splits)
  have "list_all (\<lambda>seg. seg \<noteq> []) (split_char CHR ''/'' (endpoint_path e))"
    using segs by (auto simp: list_all_iff safe_segment_def)
  with rest safe_segments_resolve [OF segs] show ?thesis by simp
qed

theorem custom_endpoint_contained_witness:
  "resolve_segments [''api''] (split_char CHR ''/'' (endpoint_path ''a/garbage.php?x=1'')) =
   [''api'', ''a'', ''garbage.php'']"
proof -
  have "customEndpointSchema (\<lambda>_. True) '' a/garbage.php?x=1'' = Some ''a/garbage.php?x=1''"
    by code_simp
  from custom_endpoint_contained [OF this] show ?thesis by (simp add: endpoint_path_def)
qed

subsection \<open>The schema is stable\<close>

lemma trimmed_form_idem [simp]: "trimmed_form (trimmed_form v) = trimmed_form v"
  by (simp add: trimmed_form_def)

lemma customEndpointSchema_trim:
  "customEndpointSchema resolves s \<noteq> None \<Longrightarrow> customEndpointSchema resolves (trim s) \<noteq> None"
  using length_trim_le [of s] set_trim_subset [of s]
  by (auto simp: customEndpointSchema_def list_ex_iff split: if_splits)

lemma taskSchema_stable_form:
  assumes "taskSchema known_zone resolves z_url v = Some d"
  shows "taskSchema known_zone resolves z_url d = Some d"
proof -
  have d: "d = trimmed_form v" and f: "fields_ok known_zone resolves v"
      and r: "refinement_ok z_url (trimmed_form v)"
    using assms by (auto simp: taskSchema_def split: if_splits)
  have "fields_ok known_zone resolves (trimmed_form v)"
    using f customEndpointSchema_trim by (simp add: fields_ok_def trimmed_form_def)
  with d r show ?thesis by (simp add: taskSchema_def)
qed

text \<open>
  What the schema accepts it accepts again unchanged: the values handed to the save handler are
  trimmed once and for all and satisfy every rule of the form themselves.
\<close>

theorem taskSchema_stable:
  assumes "taskSchema known_zone resolves z_url v = Some d"
  shows "taskSchema known_zone resolves z_url d = Some d"
  by (rule taskSchema_stable_form [OF assms])

definition sample_form :: TaskFormValues where
  "sample_form = (defaults [])\<lparr>fv_name := '' Fiber '', fv_interfaceName := ''eth0'',
     fv_sourceIp := ''192.0.2.1''\<rparr>"

lemma sample_form_valid:
  "taskSchema (\<lambda>_. True) (\<lambda>_. True) Some sample_form = Some (sample_form\<lparr>fv_name := ''Fiber''\<rparr>)"
proof -
  have "fields_ok (\<lambda>_. True) (\<lambda>_. True) sample_form"
    by code_simp
  moreover have "refinement_ok Some (trimmed_form sample_form)"
    by code_simp
  moreover have "trimmed_form sample_form = sample_form\<lparr>fv_name := ''Fiber''\<rparr>"
    by (simp add: trimmed_form_def sample_form_def defaults_def trim_def trim_start_def is_space_def)
  ultimately show ?thesis by (simp add: taskSchema_def)
qed

theorem taskSchema_stable_witness:
  "taskSchema (\<lambda>_. True) (\<lambda>_. True) Some (sample_form\<lparr>fv_name := ''Fiber''\<rparr>) =
   Some (sample_form\<lparr>fv_name := ''Fiber''\<rparr>)"
  by (rule taskSchema_stable [OF sample_form_valid])

subsection \<open>Editing a task without changes\<close>

lemma prop_of_put: "prop_of (obj_put k v x) k' = (if k' = k then v else prop_of x k')"
  by (simp add: prop_of_def obj.get_put)

lemma defined_put_same:
  assumes "distinct (map fst x)" "array_index k = None" "prop_of x k = v"
  shows "defined_props (obj_put k v x) = defined_props x"
proof (cases "k \<in> set (map fst x)")
  case True
  then obtain w where w: "(k, w) \<in> set x" by auto
  then have "w = v"
    using assms(1,3) by (simp add: prop_of_def obj_get_def)
  with w assms(1) have "map (\<lambda>(k', v'). (k', if k' = k then v else v')) x = x"
    by (auto intro!: map_idI dest: eq_key_imp_eq_value)
  with True show ?thesis by (simp add: obj_put_def)
next
  case False
  then have "v = None"
    using assms(3) by (auto simp: prop_of_def obj_get_def map_of_eq_None_iff [THEN iffD2])
  with False assms(2) show ?thesis by (simp add: obj_put_def defined_props_def)
qed

lemma defined_delete_absent:
  assumes "distinct (map fst x)" "prop_of x k = None"
  shows "defined_props (obj_delete k x) = defined_props x"
proof -
  have "\<forall>w. (k, w) \<in> set x \<longrightarrow> w = None"
    using assms(2) map_of_is_SomeI [OF assms(1)] by (fastforce simp: prop_of_def obj_get_def)
  then show ?thesis
    unfolding defined_props_def obj_delete_def
  proof (induction x)
    case (Cons p x)
    obtain k' v where p: "p = (k', v)" by (cases p)
    have "v = None" if "k' = k"
      using Cons.prems p that by simp
    moreover have "\<forall>w. (k, w) \<in> set x \<longrightarrow> w = None"
      using Cons.prems by simp
    ultimately show ?case
      using Cons.IH p by (cases "k' = k") simp_all
  qed simp
qed

definition custom_keys :: "string list" where
  "custom_keys = [''name'', ''dlURL'', ''ulURL'', ''pingURL'', ''getIpURL'']"

lemma custom_keys_index: "k \<in> set custom_keys \<Longrightarrow> array_index k = None"
  by (auto simp: custom_keys_def array_index_def all_digits_def is_digit_def)

text \<open>
  A task as the daemon stores it: targets only where the mode uses them, and for LibreSpeed tasks the
  custom definition and the options in the form the editor writes.
\<close>

definition canonical_task :: "task \<Rightarrow> bool" where
  "canonical_task t \<longleftrightarrow>
     distinct (map fst (ti_customServerDefinition t)) \<and> distinct (map fst (ti_providerOptions t)) \<and>
     (ti_provider t = Cloudflare \<longrightarrow> ti_serverSelectionMode t = Automatic) \<and>
     (ti_serverSelectionMode t \<noteq> Fixed \<longrightarrow> ti_serverId t = []) \<and>
     (ti_serverSelectionMode t \<noteq> Custom \<longrightarrow> ti_serverUrl t = []) \<and>
     ti_routeProfileId t \<noteq> Some [] \<and>
     (ti_provider t = Librespeed \<longrightarrow>
        list_all (\<lambda>k. prop_of (ti_customServerDefinition t) k = None \<or>
          (\<exists>s. s \<noteq> [] \<and> prop_of (ti_customServerDefinition t) k = Some (JStr s))) custom_keys \<and>
        prop_of (ti_customServerDefinition t) ''allowInsecure'' \<in> {None, Some (JBool True)} \<and>
        prop_of (ti_providerOptions t) ''telemetry'' = Some (JBool False) \<and>
        prop_of (ti_providerOptions t) ''skipTlsVerification'' \<in> {Some (JBool True), Some (JBool False)})"

lemma set_custom_same:
  assumes "distinct (map fst x)" "k \<in> set custom_keys"
    and "prop_of x k = None \<or> (\<exists>s. s \<noteq> [] \<and> prop_of x k = Some (JStr s))"
  shows "defined_props (setCustomString k (customString x k) x) = defined_props x"
    and "prop_of (setCustomString k (customString x k) x) k' = prop_of x k'"
    and "distinct (map fst (setCustomString k (customString x k) x))"
proof -
  have "setCustomString k (customString x k) x = obj_put k (prop_of x k) x"
    using assms(3) by (auto simp: setCustomString_def customString_def)
  then show "defined_props (setCustomString k (customString x k) x) = defined_props x"
    and "prop_of (setCustomString k (customString x k) x) k' = prop_of x k'"
    and "distinct (map fst (setCustomString k (customString x k) x))"
    using assms(1) custom_keys_index [OF assms(2)]
    by (simp_all add: defined_put_same prop_of_put obj.invar_put)
qed

definition copy_custom :: "js_object \<Rightarrow> string list \<Rightarrow> js_object \<Rightarrow> js_object" where
  "copy_custom src ks x = foldl (\<lambda>y k. setCustomString k (customString src k) y) x ks"

lemma copy_custom_same:
  assumes "set ks \<subseteq> set custom_keys" "distinct (map fst x)" "\<forall>k. prop_of x k = prop_of src k"
    and "\<forall>k\<in>set custom_keys. prop_of src k = None \<or> (\<exists>s. s \<noteq> [] \<and> prop_of src k = Some (JStr s))"
  shows "defined_props (copy_custom src ks x) = defined_props x \<and>
    (\<forall>k. prop_of (copy_custom src ks x) k = prop_of src k) \<and> distinct (map fst (copy_custom src ks x))"
  using assms
proof (induction ks arbitrary: x)
  case Nil
  then show ?case by (simp add: copy_custom_def)
next
  case (Cons k ks)
  let ?y = "setCustomString k (customString src k) x"
  have c: "customString src k = customString x k"
    using Cons.prems(3) by (simp add: customString_def)
  have k: "k \<in> set custom_keys" "prop_of x k = None \<or> (\<exists>s. s \<noteq> [] \<and> prop_of x k = Some (JStr s))"
    using Cons.prems by auto
  note same = set_custom_same [OF Cons.prems(2) k, folded c]
  have "defined_props (copy_custom src ks ?y) = defined_props ?y \<and>
    (\<forall>k. prop_of (copy_custom src ks ?y) k = prop_of src k) \<and> distinct (map fst (copy_custom src ks ?y))"
    using Cons.prems same by (intro Cons.IH) auto
  then show ?case using same by (simp add: copy_custom_def)
qed

lemma custom_definition_copy:
  "fv_provider (taskToFormValues t) = Librespeed \<Longrightarrow>
   custom_definition (taskToFormValues t) x =
     (let y = copy_custom (ti_customServerDefinition t) custom_keys x in
      if fv_allowInsecureCustomServer (taskToFormValues t) then obj_put ''allowInsecure'' (Some (JBool True)) y
      else obj_delete ''allowInsecure'' y)"
  by (simp add: custom_definition_def copy_custom_def custom_keys_def taskToFormValues_def Let_def)

lemma custom_definition_same:
  assumes "canonical_task t"
  shows "defined_props (custom_definition (taskToFormValues t) (ti_customServerDefinition t)) =
    defined_props (ti_customServerDefinition t)"
proof (cases "ti_provider t = Librespeed")
  case True
  let ?x = "ti_customServerDefinition t"
  let ?y = "copy_custom ?x custom_keys ?x"
  have y: "defined_props ?y = defined_props ?x" "\<And>k. prop_of ?y k = prop_of ?x k" "distinct (map fst ?y)"
    using copy_custom_same [of custom_keys ?x ?x] assms True by (auto simp: canonical_task_def list_all_iff)
  have i: "array_index ''allowInsecure'' = None"
    by (simp add: array_index_def all_digits_def is_digit_def)
  have a: "prop_of ?x ''allowInsecure'' = None \<or> prop_of ?x ''allowInsecure'' = Some (JBool True)"
    using assms True by (auto simp: canonical_task_def)
  have l: "fv_provider (taskToFormValues t) = Librespeed"
      "fv_allowInsecureCustomServer (taskToFormValues t) = (prop_of ?x ''allowInsecure'' = Some (JBool True))"
    using True by (simp_all add: taskToFormValues_def)
  show ?thesis
    using a y(1) defined_put_same [OF y(3) i] defined_delete_absent [OF y(3)]
    by (auto simp: custom_definition_copy [OF l(1)] l(2) y(2) Let_def)
next
  case False
  then show ?thesis by (simp add: custom_definition_def taskToFormValues_def)
qed

lemma provider_options_same:
  assumes "canonical_task t"
  shows "defined_props (provider_options (taskToFormValues t) (ti_providerOptions t)) =
    defined_props (ti_providerOptions t)"
proof (cases "ti_provider t = Librespeed")
  case True
  let ?x = "ti_providerOptions t"
  have x: "distinct (map fst ?x)" "prop_of ?x ''telemetry'' = Some (JBool False)"
      "prop_of ?x ''skipTlsVerification'' = Some (JBool (fv_skipTlsVerification (taskToFormValues t)))"
    using assms True by (auto simp: canonical_task_def taskToFormValues_def)
  have i: "array_index ''telemetry'' = None" "array_index ''skipTlsVerification'' = None"
    by (simp_all add: array_index_def all_digits_def is_digit_def)
  let ?y = "obj_put ''telemetry'' (Some (JBool False)) ?x"
  have y: "defined_props ?y = defined_props ?x" "distinct (map fst ?y)"
      "prop_of ?y ''skipTlsVerification'' = prop_of ?x ''skipTlsVerification''"
    using x i by (simp_all add: defined_put_same obj.invar_put prop_of_put)
  have "fv_provider (taskToFormValues t) = Librespeed"
    using True by (simp add: taskToFormValues_def)
  then show ?thesis
    using defined_put_same [OF y(2) i(2)] x(3) y by (simp add: provider_options_def)
next
  case False
  then show ?thesis by (simp add: provider_options_def taskToFormValues_def)
qed


definition sample_task :: task where
  "sample_task =
     \<lparr>ti_name = ''Fiber'', ti_description = [], ti_enabled = True, ti_provider = Librespeed,
      ti_cronExpression = ''0 6 * * *'', ti_timezone = ''UTC'', ti_randomJitterSeconds = Fin 0,
      ti_serverSelectionMode = Custom, ti_serverId = [], ti_serverUrl = ''https://speed.example'',
      ti_customServerDefinition = [(''dlURL'', Some (JStr ''garbage.php'')), (''region'', Some (JStr ''eu''))],
      ti_interfaceName = ''eth0'', ti_sourceIp = ''192.0.2.1'', ti_ipFamily = Ipv4,
      ti_routeProfileId = None, ti_timeoutSeconds = Fin 120,
      ti_providerOptions = [(''telemetry'', Some (JBool False)), (''skipTlsVerification'', Some (JBool False))],
      ti_preventOverlap = True, ti_routeValidation = Required,
      t_id = ''t1'', t_createdAt = [], t_updatedAt = [], t_lastScheduledAt = None,
      t_nextScheduledAt = None, t_networkPathValid = None, t_networkPathMessage = None\<rparr>"


text \<open>
  C17. Saving the form never drops or changes a property of the stored custom definition or provider
  options that the form does not edit, whatever values the form has.
\<close>

theorem buildTaskInput_preserves:
  assumes "k \<notin> set (''allowInsecure'' # custom_keys)" and "j \<notin> {''telemetry'', ''skipTlsVerification''}"
  shows "obj_get (ti_customServerDefinition (buildTaskInput d (Some t))) k =
      obj_get (ti_customServerDefinition t) k \<and>
    obj_get (ti_providerOptions (buildTaskInput d (Some t))) j = obj_get (ti_providerOptions t) j"
proof -
  have set: "obj_get (setCustomString k' v x) k = obj_get x k" if "k' \<in> set custom_keys" for k' v x
  proof -
    have "k \<noteq> k'" using assms(1) that by auto
    then show ?thesis by (simp add: setCustomString_def obj.get_put)
  qed
  have keys: "''name'' \<in> set custom_keys" "''dlURL'' \<in> set custom_keys" "''ulURL'' \<in> set custom_keys"
      "''pingURL'' \<in> set custom_keys" "''getIpURL'' \<in> set custom_keys"
    by (simp_all add: custom_keys_def)
  have "obj_get (custom_definition d x) k = obj_get x k" for x
    using assms(1) by (simp add: custom_definition_def Let_def obj.get_put obj.get_delete set [OF keys(1)]
        set [OF keys(2)] set [OF keys(3)] set [OF keys(4)] set [OF keys(5)])
  moreover have "obj_get (provider_options d x) j = obj_get x j" for x
    using assms(2) by (simp add: provider_options_def obj.get_put)
  ultimately show ?thesis by (simp add: buildTaskInput_def Let_def)
qed

theorem buildTaskInput_preserves_witness:
  "obj_get (ti_customServerDefinition (buildTaskInput sample_form (Some sample_task))) ''region'' =
   Some (Some (JStr ''eu''))"
  using buildTaskInput_preserves [of "''region''" "''x''" sample_form sample_task]
  by (simp add: custom_keys_def sample_task_def obj_get_def)

end
