(* ===== verification/ApiClient.thy ===== *)
theory ApiClient
  imports Types UrlEncoding JsRegex "HOL-Library.AList"
begin

text \<open>
  The REST client \<open>web/src/lib/api.ts\<close>. Every method of the \<open>api\<close> object sends one request and
  interprets one response, so it is modelled by \<open>api_request\<close> and \<open>api_response\<close>; the browser's
  \<open>fetch\<close> is an argument of \<open>api_run\<close>. Payloads are JSON values, and reading a property of \<open>null\<close> is a
  \<open>Type_Error\<close> as in the language. The statistics report is typed as in the source.

  A response is fully received when it is interpreted; the text of its body is \<open>r_text\<close>.
\<close>

subsection \<open>JavaScript values\<close>

record ApiError =
  ae_message :: string
  ae_status :: nat
  ae_code :: json
  ae_requestId :: "json option"
  ae_details :: "json option"

datatype failure = Api_Failure ApiError | Type_Error | Syntax_Error | Thrown string

definition js_prop :: "json \<Rightarrow> string \<Rightarrow> failure + json option" where
  "js_prop v k = (case v of JNull \<Rightarrow> Inl Type_Error | JObj kvs \<Rightarrow> Inr (obj_get kvs k) | _ \<Rightarrow> Inr None)"

text \<open>\<open>k in v\<close> throws when \<open>v\<close> is not an object.\<close>

definition has_prop :: "json \<Rightarrow> string \<Rightarrow> failure + bool" where
  "has_prop v k =
     (case v of JObj kvs \<Rightarrow> Inr (obj_get kvs k \<noteq> None) | JArr _ \<Rightarrow> Inr False | _ \<Rightarrow> Inl Type_Error)"

definition truthy :: "json \<Rightarrow> bool" where
  "truthy v =
     (case v of JNull \<Rightarrow> False | JBool b \<Rightarrow> b | JStr s \<Rightarrow> s \<noteq> []
      | JNum x \<Rightarrow> (case x of Fin q \<Rightarrow> q \<noteq> 0 | NaN \<Rightarrow> False | _ \<Rightarrow> True) | _ \<Rightarrow> True)"

definition js_number_string :: "js_number \<Rightarrow> string" where
  "js_number_string x =
     (case x of Fin q \<Rightarrow> number_string q | Inf \<Rightarrow> ''Infinity'' | NInf \<Rightarrow> ''-Infinity'' | NaN \<Rightarrow> ''NaN'')"

text \<open>\<open>String(v)\<close>; the elements \<open>null\<close> of an array print as nothing.\<close>

fun js_string :: "json \<Rightarrow> string" where
  "js_string JNull = ''null''"
| "js_string (JBool b) = (if b then ''true'' else ''false'')"
| "js_string (JNum x) = js_number_string x"
| "js_string (JStr s) = s"
| "js_string (JArr vs) = join '','' (map (\<lambda>v. if v = JNull then [] else js_string v) vs)"
| "js_string (JObj kvs) = ''[object Object]''"

fun sum_bind :: "'e + 'a \<Rightarrow> ('a \<Rightarrow> 'e + 'b) \<Rightarrow> 'e + 'b" where
  "sum_bind (Inl e) f = Inl e"
| "sum_bind (Inr x) f = f x"

fun sum_mapM :: "('a \<Rightarrow> 'e + 'b) \<Rightarrow> 'a list \<Rightarrow> 'e + 'b list" where
  "sum_mapM f [] = Inr []"
| "sum_mapM f (x # xs) = sum_bind (f x) (\<lambda>y. sum_bind (sum_mapM f xs) (\<lambda>ys. Inr (y # ys)))"

subsection \<open>Requests and responses\<close>

datatype req_body = Body_Text string | Body_Form | Body_File string

record http_request =
  rq_method :: string
  rq_url :: string
  rq_headers :: "(string \<times> string) list"
  rq_body :: "req_body option"
  rq_credentials :: string

record http_response =
  r_status :: nat
  r_statusText :: string
  r_disposition :: "string option"
  r_text :: string

definition r_ok :: "http_response \<Rightarrow> bool" where
  "r_ok r \<longleftrightarrow> 200 \<le> r_status r \<and> r_status r \<le> 299"

definition r_json :: "http_response \<Rightarrow> failure + json" where
  "r_json r = (case json_parse (r_text r) of None \<Rightarrow> Inl Syntax_Error | Some v \<Rightarrow> Inr v)"

definition API_ROOT :: string where
  "API_ROOT = ''/api/v1''"

text \<open>The constructor of \<open>ApiError\<close>: only a missing code is replaced by the default.\<close>

definition new_ApiError ::
  "string \<Rightarrow> nat \<Rightarrow> json option \<Rightarrow> json option \<Rightarrow> json option \<Rightarrow> ApiError" where
  "new_ApiError message status code requestId details =
     \<lparr>ae_message = message, ae_status = status,
      ae_code = (case code of None \<Rightarrow> JStr ''REQUEST_FAILED'' | Some c \<Rightarrow> c),
      ae_requestId = requestId, ae_details = details\<rparr>"

definition status_error :: "http_response \<Rightarrow> string \<Rightarrow> ApiError" where
  "status_error r fallback =
     new_ApiError (if r_statusText r = [] then fallback else r_statusText r) (r_status r) None None None"

text \<open>\<open>payload.error?.message\<close>, with the error object it was found in.\<close>

definition error_message :: "json \<Rightarrow> failure + (json \<times> json) option" where
  "error_message payload =
     sum_bind (js_prop payload ''error'') (\<lambda>e.
       case e of None \<Rightarrow> Inr None
       | Some JNull \<Rightarrow> Inr None
       | Some err \<Rightarrow> sum_bind (js_prop err ''message'') (\<lambda>m. Inr (map_option (\<lambda>w. (err, w)) m)))"

definition opt_prop :: "json \<Rightarrow> string \<Rightarrow> json option" where
  "opt_prop v k = (case js_prop v k of Inr (Some w) \<Rightarrow> Some w | _ \<Rightarrow> None)"

definition envelope_error :: "http_response \<Rightarrow> json \<Rightarrow> json \<Rightarrow> ApiError" where
  "envelope_error r err message =
     new_ApiError (js_string message) (r_status r) (opt_prop err ''code'') (opt_prop err ''requestId'')
       (opt_prop err ''details'')"

definition parseError :: "http_response \<Rightarrow> ApiError" where
  "parseError r =
     (case sum_bind (r_json r) error_message of
        Inr (Some (err, message)) \<Rightarrow>
          if truthy message then envelope_error r err message
          else status_error r ''The request could not be completed.''
      | _ \<Rightarrow> status_error r ''The request could not be completed.'')"

record request_init =
  init_method :: "string option"
  init_headers :: "(string \<times> string) list"
  init_body :: "req_body option"

abbreviation get_init :: request_init where
  "get_init \<equiv> \<lparr>init_method = None, init_headers = [], init_body = None\<rparr>"

abbreviation verb :: "string \<Rightarrow> request_init" where
  "verb m \<equiv> \<lparr>init_method = Some m, init_headers = [], init_body = None\<rparr>"

abbreviation verb_json :: "string \<Rightarrow> json \<Rightarrow> request_init" where
  "verb_json m v \<equiv>
     \<lparr>init_method = Some m, init_headers = [], init_body = Some (Body_Text (json_string v))\<rparr>"

text \<open>\<open>Headers.set\<close> on names in one spelling.\<close>

definition header_set :: "string \<Rightarrow> string \<Rightarrow> (string \<times> string) list \<Rightarrow> (string \<times> string) list" where
  "header_set k v hs = AList.update k v hs"

definition request_message :: "string \<Rightarrow> request_init \<Rightarrow> http_request" where
  "request_message path init =
     (let accept = header_set ''Accept'' ''application/json'' (init_headers init);
          headers = (if init_body init \<noteq> None \<and> init_body init \<noteq> Some Body_Form
                     then header_set ''Content-Type'' ''application/json'' accept else accept)
      in \<lparr>rq_method = (case init_method init of None \<Rightarrow> ''GET'' | Some m \<Rightarrow> m),
          rq_url = API_ROOT @ path, rq_headers = headers, rq_body = init_body init,
          rq_credentials = ''same-origin''\<rparr>)"

definition request_result :: "http_response \<Rightarrow> failure + json option" where
  "request_result r =
     (if \<not> r_ok r then Inl (Api_Failure (parseError r))
      else if r_status r = 204 then Inr None
      else sum_bind (r_json r) (\<lambda>v. Inr (Some v)))"

subsection \<open>Query strings\<close>

type_synonym params = "(string \<times> json option) list"

definition search_set :: "string \<Rightarrow> string \<Rightarrow> (string \<times> string) list \<Rightarrow> (string \<times> string) list" where
  "search_set k v ps =
     (if k \<in> set (map fst ps)
      then takeWhile (\<lambda>p. fst p \<noteq> k) ps @ (k, v) #
           filter (\<lambda>p. fst p \<noteq> k) (drop 1 (dropWhile (\<lambda>p. fst p \<noteq> k) ps))
      else ps @ [(k, v)])"

definition skipped :: "json option \<Rightarrow> bool" where
  "skipped v \<longleftrightarrow> v = None \<or> v = Some JNull \<or> v = Some (JStr []) \<or> v = Some (JArr [])"

definition search_add :: "(string \<times> string) list \<Rightarrow> string \<times> json option \<Rightarrow> (string \<times> string) list" where
  "search_add ps kv =
     (case kv of (k, v) \<Rightarrow>
        if skipped v then ps
        else case v of
          Some (JArr items) \<Rightarrow> ps @ map (\<lambda>item. (k, js_string item)) items
        | Some w \<Rightarrow> search_set k (js_string w) ps
        | None \<Rightarrow> ps)"

definition search_params :: "params \<Rightarrow> (string \<times> string) list" where
  "search_params params = foldl search_add [] params"

definition queryString :: "params \<Rightarrow> string" where
  "queryString params =
     (let v = search_string (search_params params) in if v = [] then [] else ''?'' @ v)"

text \<open>\<open>const { interfaceName, ...rest } = params\<close>, then \<open>{ ...rest, interface: interfaceName }\<close>.\<close>

definition with_interface :: "params \<Rightarrow> params" where
  "with_interface params =
     obj_put ''interface'' (Option.bind (obj_get params ''interfaceName'') id)
       (obj_delete ''interfaceName'' params)"

definition statistics_params :: "params \<Rightarrow> params" where
  "statistics_params params =
     obj_put ''interface'' (Option.bind (obj_get params ''interfaceName'') id)
       (obj_put ''metric'' None (obj_delete ''interfaceName'' params))"

definition ResultsQuery :: "string list" where
  "ResultsQuery = [''page'', ''pageSize'', ''sort'', ''direction'', ''taskId'', ''provider'',
     ''interfaceName'', ''status'', ''from'', ''to'']"

definition StatisticsQuery :: "string list" where
  "StatisticsQuery = [''granularity'', ''metric'', ''from'', ''to'', ''timezone'', ''taskId'',
     ''interfaceName'', ''sourceIp'', ''provider'', ''serverId'', ''routeProfileId'', ''publicIp'', ''groupBy'']"

subsection \<open>Interpreting payloads\<close>

definition array_prop :: "json \<Rightarrow> string \<Rightarrow> json list option" where
  "array_prop v k = (case opt_prop v k of Some (JArr xs) \<Rightarrow> Some xs | _ \<Rightarrow> None)"

definition itemsFrom :: "json \<Rightarrow> failure + json list" where
  "itemsFrom payload =
     (case payload of
        JArr xs \<Rightarrow> Inr xs
      | JObj _ \<Rightarrow>
          (case array_prop payload ''items'' of
             Some xs \<Rightarrow> Inr xs
           | None \<Rightarrow> (case array_prop payload ''data'' of Some xs \<Rightarrow> Inr xs | None \<Rightarrow> Inr []))
      | _ \<Rightarrow> Inl Type_Error)"

definition resultsPage :: "json \<Rightarrow> json" where
  "resultsPage payload =
     (case payload of
        JArr xs \<Rightarrow>
          JObj [(''items'', JArr xs), (''page'', jint 1), (''pageSize'', jint (int (length xs))),
            (''totalItems'', jint (int (length xs))), (''totalPages'', jint 1)]
      | _ \<Rightarrow> payload)"

text \<open>\<open>payload.nextRuns ?? payload.items ?? []\<close>\<close>

definition nullish :: "json option \<Rightarrow> json \<Rightarrow> json" where
  "nullish v w = (case v of None \<Rightarrow> w | Some JNull \<Rightarrow> w | Some u \<Rightarrow> u)"

definition nextRuns_of :: "json \<Rightarrow> failure + json" where
  "nextRuns_of payload =
     (case payload of
        JArr xs \<Rightarrow> Inr payload
      | _ \<Rightarrow> sum_bind (js_prop payload ''nextRuns'') (\<lambda>a.
               sum_bind (js_prop payload ''items'') (\<lambda>b. Inr (nullish a (nullish b (JArr []))))))"

text \<open>The properties \<open>{ ...v }\<close> copies: own properties, and the indices of arrays and strings.\<close>

definition spread :: "json \<Rightarrow> (string \<times> json) list" where
  "spread v =
     (case v of
        JObj kvs \<Rightarrow> kvs
      | JArr xs \<Rightarrow> zip (map nat_string [0..<length xs]) xs
      | JStr s \<Rightarrow> zip (map nat_string [0..<length s]) (map (\<lambda>c. JStr [c]) s)
      | _ \<Rightarrow> [])"

definition normalizeSystemInterface :: "json \<Rightarrow> failure + json" where
  "normalizeSystemInterface v =
     (if v = JNull then Inl Type_Error
      else Inr (JObj (obj_put ''addresses''
        (JArr (case array_prop v ''addresses'' of Some xs \<Rightarrow> xs | None \<Rightarrow> [])) (spread v))))"

text \<open>An object literal drops nothing; its properties with value \<open>undefined\<close> are not represented.\<close>

definition obj_literal :: "(string \<times> json option) list \<Rightarrow> json" where
  "obj_literal kvs = JObj (concat (map (\<lambda>(k, v). case v of None \<Rightarrow> [] | Some w \<Rightarrow> [(k, w)]) kvs))"

definition nested_prop :: "json option \<Rightarrow> string \<Rightarrow> json \<Rightarrow> json" where
  "nested_prop nested k d =
     (case nested of None \<Rightarrow> d | Some JNull \<Rightarrow> d | Some n \<Rightarrow> nullish (opt_prop n k) d)"

definition normalizeProvider :: "json \<Rightarrow> failure + json" where
  "normalizeProvider v =
     (case v of
        JObj kvs \<Rightarrow>
          let nested = obj_get kvs ''availability'' in
          Inr (obj_literal
            [(''id'', obj_get kvs ''id''), (''displayName'', obj_get kvs ''displayName''),
             (''capabilities'', obj_get kvs ''capabilities''),
             (''available'', Some (case obj_get kvs ''available'' of Some (JBool b) \<Rightarrow> JBool b
                | _ \<Rightarrow> nested_prop nested ''available'' (JBool False))),
             (''version'', Some (case obj_get kvs ''version'' of Some (JStr s) \<Rightarrow> JStr s
                | _ \<Rightarrow> nested_prop nested ''version'' (JStr []))),
             (''message'', Some (case obj_get kvs ''message'' of Some (JStr s) \<Rightarrow> JStr s
                | _ \<Rightarrow> nested_prop nested ''message'' (JStr [])))])
      | JArr _ \<Rightarrow> Inr (obj_literal
            [(''available'', Some (JBool False)), (''version'', Some (JStr [])), (''message'', Some (JStr []))])
      | _ \<Rightarrow> Inl Type_Error)"

text \<open>\<open>value.buildDate || value.buildTime || ''\<close>\<close>

definition first_truthy :: "json option list \<Rightarrow> json \<Rightarrow> json" where
  "first_truthy vs d = (case find (\<lambda>v. case v of Some w \<Rightarrow> truthy w | None \<Rightarrow> False) vs of
     Some (Some w) \<Rightarrow> w | _ \<Rightarrow> d)"

definition system_info :: "json \<Rightarrow> failure + json" where
  "system_info v =
     (if v = JNull then Inl Type_Error
      else
        sum_bind (sum_mapM normalizeProvider (case array_prop v ''providers'' of Some xs \<Rightarrow> xs | None \<Rightarrow> []))
         (\<lambda>ps. sum_bind (sum_mapM normalizeSystemInterface
             (case array_prop v ''interfaces'' of Some xs \<Rightarrow> xs | None \<Rightarrow> []))
         (\<lambda>is. Inr (JObj (obj_put ''buildDate''
             (first_truthy [opt_prop v ''buildDate'', opt_prop v ''buildTime''] (JStr []))
             (obj_put ''interfaces'' (JArr is) (obj_put ''providers'' (JArr ps) (spread v))))))))"

subsection \<open>Route validation\<close>

definition validation_message :: "string \<Rightarrow> json option \<Rightarrow> http_request" where
  "validation_message path input =
     \<lparr>rq_method = ''POST'', rq_url = API_ROOT @ path,
      rq_headers = (''Accept'', ''application/json'') #
        (if input \<noteq> None then [(''Content-Type'', ''application/json'')] else []),
      rq_body = map_option (\<lambda>v. Body_Text (json_string v)) input,
      rq_credentials = ''same-origin''\<rparr>"

definition parseErrorFromPayload :: "http_response \<Rightarrow> json \<Rightarrow> failure" where
  "parseErrorFromPayload r payload =
     (case opt_prop payload ''error'' of
        None \<Rightarrow> Api_Failure (status_error r ''Validation failed.'')
      | Some JNull \<Rightarrow> Type_Error
      | Some err \<Rightarrow>
          Api_Failure (new_ApiError (case opt_prop err ''message'' of None \<Rightarrow> [] | Some m \<Rightarrow> js_string m)
            (r_status r) (opt_prop err ''code'') (opt_prop err ''requestId'') (opt_prop err ''details'')))"

definition validation_result :: "http_response \<Rightarrow> failure + json" where
  "validation_result r =
     (if r_ok r \<or> r_status r = 422 then
        sum_bind (r_json r) (\<lambda>payload.
          sum_bind (has_prop payload ''success'') (\<lambda>b.
            if b then Inr payload else Inl (parseErrorFromPayload r payload)))
      else Inl (Api_Failure (parseError r)))"

subsection \<open>Downloads and the upload\<close>

text \<open>
  \<open>/filename="?([^";]+)"?/i.exec(disposition)?.[1]\<close>: the first place where the pattern matches. When
  the name after an opening quote is empty, dropping the optional quote does not help, because the
  quote itself is excluded from names.
\<close>

definition disposition_name :: "string \<Rightarrow> string option" where
  "disposition_name s =
     (if prefix ''filename='' (to_lower s) then
        let r = drop 9 s;
            r' = (if r \<noteq> [] \<and> hd r = CHR 0x22 then tl r else r);
            name = takeWhile (\<lambda>c. c \<noteq> CHR 0x22 \<and> c \<noteq> CHR '';'') r'
        in if name = [] then None else Some name
      else None)"

fun disposition_filename :: "string \<Rightarrow> string option" where
  "disposition_filename [] = None"
| "disposition_filename (c # cs) =
     (case disposition_name (c # cs) of Some name \<Rightarrow> Some name | None \<Rightarrow> disposition_filename cs)"

record download =
  dl_blob :: string
  dl_filename :: string

definition download_result :: "string \<Rightarrow> http_response \<Rightarrow> failure + download" where
  "download_result fallback r =
     (if \<not> r_ok r then Inl (Api_Failure (parseError r))
      else let disposition = (case r_disposition r of None \<Rightarrow> [] | Some d \<Rightarrow> d) in
        Inr \<lparr>dl_blob = r_text r,
             dl_filename = (case disposition_filename disposition of None \<Rightarrow> fallback | Some n \<Rightarrow> n)\<rparr>)"

definition downloadBackup_message :: http_request where
  "downloadBackup_message =
     \<lparr>rq_method = ''POST'', rq_url = API_ROOT @ ''/backup'',
      rq_headers = [(''Accept'', ''application/vnd.sqlite3'')], rq_body = None,
      rq_credentials = ''same-origin''\<rparr>"

definition downloadBackup :: "http_response \<Rightarrow> failure + download" where
  "downloadBackup = download_result ''multispeed-backup.db''"

definition downloadConfiguration_message :: http_request where
  "downloadConfiguration_message =
     \<lparr>rq_method = ''GET'', rq_url = API_ROOT @ ''/config/export'',
      rq_headers = [(''Accept'', ''application/json'')], rq_body = None,
      rq_credentials = ''same-origin''\<rparr>"

definition downloadConfiguration :: "http_response \<Rightarrow> failure + download" where
  "downloadConfiguration = download_result ''multispeed-config.json''"

definition uploadOoklaBinary_message :: "string \<Rightarrow> http_request" where
  "uploadOoklaBinary_message contents =
     \<lparr>rq_method = ''POST'', rq_url = API_ROOT @ ''/providers/ookla/binary'',
      rq_headers = [(''Accept'', ''application/json''), (''Content-Type'', ''application/octet-stream'')],
      rq_body = Some (Body_File contents), rq_credentials = ''same-origin''\<rparr>"

definition uploadOoklaBinary :: "http_response \<Rightarrow> failure + json" where
  "uploadOoklaBinary r = (if \<not> r_ok r then Inl (Api_Failure (parseError r)) else r_json r)"

text \<open>A thrown value that is not an \<open>Error\<close> is \<open>None\<close>; the runtime's own messages are an argument.\<close>

definition getApiErrorMessage :: "(failure \<Rightarrow> string) \<Rightarrow> failure option \<Rightarrow> string" where
  "getApiErrorMessage runtime_message e =
     (case e of
        Some (Api_Failure ae) \<Rightarrow> ae_message ae
      | Some f \<Rightarrow> runtime_message f
      | None \<Rightarrow> ''An unexpected error occurred.'')"

subsection \<open>Statistics\<close>

record StatisticsApiSummary =
  as_count :: rat
  as_minimum :: "rat option"
  as_maximum :: "rat option"
  as_average :: "rat option"
  as_median :: "rat option"
  as_p95 :: "rat option"
  as_standardDeviation :: "rat option"

record StatisticsApiCounts =
  ac_total :: rat
  ac_successful :: rat
  ac_failed :: rat
  ac_skipped :: rat
  ac_cancelled :: rat
  ac_other :: rat

record StatisticsApiBucket =
  ab_start :: string
  ab_end :: string
  ab_label :: string
  ab_resultId :: "string option"
  ab_counts :: StatisticsApiCounts
  ab_successRatePercent :: "rat option"
  ab_failureRatePercent :: "rat option"
  ab_downloadBitsPerSecond :: StatisticsApiSummary
  ab_uploadBitsPerSecond :: StatisticsApiSummary
  ab_latencyMilliseconds :: StatisticsApiSummary
  ab_jitterMilliseconds :: StatisticsApiSummary
  ab_packetLossPercent :: StatisticsApiSummary
  ab_executionDurationMilliseconds :: StatisticsApiSummary

record StatisticsApiGroup =
  ag_key :: string
  ag_label :: string
  ag_overall :: StatisticsApiBucket
  ag_buckets :: "StatisticsApiBucket list"

record StatisticsApiReport =
  ar_from :: string
  ar_to :: string
  ar_granularity :: string
  ar_reportingTimezone :: string
  ar_groupBy :: "string option"
  ar_totalResults :: rat
  ar_overall :: StatisticsApiBucket
  ar_groups :: "StatisticsApiGroup list"

record StatisticCompatibility =
  co_items :: "StatisticBucket list option"
  co_data :: "StatisticBucket list option"
  co_buckets :: "StatisticBucket list option"
  co_overall :: "StatisticBucket option"
  co_totals :: "StatisticBucket option"
  co_summary :: "StatisticBucket option"
  co_series :: "StatisticsSeries list option"
  co_timezone :: "string option"

text \<open>A payload with an array of groups is a report; any other payload is read as compatible.\<close>

datatype statistics_payload = Report StatisticsApiReport | Compatible StatisticCompatibility

definition summary_aggregate :: "StatisticsApiSummary \<Rightarrow> MetricAggregate" where
  "summary_aggregate v =
     \<lparr>ag_min = as_minimum v, ag_max = as_maximum v, ag_average = as_average v, ag_median = as_median v,
      ag_p95 = as_p95 v, ag_standardDeviation = as_standardDeviation v\<rparr>"

definition normalizeStatisticsBucket :: "StatisticsApiBucket \<Rightarrow> StatisticBucket" where
  "normalizeStatisticsBucket b =
     \<lparr>sb_bucket = ab_start b, sb_resultId = ab_resultId b, sb_timestamp = Some (ab_start b),
      sb_label = Some (ab_label b), sb_sampleCount = ac_total (ab_counts b),
      sb_successfulCount = ac_successful (ab_counts b), sb_failedCount = ac_failed (ab_counts b),
      sb_skippedCount = ac_skipped (ab_counts b), sb_successRate = ab_successRatePercent b,
      sb_download = Some (summary_aggregate (ab_downloadBitsPerSecond b)),
      sb_upload = Some (summary_aggregate (ab_uploadBitsPerSecond b)),
      sb_latency = Some (summary_aggregate (ab_latencyMilliseconds b)),
      sb_jitter = Some (summary_aggregate (ab_jitterMilliseconds b)),
      sb_packetLoss = Some (summary_aggregate (ab_packetLossPercent b)),
      sb_duration = Some (summary_aggregate (ab_executionDurationMilliseconds b))\<rparr>"

definition or_else :: "string \<Rightarrow> string \<Rightarrow> string" where
  "or_else s d = (if s = [] then d else s)"

definition group_series :: "StatisticsApiGroup \<Rightarrow> StatisticsSeries" where
  "group_series g =
     \<lparr>ss_id = or_else (ag_key g) ''all'', ss_name = or_else (ag_label g) ''All results'',
      ss_overall = Some (normalizeStatisticsBucket (ag_overall g)),
      ss_buckets = map normalizeStatisticsBucket (ag_buckets g)\<rparr>"

definition series_buckets :: "StatisticsSeries \<Rightarrow> StatisticBucket list" where
  "series_buckets item =
     map (\<lambda>b. b\<lparr>sb_label := Some (ss_name item @ '' / '' @
        (case sb_label b of Some l \<Rightarrow> l | None \<Rightarrow> sb_bucket b))\<rparr>) (ss_buckets item)"

definition normalizeStatistics :: "statistics_payload \<Rightarrow> StatisticsResponse" where
  "normalizeStatistics payload =
     (case payload of
        Report r \<Rightarrow>
          let series = map group_series (ar_groups r);
              overall = normalizeStatisticsBucket (ar_overall r);
              grouped = (case ar_groupBy r of None \<Rightarrow> False | Some g \<Rightarrow> g \<noteq> [])
          in \<lparr>sr_buckets = (if grouped then concat (map series_buckets series)
                            else case series of [] \<Rightarrow> [] | s # _ \<Rightarrow> ss_buckets s),
              sr_overall = Some overall, sr_totals = None, sr_summary = Some overall,
              sr_series = (if grouped then Some series else None),
              sr_timezone = Some (ar_reportingTimezone r), sr_groupBy = ar_groupBy r\<rparr>
      | Compatible c \<Rightarrow>
          \<lparr>sr_buckets = (case co_buckets c of Some bs \<Rightarrow> bs | None \<Rightarrow>
             (case co_items c of Some bs \<Rightarrow> bs | None \<Rightarrow>
             (case co_data c of Some bs \<Rightarrow> bs | None \<Rightarrow> []))),
           sr_overall = co_overall c, sr_totals = co_totals c, sr_summary = co_summary c,
           sr_series = co_series c, sr_timezone = co_timezone c, sr_groupBy = None\<rparr>)"

subsection \<open>Normalised documents have the view types\<close>

definition RawProviderDescriptor :: ts where
  "RawProviderDescriptor =
     TObj [Req ''id'' ProviderId, Req ''displayName'' TStr, Req ''capabilities'' ProviderCapabilities,
       Req ''availability'' (TObj [Req ''available'' TBool, Req ''version'' TStr, Req ''message'' TStr]),
       Opt ''available'' TBool, Opt ''version'' TStr, Opt ''message'' TStr]"

definition RawSystemInterface :: ts where
  "RawSystemInterface =
     ts_inter (ts_omit ui_NetworkInterface [''addresses''])
       (TObj [Opt ''addresses'' (TUnion [TArr InterfaceAddress, TNull])])"

definition RawSystemInfo :: ts where
  "RawSystemInfo =
     ts_inter (ts_omit SystemInfo [''providers'', ''interfaces'', ''buildDate''])
       (TObj [Req ''providers'' (TArr (TUnion [ProviderDescriptor, RawProviderDescriptor])),
         Opt ''interfaces'' (TUnion [TArr RawSystemInterface, TNull]),
         Opt ''buildDate'' TStr, Opt ''buildTime'' TStr])"

lemma has_type_bool: "has_type TBool v \<longleftrightarrow> (\<exists>b. v = JBool b)"
  by (cases v) auto

lemma has_type_str: "has_type TStr v \<longleftrightarrow> (\<exists>s. v = JStr s)"
  by (cases v) auto

lemma sum_mapM_typed:
  assumes "\<And>x. x \<in> set xs \<Longrightarrow> \<exists>y. f x = Inr y \<and> P y"
  shows "\<exists>ys. sum_mapM f xs = Inr ys \<and> list_all P ys"
  using assms
proof (induction xs)
  case (Cons x xs)
  then obtain y ys where "f x = Inr y" "P y" "sum_mapM f xs = Inr ys" "list_all P ys"
    by (metis list.set_intros)
  then show ?case by simp
qed simp

lemma first_truthy_pred: "list_all (pred_option P) vs \<Longrightarrow> P d \<Longrightarrow> P (first_truthy vs d)"
  by (auto simp: first_truthy_def list_all_iff find_Some_iff in_set_conv_nth pred_option_def
      split: option.splits)

lemma opt_prop_obj: "opt_prop (JObj kvs) k = obj_get kvs k"
  by (simp add: opt_prop_def js_prop_def split: option.splits)

lemma nested_prop_typed:
  "has_type t d \<Longrightarrow> (\<And>w. opt_prop n k = Some w \<Longrightarrow> has_type t w) \<Longrightarrow> has_type t (nested_prop (Some n) k d)"
  by (cases n; cases "opt_prop n k") (auto simp: nested_prop_def nullish_def opt_prop_def split: json.splits)

lemma normalizeProvider_typed:
  assumes "has_type ProviderDescriptor v \<or> has_type RawProviderDescriptor v"
  shows "\<exists>w. normalizeProvider v = Inr w \<and> has_type ProviderDescriptor w"
proof -
  obtain kvs where v: "v = JObj kvs"
    using assms by (cases v) (auto simp: ProviderDescriptor_def RawProviderDescriptor_def)
  obtain i d c where get: "obj_get kvs ''id'' = Some i" "has_type ProviderId i"
      "obj_get kvs ''displayName'' = Some d" "has_type TStr d"
      "obj_get kvs ''capabilities'' = Some c" "has_type ProviderCapabilities c"
    using assms v
    by (auto simp: ProviderDescriptor_def RawProviderDescriptor_def split: option.splits)
  have nest: "obj_get kvs ''available'' \<noteq> None \<and> obj_get kvs ''version'' \<noteq> None \<and>
        obj_get kvs ''message'' \<noteq> None \<or>
      (\<exists>n. obj_get kvs ''availability'' = Some n \<and>
        has_type (TObj [Req ''available'' TBool, Req ''version'' TStr, Req ''message'' TStr]) n)"
    using assms v
    by (auto simp: ProviderDescriptor_def RawProviderDescriptor_def split: option.splits)
  have own: "pred_option (has_type TBool) (obj_get kvs ''available'')"
      "pred_option (has_type TStr) (obj_get kvs ''version'')"
      "pred_option (has_type TStr) (obj_get kvs ''message'')"
    using assms v
    by (auto simp: ProviderDescriptor_def RawProviderDescriptor_def split: option.splits)
  have n: "has_type TBool (nested_prop (obj_get kvs ''availability'') ''available'' (JBool False))"
      "has_type TStr (nested_prop (obj_get kvs ''availability'') ''version'' (JStr []))"
      "has_type TStr (nested_prop (obj_get kvs ''availability'') ''message'' (JStr []))"
    if "obj_get kvs ''available'' = None \<or> obj_get kvs ''version'' = None \<or> obj_get kvs ''message'' = None"
  proof -
    from nest that obtain m where "obj_get kvs ''availability'' = Some m"
        "has_type (TObj [Req ''available'' TBool, Req ''version'' TStr, Req ''message'' TStr]) m"
      by (elim disjE conjE exE) (simp_all only: not_True_eq_False)
    then obtain ms where ms: "obj_get kvs ''availability'' = Some (JObj ms)"
        "has_type (TObj [Req ''available'' TBool, Req ''version'' TStr, Req ''message'' TStr]) (JObj ms)"
      by (elim has_type_objE) auto
    have "nested_prop (Some (JObj ms)) k d = nullish (obj_get ms k) d" for k d
      by (simp add: nested_prop_def opt_prop_def js_prop_def nullish_def split: option.splits)
    then show "has_type TBool (nested_prop (obj_get kvs ''availability'') ''available'' (JBool False))"
      "has_type TStr (nested_prop (obj_get kvs ''availability'') ''version'' (JStr []))"
      "has_type TStr (nested_prop (obj_get kvs ''availability'') ''message'' (JStr []))"
      using ms has_type_Req [OF ms(2), of "''available''" TBool] has_type_Req [OF ms(2), of "''version''" TStr]
        has_type_Req [OF ms(2), of "''message''" TStr]
      by (auto simp: nullish_def has_type_bool has_type_str simp del: has_type.simps(1,3))
  qed
  obtain a b e where lit: "normalizeProvider v = Inr (obj_literal [(''id'', Some i), (''displayName'', Some d),
        (''capabilities'', Some c), (''available'', Some a), (''version'', Some b), (''message'', Some e)])"
      and "has_type TBool a" "has_type TStr b" "has_type TStr e"
  proof -
    have "\<exists>a. has_type TBool a \<and> (case obj_get kvs ''available'' of Some (JBool b) \<Rightarrow> JBool b
        | _ \<Rightarrow> nested_prop (obj_get kvs ''availability'') ''available'' (JBool False)) = a"
      using own(1) n(1)
      by (cases "obj_get kvs ''available''") (auto simp: has_type_bool simp del: has_type.simps(3))
    moreover have "has_type TStr (case obj_get kvs k of Some (JStr s) \<Rightarrow> JStr s
        | _ \<Rightarrow> nested_prop (obj_get kvs ''availability'') k (JStr []))" if "k = ''version'' \<or> k = ''message''" for k
      using own(2,3) n(2,3) that
      by (cases "obj_get kvs k") (auto simp: has_type_str simp del: has_type.simps(1))
    ultimately show ?thesis
      using that get v by (fastforce simp: normalizeProvider_def Let_def)
  qed
  then have "has_type ProviderDescriptor (obj_literal [(''id'', Some i), (''displayName'', Some d),
        (''capabilities'', Some c), (''available'', Some a), (''version'', Some b), (''message'', Some e)])"
    using get by (simp add: obj_literal_def ProviderDescriptor_def obj_get_def del: has_type.simps(1-3))
  with lit show ?thesis by blast
qed

lemma normalizeSystemInterface_typed:
  assumes "has_type RawSystemInterface v"
  shows "\<exists>w. normalizeSystemInterface v = Inr w \<and> has_type ui_NetworkInterface w"
proof -
  note [simp] = RawSystemInterface_def ts_ops ui_NetworkInterface_def NetworkInterface_def
  obtain fs where fs: "RawSystemInterface = TObj fs" "Opt ''addresses'' (TUnion [TArr InterfaceAddress, TNull]) \<in> set fs"
    by simp
  obtain kvs where v: "v = JObj kvs"
    using assms unfolding fs(1) by (elim has_type_objE) auto
  have "pred_option (has_type (TUnion [TArr InterfaceAddress, TNull])) (obj_get kvs ''addresses'')"
    using has_type_Opt assms fs v by metis
  then have a: "list_all (has_type InterfaceAddress)
      (case array_prop v ''addresses'' of Some xs \<Rightarrow> xs | None \<Rightarrow> [])"
    by (cases "obj_get kvs ''addresses''")
      (auto simp: v array_prop_def opt_prop_def js_prop_def split: json.splits)
  have "has_type ui_NetworkInterface (JObj (obj_put ''addresses''
      (JArr (case array_prop v ''addresses'' of Some xs \<Rightarrow> xs | None \<Rightarrow> [])) kvs))"
    using assms v a by (simp add: has_field_put del: has_field.simps)
  then show ?thesis
    by (simp add: normalizeSystemInterface_def spread_def v del: ui_NetworkInterface_def)
qed

lemma interfaces_typed:
  "\<forall>i\<in>set xs. has_type RawSystemInterface i \<Longrightarrow>
   \<exists>ys. sum_mapM normalizeSystemInterface xs = Inr ys \<and> list_all (has_type ui_NetworkInterface) ys"
  by (rule sum_mapM_typed) (simp add: normalizeSystemInterface_typed)

lemma providers_typed:
  "\<forall>p\<in>set xs. has_type ProviderDescriptor p \<or> has_type RawProviderDescriptor p \<Longrightarrow>
   \<exists>ys. sum_mapM normalizeProvider xs = Inr ys \<and> list_all (has_type ProviderDescriptor) ys"
  by (rule sum_mapM_typed) (simp add: normalizeProvider_typed)

text \<open>
  The system document is always normalised to the view type: whether providers report their
  availability flat or nested, and whether interfaces and addresses are arrays, \<open>null\<close> or missing, the
  result has every property the system page reads, with its type.
\<close>

theorem system_info_typed:
  assumes "has_type RawSystemInfo v"
  shows "\<exists>w. system_info v = Inr w \<and> has_type SystemInfo w"
proof -
  note [simp] = RawSystemInfo_def ts_ops SystemInfo_def
  obtain fs where fs: "RawSystemInfo = TObj fs"
      "Req ''providers'' (TArr (TUnion [ProviderDescriptor, RawProviderDescriptor])) \<in> set fs"
      "Opt ''interfaces'' (TUnion [TArr RawSystemInterface, TNull]) \<in> set fs"
      "Opt ''buildDate'' TStr \<in> set fs" "Opt ''buildTime'' TStr \<in> set fs"
    by simp
  obtain kvs where v: "v = JObj kvs"
    using assms unfolding fs(1) by (elim has_type_objE) auto
  note ty = assms [unfolded fs(1) v]
  obtain ps where ps: "obj_get kvs ''providers'' = Some (JArr ps)"
      "\<forall>p\<in>set ps. has_type ProviderDescriptor p \<or> has_type RawProviderDescriptor p"
  proof -
    obtain w where w: "obj_get kvs ''providers'' = Some w"
        "has_type (TArr (TUnion [ProviderDescriptor, RawProviderDescriptor])) w"
      using has_type_Req [OF ty fs(2)] by blast
    then show ?thesis using that by (cases w) (auto simp: list_all_iff)
  qed
  have "\<forall>i\<in>set (case array_prop v ''interfaces'' of Some xs \<Rightarrow> xs | None \<Rightarrow> []).
      has_type RawSystemInterface i"
    using has_type_Opt [OF ty fs(3)]
    by (cases "obj_get kvs ''interfaces''")
      (auto simp: v array_prop_def opt_prop_def js_prop_def list_all_iff split: json.splits)
  from interfaces_typed [OF this] obtain ifs where ifs: "sum_mapM normalizeSystemInterface
      (case array_prop v ''interfaces'' of Some xs \<Rightarrow> xs | None \<Rightarrow> []) = Inr ifs"
      "list_all (has_type ui_NetworkInterface) ifs"
    by (elim exE conjE)
  from providers_typed [OF ps(2)] obtain qs where qs: "sum_mapM normalizeProvider ps = Inr qs" "list_all (has_type ProviderDescriptor) qs"
    by (elim exE conjE)
  let ?date = "first_truthy [opt_prop v ''buildDate'', opt_prop v ''buildTime''] (JStr [])"
  have "has_type TStr ?date"
    using has_type_Opt [OF ty fs(4)] has_type_Opt [OF ty fs(5)]
    unfolding v opt_prop_obj
    by (intro first_truthy_pred [of "has_type TStr"]) (simp_all only: list.pred_inject simp_thms has_type.simps json.case)
  then have "has_type SystemInfo (JObj (obj_put ''buildDate'' ?date
      (obj_put ''interfaces'' (JArr ifs) (obj_put ''providers'' (JArr qs) kvs))))"
    using assms v ifs(2) qs(2) by (simp add: has_field_put del: has_field.simps has_type.simps(1))
  moreover have "system_info v = Inr (JObj (obj_put ''buildDate'' ?date
      (obj_put ''interfaces'' (JArr ifs) (obj_put ''providers'' (JArr qs) kvs))))"
    using ifs(1) qs(1) ps(1)
    by (simp add: v system_info_def array_prop_def opt_prop_def js_prop_def spread_def)
  ultimately show ?thesis by blast
qed

theorem system_info_typed_witness:
  "\<exists>w. system_info (JObj [(''version'', JStr ''1''), (''gitCommit'', JStr []), (''buildTime'', JStr ''now''),
      (''goVersion'', JStr []), (''operatingSystem'', JStr ''linux''), (''architecture'', JStr ''amd64''),
      (''databasePath'', JStr []), (''databaseSizeBytes'', jint 1), (''schemaVersion'', jint 3),
      (''uptimeSeconds'', jint 5), (''taskCount'', jint 0), (''resultCount'', jint 0),
      (''runningTaskCount'', jint 0), (''providers'', JArr []), (''interfaces'', JNull)]) = Inr w \<and>
    has_type SystemInfo w"
  by (rule system_info_typed) (simp add: RawSystemInfo_def SystemInfo_def ts_ops obj_get_def)

subsection \<open>Statistics\<close>

definition grouped_report :: "StatisticsApiReport \<Rightarrow> bool" where
  "grouped_report r \<longleftrightarrow> ar_groupBy r \<noteq> None \<and> ar_groupBy r \<noteq> Some []"

lemma bucket_fields [simp]:
  "sb_sampleCount (normalizeStatisticsBucket b) = ac_total (ab_counts b)"
  "sb_successfulCount (normalizeStatisticsBucket b) = ac_successful (ab_counts b)"
  "sb_successRate (normalizeStatisticsBucket b) = ab_successRatePercent b"
  "sb_label (normalizeStatisticsBucket b) = Some (ab_label b)"
  by (simp_all add: normalizeStatisticsBucket_def)

lemma series_fields [simp]:
  "ss_id (group_series g) = or_else (ag_key g) ''all''"
  "ss_buckets (group_series g) = map normalizeStatisticsBucket (ag_buckets g)"
  by (simp_all add: group_series_def)

lemma series_group_buckets:
  "series_buckets (group_series g) =
     map (\<lambda>b. (normalizeStatisticsBucket b)
       \<lparr>sb_label := Some (or_else (ag_label g) ''All results'' @ '' / '' @ ab_label b)\<rparr>) (ag_buckets g)"
  by (simp add: series_buckets_def group_series_def normalizeStatisticsBucket_def)

text \<open>
  Normalising a report loses no sample of the buckets shown: a grouped report shows the buckets
  of all groups in order, labelled with their group, an ungrouped one those of its first group, each
  with its own counts and success rate; the summary is the daemon's overall aggregate and is never
  recomputed from buckets.
\<close>

theorem normalizeStatistics_report:
  "let out = normalizeStatistics (Report r);
       shown = (if grouped_report r then concat (map ag_buckets (ar_groups r))
                else case ar_groups r of [] \<Rightarrow> [] | g # _ \<Rightarrow> ag_buckets g)
   in map sb_sampleCount (sr_buckets out) = map (ac_total \<circ> ab_counts) shown \<and>
      map sb_successfulCount (sr_buckets out) = map (ac_successful \<circ> ab_counts) shown \<and>
      map sb_successRate (sr_buckets out) = map ab_successRatePercent shown \<and>
      map sb_label (sr_buckets out) =
        (if grouped_report r
         then concat (map (\<lambda>g. map (\<lambda>b. Some (or_else (ag_label g) ''All results'' @ '' / '' @ ab_label b))
           (ag_buckets g)) (ar_groups r))
         else map (Some \<circ> ab_label) shown) \<and>
      sr_summary out = Some (normalizeStatisticsBucket (ar_overall r)) \<and> sr_overall out = sr_summary out \<and>
      map_option (map ss_id) (sr_series out) =
        (if grouped_report r then Some (map (\<lambda>g. or_else (ag_key g) ''all'') (ar_groups r)) else None)"
proof -
  have g: "(case ar_groupBy r of None \<Rightarrow> False | Some g \<Rightarrow> g \<noteq> []) = grouped_report r"
    by (auto simp: grouped_report_def split: option.splits)
  show ?thesis
  proof (cases "grouped_report r")
    case True
    then show ?thesis
      by (simp add: normalizeStatistics_def Let_def g series_group_buckets map_concat comp_def)
  next
    case False
    then show ?thesis
      by (cases "ar_groups r") (simp_all add: normalizeStatistics_def Let_def g)
  qed
qed

end
