(* ===== verification/Api.thy ===== *)
theory Api
  imports ApiClient
begin

text \<open>
  The \<open>api\<close> object of \<open>web/src/lib/api.ts\<close>: every method as a constructor of \<open>api_call\<close>, the request
  it sends and what it makes of the response. The requests are compared with the contract of
  \<open>ApiContract\<close>: a router that splits and decodes a URL path recovers the arguments, the query uses
  declared parameters only, and bodies have the declared type.
\<close>

datatype api_call =
    Api_health
  | Api_tasks
  | Api_task string
  | Api_createTask json
  | Api_updateTask string json
  | Api_deleteTask string
  | Api_runTask string
  | Api_validateTask string
  | Api_validateTaskInput json
  | Api_duplicateTask string
  | Api_nextRuns string
  | Api_results params
  | Api_dashboardSummary
  | Api_result string
  | Api_deleteResult string
  | Api_deleteResults "string list"
  | Api_statistics params
  | Api_interfaces params
  | Api_refreshInterfaces
  | Api_routes
  | Api_route string
  | Api_createRoute json
  | Api_updateRoute string json
  | Api_deleteRoute string
  | Api_validateRoute string
  | Api_providers
  | Api_ooklaBinaryStatus
  | Api_uploadOoklaBinary string
  | Api_providerServers string params
  | Api_validateServer string json
  | Api_settings
  | Api_updateSettings json
  | Api_updateOoklaEula bool bool
  | Api_exportConfiguration
  | Api_importConfiguration json
  | Api_backup
  | Api_cleanupResults "string option"
  | Api_system

definition api_request :: "api_call \<Rightarrow> http_request" where
  "api_request c =
     (let id = encodeURIComponent in
      case c of
        Api_health \<Rightarrow> request_message ''/healthz'' get_init
      | Api_tasks \<Rightarrow> request_message ''/tasks'' get_init
      | Api_task i \<Rightarrow> request_message (''/tasks/'' @ id i) get_init
      | Api_createTask v \<Rightarrow> request_message ''/tasks'' (verb_json ''POST'' v)
      | Api_updateTask i v \<Rightarrow> request_message (''/tasks/'' @ id i) (verb_json ''PUT'' v)
      | Api_deleteTask i \<Rightarrow> request_message (''/tasks/'' @ id i) (verb ''DELETE'')
      | Api_runTask i \<Rightarrow> request_message (''/tasks/'' @ id i @ ''/run'') (verb ''POST'')
      | Api_validateTask i \<Rightarrow> validation_message (''/tasks/'' @ id i @ ''/validate'') None
      | Api_validateTaskInput v \<Rightarrow> validation_message ''/tasks/validate'' (Some v)
      | Api_duplicateTask i \<Rightarrow> request_message (''/tasks/'' @ id i @ ''/duplicate'') (verb ''POST'')
      | Api_nextRuns i \<Rightarrow> request_message (''/tasks/'' @ id i @ ''/next-runs'') get_init
      | Api_results q \<Rightarrow> request_message (''/results'' @ queryString (with_interface q)) get_init
      | Api_dashboardSummary \<Rightarrow> request_message ''/results/dashboard-summary'' get_init
      | Api_result i \<Rightarrow> request_message (''/results/'' @ id i) get_init
      | Api_deleteResult i \<Rightarrow> request_message (''/results/'' @ id i) (verb ''DELETE'')
      | Api_deleteResults ids \<Rightarrow> request_message ''/results/delete-batch''
          (verb_json ''POST'' (JObj [(''ids'', JArr (map JStr ids))]))
      | Api_statistics q \<Rightarrow> request_message (''/statistics'' @ queryString (statistics_params q)) get_init
      | Api_interfaces q \<Rightarrow> request_message (''/interfaces'' @ queryString q) get_init
      | Api_refreshInterfaces \<Rightarrow> request_message ''/interfaces/refresh'' (verb ''POST'')
      | Api_routes \<Rightarrow> request_message ''/route-profiles'' get_init
      | Api_route i \<Rightarrow> request_message (''/route-profiles/'' @ id i) get_init
      | Api_createRoute v \<Rightarrow> request_message ''/route-profiles'' (verb_json ''POST'' v)
      | Api_updateRoute i v \<Rightarrow> request_message (''/route-profiles/'' @ id i) (verb_json ''PUT'' v)
      | Api_deleteRoute i \<Rightarrow> request_message (''/route-profiles/'' @ id i) (verb ''DELETE'')
      | Api_validateRoute i \<Rightarrow> validation_message (''/route-profiles/'' @ id i @ ''/validate'') None
      | Api_providers \<Rightarrow> request_message ''/providers'' get_init
      | Api_ooklaBinaryStatus \<Rightarrow> request_message ''/providers/ookla/binary'' get_init
      | Api_uploadOoklaBinary contents \<Rightarrow> uploadOoklaBinary_message contents
      | Api_providerServers p q \<Rightarrow>
          request_message (''/providers/'' @ id p @ ''/servers'' @ queryString (with_interface q)) get_init
      | Api_validateServer p v \<Rightarrow>
          request_message (''/providers/'' @ id p @ ''/validate-server'') (verb_json ''POST'' v)
      | Api_settings \<Rightarrow> request_message ''/settings'' get_init
      | Api_updateSettings v \<Rightarrow> request_message ''/settings'' (verb_json ''PUT'' v)
      | Api_updateOoklaEula accepted confirmed \<Rightarrow> request_message ''/settings/ookla-eula''
          (verb_json ''PUT'' (JObj [(''accepted'', JBool accepted), (''confirmed'', JBool confirmed)]))
      | Api_exportConfiguration \<Rightarrow> downloadConfiguration_message
      | Api_importConfiguration v \<Rightarrow> request_message ''/config/import'' (verb_json ''POST'' v)
      | Api_backup \<Rightarrow> downloadBackup_message
      | Api_cleanupResults before \<Rightarrow> request_message ''/retention/cleanup''
          (verb_json ''POST'' (JObj (case before of
             Some b \<Rightarrow> if b = [] then [] else [(''before'', JStr b)] | None \<Rightarrow> [])))
      | Api_system \<Rightarrow> request_message ''/system'' get_init)"

datatype api_value = Undefined | Value json | Download download

definition with_payload :: "http_response \<Rightarrow> (json \<Rightarrow> failure + json) \<Rightarrow> failure + api_value" where
  "with_payload r f =
     sum_bind (request_result r) (\<lambda>v. case v of
       None \<Rightarrow> Inl Type_Error | Some p \<Rightarrow> sum_bind (f p) (\<lambda>w. Inr (Value w)))"

definition plain :: "http_response \<Rightarrow> failure + api_value" where
  "plain r = sum_bind (request_result r) (\<lambda>v. Inr (case v of None \<Rightarrow> Undefined | Some w \<Rightarrow> Value w))"

definition items_result :: "http_response \<Rightarrow> failure + api_value" where
  "items_result r = with_payload r (\<lambda>p. sum_bind (itemsFrom p) (\<lambda>xs. Inr (JArr xs)))"

text \<open>
  What a method makes of its response. The payload of \<open>statistics\<close> is the raw document;
  \<^const>\<open>normalizeStatistics\<close> is applied to it as a typed value.
\<close>

definition api_response :: "api_call \<Rightarrow> http_response \<Rightarrow> failure + api_value" where
  "api_response c r =
     (case c of
        Api_tasks \<Rightarrow> items_result r
      | Api_validateTask _ \<Rightarrow> sum_bind (validation_result r) (\<lambda>v. Inr (Value v))
      | Api_validateTaskInput _ \<Rightarrow> sum_bind (validation_result r) (\<lambda>v. Inr (Value v))
      | Api_nextRuns _ \<Rightarrow> with_payload r nextRuns_of
      | Api_results _ \<Rightarrow> sum_bind (request_result r) (\<lambda>v.
          Inr (case v of None \<Rightarrow> Undefined | Some p \<Rightarrow> Value (resultsPage p)))
      | Api_interfaces _ \<Rightarrow> items_result r
      | Api_routes \<Rightarrow> items_result r
      | Api_validateRoute _ \<Rightarrow> sum_bind (validation_result r) (\<lambda>v. Inr (Value v))
      | Api_providers \<Rightarrow> with_payload r (\<lambda>p.
          sum_bind (itemsFrom p) (\<lambda>xs. sum_bind (sum_mapM normalizeProvider xs) (\<lambda>ps. Inr (JArr ps))))
      | Api_uploadOoklaBinary _ \<Rightarrow> sum_bind (uploadOoklaBinary r) (\<lambda>v. Inr (Value v))
      | Api_providerServers _ _ \<Rightarrow> items_result r
      | Api_exportConfiguration \<Rightarrow> sum_bind (downloadConfiguration r) (\<lambda>d. Inr (Download d))
      | Api_backup \<Rightarrow> sum_bind (downloadBackup r) (\<lambda>d. Inr (Download d))
      | Api_system \<Rightarrow> with_payload r system_info
      | _ \<Rightarrow> plain r)"

definition api_run ::
  "(http_request \<Rightarrow> failure + http_response) \<Rightarrow> api_call \<Rightarrow> failure + api_value" where
  "api_run fetch c = sum_bind (fetch (api_request c)) (api_response c)"

definition api_exportUrl :: "string \<Rightarrow> params \<Rightarrow> string" where
  "api_exportUrl format q =
     API_ROOT @ ''/exports/results.'' @ format @ queryString (with_interface q)"

definition api_eventsUrl :: string where
  "api_eventsUrl = API_ROOT @ ''/events''"

subsection \<open>The contract of every call\<close>

definition call_contract :: "api_call \<Rightarrow> contract" where
  "call_contract c =
     (case c of
        Api_health \<Rightarrow> getHealth_contract
      | Api_tasks \<Rightarrow> listTasks_contract
      | Api_task _ \<Rightarrow> getTask_contract
      | Api_createTask _ \<Rightarrow> createTask_contract
      | Api_updateTask _ _ \<Rightarrow> updateTask_contract
      | Api_deleteTask _ \<Rightarrow> deleteTask_contract
      | Api_runTask _ \<Rightarrow> runTask_contract
      | Api_validateTask _ \<Rightarrow> validateTask_contract
      | Api_validateTaskInput _ \<Rightarrow> validateTransientTask_contract
      | Api_duplicateTask _ \<Rightarrow> duplicateTask_contract
      | Api_nextRuns _ \<Rightarrow> getTaskNextRuns_contract
      | Api_results _ \<Rightarrow> listResults_contract
      | Api_dashboardSummary \<Rightarrow> getDashboardResultSummary_contract
      | Api_result _ \<Rightarrow> getResult_contract
      | Api_deleteResult _ \<Rightarrow> deleteResult_contract
      | Api_deleteResults _ \<Rightarrow> deleteResultsBatch_contract
      | Api_statistics _ \<Rightarrow> getStatistics_contract
      | Api_interfaces _ \<Rightarrow> listInterfaces_contract
      | Api_refreshInterfaces \<Rightarrow> refreshInterfaces_contract
      | Api_routes \<Rightarrow> listRouteProfiles_contract
      | Api_route _ \<Rightarrow> getRouteProfile_contract
      | Api_createRoute _ \<Rightarrow> createRouteProfile_contract
      | Api_updateRoute _ _ \<Rightarrow> updateRouteProfile_contract
      | Api_deleteRoute _ \<Rightarrow> deleteRouteProfile_contract
      | Api_validateRoute _ \<Rightarrow> validateRouteProfile_contract
      | Api_providers \<Rightarrow> listProviders_contract
      | Api_ooklaBinaryStatus \<Rightarrow> getOoklaBinaryStatus_contract
      | Api_uploadOoklaBinary _ \<Rightarrow> uploadOoklaBinary_contract
      | Api_providerServers _ _ \<Rightarrow> listProviderServers_contract
      | Api_validateServer _ _ \<Rightarrow> validateProviderServer_contract
      | Api_settings \<Rightarrow> getSettings_contract
      | Api_updateSettings _ \<Rightarrow> updateSettings_contract
      | Api_updateOoklaEula _ _ \<Rightarrow> updateOoklaEulaAcceptance_contract
      | Api_exportConfiguration \<Rightarrow> exportConfiguration_contract
      | Api_importConfiguration _ \<Rightarrow> importConfiguration_contract
      | Api_backup \<Rightarrow> createBackup_contract
      | Api_cleanupResults _ \<Rightarrow> cleanupResults_contract
      | Api_system \<Rightarrow> getSystemInformation_contract)"

text \<open>The arguments a call puts into the path and the parameters it puts into the query.\<close>

definition call_path :: "api_call \<Rightarrow> string list" where
  "call_path c =
     (case c of
        Api_task i \<Rightarrow> [i] | Api_updateTask i _ \<Rightarrow> [i] | Api_deleteTask i \<Rightarrow> [i] | Api_runTask i \<Rightarrow> [i]
      | Api_validateTask i \<Rightarrow> [i] | Api_duplicateTask i \<Rightarrow> [i] | Api_nextRuns i \<Rightarrow> [i]
      | Api_result i \<Rightarrow> [i] | Api_deleteResult i \<Rightarrow> [i] | Api_route i \<Rightarrow> [i] | Api_updateRoute i _ \<Rightarrow> [i]
      | Api_deleteRoute i \<Rightarrow> [i] | Api_validateRoute i \<Rightarrow> [i] | Api_providerServers p _ \<Rightarrow> [p]
      | Api_validateServer p _ \<Rightarrow> [p]
      | _ \<Rightarrow> [])"

definition call_query :: "api_call \<Rightarrow> params" where
  "call_query c =
     (case c of
        Api_results q \<Rightarrow> with_interface q
      | Api_statistics q \<Rightarrow> statistics_params q
      | Api_interfaces q \<Rightarrow> q
      | Api_providerServers _ q \<Rightarrow> with_interface q
      | _ \<Rightarrow> [])"

text \<open>
  How a server reads a URL: the path up to the question mark is split at slashes; a template
  segment in braces binds the decoded segment.
\<close>

fun match_segments :: "string list \<Rightarrow> string list \<Rightarrow> string list option" where
  "match_segments [] [] = Some []"
| "match_segments (t # ts) (s # ss) =
     (if prefix ''{'' t then
        (case (percent_decode s, match_segments ts ss) of
           (Some v, Some vs) \<Rightarrow> Some (v # vs) | _ \<Rightarrow> None)
      else if t = s then match_segments ts ss else None)"
| "match_segments _ _ = None"

definition url_path :: "string \<Rightarrow> string" where
  "url_path u = takeWhile (\<lambda>c. c \<noteq> CHR ''?'') u"

definition url_query :: "string \<Rightarrow> string" where
  "url_query u = drop 1 (dropWhile (\<lambda>c. c \<noteq> CHR ''?'') u)"

definition route_url :: "contract \<Rightarrow> string \<Rightarrow> string list option" where
  "route_url k u =
     match_segments (split_char CHR ''/'' (API_ROOT @ c_url k)) (split_char CHR ''/'' (url_path u))"

subsection \<open>Every path routes back to its arguments\<close>

lemma encode_no_slash [simp]: "CHR ''/'' \<notin> set (encodeURIComponent s)"
  by (auto dest!: encodeURIComponent_chars simp: uri_safe_def char_class_defs)

lemma encode_no_question [simp]: "CHR ''?'' \<notin> set (encodeURIComponent s)"
  by (auto dest!: encodeURIComponent_chars simp: uri_safe_def char_class_defs)

lemma url_path_simps [simp]:
  "url_path [] = []"
  "url_path (c # s) = (if c = CHR ''?'' then [] else c # url_path s)"
  "url_path (encodeURIComponent i) = encodeURIComponent i"
  "url_path (encodeURIComponent i @ s) = encodeURIComponent i @ url_path s"
  "url_path (queryString q) = []"
proof -
  have e: "\<forall>c\<in>set (encodeURIComponent i). c \<noteq> CHR ''?''"
    using encode_no_question [of i] by auto
  then show "url_path (encodeURIComponent i @ s) = encodeURIComponent i @ url_path s"
    by (simp add: url_path_def takeWhile_append2)
  show "url_path (encodeURIComponent i) = encodeURIComponent i"
    using e by (simp add: url_path_def takeWhile_eq_all_conv)
qed (simp_all add: url_path_def queryString_def Let_def)

lemma url_query_simps [simp]:
  "url_query [] = []"
  "url_query (c # s) = (if c = CHR ''?'' then s else url_query s)"
  "url_query (encodeURIComponent i) = []"
  "url_query (encodeURIComponent i @ s) = url_query s"
  "url_query (queryString q) = search_string (search_params q)"
proof -
  have e: "\<forall>c\<in>set (encodeURIComponent i). c \<noteq> CHR ''?''"
    using encode_no_question [of i] by auto
  then have d: "dropWhile (\<lambda>c. c \<noteq> CHR ''?'') (encodeURIComponent i) = []"
    by auto
  show "url_query (encodeURIComponent i @ s) = url_query s"
    using e by (simp add: url_query_def dropWhile_append2)
  show "url_query (encodeURIComponent i) = []"
    by (simp add: url_query_def d)
qed (simp_all add: url_query_def queryString_def Let_def)

lemma split_encode [simp]: "split_char CHR ''/'' (encodeURIComponent s) = [encodeURIComponent s]"
  by (rule split_char_none) simp

lemma split_encode_slash [simp]:
  "split_char CHR ''/'' (encodeURIComponent s @ CHR ''/'' # t) =
   encodeURIComponent s # split_char CHR ''/'' t"
  by (rule split_char_append) simp

lemma rq_url_message [simp]:
  "rq_url (request_message p i) = API_ROOT @ p"
  "rq_url (validation_message p v) = API_ROOT @ p"
  "rq_url downloadBackup_message = API_ROOT @ ''/backup''"
  "rq_url downloadConfiguration_message = API_ROOT @ ''/config/export''"
  "rq_url (uploadOoklaBinary_message f) = API_ROOT @ ''/providers/ookla/binary''"
  by (simp_all add: request_message_def validation_message_def downloadBackup_message_def
      downloadConfiguration_message_def uploadOoklaBinary_message_def Let_def)


subsection \<open>Queries decode to the given parameters\<close>

definition param_pairs :: "string \<times> json option \<Rightarrow> (string \<times> string) list" where
  "param_pairs kv =
     (case kv of (k, v) \<Rightarrow>
        if skipped v then []
        else case v of
          Some (JArr items) \<Rightarrow> map (\<lambda>item. (k, js_string item)) items
        | Some w \<Rightarrow> [(k, js_string w)]
        | None \<Rightarrow> [])"

lemma param_pairs_key: "p \<in> set (param_pairs kv) \<Longrightarrow> fst p = fst kv"
proof -
  obtain k v where kv: "kv = (k, v)" by (cases kv)
  show "p \<in> set (param_pairs kv) \<Longrightarrow> fst p = fst kv"
  proof (cases v)
    case (Some w)
    then show "p \<in> set (param_pairs kv) \<Longrightarrow> fst p = fst kv"
      using kv by (cases w) (auto simp: param_pairs_def split: if_splits)
  qed (simp add: kv param_pairs_def skipped_def)
qed

lemma search_add_fresh:
  "fst kv \<notin> set (map fst ps) \<Longrightarrow> search_add ps kv = ps @ param_pairs kv"
  by (cases kv)
    (auto simp: search_add_def param_pairs_def search_set_def split: option.splits json.splits)

lemma foldl_search_add:
  "distinct (map fst q) \<Longrightarrow> set (map fst q) \<inter> set (map fst ps) = {} \<Longrightarrow>
   foldl search_add ps q = ps @ concat (map param_pairs q)"
proof (induction q arbitrary: ps)
  case (Cons kv q)
  have "set (map fst q) \<inter> set (map fst (ps @ param_pairs kv)) = {}"
  proof (rule ccontr)
    assume "set (map fst q) \<inter> set (map fst (ps @ param_pairs kv)) \<noteq> {}"
    then obtain k where "k \<in> set (map fst q)" "k \<in> set (map fst ps) \<or> k \<in> fst ` set (param_pairs kv)"
      by auto
    moreover have "fst ` set (param_pairs kv) \<subseteq> {fst kv}"
      by (auto dest: param_pairs_key)
    ultimately have "k \<in> set (map fst ps) \<or> k = fst kv" by blast
    with Cons.prems \<open>k \<in> set (map fst q)\<close> show False by (auto simp: disjoint_iff)
  qed
  moreover have "search_add ps kv = ps @ param_pairs kv"
    using Cons.prems by (intro search_add_fresh) (simp add: disjoint_iff)
  ultimately show ?case
    using Cons.IH [of "ps @ param_pairs kv"] Cons.prems(1) by simp
qed simp

lemma search_params_pairs:
  "distinct (map fst q) \<Longrightarrow> search_params q = concat (map param_pairs q)"
  by (simp add: search_params_def foldl_search_add)

text \<open>
  A server that parses the query string gets exactly the given parameters in order: a present,
  non-empty scalar once, an array once per element, and nothing for \<open>undefined\<close>, \<open>null\<close>, the empty
  string and the empty array.
\<close>

theorem queryString_roundtrip:
  assumes "distinct (map fst q)"
  shows "parse_search (drop 1 (queryString q)) = Some (concat (map param_pairs q))"
proof -
  have "drop 1 (queryString q) = search_string (search_params q)"
    by (simp add: queryString_def Let_def)
  with assms show ?thesis by (simp add: parse_search_string search_params_pairs)
qed

theorem queryString_roundtrip_witness:
  "parse_search (drop 1 (queryString [(''search'', Some (JStr ''a&b=c d'')), (''page'', None),
      (''taskId'', Some (JArr [JStr ''x'', JStr ''y'']))])) =
   Some [(''search'', ''a&b=c d''), (''taskId'', ''x''), (''taskId'', ''y'')]"
  using queryString_roundtrip [of "[(''search'', Some (JStr ''a&b=c d'')), (''page'', None),
      (''taskId'', Some (JArr [JStr ''x'', JStr ''y'']))]"]
  by (simp add: param_pairs_def skipped_def)

text \<open>The parameter objects the type checker admits.\<close>

definition query_ok :: "api_call \<Rightarrow> bool" where
  "query_ok c =
     (case c of
        Api_results q \<Rightarrow> distinct (map fst q) \<and> set (map fst q) \<subseteq> set ResultsQuery
      | Api_statistics q \<Rightarrow> distinct (map fst q) \<and> set (map fst q) \<subseteq> set StatisticsQuery
      | Api_interfaces q \<Rightarrow> distinct (map fst q) \<and> set (map fst q) \<subseteq> {''includeDown'', ''includeVirtual''}
      | Api_providerServers _ q \<Rightarrow> distinct (map fst q) \<and>
          set (map fst q) \<subseteq> {''search'', ''interfaceName'', ''sourceIp'', ''ipFamily''}
      | _ \<Rightarrow> True)"

lemma param_keys:
  "p \<in> set (concat (map param_pairs q)) \<Longrightarrow> \<exists>v. (fst p, v) \<in> set q \<and> \<not> skipped v"
proof -
  assume "p \<in> set (concat (map param_pairs q))"
  then obtain k v where kv: "(k, v) \<in> set q" "p \<in> set (param_pairs (k, v))" by auto
  have "\<not> skipped v" using kv(2) by (auto simp: param_pairs_def split: if_splits)
  with kv param_pairs_key [OF kv(2)] show ?thesis by auto
qed

lemma call_query_url: "url_query (rq_url (api_request c)) = search_string (search_params (call_query c))"
  by (cases c; simp add: api_request_def call_query_def API_ROOT_def search_params_def search_string_def
      request_message_def validation_message_def downloadBackup_message_def
      downloadConfiguration_message_def uploadOoklaBinary_message_def Let_def)

lemma call_query_distinct: "query_ok c \<Longrightarrow> distinct (map fst (call_query c))"
  by (cases c) (simp_all add: query_ok_def call_query_def with_interface_def statistics_params_def
      obj.invar_put obj.invar_delete)

lemma entry_of_put: "distinct (map fst q) \<Longrightarrow> (k', v') \<in> set (obj_put k v q) \<Longrightarrow>
    k' = k \<and> v' = v \<or> k' \<noteq> k \<and> (k', v') \<in> set q"
  using obj.get_put [of k v q k'] obj.invar_put [of q k v]
  by (auto simp: obj_get_def map_of_eq_Some_iff dest!: map_of_is_SomeI split: if_splits
      intro: map_of_SomeD)

lemma entry_of_delete: "(k', v') \<in> set (obj_delete k q) \<Longrightarrow> k' \<noteq> k \<and> (k', v') \<in> set q"
  by (auto simp: obj_delete_def)

lemma with_interface_entry:
  assumes "distinct (map fst q)" "(k, v) \<in> set (with_interface q)"
  shows "k = ''interface'' \<or> k \<noteq> ''interfaceName'' \<and> k \<in> fst ` set q"
  using entry_of_put [OF obj.invar_delete [OF assms(1)] assms(2) [unfolded with_interface_def]]
  by (auto dest!: entry_of_delete intro: rev_image_eqI)

lemma statistics_params_entry:
  assumes "distinct (map fst q)" "(k, v) \<in> set (statistics_params q)"
  shows "k = ''interface'' \<or> k = ''metric'' \<and> v = None \<or>
    k \<noteq> ''interfaceName'' \<and> k \<noteq> ''metric'' \<and> k \<in> fst ` set q"
  using entry_of_put [OF obj.invar_put [OF obj.invar_delete [OF assms(1)]]
      assms(2) [unfolded statistics_params_def]]
  by (auto dest!: entry_of_put [OF obj.invar_delete [OF assms(1)]] entry_of_delete
      intro: rev_image_eqI)

lemma call_query_names:
  assumes "query_ok c" "(k, v) \<in> set (call_query c)" "\<not> skipped v"
  shows "k \<in> set (map field_name (c_query (call_contract c)))"
proof (cases c)
  case (Api_results q)
  with assms with_interface_entry [of q k v] show ?thesis
    by (auto simp: query_ok_def call_query_def call_contract_def listResults_contract_def ResultsQuery_def)
next
  case (Api_statistics q)
  with assms statistics_params_entry [of q k v] show ?thesis
    by (auto simp: query_ok_def call_query_def call_contract_def getStatistics_contract_def
        StatisticsQuery_def skipped_def)
next
  case (Api_interfaces q)
  with assms show ?thesis
    by (auto simp: query_ok_def call_query_def call_contract_def listInterfaces_contract_def)
next
  case (Api_providerServers p q)
  with assms with_interface_entry [of q k v] show ?thesis
    by (auto simp: query_ok_def call_query_def call_contract_def listProviderServers_contract_def)
qed (use assms in \<open>simp_all add: call_query_def\<close>)

text \<open>
  C15. Every request the client sends carries a query that decodes without error and uses only
  parameters the contract declares for that endpoint: \<open>interfaceName\<close> arrives as \<open>interface\<close> and the
  chart-only \<open>metric\<close> is never sent.
\<close>

theorem api_request_query:
  assumes "query_ok c"
  shows "\<exists>ps. parse_search (url_query (rq_url (api_request c))) = Some ps \<and>
    list_all (\<lambda>p. fst p \<in> set (map field_name (c_query (call_contract c)))) ps"
proof -
  have "search_params (call_query c) = concat (map param_pairs (call_query c))"
    using call_query_distinct [OF assms] by (rule search_params_pairs)
  then have "list_all (\<lambda>p. fst p \<in> set (map field_name (c_query (call_contract c))))
      (search_params (call_query c))"
    unfolding list_all_iff using param_keys call_query_names [OF assms] by metis
  then show ?thesis
    by (simp add: call_query_url parse_search_string)
qed

theorem api_request_query_witness:
  "\<exists>ps. parse_search (url_query (rq_url (api_request (Api_statistics
      [(''granularity'', Some (JStr ''day'')), (''metric'', Some (JStr ''download'')),
       (''interfaceName'', Some (JArr [JStr ''eth0'']))])))) = Some ps \<and>
    list_all (\<lambda>p. fst p \<in> set (map field_name (c_query getStatistics_contract))) ps"
  using api_request_query [of "Api_statistics [(''granularity'', Some (JStr ''day'')),
      (''metric'', Some (JStr ''download'')), (''interfaceName'', Some (JArr [JStr ''eth0'']))]"]
  by (simp add: query_ok_def StatisticsQuery_def call_contract_def)

subsection \<open>Bodies have the declared types\<close>

definition text_conforms :: "ts \<Rightarrow> req_body \<Rightarrow> bool" where
  "text_conforms t b =
     (case b of
        Body_Text s \<Rightarrow> (case json_parse s of Some v \<Rightarrow> has_type t v | None \<Rightarrow> False)
      | Body_File _ \<Rightarrow> t = TBlob
      | Body_Form \<Rightarrow> False)"

definition body_conforms :: "body_spec \<Rightarrow> req_body option \<Rightarrow> bool" where
  "body_conforms spec b =
     (case (spec, b) of
        (NoBody, None) \<Rightarrow> True
      | (OptBody t, None) \<Rightarrow> True
      | (OptBody t, Some w) \<Rightarrow> text_conforms t w
      | (Body t, Some w) \<Rightarrow> text_conforms t w
      | _ \<Rightarrow> False)"

definition content_type_ok :: "http_request \<Rightarrow> bool" where
  "content_type_ok q =
     (case rq_body q of
        Some (Body_Text _) \<Rightarrow> map_of (rq_headers q) ''Content-Type'' = Some ''application/json''
      | Some (Body_File _) \<Rightarrow> map_of (rq_headers q) ''Content-Type'' = Some ''application/octet-stream''
      | _ \<Rightarrow> True)"

text \<open>The arguments the type checker admits, as JSON values with exact integers.\<close>

definition typed_call :: "api_call \<Rightarrow> bool" where
  "typed_call c =
     (case c of
        Api_createTask v \<Rightarrow> wf_json v \<and> has_type ui_TaskInput v
      | Api_updateTask _ v \<Rightarrow> wf_json v \<and> has_type ui_TaskInput v
      | Api_validateTaskInput v \<Rightarrow> wf_json v \<and> has_type ui_TaskInput v
      | Api_createRoute v \<Rightarrow> wf_json v \<and> has_type ui_RouteProfileInput v
      | Api_updateRoute _ v \<Rightarrow> wf_json v \<and> has_type ui_RouteProfileInput v
      | Api_validateServer _ v \<Rightarrow> wf_json v \<and> has_type ProviderServerValidation v
      | Api_updateSettings v \<Rightarrow> wf_json v \<and> has_type ui_Settings v
      | Api_importConfiguration v \<Rightarrow> wf_json v \<and> has_type ConfigurationDocument v
      | _ \<Rightarrow> True)"

lemma text_conforms_json: "wf_json v \<Longrightarrow> has_type t v \<Longrightarrow> text_conforms t (Body_Text (json_string v))"
  by (simp add: text_conforms_def json_parse_string)

lemma body_ids: "text_conforms (TObj [Req ''ids'' (TArr Uuid)])
    (Body_Text (json_string (JObj [(''ids'', JArr (map JStr ids))])))"
  by (rule text_conforms_json, rule wf_literal)
    (simp_all add: letter_key_def is_alpha_def list_all_iff obj_get_def Uuid_def)

lemma body_eula: "text_conforms OoklaEulaAcceptanceRequest
    (Body_Text (json_string (JObj [(''accepted'', JBool a), (''confirmed'', JBool b)])))"
  by (rule text_conforms_json, rule wf_literal)
    (simp_all add: letter_key_def is_alpha_def obj_get_def OoklaEulaAcceptanceRequest_def)

lemma body_cleanup: "text_conforms (TObj [Opt ''before'' TStr])
    (Body_Text (json_string (JObj (case before of
       Some b \<Rightarrow> if b = [] then [] else [(''before'', JStr b)] | None \<Rightarrow> []))))"
  by (rule text_conforms_json, rule wf_literal)
    (auto simp: letter_key_def is_alpha_def obj_get_def split: option.splits if_splits)

lemma rq_body_message [simp]:
  "rq_body (request_message p i) = init_body i"
  "rq_body (validation_message p v) = map_option (\<lambda>v. Body_Text (json_string v)) v"
  by (simp_all add: request_message_def validation_message_def Let_def)



subsection \<open>Error responses\<close>

definition envelope :: "string \<Rightarrow> string \<Rightarrow> string \<Rightarrow> json" where
  "envelope code message requestId =
     JObj [(''error'', JObj [(''code'', JStr code), (''message'', JStr message),
       (''requestId'', JStr requestId)])]"

lemma envelope_typed: "has_type ErrorEnvelope (envelope code message requestId)"
  by (simp add: ErrorEnvelope_def envelope_def obj_get_def)

lemma wf_envelope: "wf_json (envelope code message requestId)"
  unfolding envelope_def
  by (rule wf_literal; simp add: letter_key_def is_alpha_def wf_literal del: wf_json.simps(3))

lemma error_statuses: "st \<in> fst ` set (c_errors (call_contract c)) \<Longrightarrow> 400 \<le> st"
  by (cases c; auto simp: call_contract_def contract_defs envelopes_def)

lemma r_json_string: "r_text r = json_string v \<Longrightarrow> wf_json v \<Longrightarrow> r_json r = Inr v"
  by (simp add: r_json_def json_parse_string)

definition envelope_failure :: "http_response \<Rightarrow> string \<Rightarrow> string \<Rightarrow> string \<Rightarrow> failure" where
  "envelope_failure r code message requestId =
     Api_Failure \<lparr>ae_message = message, ae_status = r_status r, ae_code = JStr code,
       ae_requestId = Some (JStr requestId), ae_details = None\<rparr>"

lemma parseError_envelope:
  assumes "r_text r = json_string (envelope code message requestId)" "message \<noteq> []"
  shows "Api_Failure (parseError r) = envelope_failure r code message requestId"
  using r_json_string [OF assms(1) wf_envelope] assms(2)
  by (simp add: parseError_def error_message_def js_prop_def envelope_def obj_get_def truthy_def
      envelope_error_def new_ApiError_def opt_prop_def envelope_failure_def)

lemma payload_envelope:
  "parseErrorFromPayload r (envelope code message requestId) = envelope_failure r code message requestId"
  by (simp add: parseErrorFromPayload_def opt_prop_def js_prop_def envelope_def obj_get_def
      new_ApiError_def envelope_failure_def)

text \<open>
  C16. Whatever documented error status an endpoint answers with, an error envelope in the body
  reaches the caller of every client method as an \<open>ApiError\<close> with the envelope's message, code and
  request identifier and the HTTP status; this includes the validation endpoints, which treat the
  status 422 specially.
\<close>

theorem api_error_envelope:
  assumes "r_status r \<in> fst ` set (c_errors (call_contract c))"
    and "r_text r = json_string (envelope code message requestId)" and "message \<noteq> []"
  shows "api_response c r = Inl (envelope_failure r code message requestId)"
proof -
  have n: "\<not> r_ok r"
    using error_statuses [OF assms(1)] by (simp add: r_ok_def)
  note e = parseError_envelope [OF assms(2,3)]
  have q: "request_result r = Inl (envelope_failure r code message requestId)"
    using n by (simp add: request_result_def e)
  have "has_prop (envelope code message requestId) ''success'' = Inr False"
    by (simp add: has_prop_def envelope_def obj_get_def)
  then have v: "validation_result r = Inl (envelope_failure r code message requestId)"
    using n by (simp add: validation_result_def e r_json_string [OF assms(2) wf_envelope] payload_envelope)
  show ?thesis
    using n by (cases c; simp add: api_response_def items_result_def with_payload_def plain_def q v e
        uploadOoklaBinary_def downloadConfiguration_def downloadBackup_def download_result_def)
qed

theorem api_error_envelope_witness:
  "api_response (Api_validateTask ''a'') \<lparr>r_status = 422, r_statusText = [], r_disposition = None,
      r_text = json_string (envelope ''INVALID'' ''no route'' ''r1'')\<rparr> =
   Inl (Api_Failure \<lparr>ae_message = ''no route'', ae_status = 422, ae_code = JStr ''INVALID'',
     ae_requestId = Some (JStr ''r1''), ae_details = None\<rparr>)"
  using api_error_envelope [of "\<lparr>r_status = 422, r_statusText = [], r_disposition = None,
      r_text = json_string (envelope ''INVALID'' ''no route'' ''r1'')\<rparr>" "Api_validateTask ''a''"
      "''INVALID''" "''no route''" "''r1''"]
  by (simp add: call_contract_def validateTask_contract_def envelope_failure_def)

text \<open>
  A validation that fails on the network side is a result, not an error: the three validation
  methods return a \<open>RouteValidation\<close> document that arrives with status 200 or 422 unchanged.
\<close>

theorem validation_snapshot_returned:
  assumes "c \<in> {Api_validateTask i, Api_validateTaskInput v, Api_validateRoute j}"
    and "r_status r \<in> {200, 422}"
    and "r_text r = json_string w" and "wf_json w" and "has_type RouteValidation w"
  shows "api_response c r = Inr (Value w)"
proof -
  have "has_prop w ''success'' = Inr True"
    using assms(5) by (cases w) (auto simp: RouteValidation_def has_prop_def split: option.splits)
  then have "validation_result r = Inr w"
    using assms(2) by (auto simp: validation_result_def r_ok_def r_json_string [OF assms(3,4)])
  with assms(1) show ?thesis by (auto simp: api_response_def)
qed

definition failed_snapshot :: json where
  "failed_snapshot =
     JObj [(''success'', JBool False), (''interfaceName'', JStr ''eth0''), (''sourceIp'', JStr ''192.0.2.1''),
       (''gateway'', JStr []), (''routingTable'', JStr []), (''destination'', JStr []),
       (''detectedPublicIp'', JStr []), (''reachable'', JBool False), (''durationMs'', jint 12),
       (''validatedAt'', JStr []), (''message'', JStr ''unreachable'')]"

theorem validation_snapshot_returned_witness:
  "api_response (Api_validateRoute ''r'') \<lparr>r_status = 422, r_statusText = [], r_disposition = None,
      r_text = json_string failed_snapshot\<rparr> = Inr (Value failed_snapshot)"
proof -
  have "wf_json failed_snapshot"
    unfolding failed_snapshot_def
    by (rule wf_literal) (simp_all add: letter_key_def is_alpha_def)
  moreover have "has_type RouteValidation failed_snapshot"
    by (simp add: failed_snapshot_def RouteValidation_def obj_get_def)
  ultimately show ?thesis
    using validation_snapshot_returned [of "Api_validateRoute ''r''" "[]" JNull "''r''"
        "\<lparr>r_status = 422, r_statusText = [], r_disposition = None, r_text = json_string failed_snapshot\<rparr>"
        failed_snapshot]
    by simp
qed

subsection \<open>Downloaded file names\<close>

lemma disposition_name_chars:
  "disposition_name s = Some n \<Longrightarrow> n \<noteq> [] \<and> CHR 0x22 \<notin> set n \<and> CHR '';'' \<notin> set n"
  by (auto simp: disposition_name_def Let_def split: if_splits dest!: set_takeWhileD)

lemma disposition_filename_chars:
  "disposition_filename s = Some n \<Longrightarrow> n \<noteq> [] \<and> CHR 0x22 \<notin> set n \<and> CHR '';'' \<notin> set n"
  by (induction s) (auto split: option.splits dest: disposition_name_chars)

lemma disposition_filename_quoted:
  assumes "name \<noteq> []" "CHR 0x22 \<notin> set name" "CHR '';'' \<notin> set name"
  shows "disposition_filename (''attachment; filename='' @ CHR 0x22 # name @ CHR 0x22 # r) = Some name"
proof -
  have "takeWhile (\<lambda>c. c \<noteq> CHR 0x22 \<and> c \<noteq> CHR '';'') (name @ CHR 0x22 # r) = name"
    using assms by (subst takeWhile_append2) auto
  then have "disposition_name (''filename='' @ CHR 0x22 # name @ CHR 0x22 # r) = Some name"
    using assms by (simp add: disposition_name_def to_lower_def lower_char_def)
  then show ?thesis
    by (simp add: disposition_name_def [of "CHR ''a'' # s" for s] disposition_name_def [of "CHR ''t'' # s" for s]
        disposition_name_def [of "CHR ''c'' # s" for s] disposition_name_def [of "CHR ''h'' # s" for s]
        disposition_name_def [of "CHR ''m'' # s" for s] disposition_name_def [of "CHR ''e'' # s" for s]
        disposition_name_def [of "CHR ''n'' # s" for s] disposition_name_def [of "CHR '';'' # s" for s]
        disposition_name_def [of "CHR '' '' # s" for s] to_lower_def lower_char_def)
qed

text \<open>
  A backup download keeps the file name the daemon quotes in \<open>Content-Disposition\<close>, and without
  a usable name falls back to the fixed one; the name never contains a quote or a semicolon.
\<close>

theorem downloadBackup_filename:
  assumes "r_ok r"
  shows "\<exists>d. downloadBackup r = Inr d \<and> dl_blob d = r_text r \<and> dl_filename d \<noteq> [] \<and>
      CHR 0x22 \<notin> set (dl_filename d) \<and> CHR '';'' \<notin> set (dl_filename d) \<and>
      (\<forall>name rest. name \<noteq> [] \<and> CHR 0x22 \<notin> set name \<and> CHR '';'' \<notin> set name \<and>
         r_disposition r = Some (''attachment; filename='' @ CHR 0x22 # name @ CHR 0x22 # rest) \<longrightarrow>
         dl_filename d = name) \<and>
      (r_disposition r = None \<longrightarrow> dl_filename d = ''multispeed-backup.db'')"
proof (intro exI conjI allI impI)
  let ?s = "case r_disposition r of None \<Rightarrow> [] | Some d \<Rightarrow> d"
  let ?d = "\<lparr>dl_blob = r_text r, dl_filename = (case disposition_filename ?s of
      None \<Rightarrow> ''multispeed-backup.db'' | Some n \<Rightarrow> n)\<rparr>"
  show "downloadBackup r = Inr ?d"
    using assms by (simp add: downloadBackup_def download_result_def Let_def)
  show "dl_blob ?d = r_text r" by simp
  show "dl_filename ?d \<noteq> []" "CHR 0x22 \<notin> set (dl_filename ?d)" "CHR '';'' \<notin> set (dl_filename ?d)"
    using disposition_filename_chars [of ?s] by (cases "disposition_filename ?s"; force)+
  show "dl_filename ?d = ''multispeed-backup.db''" if "r_disposition r = None"
    using that by simp
  show "dl_filename ?d = name"
    if "name \<noteq> [] \<and> CHR 0x22 \<notin> set name \<and> CHR '';'' \<notin> set name \<and>
      r_disposition r = Some (''attachment; filename='' @ CHR 0x22 # name @ CHR 0x22 # rest)"
    for name rest
  proof -
    have "disposition_filename ?s = Some name"
      using disposition_filename_quoted [of name rest] that by (metis option.case(2))
    then show ?thesis by simp
  qed
qed

theorem downloadBackup_filename_witness:
  "\<exists>d. downloadBackup \<lparr>r_status = 200, r_statusText = [], r_disposition = None, r_text = ''db''\<rparr> = Inr d \<and>
     dl_filename d = ''multispeed-backup.db''"
  using downloadBackup_filename [of "\<lparr>r_status = 200, r_statusText = [], r_disposition = None, r_text = ''db''\<rparr>"]
  by (auto simp: r_ok_def)

end
