(* ===== verification/Toast.thy ===== *)
theory Toast
  imports Prelude
begin

text \<open>
  Notifications (\<open>components/ui/toast.tsx\<close>). The provider keeps the shown items, the next identifier
  and, in the browser, one pending timer per toast; a timer removes its item 5000 ms after it was
  shown. Time is explicit: \<open>Advance d\<close> lets \<open>d\<close> milliseconds pass and runs the timers that are due.
\<close>

subsection \<open>State and operations\<close>

datatype ToastTone = Success | Error | Info

record toast_content =
  tc_title :: string
  tc_description :: "string option"
  tc_tone :: ToastTone

record ToastItem =
  it_id :: nat
  it_content :: toast_content

record toasts =
  ts_items :: "ToastItem list"
  ts_nextId :: nat
  ts_timers :: "(nat \<times> nat) list"
  ts_now :: nat

definition toasts_init :: toasts where
  "toasts_init = \<lparr>ts_items = [], ts_nextId = 1, ts_timers = [], ts_now = 0\<rparr>"

definition remove_toast :: "nat \<Rightarrow> ToastItem list \<Rightarrow> ToastItem list" where
  "remove_toast i current = filter (\<lambda>item. it_id item \<noteq> i) current"

definition push_toast :: "toasts \<Rightarrow> toast_content \<Rightarrow> toasts" where
  "push_toast s item =
     s\<lparr>ts_nextId := ts_nextId s + 1,
       ts_items := slice_last 3 (ts_items s) @ [\<lparr>it_id = ts_nextId s, it_content = item\<rparr>],
       ts_timers := ts_timers s @ [(ts_nextId s, ts_now s + 5000)]\<rparr>"

datatype toast_event = Push toast_content | Dismiss nat | Advance nat

definition run_timers :: "nat \<Rightarrow> toasts \<Rightarrow> toasts" where
  "run_timers now s =
     s\<lparr>ts_now := now,
       ts_items := foldl (\<lambda>items (i, _). remove_toast i items) (ts_items s)
         (filter (\<lambda>(_, due). due \<le> now) (ts_timers s)),
       ts_timers := filter (\<lambda>(_, due). now < due) (ts_timers s)\<rparr>"

fun toast_step :: "toasts \<Rightarrow> toast_event \<Rightarrow> toasts" where
  "toast_step s (Push item) = push_toast s item"
| "toast_step s (Dismiss i) = s\<lparr>ts_items := remove_toast i (ts_items s)\<rparr>"
| "toast_step s (Advance d) = run_timers (ts_now s + d) s"

subsection \<open>Specification\<close>

text \<open>
  What the provider promises, without identifiers bound to timers: a board of notes, each with the
  time at which it disappears.
\<close>

record board =
  bd_notes :: "(ToastItem \<times> nat) list"
  bd_nextId :: nat
  bd_now :: nat

fun board_step :: "board \<Rightarrow> toast_event \<Rightarrow> board" where
  "board_step b (Push item) =
     b\<lparr>bd_notes := slice_last 3 (bd_notes b) @ [(\<lparr>it_id = bd_nextId b, it_content = item\<rparr>, bd_now b + 5000)],
       bd_nextId := bd_nextId b + 1\<rparr>"
| "board_step b (Dismiss i) = b\<lparr>bd_notes := filter (\<lambda>(item, _). it_id item \<noteq> i) (bd_notes b)\<rparr>"
| "board_step b (Advance d) =
     b\<lparr>bd_notes := filter (\<lambda>(_, until). bd_now b + d < until) (bd_notes b), bd_now := bd_now b + d\<rparr>"

definition due_of :: "toasts \<Rightarrow> nat \<Rightarrow> nat" where
  "due_of s i = (case map_of (ts_timers s) i of Some due \<Rightarrow> due | None \<Rightarrow> 0)"

definition board_of :: "toasts \<Rightarrow> board" where
  "board_of s =
     \<lparr>bd_notes = map (\<lambda>item. (item, due_of s (it_id item))) (ts_items s), bd_nextId = ts_nextId s,
      bd_now = ts_now s\<rparr>"

subsection \<open>Invariant\<close>

definition toast_inv :: "toasts \<Rightarrow> bool" where
  "toast_inv s \<longleftrightarrow>
     length (ts_items s) \<le> 4 \<and>
     sorted_wrt (<) (map it_id (ts_items s)) \<and>
     distinct (map fst (ts_timers s)) \<and>
     (\<forall>i due. (i, due) \<in> set (ts_timers s) \<longrightarrow> i < ts_nextId s \<and> ts_now s < due \<and> due \<le> ts_now s + 5000) \<and>
     it_id ` set (ts_items s) \<subseteq> fst ` set (ts_timers s)"

lemma toast_invD:
  assumes "toast_inv s"
  shows "length (ts_items s) \<le> 4" "sorted_wrt (<) (map it_id (ts_items s))"
    "distinct (map fst (ts_timers s))"
    "(i, due) \<in> set (ts_timers s) \<Longrightarrow> i < ts_nextId s"
    "(i, due) \<in> set (ts_timers s) \<Longrightarrow> ts_now s < due"
    "(i, due) \<in> set (ts_timers s) \<Longrightarrow> due \<le> ts_now s + 5000"
    "item \<in> set (ts_items s) \<Longrightarrow> it_id item \<in> fst ` set (ts_timers s)"
  using assms by (auto simp: toast_inv_def)

lemma toast_invI:
  assumes "length (ts_items s) \<le> 4" "sorted_wrt (<) (map it_id (ts_items s))"
    "distinct (map fst (ts_timers s))"
    "\<And>i due. (i, due) \<in> set (ts_timers s) \<Longrightarrow> i < ts_nextId s \<and> ts_now s < due \<and> due \<le> ts_now s + 5000"
    "\<And>item. item \<in> set (ts_items s) \<Longrightarrow> it_id item \<in> fst ` set (ts_timers s)"
  shows "toast_inv s"
  using assms unfolding toast_inv_def by blast

lemma foldl_remove:
  "foldl (\<lambda>items (i, _). remove_toast i items) items timers =
     filter (\<lambda>item. it_id item \<notin> fst ` set timers) items"
proof (induction timers arbitrary: items)
  case (Cons p ps)
  have "filter (\<lambda>item. it_id item \<notin> fst ` set ps) (remove_toast (fst p) items) =
      filter (\<lambda>item. it_id item \<notin> fst ` set (p # ps)) items"
    by (auto simp: remove_toast_def intro: filter_cong)
  with Cons.IH show ?case by (simp add: case_prod_unfold)
qed simp

text \<open>With unique timers an item leaves exactly when its own timer is due.\<close>

lemma run_timers_items:
  assumes "distinct (map fst (ts_timers s))" "\<And>item. item \<in> set (ts_items s) \<Longrightarrow> it_id item \<in> fst ` set (ts_timers s)"
  shows "ts_items (run_timers now s) = filter (\<lambda>item. now < due_of s (it_id item)) (ts_items s)"
proof -
  have "it_id item \<notin> fst ` set (filter (\<lambda>(_, due). due \<le> now) (ts_timers s)) \<longleftrightarrow> now < due_of s (it_id item)"
    if item: "item \<in> set (ts_items s)" for item
  proof -
    from assms(2) [OF item] obtain due where d: "(it_id item, due) \<in> set (ts_timers s)"
      by force
    have u: "due' = due" if "(it_id item, due') \<in> set (ts_timers s)" for due'
      by (rule eq_key_imp_eq_value [OF assms(1) that d])
    have "it_id item \<in> fst ` set (filter (\<lambda>(_, due). due \<le> now) (ts_timers s)) \<longleftrightarrow> due \<le> now"
      using d by (auto simp: image_iff Bex_def dest: u)
    moreover have "due_of s (it_id item) = due"
      using d assms(1) by (simp add: due_of_def map_of_is_SomeI)
    ultimately show ?thesis by (simp add: not_le)
  qed
  then show ?thesis
    by (simp add: run_timers_def foldl_remove cong: filter_cong)
qed

lemma due_of_filter:
  assumes "distinct (map fst (ts_timers s))" "i \<in> fst ` set (ts_timers s)" "now < due_of s i"
  shows "i \<in> fst ` set (ts_timers (run_timers now s))" "due_of (run_timers now s) i = due_of s i"
proof -
  from assms(2) obtain due where d: "(i, due) \<in> set (ts_timers s)" by force
  then have e: "due_of s i = due"
    using assms(1) by (simp add: due_of_def map_of_is_SomeI)
  with d assms(3) have m: "(i, due) \<in> set (ts_timers (run_timers now s))"
    by (auto simp: run_timers_def)
  then show "i \<in> fst ` set (ts_timers (run_timers now s))" by force
  have "distinct (map fst (ts_timers (run_timers now s)))"
    using assms(1) by (simp add: run_timers_def distinct_map_filter)
  with m e show "due_of (run_timers now s) i = due_of s i"
    by (simp add: due_of_def map_of_is_SomeI)
qed

lemma inv_push: "toast_inv s \<Longrightarrow> toast_inv (push_toast s item)"
proof -
  assume inv: "toast_inv s"
  note [dest] = toast_invD(4-6) [OF inv]
  have lt: "it_id x < ts_nextId s" if "x \<in> set (ts_items s)" for x
    using toast_invD(7) [OF inv that] by auto
  have sub: "set (slice_last 3 (ts_items s)) \<subseteq> set (ts_items s)"
    by (rule set_slice_last)
  have "sorted_wrt (<) (map it_id (slice_last 3 (ts_items s)))"
    using toast_invD(2) [OF inv] by (simp add: slice_last_def drop_map [symmetric] sorted_wrt_drop)
  moreover have "length (slice_last 3 (ts_items s)) \<le> 3"
    by (simp add: length_slice_last)
  moreover have "ts_nextId s \<notin> fst ` set (ts_timers s)" by auto
  moreover have "it_id ` set (slice_last 3 (ts_items s)) \<subseteq> fst ` set (ts_timers s)"
    using sub toast_invD(7) [OF inv] by blast
  ultimately show ?thesis
    using toast_invD(3) [OF inv] sub lt
    by (auto simp: toast_inv_def push_toast_def sorted_wrt_append subset_iff)
qed

lemma inv_dismiss:
  assumes inv: "toast_inv s"
  shows "toast_inv (s\<lparr>ts_items := remove_toast i (ts_items s)\<rparr>)"
proof (rule toast_invI)
  have "length (remove_toast i (ts_items s)) \<le> length (ts_items s)"
    by (simp add: remove_toast_def)
  also note toast_invD(1) [OF inv]
  finally show "length (ts_items (s\<lparr>ts_items := remove_toast i (ts_items s)\<rparr>)) \<le> 4" by simp
  show "sorted_wrt (<) (map it_id (ts_items (s\<lparr>ts_items := remove_toast i (ts_items s)\<rparr>)))"
    using toast_invD(2) [OF inv] by (simp add: remove_toast_def sorted_wrt_map sorted_wrt_filter)
qed (use toast_invD(3-7) [OF inv] in \<open>simp_all add: remove_toast_def\<close>)

lemma inv_advance:
  assumes inv: "toast_inv s"
  shows "toast_inv (run_timers (ts_now s + d) s)" (is "toast_inv ?r")
proof (rule toast_invI)
  let ?n = "ts_now s + d"
  have items: "ts_items ?r = filter (\<lambda>item. ?n < due_of s (it_id item)) (ts_items s)"
    using toast_invD(3,7) [OF inv] by (rule run_timers_items)
  show "length (ts_items ?r) \<le> 4"
    using items toast_invD(1) [OF inv] by (metis le_trans length_filter_le)
  show "sorted_wrt (<) (map it_id (ts_items ?r))"
    using toast_invD(2) [OF inv] by (simp add: items sorted_wrt_map sorted_wrt_filter)
  show "distinct (map fst (ts_timers ?r))"
    using toast_invD(3) [OF inv] by (simp add: run_timers_def distinct_map_filter)
  show "it_id item \<in> fst ` set (ts_timers ?r)" if "item \<in> set (ts_items ?r)" for item
    using that due_of_filter(1) [OF toast_invD(3) [OF inv] toast_invD(7) [OF inv]] by (simp add: items)
  show "i < ts_nextId ?r \<and> ts_now ?r < due \<and> due \<le> ts_now ?r + 5000"
    if "(i, due) \<in> set (ts_timers ?r)" for i due
    using that toast_invD(4,6) [OF inv, of i due] by (auto simp: run_timers_def)
qed

interpretation toast: machine toast_step toast_inv
proof
  show "toast_inv (toast_step s e)" if "toast_inv s" for s e
    using that by (cases e) (simp_all add: inv_push inv_dismiss inv_advance)
qed

lemma inv_init: "toast_inv toasts_init"
  by (simp add: toast_inv_def toasts_init_def)

subsection \<open>Properties\<close>

lemma slice_last_map: "slice_last n (map f xs) = map f (slice_last n xs)"
  by (simp add: slice_last_def drop_map)

lemma due_of_push:
  assumes "toast_inv s" "i \<in> fst ` set (ts_timers s)"
  shows "due_of (push_toast s item) i = due_of s i"
proof -
  obtain due where "(i, due) \<in> set (ts_timers s)" using assms(2) by force
  then have "map_of (ts_timers s) i = Some due"
    using toast_invD(3) [OF assms(1)] by simp
  then show ?thesis
    by (simp add: due_of_def push_toast_def map_add_def)
qed

lemma due_of_new: "toast_inv s \<Longrightarrow> due_of (push_toast s item) (ts_nextId s) = ts_now s + 5000"
proof -
  assume inv: "toast_inv s"
  then have "map_of (ts_timers s) (ts_nextId s) = None"
    using toast_invD(4) [OF inv, of "ts_nextId s"] by (auto simp: map_of_eq_None_iff)
  then show ?thesis
    by (simp add: due_of_def push_toast_def map_add_def)
qed

lemma board_push:
  assumes inv: "toast_inv s"
  shows "board_of (push_toast s item) = board_step (board_of s) (Push item)"
proof -
  have "due_of (push_toast s item) (it_id x) = due_of s (it_id x)"
    if "x \<in> set (slice_last 3 (ts_items s))" for x
  proof -
    have "x \<in> set (ts_items s)"
      using that set_slice_last [of 3 "ts_items s"] by (rule subsetD [rotated])
    then show ?thesis
      by (intro due_of_push [OF inv] toast_invD(7) [OF inv])
  qed
  moreover have "due_of (push_toast s item) (ts_nextId s) = ts_now s + 5000"
    using inv by (rule due_of_new)
  moreover have "ts_items (push_toast s item) =
      slice_last 3 (ts_items s) @ [\<lparr>it_id = ts_nextId s, it_content = item\<rparr>]"
    "ts_nextId (push_toast s item) = ts_nextId s + 1" "ts_now (push_toast s item) = ts_now s"
    by (simp_all add: push_toast_def)
  ultimately show ?thesis
    by (simp add: board_of_def slice_last_map)
qed

lemma board_advance:
  assumes inv: "toast_inv s"
  shows "board_of (run_timers (ts_now s + d) s) = board_step (board_of s) (Advance d)"
proof -
  let ?n = "ts_now s + d"
  have items: "ts_items (run_timers ?n s) = filter (\<lambda>item. ?n < due_of s (it_id item)) (ts_items s)"
    using toast_invD(3,7) [OF inv] by (rule run_timers_items)
  have "due_of (run_timers ?n s) (it_id x) = due_of s (it_id x)" if "x \<in> set (ts_items (run_timers ?n s))" for x
    using that due_of_filter(2) [OF toast_invD(3) [OF inv] toast_invD(7) [OF inv]] by (simp add: items)
  then show ?thesis
    by (simp add: board_of_def items filter_map comp_def) (simp add: run_timers_def)
qed

text \<open>
  C21. The provider implements the board: over every sequence of notifications, dismissals and elapsed
  time, the shown items with the time at which their timer removes them are those of the abstract
  board, on which a note simply disappears at its time.
\<close>

theorem toast_refines_board:
  "board_of (foldl toast_step toasts_init es) = foldl board_step (board_of toasts_init) es"
proof (induction es rule: rev_induct)
  case Nil
  show ?case by simp
next
  case (snoc e es)
  let ?s = "foldl toast_step toasts_init es"
  have inv: "toast_inv ?s"
    by (rule toast.run_inv [OF inv_init])
  have "board_of (toast_step ?s e) = board_step (board_of ?s) e"
  proof (cases e)
    case (Push item)
    then show ?thesis using board_push [OF inv] by simp
  next
    case (Dismiss i)
    then show ?thesis
      by (simp add: board_of_def remove_toast_def due_of_def filter_map comp_def)
  next
    case (Advance d)
    then show ?thesis using board_advance [OF inv] by simp
  qed
  with snoc.IH show ?case by simp
qed

text \<open>
  At most four toasts are shown, in the order they were raised and under distinct identifiers,
  and every one of them is gone after five more seconds without a new one.
\<close>

theorem toasts_bounded:
  "length (ts_items (foldl toast_step toasts_init es)) \<le> 4 \<and>
   sorted_wrt (<) (map it_id (ts_items (foldl toast_step toasts_init es))) \<and>
   ts_items (foldl toast_step toasts_init (es @ [Advance 5000])) = []"
proof -
  let ?s = "foldl toast_step toasts_init es"
  have inv: "toast_inv ?s"
    by (rule toast.run_inv [OF inv_init])
  have "due_of ?s (it_id x) \<le> ts_now ?s + 5000" if x: "x \<in> set (ts_items ?s)" for x
  proof -
    obtain due where d: "(it_id x, due) \<in> set (ts_timers ?s)"
      using toast_invD(7) [OF inv x] by force
    then have "due_of ?s (it_id x) = due"
      using toast_invD(3) [OF inv] by (simp add: due_of_def)
    with toast_invD(6) [OF inv d] show ?thesis by simp
  qed
  then have "ts_items (run_timers (ts_now ?s + 5000) ?s) = []"
    using run_timers_items [OF toast_invD(3,7) [OF inv], of "ts_now ?s + 5000"]
    by (simp add: filter_empty_conv not_less)
  with toast_invD(1,2) [OF inv] show ?thesis by simp
qed

end
