(* ===== verification/TaskEditor.thy ===== *)
theory TaskEditor
  imports TaskForm Api Toast
begin

text \<open>
  The task editor of \<open>web/src/pages/TaskEditorPage.tsx\<close> as a state machine: the wizard step, the form
  values, the loaded task and the preflight result are its state; edits, the buttons and the answers of
  the daemon are its events; requests, toasts and navigation are its outputs. Several preflight requests
  may be in flight and answers may come in any order and after further edits.
\<close>

record zod_env =
  zone_known :: "string \<Rightarrow> bool"
  url_resolves :: "string \<Rightarrow> bool"
  http_url :: "string \<Rightarrow> string option"

abbreviation schema :: "zod_env \<Rightarrow> TaskFormValues \<Rightarrow> TaskFormValues option" where
  "schema env \<equiv> taskSchema (zone_known env) (url_resolves env) (http_url env)"

text \<open>What the editor reads of a \<open>RouteValidation\<close>.\<close>

record preflight_answer =
  pa_success :: bool
  pa_message :: string

record editor =
  e_taskId :: "string option"
  e_step :: nat
  e_form :: TaskFormValues
  e_existing :: "task option"
  e_preflight :: "(string \<times> preflight_answer) option"
  e_inflight :: "(task_input \<times> string) list"

datatype form_edit =
    Set_Values TaskFormValues
  | Choose_Provider provider_id
  | Choose_Family ip_family
  | Choose_Interface string
  | Choose_Source string
  | Choose_Server string
  | Choose_Preset string

datatype editor_event =
    Edit form_edit
  | Task_Loaded task
  | Validate
  | Preflight_Answered nat preflight_answer
  | Preflight_Failed nat string
  | Submit
  | Saved string
  | Save_Failed string
  | Continue bool
  | Previous
  | Goto nat

datatype editor_output =
    Ask task_input
  | Save task_input
  | Invalidate_Tasks
  | Navigate string
  | Toast ToastTone string string

subsection \<open>Edits\<close>

definition chooseProvider :: "provider_id \<Rightarrow> TaskFormValues \<Rightarrow> TaskFormValues" where
  "chooseProvider p v =
     (let w = v\<lparr>fv_provider := p\<rparr> in
      if p = Cloudflare then w\<lparr>fv_serverSelectionMode := Automatic\<rparr>
      else if fv_serverSelectionMode w = Custom \<and> p = Ookla then w\<lparr>fv_serverSelectionMode := Automatic\<rparr>
      else w)"

definition apply_edit :: "form_edit \<Rightarrow> TaskFormValues \<Rightarrow> TaskFormValues" where
  "apply_edit e v =
     (case e of
        Set_Values w \<Rightarrow> w
      | Choose_Provider p \<Rightarrow> chooseProvider p v
      | Choose_Family f \<Rightarrow> v\<lparr>fv_ipFamily := f, fv_sourceIp := [], fv_routeProfileId := []\<rparr>
      | Choose_Interface i \<Rightarrow> v\<lparr>fv_interfaceName := i, fv_sourceIp := [], fv_routeProfileId := []\<rparr>
      | Choose_Source a \<Rightarrow> v\<lparr>fv_sourceIp := a, fv_routeProfileId := []\<rparr>
      | Choose_Server i \<Rightarrow> v\<lparr>fv_serverId := i\<rparr>
      | Choose_Preset c \<Rightarrow> v\<lparr>fv_cronExpression := c\<rparr>)"

record interface_address =
  ia_address :: string
  ia_family :: ip_family
  ia_linkLocal :: bool

record network_interface =
  ni_name :: string
  ni_virtual :: bool
  ni_addresses :: "interface_address list"

definition visible_interfaces ::
  "bool \<Rightarrow> TaskFormValues \<Rightarrow> 'm network_interface_scheme list \<Rightarrow> 'm network_interface_scheme list" where
  "visible_interfaces showVirtual v allInterfaces =
     filter (\<lambda>item. \<not> ni_virtual item \<or> showVirtual \<or> ni_name item = fv_interfaceName v) allInterfaces"

definition addressOptions :: "TaskFormValues \<Rightarrow> 'm network_interface_scheme list \<Rightarrow> interface_address list" where
  "addressOptions v allInterfaces =
     (case find (\<lambda>item. ni_name item = fv_interfaceName v) allInterfaces of
        None \<Rightarrow> []
      | Some info \<Rightarrow> filter (\<lambda>a. \<not> ia_linkLocal a \<and>
          (fv_ipFamily v = Auto \<or> ia_family a = fv_ipFamily v)) (ni_addresses info))"

definition currentPreflight :: "editor \<Rightarrow> preflight_answer option" where
  "currentPreflight s =
     (case e_preflight s of
        Some (signature, answer) \<Rightarrow>
          if signature = taskInputSignature (buildTaskInput (e_form s) (e_existing s))
          then Some answer else None
      | None \<Rightarrow> None)"

subsection \<open>Handlers\<close>

definition last_step :: nat where
  "last_step = 3"

definition preflight_missing :: "editor \<Rightarrow> TaskFormValues \<Rightarrow> string \<Rightarrow> bool" where
  "preflight_missing s d signature \<longleftrightarrow>
     fv_enabled d \<and> fv_provider d \<noteq> Ookla \<and>
     (case e_preflight s of
        None \<Rightarrow> True
      | Some (sig, answer) \<Rightarrow> sig \<noteq> signature \<or> \<not> pa_success answer)"

definition onSubmit :: "editor \<Rightarrow> TaskFormValues \<Rightarrow> editor \<times> editor_output list" where
  "onSubmit s d =
     (let input = buildTaskInput d (e_existing s); signature = taskInputSignature input in
      if preflight_missing s d signature
      then (s\<lparr>e_step := last_step\<rparr>,
            [Toast Error ''Validate this enabled task first''
              ''Run a successful preflight for the current provider, target, and source path before saving.''])
      else (s, [Save input]))"

definition handleSubmit :: "zod_env \<Rightarrow> editor \<Rightarrow> editor \<times> editor_output list" where
  "handleSubmit env s = (case schema env (e_form s) of None \<Rightarrow> (s, []) | Some d \<Rightarrow> onSubmit s d)"

definition validateCandidate :: "zod_env \<Rightarrow> editor \<Rightarrow> editor \<times> editor_output list" where
  "validateCandidate env s =
     (if schema env (e_form s) = None
      then (s, [Toast Error ''Complete required task fields''
                 ''Resolve the highlighted fields before route preflight.''])
      else let input = buildTaskInput (e_form s) (e_existing s) in
        (s\<lparr>e_preflight := None, e_inflight := e_inflight s @ [(input, taskInputSignature input)]\<rparr>,
         [Ask input]))"

definition drop_nth :: "nat \<Rightarrow> 'a list \<Rightarrow> 'a list" where
  "drop_nth n xs = take n xs @ drop (Suc n) xs"

definition preflightAnswered :: "nat \<Rightarrow> preflight_answer \<Rightarrow> editor \<Rightarrow> editor \<times> editor_output list" where
  "preflightAnswered i answer s =
     (if i < length (e_inflight s) then
        (s\<lparr>e_preflight := Some (snd (e_inflight s ! i), answer),
           e_inflight := drop_nth i (e_inflight s)\<rparr>,
         [Toast (if pa_success answer then Success else Error)
           (if pa_success answer then ''Current task path validated'' else ''Task preflight failed'')
           (pa_message answer)])
      else (s, []))"

definition preflightFailed :: "nat \<Rightarrow> string \<Rightarrow> editor \<Rightarrow> editor \<times> editor_output list" where
  "preflightFailed i message s =
     (if i < length (e_inflight s) then
        (s\<lparr>e_preflight := None, e_inflight := drop_nth i (e_inflight s)\<rparr>,
         [Toast Error ''Task preflight failed'' message])
      else (s, []))"

definition editing :: "editor \<Rightarrow> bool" where
  "editing s \<longleftrightarrow> e_taskId s \<noteq> None \<and> e_taskId s \<noteq> Some []"

definition editor_step :: "zod_env \<Rightarrow> editor \<Rightarrow> editor_event \<Rightarrow> editor \<times> editor_output list" where
  "editor_step env s e =
     (case e of
        Edit ed \<Rightarrow> (s\<lparr>e_form := apply_edit ed (e_form s)\<rparr>, [])
      | Task_Loaded t \<Rightarrow> (s\<lparr>e_existing := Some t\<rparr>, [])
      | Validate \<Rightarrow> validateCandidate env s
      | Preflight_Answered i answer \<Rightarrow> preflightAnswered i answer s
      | Preflight_Failed i message \<Rightarrow> preflightFailed i message s
      | Submit \<Rightarrow> handleSubmit env s
      | Saved name \<Rightarrow>
          (s, [Invalidate_Tasks,
               Toast Success (if editing s then ''Task updated'' else ''Task created'')
                 (name @ '' was persisted and its schedule recalculated.''),
               Navigate ''/tasks''])
      | Save_Failed message \<Rightarrow>
          (s, [Toast Error (if editing s then ''Unable to update task'' else ''Unable to create task'')
                message])
      | Continue valid \<Rightarrow> (if valid then s\<lparr>e_step := min (e_step s + 1) last_step\<rparr> else s, [])
      | Previous \<Rightarrow> (s\<lparr>e_step := e_step s - 1\<rparr>, [])
      | Goto n \<Rightarrow> (if n \<le> last_step then s\<lparr>e_step := n\<rparr> else s, []))"

definition editor_next :: "zod_env \<Rightarrow> editor \<Rightarrow> editor_event \<Rightarrow> editor" where
  "editor_next env s e = fst (editor_step env s e)"

definition editor_emits :: "zod_env \<Rightarrow> editor \<Rightarrow> editor_event \<Rightarrow> editor_output list" where
  "editor_emits env s e = snd (editor_step env s e)"

definition editor_init :: "string option \<Rightarrow> TaskFormValues \<Rightarrow> editor" where
  "editor_init i v = \<lparr>e_taskId = i, e_step = 0, e_form = v, e_existing = None, e_preflight = None, e_inflight = []\<rparr>"

abbreviation editor_run :: "zod_env \<Rightarrow> editor \<Rightarrow> editor_event list \<Rightarrow> editor" where
  "editor_run env \<equiv> foldl (editor_next env)"

text \<open>The client calls behind the two requests.\<close>

definition save_call :: "editor \<Rightarrow> task_input \<Rightarrow> api_call" where
  "save_call s input =
     (case e_taskId s of
        Some i \<Rightarrow> if i = [] then Api_createTask (input_json input) else Api_updateTask i (input_json input)
      | None \<Rightarrow> Api_createTask (input_json input))"

definition ask_call :: "task_input \<Rightarrow> api_call" where
  "ask_call input = Api_validateTaskInput (input_json input)"

subsection \<open>Invariant\<close>

definition editor_inv :: "editor \<Rightarrow> bool" where
  "editor_inv s \<longleftrightarrow> e_step s \<le> last_step \<and>
     list_all (\<lambda>(input, signature). signature = taskInputSignature input) (e_inflight s)"

definition save_allowed :: "zod_env \<Rightarrow> editor \<Rightarrow> editor_output \<Rightarrow> bool" where
  "save_allowed env s out =
     (case out of
        Save input \<Rightarrow>
          (\<exists>d. schema env (e_form s) = Some d \<and> input = buildTaskInput d (e_existing s)) \<and>
          (ti_enabled input \<and> ti_provider input \<noteq> Ookla \<longrightarrow>
             (\<exists>answer. e_preflight s = Some (taskInputSignature input, answer) \<and> pa_success answer))
      | _ \<Rightarrow> True)"

lemmas editor_defs = editor_next_def editor_emits_def editor_step_def validateCandidate_def
  preflightAnswered_def preflightFailed_def handleSubmit_def onSubmit_def Let_def

lemma set_drop_nth: "set (drop_nth n xs) \<subseteq> set xs"
  by (auto simp: drop_nth_def dest: in_set_takeD in_set_dropD)

interpretation editor: emitting_machine "editor_next env" editor_inv "editor_emits env" "save_allowed env"
  for env
proof
  fix s e
  assume "editor_inv s"
  then show "editor_inv (editor_next env s e)"
    using set_drop_nth
    by (cases e) (force simp: editor_inv_def editor_defs last_step_def list_all_iff
        split: option.splits)+
next
  fix s e out
  assume "out \<in> set (editor_emits env s e)"
  moreover have "ti_enabled (buildTaskInput d t) = fv_enabled d" "ti_provider (buildTaskInput d t) = fv_provider d"
    for d t by (simp_all add: buildTaskInput_def Let_def)
  ultimately show "save_allowed env s out"
    by (cases e) (auto simp: editor_defs save_allowed_def preflight_missing_def split: option.splits if_splits)
qed

lemma editor_init_inv: "editor_inv (editor_init i v)"
  by (simp add: editor_inv_def editor_init_def)

subsection \<open>Where a preflight result comes from\<close>

lemma editor_run_snoc: "editor_run env s (es @ [e]) = editor_next env (editor_run env s es) e"
  by simp

lemma inflight_step:
  assumes "p \<in> set (e_inflight (editor_next env s e))"
  shows "p \<in> set (e_inflight s) \<or> e = Validate \<and> Ask (fst p) \<in> set (editor_emits env s e)"
  using assms set_drop_nth
  by (cases e) (force simp: editor_defs split: option.splits if_splits)+

lemma preflight_step:
  assumes "e_preflight (editor_next env s e) = Some (sig, answer)"
  shows "e_preflight s = Some (sig, answer) \<or>
    (\<exists>i input. e = Preflight_Answered i answer \<and> (input, sig) \<in> set (e_inflight s))"
  using assms
  by (cases e) (auto simp: editor_defs split: option.splits if_splits intro: nth_mem
      dest!: sym [of "snd x" for x], (metis nth_mem prod.collapse)+)

lemma inflight_origin:
  assumes "e_inflight s = []" "p \<in> set (e_inflight (editor_run env s es))"
  shows "\<exists>es0 es1. es = es0 @ Validate # es1 \<and> Ask (fst p) \<in> set (editor_emits env (editor_run env s es0) Validate)"
  using assms(2)
proof (induction es rule: rev_induct)
  case Nil
  with assms(1) show ?case by simp
next
  case (snoc e es)
  consider "p \<in> set (e_inflight (editor_run env s es))"
      | "e = Validate" "Ask (fst p) \<in> set (editor_emits env (editor_run env s es) e)"
    using inflight_step snoc.prems by fastforce
  then show ?case
  proof cases
    case 1
    with snoc.IH show ?thesis by fastforce
  next
    case 2
    then show ?thesis by blast
  qed
qed

lemma preflight_origin:
  assumes "e_preflight s = None" "e_preflight (editor_run env s es) = Some (sig, answer)"
  shows "\<exists>es1 es2 i input. es = es1 @ Preflight_Answered i answer # es2 \<and>
    (input, sig) \<in> set (e_inflight (editor_run env s es1))"
  using assms(2)
proof (induction es rule: rev_induct)
  case Nil
  with assms(1) show ?case by simp
next
  case (snoc e es)
  consider "e_preflight (editor_run env s es) = Some (sig, answer)"
      | i input where "e = Preflight_Answered i answer" "(input, sig) \<in> set (e_inflight (editor_run env s es))"
    using preflight_step snoc.prems by fastforce
  then show ?case
  proof cases
    case 1
    with snoc.IH show ?thesis by fastforce
  next
    case 2
    then show ?thesis by blast
  qed
qed

lemma call_bodies:
  "rq_body (api_request (save_call s input)) = Some (Body_Text (input_text input))"
  "rq_body (api_request (ask_call input)) = Some (Body_Text (input_text input))"
  by (auto simp: save_call_def ask_call_def api_request_def request_message_def validation_message_def
      input_text_def Let_def split: option.split)

text \<open>
  C1. The editor never saves an enabled task of a provider other than Ookla without a successful
  preflight of exactly what it saves: on every run, however edits, preflight requests and answers
  interleave, a save request is preceded by a preflight request whose body is the same JSON text,
  followed by a successful answer.
\<close>

theorem enabled_task_preflighted:
  assumes "Save input \<in> set (editor_emits env (editor_run env (editor_init i v) es) e)"
    and "ti_enabled input" and "ti_provider input \<noteq> Ookla"
  shows "\<exists>es0 es1 es2 n answer asked.
    es = es0 @ Validate # es1 @ Preflight_Answered n answer # es2 \<and>
    Ask asked \<in> set (editor_emits env (editor_run env (editor_init i v) es0) Validate) \<and>
    pa_success answer \<and>
    rq_body (api_request (ask_call asked)) =
      rq_body (api_request (save_call (editor_run env (editor_init i v) es) input))"
proof -
  let ?run = "editor_run env (editor_init i v)"
  have "save_allowed env (?run es) (Save input)"
    using editor.run_emits_good [OF editor_init_inv assms(1)] .
  then obtain answer where pre: "e_preflight (?run es) = Some (taskInputSignature input, answer)" "pa_success answer"
    using assms(2,3) by (auto simp: save_allowed_def)
  obtain es1 es2 n asked where es: "es = es1 @ Preflight_Answered n answer # es2"
      and asked: "(asked, taskInputSignature input) \<in> set (e_inflight (?run es1))"
    using preflight_origin [OF _ pre(1)] by (auto simp: editor_init_def)
  obtain es0 es1' where es1: "es1 = es0 @ Validate # es1'"
      and ask: "Ask asked \<in> set (editor_emits env (?run es0) Validate)"
    using inflight_origin [OF _ asked] by (auto simp: editor_init_def)
  have "editor_inv (?run es1)"
    by (rule editor.run_inv [OF editor_init_inv])
  then have "taskInputSignature asked = taskInputSignature input"
    using asked by (auto simp: editor_inv_def list_all_iff)
  then have "rq_body (api_request (ask_call asked)) = rq_body (api_request (save_call (?run es) input))"
    by (simp add: call_bodies taskInputSignature_def)
  with es es1 ask pre(2) show ?thesis by fastforce
qed

definition sample_env :: zod_env where
  "sample_env = \<lparr>zone_known = (\<lambda>_. True), url_resolves = (\<lambda>_. True), http_url = Some\<rparr>"

definition answer_ok :: preflight_answer where
  "answer_ok = \<lparr>pa_success = True, pa_message = ''ok''\<rparr>"

definition trimmed_sample :: TaskFormValues where
  "trimmed_sample = sample_form\<lparr>fv_name := ''Fiber''\<rparr>"

lemma sample_schema:
  "schema sample_env sample_form = Some trimmed_sample"
  "schema sample_env trimmed_sample = Some trimmed_sample"
  using sample_form_valid taskSchema_stable_form [OF sample_form_valid]
  by (simp_all add: sample_env_def trimmed_sample_def)

lemma sample_enabled: "fv_enabled trimmed_sample" "fv_provider trimmed_sample = Cloudflare"
  by (simp_all add: trimmed_sample_def sample_form_def defaults_def)

lemma built_fields:
  "ti_enabled (buildTaskInput d x) = fv_enabled d" "ti_provider (buildTaskInput d x) = fv_provider d"
  "ti_name (buildTaskInput d x) = fv_name d"
  by (simp_all add: buildTaskInput_def Let_def)

lemma validate_answer_submit:
  assumes "schema env (e_form s) = Some d" "pa_success answer"
  defines "s2 \<equiv> editor_run env s [Validate, Preflight_Answered (length (e_inflight s)) answer]"
  shows "e_preflight s2 = Some (taskInputSignature (buildTaskInput (e_form s) (e_existing s)), answer)"
    "e_form s2 = e_form s" "e_existing s2 = e_existing s"
    "editor_emits env s2 Submit = snd (onSubmit s2 d)"
  using assms(1,2) by (simp_all add: s2_def editor_defs)

lemma sample_saved:
  "Save (buildTaskInput trimmed_sample None) \<in> set (editor_emits sample_env
     (editor_run sample_env (editor_init None trimmed_sample) [Validate, Preflight_Answered 0 answer_ok]) Submit)"
  using validate_answer_submit [of sample_env "editor_init None trimmed_sample" trimmed_sample answer_ok]
    sample_schema(2)
  by (simp add: editor_init_def onSubmit_def preflight_missing_def answer_ok_def)

theorem enabled_task_preflighted_witness:
  "\<exists>es0 es1 es2 n answer asked.
    [Validate, Preflight_Answered 0 answer_ok] = es0 @ Validate # es1 @ Preflight_Answered n answer # es2 \<and>
    Ask asked \<in> set (editor_emits sample_env (editor_run sample_env (editor_init None trimmed_sample) es0) Validate) \<and>
    pa_success answer \<and>
    rq_body (api_request (ask_call asked)) =
      rq_body (api_request (save_call (editor_run sample_env (editor_init None trimmed_sample)
        [Validate, Preflight_Answered 0 answer_ok]) (buildTaskInput trimmed_sample None)))"
  by (rule enabled_task_preflighted [OF sample_saved]) (simp_all add: built_fields sample_enabled)

text \<open>
  C18. A form whose values need no trimming can always be saved after a successful preflight: the
  sequence of the validate button, a successful answer and the submit button sends exactly the save
  request of the validated values, in every state of the editor.
\<close>

theorem preflight_enables_save:
  assumes "schema env (e_form s) = Some (e_form s)" and "pa_success answer"
  shows "editor_emits env
      (editor_run env s [Validate, Preflight_Answered (length (e_inflight s)) answer]) Submit =
    [Save (buildTaskInput (e_form s) (e_existing s))]"
  using validate_answer_submit [OF assms] assms(2)
  by (simp add: onSubmit_def preflight_missing_def Let_def)

theorem preflight_enables_save_witness:
  "editor_emits sample_env (editor_run sample_env (editor_init None trimmed_sample)
      [Validate, Preflight_Answered 0 answer_ok]) Submit = [Save (buildTaskInput trimmed_sample None)]"
  using preflight_enables_save [of sample_env "editor_init None trimmed_sample" answer_ok] sample_schema(2)
  by (simp add: editor_init_def answer_ok_def)

text \<open>
  C19. The preflight signs the untrimmed values while the save handler gets the trimmed ones: with
  surrounding white space in the name of an enabled task, a successful preflight is shown as current
  and still the submit button refuses to save and asks for a preflight.
\<close>

theorem untrimmed_name_never_saved:
  assumes "schema env (e_form s) = Some d" and "pa_success answer"
    and "fv_enabled d" and "fv_provider d \<noteq> Ookla" and "fv_name d \<noteq> fv_name (e_form s)"
    and "wf_input (buildTaskInput d (e_existing s))"
    and "wf_input (buildTaskInput (e_form s) (e_existing s))"
  defines "s2 \<equiv> editor_run env s [Validate, Preflight_Answered (length (e_inflight s)) answer]"
  shows "currentPreflight s2 = Some answer \<and>
    editor_emits env s2 Submit =
      [Toast Error ''Validate this enabled task first''
        ''Run a successful preflight for the current provider, target, and source path before saving.'']"
proof -
  note s2 = validate_answer_submit [OF assms(1,2), folded s2_def]
  have "input_json (buildTaskInput d (e_existing s)) \<noteq> input_json (buildTaskInput (e_form s) (e_existing s))"
    using assms(5) by (simp add: input_json_def built_fields)
  then have "taskInputSignature (buildTaskInput d (e_existing s)) \<noteq>
      taskInputSignature (buildTaskInput (e_form s) (e_existing s))"
    using input_text_json [OF assms(6,7)] by (simp add: taskInputSignature_def)
  then show ?thesis
    using assms(2-4) s2
    by (simp add: currentPreflight_def onSubmit_def preflight_missing_def Let_def)
qed

lemma sample_wf: "wf_input (buildTaskInput (sample_form\<lparr>fv_name := n\<rparr>) None)"
  by (simp add: wf_input_def buildTaskInput_def Let_def sample_form_def defaults_def exact_int_def
      custom_definition_def provider_options_def defined_props_def obj_of_pairs_def)

theorem untrimmed_name_never_saved_witness:
  "editor_emits sample_env (editor_run sample_env (editor_init None sample_form)
      [Validate, Preflight_Answered 0 answer_ok]) Submit =
    [Toast Error ''Validate this enabled task first''
      ''Run a successful preflight for the current provider, target, and source path before saving.'']"
proof -
  have f: "sample_form\<lparr>fv_name := '' Fiber ''\<rparr> = sample_form"
    by (simp add: sample_form_def)
  have n: "fv_name trimmed_sample \<noteq> fv_name sample_form"
    by (simp add: trimmed_sample_def sample_form_def)
  show ?thesis
    using untrimmed_name_never_saved [of sample_env "editor_init None sample_form" trimmed_sample answer_ok]
      sample_schema(1) sample_enabled sample_wf [of "''Fiber''"] sample_wf [of "'' Fiber ''"] f n
    by (simp add: editor_init_def answer_ok_def trimmed_sample_def)
qed

text \<open>
  C20. Choosing another interface, address family or provider cannot leave a stale binding: the
  form is then refused by the schema until a source address is chosen again, and a target mode the
  new provider lacks is reset.
\<close>

theorem edits_reset_binding:
  "schema env (apply_edit (Choose_Interface n) v) = None \<and>
   schema env (apply_edit (Choose_Family f) v) = None \<and>
   fv_routeProfileId (apply_edit (Choose_Source a) v) = [] \<and>
   fv_serverSelectionMode (apply_edit (Choose_Provider Cloudflare) v) = Automatic \<and>
   fv_serverSelectionMode (apply_edit (Choose_Provider Ookla) v) \<noteq> Custom"
proof -
  have "trim [] = []" by (simp add: trim_def trim_start_def)
  then show ?thesis
    by (simp add: apply_edit_def taskSchema_def fields_ok_def chooseProvider_def Let_def)
qed

end
