(* ===== verification/Reporting.thy ===== *)
theory Reporting
  imports Json
begin

text \<open>
  The reporting-date helpers of \<open>web/src/lib/utils.ts\<close>: midnight of a calendar date in a timezone as
  a UTC instant. \<open>Date.UTC\<close> and \<open>toISOString\<close> are the date arithmetic of the language on integers
  (milliseconds since 1970); the timezone database is an argument, the wall-clock fields that
  \<open>Intl.DateTimeFormat\<close> shows for an instant.
\<close>

subsection \<open>The date arithmetic of the language\<close>

definition ms_per_day :: int where
  "ms_per_day = 86400000"

definition day_from_year :: "int \<Rightarrow> int" where
  "day_from_year y = 365 * (y - 1970) + (y - 1969) div 4 - (y - 1901) div 100 + (y - 1601) div 400"

definition leap_year :: "int \<Rightarrow> bool" where
  "leap_year y \<longleftrightarrow> y mod 4 = 0 \<and> (y mod 100 \<noteq> 0 \<or> y mod 400 = 0)"

text \<open>The first day of a month, counted from the first of January; months count from 0.\<close>

definition month_starts :: "bool \<Rightarrow> int list" where
  "month_starts leap =
     (if leap then [0, 31, 60, 91, 121, 152, 182, 213, 244, 274, 305, 335]
      else [0, 31, 59, 90, 120, 151, 181, 212, 243, 273, 304, 334])"

definition month_start :: "int \<Rightarrow> int \<Rightarrow> int" where
  "month_start y m = month_starts (leap_year y) ! nat m"

definition make_day :: "int \<Rightarrow> int \<Rightarrow> int \<Rightarrow> int" where
  "make_day y m d =
     (let y' = y + m div 12; m' = m mod 12 in day_from_year y' + month_start y' m' + d - 1)"

text \<open>\<open>Date.UTC\<close> reads the years 0 to 99 as 1900 to 1999.\<close>

definition full_year :: "int \<Rightarrow> int" where
  "full_year y = (if 0 \<le> y \<and> y \<le> 99 then 1900 + y else y)"

definition date_UTC :: "int \<Rightarrow> int \<Rightarrow> int \<Rightarrow> int \<Rightarrow> int \<Rightarrow> int \<Rightarrow> int" where
  "date_UTC y m d h mi s =
     make_day (full_year y) m d * ms_per_day + h * 3600000 + mi * 60000 + s * 1000"

definition year_of_day :: "int \<Rightarrow> int" where
  "year_of_day d =
     (let y = 1970 + (400 * d) div 146097 in
      if d < day_from_year y then y - 1 else if day_from_year (y + 1) \<le> d then y + 1 else y)"

definition month_of :: "bool \<Rightarrow> int \<Rightarrow> int" where
  "month_of leap yd = int (length (filter (\<lambda>s. s \<le> yd) (month_starts leap))) - 1"

record civil =
  cv_year :: int
  cv_month :: int
  cv_day :: int
  cv_hour :: int
  cv_minute :: int
  cv_second :: int

text \<open>The UTC fields of an instant; months count from 1, as they are printed.\<close>

definition civil_of :: "int \<Rightarrow> civil" where
  "civil_of t =
     (let d = t div ms_per_day; r = t mod ms_per_day; y = year_of_day d; yd = d - day_from_year y;
          m = month_of (leap_year y) yd
      in \<lparr>cv_year = y, cv_month = m + 1, cv_day = yd - month_start y m + 1,
          cv_hour = r div 3600000, cv_minute = r div 60000 mod 60, cv_second = r div 1000 mod 60\<rparr>)"

definition pad :: "nat \<Rightarrow> int \<Rightarrow> string" where
  "pad n i = pad_start n CHR ''0'' (nat_string (nat i))"

definition iso_year :: "int \<Rightarrow> string" where
  "iso_year y = (if 0 \<le> y \<and> y \<le> 9999 then pad 4 y else (if y < 0 then ''-'' else ''+'') @ pad 6 \<bar>y\<bar>)"

definition iso_date :: "civil \<Rightarrow> string" where
  "iso_date c = iso_year (cv_year c) @ ''-'' @ pad 2 (cv_month c) @ ''-'' @ pad 2 (cv_day c)"

definition toISOString :: "int \<Rightarrow> string" where
  "toISOString t =
     (let c = civil_of t in
      iso_date c @ ''T'' @ pad 2 (cv_hour c) @ '':'' @ pad 2 (cv_minute c) @ '':'' @ pad 2 (cv_second c) @
      ''.'' @ pad 3 (t mod 1000) @ ''Z'')"

subsection \<open>The helpers\<close>

text \<open>\<open>/^(\\d{4})-(\\d{2})-(\\d{2})$/\<close>\<close>

definition parse_date :: "string \<Rightarrow> (int \<times> int \<times> int) option" where
  "parse_date s =
     (case s of
        [a, b, c, d, p, e, f, q, g, h] \<Rightarrow>
          if list_all is_digit [a, b, c, d, e, f, g, h] \<and> p = CHR ''-'' \<and> q = CHR ''-''
          then Some (int (digits_value [a, b, c, d]), int (digits_value [e, f]), int (digits_value [g, h]))
          else None
      | _ \<Rightarrow> None)"

definition represented :: "civil \<Rightarrow> int" where
  "represented c =
     date_UTC (cv_year c) (cv_month c - 1) (cv_day c) (cv_hour c) (cv_minute c) (cv_second c)"

fun settle :: "(int \<Rightarrow> civil) \<Rightarrow> int \<Rightarrow> nat \<Rightarrow> int \<Rightarrow> int" where
  "settle wall desired 0 candidate = candidate"
| "settle wall desired (Suc n) candidate =
     (let adjustment = desired - represented (wall candidate); candidate' = candidate + adjustment
      in if adjustment = 0 then candidate' else settle wall desired n candidate')"

text \<open>\<open>None\<close> is the thrown \<open>Invalid reporting date\<close>.\<close>

definition zoned_instant :: "(int \<Rightarrow> civil) \<Rightarrow> string \<Rightarrow> int option" where
  "zoned_instant wall dateValue =
     map_option (\<lambda>(y, m, d). let desired = date_UTC y (m - 1) d 0 0 0 in settle wall desired 4 desired)
       (parse_date dateValue)"

definition zonedMidnight :: "(int \<Rightarrow> civil) \<Rightarrow> string \<Rightarrow> string option" where
  "zonedMidnight wall dateValue = map_option toISOString (zoned_instant wall dateValue)"

definition addUtcDays :: "string \<Rightarrow> int \<Rightarrow> string option" where
  "addUtcDays dateValue days =
     map_option (\<lambda>(y, m, d). take 10 (toISOString (date_UTC y (m - 1) (d + days) 0 0 0)))
       (parse_date dateValue)"

definition reportingDateStart :: "(int \<Rightarrow> civil) \<Rightarrow> string \<Rightarrow> string option" where
  "reportingDateStart wall dateValue = zonedMidnight wall dateValue"

definition reportingDateEndExclusive :: "(int \<Rightarrow> civil) \<Rightarrow> string \<Rightarrow> string option" where
  "reportingDateEndExclusive wall dateValue =
     Option.bind (addUtcDays dateValue 1) (zonedMidnight wall)"

definition reportingDateRange :: "(int \<Rightarrow> civil) \<Rightarrow> string \<Rightarrow> string \<Rightarrow> (string \<times> string) option" where
  "reportingDateRange wall fromDate toDate =
     (case (reportingDateStart wall fromDate, reportingDateEndExclusive wall toDate) of
        (Some a, Some b) \<Rightarrow> Some (a, b) | _ \<Rightarrow> None)"

subsection \<open>Years\<close>

lemma div_bounds: "0 < k \<Longrightarrow> k * (z div k) \<le> z" "0 < k \<Longrightarrow> z < k * (z div k) + k" for z k :: int
  using pos_mod_bound [of k z] pos_mod_sign [of k z] mult_div_mod_eq [of k z] by linarith+

lemma day_from_year_bounds:
  "- 607 < 400 * day_from_year y - 146097 * (y - 1970)"
  "400 * day_from_year y - 146097 * (y - 1970) < 593"
proof -
  define a b c where "a = (y - 1969) div 4" and "b = (y - 1901) div 100" and "c = (y - 1601) div 400"
  have "4 * a \<le> y - 1969" "y - 1969 < 4 * a + 4" "100 * b \<le> y - 1901" "y - 1901 < 100 * b + 100"
      "400 * c \<le> y - 1601" "y - 1601 < 400 * c + 400"
    unfolding a_def b_def c_def by (rule div_bounds; simp)+
  then show "- 607 < 400 * day_from_year y - 146097 * (y - 1970)"
    "400 * day_from_year y - 146097 * (y - 1970) < 593"
    unfolding day_from_year_def a_def [symmetric] b_def [symmetric] c_def [symmetric]
    by (simp_all add: algebra_simps)
qed

lemma day_from_year_mono: "y < y' \<Longrightarrow> day_from_year y < day_from_year y'"
  using day_from_year_bounds [of y] day_from_year_bounds [of y'] by (simp add: algebra_simps)

lemma year_of_day_bounds:
  "day_from_year (year_of_day d) \<le> d \<and> d < day_from_year (year_of_day d + 1)"
proof -
  let ?q = "(400 * d) div 146097"
  have q: "146097 * ?q \<le> 400 * d" "400 * d < 146097 * ?q + 146097"
    by (rule div_bounds; simp)+
  have "day_from_year (1970 + ?q - 1) \<le> d"
    using day_from_year_bounds(2) [of "1970 + ?q - 1"] q by (simp add: algebra_simps)
  moreover have "d < day_from_year (1970 + ?q + 2)"
    using day_from_year_bounds(1) [of "1970 + ?q + 2"] q by (simp add: algebra_simps)
  ultimately show ?thesis
    by (auto simp: year_of_day_def Let_def algebra_simps)
qed

lemma year_of_day_eq:
  assumes "day_from_year y \<le> d" "d < day_from_year (y + 1)"
  shows "year_of_day d = y"
proof (rule ccontr)
  assume "year_of_day d \<noteq> y"
  then consider "year_of_day d < y" | "y < year_of_day d" by linarith
  then show False
  proof cases
    case 1
    then have "day_from_year (year_of_day d + 1) \<le> day_from_year y"
      using day_from_year_mono [of "year_of_day d + 1" y] by (cases "year_of_day d + 1 = y") auto
    with year_of_day_bounds [of d] assms show False by linarith
  next
    case 2
    then have "day_from_year (y + 1) \<le> day_from_year (year_of_day d)"
      using day_from_year_mono [of "y + 1" "year_of_day d"] by (cases "y + 1 = year_of_day d") auto
    with year_of_day_bounds [of d] assms show False by linarith
  qed
qed

subsection \<open>\<open>Date.UTC\<close> inverts the fields of an instant\<close>

lemma month_of_range: "0 \<le> yd \<Longrightarrow> 0 \<le> month_of leap yd \<and> month_of leap yd < 12"
proof -
  assume "0 \<le> yd"
  moreover have "length (filter P xs) \<le> length xs" for P and xs :: "int list" by simp
  from this [of "\<lambda>s. s \<le> yd" "month_starts leap"] have "length (filter (\<lambda>s. s \<le> yd) (month_starts leap)) \<le> 12"
    by (simp add: month_starts_def split: if_splits)
  moreover have "0 < length (filter (\<lambda>s. s \<le> yd) (month_starts leap))"
    using \<open>0 \<le> yd\<close> by (simp add: month_starts_def)
  ultimately show ?thesis by (simp add: month_of_def)
qed

lemma make_day_canonical: "0 \<le> m \<Longrightarrow> m < 12 \<Longrightarrow> make_day y m d = day_from_year y + month_start y m + d - 1"
  by (simp add: make_day_def)

lemma clock_fields:
  assumes "r mod 1000 = 0"
  shows "r div 3600000 * 3600000 + r div 60000 mod 60 * 60000 + r div 1000 mod 60 * 1000 = (r :: int)"
proof -
  define s where "s = r div 1000"
  have r: "r = 1000 * s" using assms by (auto simp: s_def)
  have "r div 60000 = s div 60" "r div 3600000 = s div 60 div 60"
    by (simp_all add: r zdiv_zmult2_eq [of 60 60, symmetric] flip: zdiv_zmult2_eq)
  then have e: "r div 3600000 * 3600000 + r div 60000 mod 60 * 60000 + r div 1000 mod 60 * 1000 =
      s div 60 div 60 * 3600000 + s div 60 mod 60 * 60000 + s mod 60 * 1000"
    by (simp add: s_def)
  have "60 * (s div 60) + s mod 60 = s" "60 * (s div 60 div 60) + s div 60 mod 60 = s div 60"
    by simp_all
  then have "s div 60 div 60 * 3600000 + s div 60 mod 60 * 60000 + s mod 60 * 1000 = 1000 * s"
    by linarith
  with e r show ?thesis by simp
qed

definition epoch_100 :: int where
  "epoch_100 = day_from_year 100 * ms_per_day"

lemma represented_civil:
  assumes "t mod 1000 = 0" "epoch_100 \<le> t"
  shows "represented (civil_of t) = t"
proof -
  let ?d = "t div ms_per_day" and ?r = "t mod ms_per_day"
  let ?y = "year_of_day ?d" and ?yd = "?d - day_from_year (year_of_day ?d)"
  let ?m = "month_of (leap_year ?y) ?yd"
  have "day_from_year 100 \<le> ?d"
    using assms(2) by (simp add: epoch_100_def ms_per_day_def zdiv_mono1 [of "day_from_year 100 * 86400000" t 86400000, simplified])
  then have "day_from_year 100 < day_from_year (?y + 1)"
    using year_of_day_bounds [of ?d] by linarith
  then have "100 < ?y + 1"
    using day_from_year_mono [of "?y + 1" 100] by (cases "?y + 1 = 100") force+
  then have y: "full_year ?y = ?y" by (simp add: full_year_def)
  have m: "0 \<le> ?m" "?m < 12"
    using month_of_range [of ?yd] year_of_day_bounds [of ?d] by auto
  have "?r mod 1000 = 0"
    using assms(1) by (simp add: ms_per_day_def mod_mod_cancel)
  then have clock: "?r div 3600000 * 3600000 + ?r div 60000 mod 60 * 60000 + ?r div 1000 mod 60 * 1000 = ?r"
    by (rule clock_fields)
  have day: "make_day ?y ?m (?yd - month_start ?y ?m + 1) = ?d"
    using m by (simp add: make_day_canonical)
  have "represented (civil_of t) =
      ?d * ms_per_day + ?r div 3600000 * 3600000 + ?r div 60000 mod 60 * 60000 + ?r div 1000 mod 60 * 1000"
    using y day by (simp add: represented_def civil_of_def Let_def date_UTC_def)
  with clock div_mult_mod_eq [of t ms_per_day] show ?thesis by linarith
qed

subsection \<open>Midnight in a zone with one offset change\<close>

text \<open>
  A timezone around a date: the offset from UTC is \<open>a\<close> before the instant \<open>T\<close> and \<open>b\<close> from it on
  (\<open>a = b\<close> for a zone without a change), in whole seconds and less than a day.
\<close>

record zone =
  zn_before :: int
  zn_after :: int
  zn_change :: int

definition zone_offset :: "zone \<Rightarrow> int \<Rightarrow> int" where
  "zone_offset z t = (if t < zn_change z then zn_before z else zn_after z)"

definition zone_wall :: "zone \<Rightarrow> int \<Rightarrow> civil" where
  "zone_wall z t = civil_of (t + zone_offset z t)"

definition zone_ok :: "zone \<Rightarrow> bool" where
  "zone_ok z \<longleftrightarrow> zn_before z mod 1000 = 0 \<and> zn_after z mod 1000 = 0 \<and>
     \<bar>zn_before z\<bar> < ms_per_day \<and> \<bar>zn_after z\<bar> < ms_per_day"

lemma settle_zone:
  assumes "zone_ok z" "desired mod 1000 = 0" "c mod 1000 = 0" "epoch_100 + 2 * ms_per_day \<le> desired"
    and "\<bar>c - desired\<bar> < ms_per_day"
  shows "settle (zone_wall z) desired (Suc n) c =
    (if desired - zone_offset z c = c then c
     else settle (zone_wall z) desired n (desired - zone_offset z c))"
proof -
  have "zone_offset z c mod 1000 = 0" "\<bar>zone_offset z c\<bar> < ms_per_day"
    using assms(1) by (auto simp: zone_ok_def zone_offset_def)
  then have "(c + zone_offset z c) mod 1000 = 0" "epoch_100 \<le> c + zone_offset z c"
    using assms(3-5) by (auto simp: mod_add_eq [symmetric])
  then have "represented (zone_wall z c) = c + zone_offset z c"
    by (simp add: zone_wall_def represented_civil)
  then show ?thesis by (auto simp: Let_def)
qed

definition zone_local :: "zone \<Rightarrow> int \<Rightarrow> int" where
  "zone_local z t = t + zone_offset z t"

lemma settle_reaches:
  assumes "zone_ok z" "desired mod 1000 = 0" "epoch_100 + 2 * ms_per_day \<le> desired"
    and "zone_local z t = desired"
  shows "zone_local z (settle (zone_wall z) desired 4 desired) = desired"
proof -
  let ?a = "desired - zn_before z" and ?b = "desired - zn_after z"
  have mods: "?a mod 1000 = 0" "?b mod 1000 = 0"
    using assms(1,2) by (auto simp: zone_ok_def mod_diff_eq [symmetric])
  have near: "\<bar>?a - desired\<bar> < ms_per_day" "\<bar>?b - desired\<bar> < ms_per_day" "\<bar>desired - desired\<bar> < ms_per_day"
    using assms(1) by (auto simp: zone_ok_def)
  note step = settle_zone [OF assms(1,2) _ assms(3)]
  have A: "settle (zone_wall z) desired (Suc n) ?a =
      (if ?a < zn_change z \<or> ?a = ?b then ?a else settle (zone_wall z) desired n ?b)" for n
    unfolding step [OF mods(1) near(1)] by (auto simp: zone_offset_def)
  have B: "settle (zone_wall z) desired (Suc n) ?b =
      (if zn_change z \<le> ?b \<or> ?a = ?b then ?b else settle (zone_wall z) desired n ?a)" for n
    unfolding step [OF mods(2) near(2)] by (auto simp: zone_offset_def)
  have fixed: "?a < zn_change z \<or> zn_change z \<le> ?b"
    using assms(4) by (auto simp: zone_local_def zone_offset_def split: if_splits)
  have three: "zone_local z (settle (zone_wall z) desired (Suc (Suc (Suc 0))) ?a) = desired"
      "zone_local z (settle (zone_wall z) desired (Suc (Suc (Suc 0))) ?b) = desired"
    using fixed by (auto simp: A B zone_local_def zone_offset_def simp del: settle.simps)
  have "settle (zone_wall z) desired 4 desired =
      (if desired - zone_offset z desired = desired then desired
       else settle (zone_wall z) desired (Suc (Suc (Suc 0))) (desired - zone_offset z desired))"
    using step [OF assms(2) near(3), of "Suc (Suc (Suc 0))"] by (simp add: eval_nat_numeral del: settle.simps)
  moreover have "desired - zone_offset z desired \<in> {?a, ?b}"
    by (simp add: zone_offset_def)
  ultimately show ?thesis
    using three by (auto simp: zone_local_def simp del: settle.simps)
qed

lemma settle_gap:
  assumes "zone_ok z" "desired mod 1000 = 0" "epoch_100 + 2 * ms_per_day \<le> desired"
    and "zn_change z + zn_before z \<le> desired" "desired < zn_change z + zn_after z"
    and "desired < zn_change z"
  shows "settle (zone_wall z) desired 4 desired = desired - zn_after z"
proof -
  let ?a = "desired - zn_before z" and ?b = "desired - zn_after z"
  have mods: "?a mod 1000 = 0" "?b mod 1000 = 0"
    using assms(1,2) by (auto simp: zone_ok_def mod_diff_eq [symmetric])
  have near: "\<bar>?a - desired\<bar> < ms_per_day" "\<bar>?b - desired\<bar> < ms_per_day" "\<bar>desired - desired\<bar> < ms_per_day"
    using assms(1) by (auto simp: zone_ok_def)
  note step = settle_zone [OF assms(1,2) _ assms(3)]
  have num: "(4::nat) = Suc (Suc (Suc (Suc 0)))" by simp
  have o: "zone_offset z desired = zn_before z" "zone_offset z ?a = zn_after z" "zone_offset z ?b = zn_before z"
    using assms(4-6) by (auto simp: zone_offset_def)
  have ne: "?a \<noteq> desired" "?a \<noteq> ?b"
    using assms(4-6) by auto
  then show ?thesis
    unfolding num
    using ne by (simp only: step [OF assms(2) near(3)] step [OF mods(1) near(1)] step [OF mods(2) near(2)] o
        settle.simps(1) if_False not_sym [OF ne(2)] if_False simp_thms)
qed

subsection \<open>Properties\<close>

lemma desired_bounds:
  assumes "101 \<le> y" "0 \<le> m" "m < 12" "1 \<le> d"
  shows "epoch_100 + 2 * ms_per_day \<le> date_UTC y m d 0 0 0" "date_UTC y m d 0 0 0 mod 1000 = 0"
proof -
  have "0 \<le> month_start y m"
  proof -
    have "list_all (\<lambda>s. 0 \<le> s) (month_starts l) \<and> length (month_starts l) = 12" for l
      by (simp add: month_starts_def)
    moreover have "nat m < 12" using assms(2,3) by linarith
    ultimately show ?thesis by (simp add: month_start_def list_all_length)
  qed
  moreover have "day_from_year 100 + 2 \<le> day_from_year y"
    using day_from_year_bounds [of y] assms(1) by (simp add: day_from_year_def)
  ultimately have "day_from_year 100 + 2 \<le> make_day y m d"
    using assms by (simp add: make_day_canonical)
  then show "epoch_100 + 2 * ms_per_day \<le> date_UTC y m d 0 0 0"
    using assms(1) by (simp add: date_UTC_def full_year_def epoch_100_def ms_per_day_def)
  show "date_UTC y m d 0 0 0 mod 1000 = 0"
    by (simp add: date_UTC_def ms_per_day_def mod_mult_eq [symmetric])
qed

text \<open>
  C13. The start of a reporting date is local midnight: for a zone whose offset changes at most once
  around the date, when the wall clock shows midnight of that date at some instant, the four
  corrections end at such an instant.
\<close>

theorem zonedMidnight_is_midnight:
  assumes "parse_date s = Some (y, m, d)" "101 \<le> y" "1 \<le> m" "m \<le> 12" "1 \<le> d"
    and "zone_ok z" and "zone_local z t = date_UTC y (m - 1) d 0 0 0"
  shows "\<exists>r. zonedMidnight (zone_wall z) s = Some (toISOString r) \<and>
    zone_local z r = date_UTC y (m - 1) d 0 0 0 \<and> zone_wall z r = civil_of (date_UTC y (m - 1) d 0 0 0)"
proof -
  let ?r = "settle (zone_wall z) (date_UTC y (m - 1) d 0 0 0) 4 (date_UTC y (m - 1) d 0 0 0)"
  have "zone_local z ?r = date_UTC y (m - 1) d 0 0 0"
    using desired_bounds [of y "m - 1" d] assms by (intro settle_reaches) auto
  moreover have "zonedMidnight (zone_wall z) s = Some (toISOString ?r)"
    using assms(1) by (simp add: zonedMidnight_def zoned_instant_def Let_def)
  ultimately show ?thesis
    by (metis zone_local_def zone_wall_def)
qed

text \<open>Berlin on the day the clocks go forward: from one to two hours ahead at 01:00 UTC.\<close>

definition berlin :: zone where
  "berlin = \<lparr>zn_before = 3600000, zn_after = 7200000, zn_change = 1774746000000\<rparr>"

theorem zonedMidnight_is_midnight_witness:
  "\<exists>r. zonedMidnight (zone_wall berlin) ''2026-03-29'' = Some (toISOString r) \<and>
    zone_local berlin r = date_UTC 2026 2 29 0 0 0"
proof -
  have p: "parse_date ''2026-03-29'' = Some (2026, 3, 29)"
    by code_simp
  have m: "zone_local berlin 1774738800000 = date_UTC 2026 (3 - 1) 29 0 0 0"
    by code_simp
  have "zone_ok berlin" by code_simp
  from zonedMidnight_is_midnight [OF p _ _ _ _ this m] show ?thesis by auto
qed

text \<open>
  In a zone west of Greenwich that skips midnight (the clocks jump forward over it), the start of
  the date is placed one jump before midnight, on the previous local day, instead of at the first
  instant of the date.
\<close>

theorem zonedMidnight_skipped:
  assumes "parse_date s = Some (y, m, d)" "101 \<le> y" "1 \<le> m" "m \<le> 12" "1 \<le> d"
    and "zone_ok z" and "date_UTC y (m - 1) d 0 0 0 < zn_change z"
    and "zn_change z + zn_before z \<le> date_UTC y (m - 1) d 0 0 0"
    and "date_UTC y (m - 1) d 0 0 0 < zn_change z + zn_after z"
  shows "\<exists>r. zonedMidnight (zone_wall z) s = Some (toISOString r) \<and>
    zone_local z r = date_UTC y (m - 1) d 0 0 0 - (zn_after z - zn_before z)"
proof -
  let ?D = "date_UTC y (m - 1) d 0 0 0"
  have "settle (zone_wall z) ?D 4 ?D = ?D - zn_after z"
    using desired_bounds [of y "m - 1" d] assms by (intro settle_gap) auto
  then have "zonedMidnight (zone_wall z) s = Some (toISOString (?D - zn_after z))"
    using assms(1) by (simp add: zonedMidnight_def zoned_instant_def Let_def)
  moreover have "zone_local z (?D - zn_after z) = ?D - (zn_after z - zn_before z)"
    using assms(9) by (simp add: zone_local_def zone_offset_def)
  ultimately show ?thesis by blast
qed

text \<open>Santiago de Chile on 7 September 2025: at 04:00 UTC from four to three hours behind.\<close>

definition santiago :: zone where
  "santiago = \<lparr>zn_before = - 14400000, zn_after = - 10800000, zn_change = 1757217600000\<rparr>"

theorem zonedMidnight_skipped_witness:
  "\<exists>r. zonedMidnight (zone_wall santiago) ''2025-09-07'' = Some (toISOString r) \<and>
    zone_local santiago r = date_UTC 2025 8 6 23 0 0"
proof -
  have p: "parse_date ''2025-09-07'' = Some (2025, 9, 7)" by code_simp
  have z: "zone_ok santiago" by code_simp
  have g: "date_UTC 2025 (9 - 1) 7 0 0 0 < zn_change santiago"
      "zn_change santiago + zn_before santiago \<le> date_UTC 2025 (9 - 1) 7 0 0 0"
      "date_UTC 2025 (9 - 1) 7 0 0 0 < zn_change santiago + zn_after santiago"
    by code_simp+
  have "date_UTC 2025 (9 - 1) 7 0 0 0 - (zn_after santiago - zn_before santiago) = date_UTC 2025 8 6 23 0 0"
    by code_simp
  with zonedMidnight_skipped [OF p _ _ _ _ z g] show ?thesis by auto
qed

subsection \<open>The next calendar day\<close>

definition days_in_month :: "int \<Rightarrow> int \<Rightarrow> int" where
  "days_in_month y m =
     (if m = 2 then (if leap_year y then 29 else 28) else if m \<in> {4, 6, 9, 11} then 30 else 31)"

definition valid_date :: "int \<times> int \<times> int \<Rightarrow> bool" where
  "valid_date ymd = (case ymd of (y, m, d) \<Rightarrow> 1 \<le> m \<and> m \<le> 12 \<and> 1 \<le> d \<and> d \<le> days_in_month y m)"

definition next_date :: "int \<times> int \<times> int \<Rightarrow> int \<times> int \<times> int" where
  "next_date ymd =
     (case ymd of (y, m, d) \<Rightarrow>
        if d < days_in_month y m then (y, m, d + 1) else if m < 12 then (y, m + 1, 1) else (y + 1, 1, 1))"

definition date_string :: "int \<times> int \<times> int \<Rightarrow> string" where
  "date_string ymd = (case ymd of (y, m, d) \<Rightarrow> pad 4 y @ ''-'' @ pad 2 m @ ''-'' @ pad 2 d)"

lemma div_succ:
  fixes z k :: int
  assumes "0 < k"
  shows "(z + 1) div k = z div k + (if (z + 1) mod k = 0 then 1 else 0)"
proof (cases "z mod k + 1 < k")
  case True
  have e: "z + 1 = k * (z div k) + (z mod k + 1)" by simp
  have p: "0 \<le> z mod k + 1" using assms by (simp add: add_nonneg_nonneg)
  have "(z + 1) div k = z div k" "(z + 1) mod k = z mod k + 1"
    by (rule int_div_pos_eq [OF e p True], rule int_mod_pos_eq [OF e p True])
  moreover have "z mod k + 1 \<noteq> 0" using pos_mod_sign [OF assms, of z] by linarith
  ultimately show ?thesis by simp
next
  case False
  then have "z mod k + 1 = k" using pos_mod_bound [OF assms, of z] by linarith
  then have e: "z + 1 = k * (z div k + 1) + 0"
    using mult_div_mod_eq [of k z] unfolding distrib_left by linarith
  have "(z + 1) div k = z div k + 1" "(z + 1) mod k = 0"
    by (rule int_div_pos_eq [OF e], use assms in simp_all, rule int_mod_pos_eq [OF e], simp_all)
  then show ?thesis by simp
qed

lemma day_from_year_Suc: "day_from_year (y + 1) = day_from_year y + (if leap_year y then 366 else 365)"
proof -
  have m: "(y - 1969 + 1) mod 4 = y mod 4" "(y - 1901 + 1) mod 100 = y mod 100"
      "(y - 1601 + 1) mod 400 = y mod 400"
    using mod_mult_self1 [of y "- 492" 4] mod_mult_self1 [of y "- 19" 100] mod_mult_self1 [of y "- 4" 400]
    by (simp_all add: diff_add_eq)
  define p q r where "p = (y - 1969) div 4" and "q = (y - 1901) div 100" and "r = (y - 1601) div 400"
  have e: "y + 1 - c = y - c + 1" for c :: int by simp
  have s: "(y + 1 - 1969) div 4 = p + (if y mod 4 = 0 then 1 else 0)"
      "(y + 1 - 1901) div 100 = q + (if y mod 100 = 0 then 1 else 0)"
      "(y + 1 - 1601) div 400 = r + (if y mod 400 = 0 then 1 else 0)"
    unfolding e p_def q_def r_def by (simp_all only: div_succ zero_less_numeral m)
  have c: "y mod 4 = 0" if "y mod 100 = 0"
    using mod_mod_cancel [of 4 100 y] that by simp
  have d: "y mod 100 = 0" if "y mod 400 = 0"
    using mod_mod_cancel [of 100 400 y] that by simp
  have arith: "365 * (y + 1 - 1970) + (p + (if a then 1 else 0)) - (q + (if b then 1 else 0)) +
      (r + (if l then 1 else 0)) =
      365 * (y - 1970) + p - q + r + (if a \<and> (\<not> b \<or> l) then 366 else 365)"
    if "b \<Longrightarrow> a" "l \<Longrightarrow> b" for a b l
    using that by (cases a; cases b; cases l) simp_all
  show ?thesis
    unfolding day_from_year_def s leap_year_def p_def [symmetric] q_def [symmetric] r_def [symmetric]
    by (rule arith) (fact c, fact d)
qed

lemma month_cases:
  "1 \<le> m \<Longrightarrow> m \<le> 12 \<Longrightarrow> m \<in> {1, 2, 3, 4, 5, 6, 7, 8, 9, 10, 11, 12 :: int}"
  by (simp; presburger)

lemma month_start_Suc:
  assumes "1 \<le> m" "m < 12"
  shows "month_start y m = month_start y (m - 1) + days_in_month y m"
proof -
  have "m \<in> {1, 2, 3, 4, 5, 6, 7, 8, 9, 10, 11, 12}" using assms by (intro month_cases) auto
  then show ?thesis using assms(2) by (auto simp: month_start_def month_starts_def days_in_month_def)
qed

lemma month_start_last: "month_start y 11 + days_in_month y 12 = (if leap_year y then 366 else 365)"
  by (simp add: month_start_def month_starts_def days_in_month_def)

lemma count_below:
  assumes "sorted_wrt (<) xs" "n < length xs" "xs ! n \<le> (v :: int)" "Suc n < length xs \<Longrightarrow> v < xs ! Suc n"
  shows "length (filter (\<lambda>s. s \<le> v) xs) = Suc n"
proof -
  have "s \<le> v" if s: "s \<in> set (take (Suc n) xs)" for s
  proof -
    obtain i where "i \<le> n" "s = xs ! i"
      using s assms(2) by (auto simp: in_set_conv_nth less_Suc_eq_le)
    then have "s \<le> xs ! n"
      using sorted_wrt_nth_less [OF assms(1), of i n] assms(2) by (cases "i = n") auto
    with assms(3) show ?thesis by simp
  qed
  moreover have "\<not> s \<le> v" if s: "s \<in> set (drop (Suc n) xs)" for s
  proof -
    obtain i where i: "Suc n \<le> i" "i < length xs" "s = xs ! i"
      using s by (auto simp: in_set_conv_nth) (metis add_Suc le_add1 less_diff_conv add.commute)
    then have "xs ! Suc n \<le> s"
      using sorted_wrt_nth_less [OF assms(1), of "Suc n" i] by (cases "i = Suc n") auto
    with i assms(4) show ?thesis by simp
  qed
  ultimately have "filter (\<lambda>s. s \<le> v) (take (Suc n) xs @ drop (Suc n) xs) = take (Suc n) xs"
    unfolding filter_append by (simp add: filter_True filter_False)
  then show ?thesis using assms(2) by simp
qed

lemma month_starts_sorted: "sorted_wrt (<) (month_starts l)" "length (month_starts l) = 12"
  by (simp_all add: month_starts_def)

lemma month_of_start:
  assumes "1 \<le> m" "m \<le> 12" "1 \<le> d" "d \<le> days_in_month y m"
  shows "month_of (leap_year y) (month_start y (m - 1) + d - 1) = m - 1"
proof -
  let ?v = "month_start y (m - 1) + d - 1" and ?n = "nat (m - 1)"
  have "?v < month_starts (leap_year y) ! Suc ?n" if "Suc ?n < length (month_starts (leap_year y))"
  proof -
    have "m < 12" "Suc ?n = nat m" using that assms(1) by (auto simp: month_starts_sorted(2))
    then show ?thesis
      using month_start_Suc [of m y] assms by (simp add: month_start_def)
  qed
  then have "length (filter (\<lambda>s. s \<le> ?v) (month_starts (leap_year y))) = Suc ?n"
    using assms by (intro count_below) (auto simp: month_starts_sorted month_start_def)
  then show ?thesis using assms(1) by (simp add: month_of_def)
qed

lemma month_start_monoton: "0 \<le> m \<Longrightarrow> m \<le> 11 \<Longrightarrow> 0 \<le> month_start y m"
proof -
  assume "0 \<le> m" "m \<le> 11"
  then have "nat m < 12" by linarith
  moreover have "list_all (\<lambda>s. 0 \<le> s) (month_starts l)" for l by (simp add: month_starts_def)
  ultimately show ?thesis by (simp add: month_start_def list_all_length month_starts_sorted(2))
qed

lemma month_end_bound:
  assumes "1 \<le> m" "m \<le> 12"
  shows "month_start y (m - 1) + days_in_month y m \<le> (if leap_year y then 366 else 365)"
proof (cases "m = 12")
  case True
  then show ?thesis using month_start_last [of y] by simp
next
  case False
  with assms have e: "month_start y (m - 1) + days_in_month y m = month_start y m"
    using month_start_Suc [of m y] by simp
  have "list_all (\<lambda>s. s \<le> 335) (month_starts l)" for l by (simp add: month_starts_def)
  moreover have "nat m < 12" using assms False by linarith
  ultimately have "month_start y m \<le> 335"
    by (simp add: month_start_def list_all_length month_starts_sorted(2))
  with e show ?thesis by simp
qed

lemma year_length_bound:
  assumes "valid_date (y, m, d)"
  shows "0 \<le> month_start y (m - 1) + d - 1"
    and "month_start y (m - 1) + d - 1 < (if leap_year y then 366 else 365)"
  using assms month_start_monoton [of "m - 1" y] month_end_bound [of m y]
  by (auto simp: valid_date_def simp del: if_split)

lemma civil_of_date:
  assumes "valid_date (y, m, d)"
  shows "cv_year (civil_of (make_day y (m - 1) d * ms_per_day)) = y \<and>
    cv_month (civil_of (make_day y (m - 1) d * ms_per_day)) = m \<and>
    cv_day (civil_of (make_day y (m - 1) d * ms_per_day)) = d"
proof -
  let ?n = "make_day y (m - 1) d"
  have md: "1 \<le> m" "m \<le> 12" "1 \<le> d" "d \<le> days_in_month y m"
    using assms by (auto simp: valid_date_def)
  have n: "?n = day_from_year y + (month_start y (m - 1) + d - 1)"
    using md by (simp add: make_day_canonical)
  have "year_of_day ?n = y"
    using year_length_bound [OF assms] n day_from_year_Suc [of y] by (intro year_of_day_eq) auto
  moreover have "?n * ms_per_day div ms_per_day = ?n"
    by (simp add: ms_per_day_def)
  moreover have "?n - day_from_year y = month_start y (m - 1) + d - 1"
    using n by simp
  ultimately show ?thesis
    using month_of_start [OF md] by (simp add: civil_of_def Let_def)
qed

lemma make_day_next:
  assumes "valid_date (y, m, d)" "next_date (y, m, d) = (y', m', d')"
  shows "make_day y (m - 1) (d + 1) = make_day y' (m' - 1) d' \<and> valid_date (y', m', d')"
proof -
  have md: "1 \<le> m" "m \<le> 12" "1 \<le> d" "d \<le> days_in_month y m"
    using assms(1) by (auto simp: valid_date_def)
  have pos: "1 \<le> days_in_month y n" for y n by (simp add: days_in_month_def)
  consider "d < days_in_month y m" | "d = days_in_month y m" "m < 12" | "d = days_in_month y m" "m = 12"
    using md by linarith
  then show ?thesis
  proof cases
    case 1
    with assms(2) md show ?thesis by (auto simp: next_date_def valid_date_def)
  next
    case 2
    with assms(2) md pos month_start_Suc [of m y] show ?thesis
      by (auto simp: next_date_def valid_date_def make_day_canonical)
  next
    case 3
    with assms(2) md pos month_start_last [of y] day_from_year_Suc [of y] show ?thesis
      by (auto simp: next_date_def valid_date_def make_day_canonical month_start_def month_starts_def)
  qed
qed

lemma length_nat_string: "1 \<le> k \<Longrightarrow> n < 10 ^ k \<Longrightarrow> length (nat_string n) \<le> k"
proof (induction n arbitrary: k rule: nat_string.induct)
  case (1 n)
  show ?case
  proof (cases "n < 10")
    case True
    then show ?thesis using 1 by (subst nat_string.simps) simp
  next
    case False
    then obtain j where j: "k = Suc j" "1 \<le> j" using 1 by (cases k; cases "k - 1") auto
    have "n div 10 < 10 ^ j" using 1(3) j by (simp add: less_mult_imp_div_less mult.commute)
    then have "length (nat_string (n div 10)) \<le> j" using 1(1) False j by simp
    then show ?thesis using False j by (subst nat_string.simps) simp
  qed
qed

lemma pad_digits: "list_all is_digit (pad n i)" "digits_value (pad n i) = nat i"
  using all_digits_nat_string [of "nat i"]
  by (auto simp: pad_def pad_start_def list_all_iff all_digits_def digits_value_zeros is_digit_def)

lemma pad_length: "1 \<le> n \<Longrightarrow> i < 10 ^ n \<Longrightarrow> 0 \<le> i \<Longrightarrow> length (pad n i) = n"
  using length_nat_string [of n "nat i"] by (simp add: pad_def pad_start_def nat_less_iff)

lemma parse_date_string:
  assumes "0 \<le> y" "y \<le> 9999" "0 \<le> m" "m \<le> 99" "0 \<le> d" "d \<le> 99"
  shows "parse_date (date_string (y, m, d)) = Some (y, m, d)" "length (date_string (y, m, d)) = 10"
proof -
  have l: "length (pad 4 y) = 4" "length (pad 2 m) = 2" "length (pad 2 d) = 2"
    using assms by (simp_all add: pad_length)
  obtain a b c e where y: "pad 4 y = [a, b, c, e]" using l(1) by (auto simp: length_Suc_conv numeral_eq_Suc)
  obtain f g where m: "pad 2 m = [f, g]" using l(2) by (auto simp: length_Suc_conv numeral_eq_Suc)
  obtain h k where d: "pad 2 d = [h, k]" using l(3) by (auto simp: length_Suc_conv numeral_eq_Suc)
  have "list_all is_digit [a, b, c, e, f, g, h, k]"
    using pad_digits(1) [of 4 y] pad_digits(1) [of 2 m] pad_digits(1) [of 2 d] y m d by simp
  moreover have "int (digits_value [a, b, c, e]) = y" "int (digits_value [f, g]) = m" "int (digits_value [h, k]) = d"
    using pad_digits(2) [of 4 y] pad_digits(2) [of 2 m] pad_digits(2) [of 2 d] y m d assms by simp_all
  ultimately show "parse_date (date_string (y, m, d)) = Some (y, m, d)"
    by (simp add: date_string_def y m d parse_date_def)
  show "length (date_string (y, m, d)) = 10"
    by (simp add: date_string_def l)
qed

lemma days_in_month_range: "1 \<le> days_in_month y m \<and> days_in_month y m \<le> 31"
  by (simp add: days_in_month_def)

lemma valid_date_ranges: "valid_date (y, m, d) \<Longrightarrow> 1 \<le> m \<and> m \<le> 12 \<and> 1 \<le> d \<and> d \<le> 31"
  using days_in_month_range [of y m] by (auto simp: valid_date_def)

text \<open>
  The exclusive end of a range is the next calendar day: for every valid date of the years 100 to
  9998, adding one day gives the text of the following date, across months, years and leap days.
\<close>

theorem addUtcDays_next:
  assumes "valid_date (y, m, d)" "100 \<le> y" "y \<le> 9998"
  shows "addUtcDays (date_string (y, m, d)) 1 = Some (date_string (next_date (y, m, d)))"
proof -
  obtain y' m' d' where n: "next_date (y, m, d) = (y', m', d')" by (cases "next_date (y, m, d)")
  have nx: "make_day y (m - 1) (d + 1) = make_day y' (m' - 1) d'" "valid_date (y', m', d')"
    using make_day_next [OF assms(1) n] by auto
  have y': "0 \<le> y'" "y' \<le> 9999"
    using n assms(2,3) by (auto simp: next_date_def split: if_splits)
  note r = valid_date_ranges [OF assms(1)] and r' = valid_date_ranges [OF nx(2)]
  have t: "date_UTC y (m - 1) (d + 1) 0 0 0 = make_day y' (m' - 1) d' * ms_per_day"
    using assms(2) by (simp add: date_UTC_def full_year_def nx(1))
  have "iso_date (civil_of (make_day y' (m' - 1) d' * ms_per_day)) = date_string (y', m', d')"
    using civil_of_date [OF nx(2)] y' by (simp add: iso_date_def iso_year_def date_string_def)
  moreover have "length (date_string (y', m', d')) = 10"
    using parse_date_string(2) y' r' by simp
  ultimately have "take 10 (toISOString (make_day y' (m' - 1) d' * ms_per_day)) = date_string (y', m', d')"
    by (simp add: toISOString_def Let_def)
  moreover have "parse_date (date_string (y, m, d)) = Some (y, m, d)"
    using parse_date_string(1) assms r by simp
  ultimately show ?thesis
    by (simp add: addUtcDays_def t n)
qed

theorem addUtcDays_next_witness: "addUtcDays ''2024-02-28'' 1 = Some ''2024-02-29''"
proof -
  have v: "valid_date (2024, 2, 28)" by code_simp
  have s: "date_string (2024, 2, 28) = ''2024-02-28''" "date_string (next_date (2024, 2, 28)) = ''2024-02-29''"
    by code_simp+
  show ?thesis using addUtcDays_next [OF v] by (simp add: s)
qed

end
