(* ===== verification/Format.thy ===== *)
theory Format
  imports JsNumber
begin

text \<open>
  Display formats of \<open>lib/utils.ts\<close> and \<open>hooks/useAppSettings.ts\<close>: bit rates, milliseconds,
  percentages and sizes. Numbers are binary64; every division is rounded with \<^const>\<open>rnd\<close>. A missing
  value (\<open>null\<close> or \<open>undefined\<close>) is \<^const>\<open>None\<close>.
\<close>

subsection \<open>Formats\<close>

text \<open>The placeholder is the em dash (code unit 8212), outside the modelled range; it stands as its name.\<close>

definition em_dash :: string where
  "em_dash = ''(em dash)''"

datatype display_units = Bits | Bytes

text \<open>\<open>value == null || !Number.isFinite(value)\<close>\<close>

fun finite_value :: "js_number option \<Rightarrow> rat option" where
  "finite_value (Some (Fin x)) = Some x"
| "finite_value _ = None"

definition normalized_rate :: "display_units \<Rightarrow> rat \<Rightarrow> rat" where
  "normalized_rate u x = (if u = Bytes then rnd (x / 8) else x)"

definition rate_units :: "display_units \<Rightarrow> (rat \<times> string) list" where
  "rate_units u =
     [(10 ^ 9, if u = Bytes then ''GB/s'' else ''Gbps''),
      (10 ^ 6, if u = Bytes then ''MB/s'' else ''Mbps''),
      (10 ^ 3, if u = Bytes then ''kB/s'' else ''Kbps'')]"

definition formatBitrate :: "js_number option \<Rightarrow> bool \<Rightarrow> display_units \<Rightarrow> string" where
  "formatBitrate v small u =
     (case finite_value v of
        None \<Rightarrow> em_dash
      | Some x \<Rightarrow>
          let normalized = normalized_rate u x in
          case find (\<lambda>(threshold, _). threshold \<le> normalized) (rate_units u) of
            None \<Rightarrow> number_string (of_int (math_round normalized)) @ '' '' @ (if u = Bytes then ''B/s'' else ''bps'')
          | Some (divisor, label) \<Rightarrow>
              let amount = rnd (normalized / divisor)
              in to_fixed amount (if 100 \<le> amount \<or> small then 0 else 1) @ '' '' @ label)"

definition formatMilliseconds :: "js_number option \<Rightarrow> string" where
  "formatMilliseconds v =
     (case finite_value v of
        None \<Rightarrow> em_dash
      | Some x \<Rightarrow> (if x < 10 then to_fixed x 1 else to_fixed x 0) @ '' ms'')"

definition formatPercent :: "js_number option \<Rightarrow> string" where
  "formatPercent v =
     (case finite_value v of
        None \<Rightarrow> em_dash
      | Some x \<Rightarrow> to_fixed x (if x < 10 then 1 else 0) @ ''%'')"

definition byte_units :: "string list" where
  "byte_units = [''B'', ''KB'', ''MB'', ''GB'', ''TB'']"

text \<open>The loop of \<open>formatBytes\<close> over \<open>amount\<close> and \<open>index\<close>.\<close>

function bytes_loop :: "rat \<Rightarrow> nat \<Rightarrow> rat \<times> nat" where
  "bytes_loop amount i =
     (if 1000 \<le> amount \<and> i < length byte_units - 1 then bytes_loop (rnd (amount / 1000)) (i + 1)
      else (amount, i))"
  by pat_completeness auto
termination by (relation "measure (\<lambda>(_, i). length byte_units - i)") auto

declare bytes_loop.simps [simp del]

definition formatBytes :: "js_number option \<Rightarrow> string" where
  "formatBytes v =
     (case finite_value v of
        None \<Rightarrow> em_dash
      | Some x \<Rightarrow>
          (case bytes_loop x 0 of
             (amount, i) \<Rightarrow> to_fixed amount (if i = 0 \<or> 100 \<le> amount then 0 else 1) @ '' '' @
               (if i < length byte_units then byte_units ! i else ''B'')))"

subsection \<open>Printed decimals\<close>

text \<open>The number a string of digits with an optional decimal point denotes.\<close>

definition fixed_value :: "string \<Rightarrow> rat" where
  "fixed_value s =
     of_nat (digits_value (filter is_digit s)) / 10 ^ (length (dropWhile (\<lambda>c. c \<noteq> CHR ''.'') s) - 1)"

lemma no_point_dropWhile: "list_all is_digit s \<Longrightarrow> dropWhile (\<lambda>c. c \<noteq> CHR ''.'') (s @ t) = dropWhile (\<lambda>c. c \<noteq> CHR ''.'') t"
  by (rule dropWhile_append2) (auto simp: list_all_iff is_digit_def)

lemma fixed_value_digits:
  assumes "list_all is_digit s"
  shows "fixed_value s = of_nat (digits_value s)"
proof -
  have "dropWhile (\<lambda>c. c \<noteq> CHR ''.'') s = []"
    using no_point_dropWhile [OF assms, of "[]"] by simp
  moreover have "filter is_digit s = s"
    using assms by (simp add: filter_id_conv list_all_iff)
  ultimately show ?thesis by (simp only: fixed_value_def) simp
qed

lemma fixed_value_point:
  assumes "list_all is_digit a" "list_all is_digit b"
  shows "fixed_value (a @ ''.'' @ b) = of_nat (digits_value (a @ b)) / 10 ^ length b"
  using assms no_point_dropWhile [OF assms(1), of "''.'' @ b"]
  by (simp add: fixed_value_def list_all_iff is_digit_def filter_id_conv [THEN iffD2])

lemma fixed_value_nonneg:
  "fixed_value (nonneg_fixed x f) = of_nat (nat \<lfloor>x * 10 ^ f + 1 / 2\<rfloor>) / 10 ^ f"
proof -
  let ?s = "nat_string (nat \<lfloor>x * 10 ^ f + 1 / 2\<rfloor>)"
  let ?z = "pad_start (f + 1) CHR ''0'' ?s"
  have s: "list_all is_digit ?s"
    using all_digits_nat_string by (simp add: all_digits_def)
  then have z: "list_all is_digit ?z"
    by (auto simp: pad_start_def list_all_iff is_digit_def)
  show ?thesis
  proof (cases "f = 0")
    case True
    with s show ?thesis by (simp add: nonneg_fixed_def Let_def fixed_value_digits)
  next
    case False
    have "list_all is_digit (take (length ?z - f) ?z)" "list_all is_digit (drop (length ?z - f) ?z)"
      using z by (auto simp: list_all_iff dest: in_set_takeD in_set_dropD)
    then have "fixed_value (take (length ?z - f) ?z @ ''.'' @ drop (length ?z - f) ?z) =
        of_nat (digits_value ?z) / 10 ^ length (drop (length ?z - f) ?z)"
      by (subst fixed_value_point) simp_all
    moreover have "length (drop (length ?z - f) ?z) = f"
      by (simp add: pad_start_def)
    moreover have "digits_value ?z = nat \<lfloor>x * 10 ^ f + 1 / 2\<rfloor>"
      by (simp add: pad_start_def digits_value_zeros)
    ultimately show ?thesis
      using False by (simp add: nonneg_fixed_def Let_def)
  qed
qed

text \<open>\<open>toFixed\<close> prints the value to within half a unit of its last digit.\<close>

lemma fixed_value_close:
  assumes "0 \<le> x" "x < 10 ^ 21"
  shows "\<bar>fixed_value (to_fixed x f) - x\<bar> \<le> 1 / (2 * 10 ^ f)"
proof -
  let ?k = "\<lfloor>x * 10 ^ f + 1 / 2\<rfloor>"
  have "0 \<le> x * 10 ^ f + 1 / 2"
    using assms(1) by simp
  then have k: "0 \<le> ?k" by simp
  have "to_fixed x f = nonneg_fixed x f"
    using assms by (simp add: to_fixed_def)
  then have "fixed_value (to_fixed x f) = of_int ?k / 10 ^ f"
    using k by (simp add: fixed_value_nonneg)
  then have "fixed_value (to_fixed x f) - x = (of_int ?k - x * 10 ^ f) / 10 ^ f"
    by (simp add: diff_divide_distrib)
  then have "\<bar>fixed_value (to_fixed x f) - x\<bar> = \<bar>of_int ?k - x * 10 ^ f\<bar> / 10 ^ f"
    by simp
  also have "\<dots> \<le> (1 / 2) / 10 ^ f"
    by (rule divide_right_mono, linarith, simp)
  finally show ?thesis by simp
qed

subsection \<open>Unit selection\<close>

lemma representable_dyadic:
  "\<bar>m\<bar> \<le> 2 ^ 53 \<Longrightarrow> k \<le> 1074 \<Longrightarrow> representable (of_int m / 2 ^ k)"
  unfolding representable_def
  by (intro exI [of _ m] exI [of _ "- int k"]) (simp add: power_int_minus power_int_of_nat field_simps)

text \<open>The loop ends below 1000 or in the last unit.\<close>

lemma bytes_loop_exit: "i \<le> 4 \<Longrightarrow> fst (bytes_loop x i) < 1000 \<or> snd (bytes_loop x i) = 4"
proof (induction x i rule: bytes_loop.induct)
  case (1 x i)
  show ?case
  proof (cases "1000 \<le> x \<and> i < length byte_units - 1")
    case True
    then have "fst (bytes_loop (rnd (x / 1000)) (i + 1)) < 1000 \<or> snd (bytes_loop (rnd (x / 1000)) (i + 1)) = 4"
      using 1 by (simp add: byte_units_def)
    with True show ?thesis by (subst (1 2) bytes_loop.simps) simp
  next
    case False
    with 1 show ?thesis by (subst (1 2) bytes_loop.simps) (auto simp: byte_units_def)
  qed
qed

text \<open>A rounded division by 1000 between two representable bounds.\<close>

lemma rnd_div_ge: "representable a \<Longrightarrow> 1000 * a \<le> x \<Longrightarrow> a \<le> rnd (x / 1000)"
  by (rule rnd_ge) simp_all

lemma rnd_div_le: "representable a \<Longrightarrow> x \<le> 1000 * a \<Longrightarrow> rnd (x / 1000) \<le> a"
  by (rule rnd_le) simp_all

lemma bytes_stop: "x < 1000 \<or> 4 \<le> i \<Longrightarrow> bytes_loop x i = (x, i)"
  by (subst bytes_loop.simps) (auto simp: byte_units_def)

lemma bytes_continue: "1000 \<le> x \<Longrightarrow> i < 4 \<Longrightarrow> bytes_loop x i = bytes_loop (rnd (x / 1000)) (i + 1)"
  by (subst bytes_loop.simps) (simp add: byte_units_def)

lemma bytes_loop_range: "0 \<le> x \<Longrightarrow> x \<le> 2 ^ 53 \<Longrightarrow> 0 \<le> fst (bytes_loop x i) \<and> fst (bytes_loop x i) \<le> 2 ^ 53"
proof (induction x i rule: bytes_loop.induct)
  case (1 x i)
  have r: "representable 0" "representable (2 ^ 53)"
    using representable_int [of 0] representable_int [of "2 ^ 53"] by simp_all
  have "0 \<le> rnd (x / 1000)"
    using "1.prems" by (intro rnd_div_ge [OF r(1)]) simp
  moreover have "rnd (x / 1000) \<le> 2 ^ 53"
    using "1.prems" by (intro rnd_div_le [OF r(2)]) simp
  ultimately show ?case
    using 1 by (subst (1 2) bytes_loop.simps) simp
qed

lemma rnd_div_less:
  assumes "x \<le> 1000 * of_int b - 1 / 2 ^ k" "0 < b" "b * 2 ^ (k + 10) \<le> 2 ^ 53" "k \<le> 1000"
  shows "rnd (x / 1000) \<le> of_int b - 1 / 2 ^ (k + 10)"
proof (rule rnd_div_le)
  have "(of_int b :: rat) - 1 / 2 ^ (k + 10) = of_int (b * 2 ^ (k + 10) - 1) / 2 ^ (k + 10)"
    by (simp add: diff_divide_distrib)
  moreover have "1 \<le> b * 2 ^ (k + 10)"
    using assms(2) by (metis int_one_le_iff_zero_less zero_less_mult_iff zero_less_numeral zero_less_power)
  then have "\<bar>b * 2 ^ (k + 10) - 1\<bar> \<le> 2 ^ 53"
    using assms(3) by linarith
  ultimately show "representable (of_int b - 1 / 2 ^ (k + 10))"
    using assms(4) by (simp only: representable_dyadic)
  have "1000 * (1 / 2 ^ (k + 10)) \<le> (1 :: rat) / 2 ^ k"
    by (simp add: power_add field_simps)
  with assms(1) show "x \<le> 1000 * (of_int b - 1 / 2 ^ (k + 10))"
    by (simp add: right_diff_distrib)
qed

text \<open>The unit of a size, by its order of magnitude.\<close>

definition unit_index :: "int \<Rightarrow> nat" where
  "unit_index n =
     (if n < 10 ^ 3 then 0 else if n < 10 ^ 6 then 1 else if n < 10 ^ 9 then 2
      else if n < 10 ^ 12 then 3 else 4)"

lemma rnd_div_ge_int: "0 \<le> b \<Longrightarrow> b \<le> 2 ^ 53 \<Longrightarrow> 1000 * of_int b \<le> x \<Longrightarrow> of_int b \<le> rnd (x / 1000)"
  by (rule rnd_div_ge) (simp_all add: representable_int)

lemma bytes_loop_magnitude:
  assumes "1000 ^ j \<le> x" "i + j = 4 \<or> x \<le> 1000 ^ (j + 1) - 1 / 2 ^ k" "i + j \<le> 4" "k + 10 * j \<le> 40"
  shows "snd (bytes_loop x i) = i + j"
  using assms
proof (induction j arbitrary: x i k)
  case 0
  have "x < 1000" if "x \<le> 1000 - 1 / 2 ^ k"
    using that by (rule le_less_trans) simp
  then have "x < 1000 \<or> 4 \<le> i"
    using "0.prems"(2) by auto
  then show ?case by (simp add: bytes_stop)
next
  case (Suc j)
  have p10: "(1000 :: int) ^ j * 2 ^ (k + 10 + 10) \<le> 2 ^ 53"
  proof -
    have "(1000 :: int) ^ j \<le> (2 ^ 10) ^ j" by (rule power_mono) simp_all
    then have "(1000 :: int) ^ j * 2 ^ (k + 20) \<le> 2 ^ (10 * j) * 2 ^ (k + 20)"
      by (simp add: power_mult)
    also have "\<dots> = 2 ^ (10 * j + (k + 20))" by (simp only: power_add)
    also have "\<dots> \<le> 2 ^ 53" by (rule power_increasing) (use Suc.prems(4) in simp_all)
    finally show ?thesis by (simp add: add.commute)
  qed
  let ?y = "rnd (x / 1000)"
  have "(1000 :: rat) \<le> 1000 ^ Suc j" by simp
  also note Suc.prems(1)
  finally have step: "bytes_loop x i = bytes_loop ?y (i + 1)"
    using Suc.prems(3) by (intro bytes_continue) simp_all
  have "of_int (1000 ^ j) \<le> ?y"
  proof (rule rnd_div_ge_int)
    show "(1000 :: int) ^ j \<le> 2 ^ 53"
      using p10 by (rule order.trans [rotated]) simp
  qed (use Suc.prems(1) in simp_all)
  then have lower: "1000 ^ j \<le> ?y" by simp
  have upper: "?y \<le> 1000 ^ (j + 1) - 1 / 2 ^ (k + 10)" if "i + Suc j \<noteq> 4"
  proof -
    have "?y \<le> of_int (1000 ^ (j + 1)) - 1 / 2 ^ (k + 10)"
    proof (rule rnd_div_less)
      show "x \<le> 1000 * of_int (1000 ^ (j + 1)) - 1 / 2 ^ k"
        using Suc.prems(2) that by simp
      show "(1000 :: int) ^ (j + 1) * 2 ^ (k + 10) \<le> 2 ^ 53"
        using p10 by (rule order.trans [rotated]) (simp add: power_add)
    qed (use Suc.prems(4) in simp_all)
    then show ?thesis by simp
  qed
  have "snd (bytes_loop ?y (i + 1)) = i + 1 + j"
    by (rule Suc.IH [OF lower]) (use upper Suc.prems(3,4) in auto)
  with step show ?case by simp
qed

lemma bytes_loop_unit:
  assumes "0 \<le> n"
  shows "snd (bytes_loop (of_int n) 0) = unit_index n"
proof -
  have *: "snd (bytes_loop (of_int n) 0) = j" if "1000 ^ j \<le> n" "n < 1000 ^ (j + 1) \<or> j = 4" "j \<le> 4" for j
  proof -
    have "(of_int (1000 ^ j) :: rat) \<le> of_int n"
      using that(1) by (simp only: of_int_le_iff)
    moreover have "(of_int n :: rat) \<le> of_int (1000 ^ (j + 1) - 1)" if "n < 1000 ^ (j + 1)"
      using that by (simp only: of_int_le_iff)
    ultimately have "snd (bytes_loop (of_int n) 0) = 0 + j"
      by (intro bytes_loop_magnitude [where k = 0]) (use that in auto)
    then show ?thesis by simp
  qed
  have z: "snd (bytes_loop (of_int n) 0) = 0" if "n < 1000"
  proof -
    have "(of_int n :: rat) < of_int 1000" using that by (simp only: of_int_less_iff)
    then show ?thesis by (simp add: bytes_stop)
  qed
  show ?thesis
    using z * [of 1] * [of 2] * [of 3] * [of 4] by (auto simp: unit_index_def)
qed

subsection \<open>Properties\<close>

text \<open>
  \<open>formatBytes\<close> of a size that is a whole number of bytes shows the unit of its order of
  magnitude, although the loop rounds after every division; the printed amount is below 1000 in every
  unit but the last, and it is the loop's amount to within half of its last printed digit.
\<close>

theorem formatBytes_unit:
  assumes "0 \<le> n" "n \<le> 2 ^ 53"
  shows "\<exists>amount digits.
    formatBytes (Some (Fin (of_int n))) = to_fixed amount digits @ '' '' @ byte_units ! unit_index n \<and>
    digits = (if unit_index n = 0 \<or> 100 \<le> amount then 0 else 1) \<and>
    (unit_index n = 4 \<or> amount < 1000) \<and>
    \<bar>fixed_value (to_fixed amount digits) - amount\<bar> \<le> 1 / (2 * 10 ^ digits)"
proof -
  obtain a where a: "bytes_loop (of_int n) 0 = (a, unit_index n)"
    using bytes_loop_unit [OF assms(1)] by (metis prod.collapse)
  have ul: "unit_index n < length byte_units"
    by (simp add: unit_index_def byte_units_def)
  have "0 \<le> a" "a < 10 ^ 21"
    using bytes_loop_range [of "of_int n" 0] assms a by (simp_all add: le_less_trans)
  then have "\<bar>fixed_value (to_fixed a d) - a\<bar> \<le> 1 / (2 * 10 ^ d)" for d
    by (rule fixed_value_close)
  moreover have "a < 1000 \<or> unit_index n = 4"
    using bytes_loop_exit [of 0 "of_int n"] a by simp
  ultimately show ?thesis
    using a ul by (intro exI [of _ a] exI [of _ "if unit_index n = 0 \<or> 100 \<le> a then 0 else 1"])
      (auto simp: formatBytes_def)
qed

theorem formatBytes_unit_witness:
  "\<exists>amount digits.
    formatBytes (Some (Fin 1536000)) = to_fixed amount digits @ '' MB'' \<and> amount < 1000 \<and>
    \<bar>fixed_value (to_fixed amount digits) - amount\<bar> \<le> 1 / (2 * 10 ^ digits)"
  using formatBytes_unit [of 1536000] by (auto simp: unit_index_def byte_units_def)

text \<open>
  A rate of at least 1000 units per second is shown with the largest prefix that keeps the amount
  at least 1; the amount does not exceed 1000 below the largest prefix, and what is printed is the
  rounded quotient to within half of its last digit.
\<close>

theorem formatBitrate_unit:
  assumes "0 \<le> x" "x \<le> 2 ^ 53" "1000 \<le> normalized_rate u x"
  shows "list_ex (\<lambda>(divisor, label). let amount = rnd (normalized_rate u x / divisor);
        digits = (if 100 \<le> amount \<or> small then 0 else 1)
      in formatBitrate (Some (Fin x)) small u = to_fixed amount digits @ '' '' @ label \<and>
         1 \<le> amount \<and> (divisor = 10 ^ 9 \<or> amount \<le> 1000) \<and>
         \<bar>fixed_value (to_fixed amount digits) - amount\<bar> \<le> 1 / (2 * 10 ^ digits)) (rate_units u)"
proof -
  define y where "y = normalized_rate u x"
  have y: "1000 \<le> y" using assms(3) by (simp add: y_def)
  have r: "representable 1" "representable 1000" "representable (2 ^ 53)"
    using representable_int [of 1] representable_int [of 1000] representable_int [of "2 ^ 53"] by simp_all
  have top: "y \<le> 2 ^ 53"
    using assms(1,2) rnd_le [OF r(3), of "x / 8"] by (simp add: y_def normalized_rate_def)
  have close: "\<bar>fixed_value (to_fixed (rnd (y / d)) k) - rnd (y / d)\<bar> \<le> 1 / (2 * 10 ^ k)"
    and low: "1 \<le> rnd (y / d)" if "1 \<le> d" "d \<le> y" for d k
  proof -
    show l: "1 \<le> rnd (y / d)"
      using that by (intro rnd_ge [OF r(1)]) simp
    have "y / d \<le> 2 ^ 53"
      using top that y by (simp add: divide_le_eq)
    then have "rnd (y / d) \<le> 2 ^ 53" by (rule rnd_le [OF r(3)])
    with l show "\<bar>fixed_value (to_fixed (rnd (y / d)) k) - rnd (y / d)\<bar> \<le> 1 / (2 * 10 ^ k)"
      by (intro fixed_value_close) simp_all
  qed
  have high: "rnd (y / d) \<le> 1000" if "0 < d" "y \<le> 1000 * d" for d
    using that by (intro rnd_le [OF r(2)]) (simp add: divide_le_eq)
  consider "10 ^ 9 \<le> y" | "10 ^ 6 \<le> y" "y < 10 ^ 9" | "10 ^ 3 \<le> y" "y < 10 ^ 6"
    using y by fastforce
  then show ?thesis
  proof cases
    case 1
    then show ?thesis
      using close [of "10 ^ 9"] low [of "10 ^ 9"]
      by (simp add: rate_units_def formatBitrate_def Let_def flip: y_def)
  next
    case 2
    then show ?thesis
      using close [of "10 ^ 6"] low [of "10 ^ 6"] high [of "10 ^ 6"]
      by (simp add: rate_units_def formatBitrate_def Let_def flip: y_def)
  next
    case 3
    then show ?thesis
      using close [of "10 ^ 3"] low [of "10 ^ 3"] high [of "10 ^ 3"]
      by (simp add: rate_units_def formatBitrate_def Let_def flip: y_def)
  qed
qed

theorem formatBitrate_unit_witness:
  "list_ex (\<lambda>(divisor, label). let amount = rnd (125000000 / divisor);
        digits = (if 100 \<le> amount \<or> False then 0 else 1)
      in formatBitrate (Some (Fin 125000000)) False Bits = to_fixed amount digits @ '' '' @ label \<and>
         1 \<le> amount \<and> (divisor = 10 ^ 9 \<or> amount \<le> 1000) \<and>
         \<bar>fixed_value (to_fixed amount digits) - amount\<bar> \<le> 1 / (2 * 10 ^ digits)) (rate_units Bits)"
  using formatBitrate_unit [of 125000000 Bits False] by (simp add: normalized_rate_def)

end
