(* ===== verification/Query.thy ===== *)
theory Query
  imports ApiClient
begin

text \<open>
  The query cache of \<open>lib/query.ts\<close>: the default options of the query client and the keys under
  which every page stores what it fetched. The cache itself (TanStack Query) is not part of the
  repository. Of its documented behaviour the theorems use two points, which appear as hypotheses
  over the definitions below: a failed fetch is repeated only when the retry option answers true,
  and an invalidation reaches every query whose key starts with the given key.
\<close>

subsection \<open>Default options\<close>

record query_options =
  qo_staleTime :: nat
  qo_refetchOnWindowFocus :: bool
  qo_retryMutations :: bool

definition default_options :: query_options where
  "default_options = \<lparr>qo_staleTime = 15000, qo_refetchOnWindowFocus = False, qo_retryMutations = False\<rparr>"

text \<open>The status of an error, for the errors that have a numeric one.\<close>

fun failure_status :: "failure \<Rightarrow> nat option" where
  "failure_status (Api_Failure e) = Some (ae_status e)"
| "failure_status _ = None"

definition retry :: "nat \<Rightarrow> failure \<Rightarrow> bool" where
  "retry failureCount error =
     (case failure_status error of
        Some st \<Rightarrow> if st < 500 then False else failureCount < 2
      | None \<Rightarrow> failureCount < 2)"

text \<open>
  Attempt \<open>n\<close> (the first is 0) of a query is made when every earlier attempt failed and the policy
  asked for another one. \<open>outcome i\<close> is what attempt \<open>i\<close> gives.
\<close>

definition attempted :: "(nat \<Rightarrow> failure \<Rightarrow> bool) \<Rightarrow> (nat \<Rightarrow> failure + 'a) \<Rightarrow> nat \<Rightarrow> bool" where
  "attempted policy outcome n \<longleftrightarrow>
     list_all (\<lambda>i. case outcome i of Inl e \<Rightarrow> policy i e | Inr _ \<Rightarrow> False) [0..<n]"

subsection \<open>Query keys\<close>

type_synonym query_key = "json list"

datatype app_query =
    Q_tasks | Q_task string | Q_results json | Q_dashboardSummary | Q_result string
  | Q_statistics json | Q_interfaces | Q_routes | Q_providers | Q_ooklaBinary | Q_settings | Q_system

fun queryKeys :: "app_query \<Rightarrow> query_key" where
  "queryKeys Q_tasks = [JStr ''tasks'']"
| "queryKeys (Q_task i) = [JStr ''tasks'', JStr i]"
| "queryKeys (Q_results filters) = [JStr ''results'', filters]"
| "queryKeys Q_dashboardSummary = [JStr ''results'', JStr ''dashboard-summary'']"
| "queryKeys (Q_result i) = [JStr ''results'', JStr i]"
| "queryKeys (Q_statistics filters) = [JStr ''statistics'', filters]"
| "queryKeys Q_interfaces = [JStr ''interfaces'']"
| "queryKeys Q_routes = [JStr ''route-profiles'']"
| "queryKeys Q_providers = [JStr ''providers'']"
| "queryKeys Q_ooklaBinary = [JStr ''providers'', JStr ''ookla'', JStr ''binary'']"
| "queryKeys Q_settings = [JStr ''settings'']"
| "queryKeys Q_system = [JStr ''system'']"

subsection \<open>Lemmas\<close>

lemma attempted_earlier:
  "attempted policy outcome n \<Longrightarrow> i < n \<Longrightarrow> \<exists>e. outcome i = Inl e \<and> policy i e"
  by (cases "outcome i") (auto simp: attempted_def list_all_iff split: sum.splits)

lemma retry_less: "retry n e \<Longrightarrow> n < 2"
  by (auto simp: retry_def split: option.splits if_splits)

lemma retry_status: "retry n e \<Longrightarrow> failure_status e = Some st \<Longrightarrow> 500 \<le> st"
  by (auto simp: retry_def split: if_splits)

subsection \<open>Properties\<close>

text \<open>
  C26. A query is attempted at most three times, and an error with a status below 500 ends it at
  once: no attempt follows one that ended with such an error.
\<close>

theorem query_attempts_bounded:
  assumes "attempted retry outcome n"
  shows "n \<le> 2 \<and> (outcome i = Inl (Api_Failure e) \<longrightarrow> ae_status e < 500 \<longrightarrow> n \<le> i)"
proof
  show "n \<le> 2"
  proof (rule ccontr)
    assume "\<not> n \<le> 2"
    then have "2 < n" by simp
    then obtain e where "retry 2 e"
      using attempted_earlier [OF assms] by blast
    then show False using retry_less by blast
  qed
  show "outcome i = Inl (Api_Failure e) \<longrightarrow> ae_status e < 500 \<longrightarrow> n \<le> i"
  proof (intro impI, rule ccontr)
    assume a: "outcome i = Inl (Api_Failure e)" "ae_status e < 500" "\<not> n \<le> i"
    then have "retry i (Api_Failure e)"
      using attempted_earlier [OF assms, of i] by auto
    with a(2) show False
      using retry_status [of i "Api_Failure e"] by simp
  qed
qed

definition flaky :: "nat \<Rightarrow> failure + nat" where
  "flaky i = (if i = 0 then Inl Type_Error
     else Inl (Api_Failure \<lparr>ae_message = ''Not found'', ae_status = 404, ae_code = JStr ''NOT_FOUND'',
       ae_requestId = None, ae_details = None\<rparr>))"

theorem query_attempts_bounded_witness:
  "attempted retry flaky 1 \<and> (1 :: nat) \<le> 2 \<and> \<not> attempted retry flaky 2"
  using query_attempts_bounded [of flaky 1 1] query_attempts_bounded [of flaky 2 1]
  by (auto simp: attempted_def flaky_def retry_def numeral_2_eq_2)

text \<open>
  Two queries of the console share a cache key only if they are the same query, as long as the
  filters of the lists are objects and no result has the identifier of the dashboard summary.
\<close>

theorem queryKeys_inject:
  assumes "list_all (\<lambda>x. case x of
        Q_results f \<Rightarrow> \<exists>kvs. f = JObj kvs
      | Q_result i \<Rightarrow> i \<noteq> ''dashboard-summary''
      | _ \<Rightarrow> True) [q, q']"
  shows "queryKeys q = queryKeys q' \<longleftrightarrow> q = q'"
  using assms by (cases q; cases q') auto

theorem queryKeys_inject_witness:
  "queryKeys (Q_result ''r1'') \<noteq> queryKeys Q_dashboardSummary"
  using queryKeys_inject [of "Q_result ''r1''" Q_dashboardSummary] by simp

end
