(* ===== verification/EventStream.thy ===== *)
theory EventStream
  imports Query
begin

text \<open>
  The live event stream of \<open>hooks/useEventStream.ts\<close>: a state machine driven by the callbacks of the
  browser's \<open>EventSource\<close>, whose outputs are the invalidations of the query cache. A message is
  dispatched to the listeners of its event name; one without a name has the name \<open>message\<close>.
\<close>

subsection \<open>Names\<close>

datatype StreamState = Connecting | Connected | Reconnecting | Unavailable

definition taskEvents :: "string list" where
  "taskEvents =
     [''task.created'', ''task.updated'', ''task.enabled'', ''task.disabled'', ''task.deleted'',
      ''task_created'', ''task_updated'', ''task_enabled'', ''task_disabled'', ''task_deleted'']"

definition resultEvents :: "string list" where
  "resultEvents =
     [''run.queued'', ''route.validation.started'', ''route.validation.completed'', ''test.started'',
      ''test.completed'', ''test.failed'', ''test.skipped'', ''test.cancelled'', ''result.stored'',
      ''run_queued'', ''route_validation_started'', ''route_validation_completed'', ''test_started'',
      ''test_completed'', ''test_failed'', ''test_skipped'', ''new_result_stored'']"

definition interfaceEvents :: "string list" where
  "interfaceEvents = [''interface.state.changed'', ''interface_state_changed'']"

definition eventNames :: "string list" where
  "eventNames = taskEvents @ resultEvents @ interfaceEvents"

definition streamReconnectQueryKeys :: "query_key list" where
  "streamReconnectQueryKeys =
     [[JStr ''tasks''], [JStr ''results''], [JStr ''statistics''], [JStr ''interfaces''],
      [JStr ''route-profiles''], [JStr ''providers''], [JStr ''settings''], [JStr ''system'']]"

subsection \<open>Receiving a message\<close>

text \<open>
  A parsed payload with the value of its \<open>type\<close> property, which the hook may have assigned. The
  assignment also reaches arrays, whose extra property \<open>lv_type\<close> then holds.
\<close>

record live_value =
  lv_value :: json
  lv_type :: "json option"

text \<open>\<open>parsed.type = name\<close> in strict mode: a \<open>TypeError\<close> on a primitive value.\<close>

definition set_type :: "json \<Rightarrow> string \<Rightarrow> failure + live_value" where
  "set_type parsed name =
     (case parsed of
        JObj kvs \<Rightarrow> Inr \<lparr>lv_value = JObj (obj_put ''type'' (JStr name) kvs), lv_type = Some (JStr name)\<rparr>
      | JArr vs \<Rightarrow> Inr \<lparr>lv_value = JArr vs, lv_type = Some (JStr name)\<rparr>
      | _ \<Rightarrow> Inl Type_Error)"

definition typed_payload :: "string \<Rightarrow> json \<Rightarrow> failure + live_value" where
  "typed_payload name parsed =
     sum_bind (js_prop parsed ''type'') (\<lambda>ty.
       if \<not> (case ty of None \<Rightarrow> False | Some v \<Rightarrow> truthy v) \<and> name \<noteq> ''message''
       then set_type parsed name else Inr \<lparr>lv_value = parsed, lv_type = ty\<rparr>)"

text \<open>\<open>parsed.type.includes(s)\<close> exists on strings and arrays only.\<close>

definition type_includes :: "json option \<Rightarrow> string \<Rightarrow> failure + bool" where
  "type_includes ty s =
     (case ty of
        Some (JStr t) \<Rightarrow> Inr (sublist s t)
      | Some (JArr vs) \<Rightarrow> Inr (JStr s \<in> set vs)
      | _ \<Rightarrow> Inl Type_Error)"

definition names_type :: "string list \<Rightarrow> json option \<Rightarrow> bool" where
  "names_type names ty = (case ty of Some (JStr t) \<Rightarrow> t \<in> set names | _ \<Rightarrow> False)"

text \<open>
  The invalidations of a payload, in order. The calls before the last condition stay made when
  evaluating that condition throws.
\<close>

definition invalidations :: "json option \<Rightarrow> query_key list" where
  "invalidations ty =
     (if names_type taskEvents ty then [[JStr ''tasks'']] else []) @
     (if names_type resultEvents ty
      then [[JStr ''results''], [JStr ''statistics''], [JStr ''system'']] else []) @
     (if names_type interfaceEvents ty then [[JStr ''interfaces'']] else []) @
     (case type_includes ty ''route.validation'' of
        Inl _ \<Rightarrow> []
      | Inr b \<Rightarrow> if b \<or> type_includes ty ''route_validation'' = Inr True
                 then [[JStr ''route-profiles'']] else [])"

definition receive :: "string \<Rightarrow> string \<Rightarrow> live_value option \<times> query_key list" where
  "receive name text =
     (case json_parse text of
        None \<Rightarrow> (None, [])
      | Some parsed \<Rightarrow>
          (case typed_payload name parsed of
             Inl _ \<Rightarrow> (None, [])
           | Inr v \<Rightarrow> (Some v, invalidations (lv_type v))))"

subsection \<open>The hook\<close>

record stream =
  st_state :: StreamState
  st_latestEvent :: "live_value option"

definition stream_init :: "bool \<Rightarrow> stream" where
  "stream_init has_event_source =
     \<lparr>st_state = (if has_event_source then Connecting else Unavailable), st_latestEvent = None\<rparr>"

text \<open>\<open>Errored shut\<close>: the error callback, with \<open>readyState\<close> being \<open>CLOSED\<close> or not.\<close>

datatype stream_event = Opened | Errored bool | Message string string

definition heard :: "string \<Rightarrow> bool" where
  "heard name \<longleftrightarrow> name = ''message'' \<or> name \<in> set eventNames"

fun stream_step :: "stream \<Rightarrow> stream_event \<Rightarrow> stream" where
  "stream_step s Opened = s\<lparr>st_state := Connected\<rparr>"
| "stream_step s (Errored shut) = s\<lparr>st_state := (if shut then Unavailable else Reconnecting)\<rparr>"
| "stream_step s (Message name text) =
     (if heard name
      then (case fst (receive name text) of None \<Rightarrow> s | Some v \<Rightarrow> s\<lparr>st_latestEvent := Some v\<rparr>)
      else s)"

fun stream_emits :: "stream \<Rightarrow> stream_event \<Rightarrow> query_key list" where
  "stream_emits s Opened = streamReconnectQueryKeys"
| "stream_emits s (Errored shut) = []"
| "stream_emits s (Message name text) = (if heard name then snd (receive name text) else [])"

subsection \<open>Lemmas\<close>

lemma reconnect_covers: "\<exists>k \<in> set streamReconnectQueryKeys. prefix k (queryKeys q)"
  by (cases q) (simp_all add: streamReconnectQueryKeys_def)

lemma invalidations_string:
  "invalidations (Some (JStr t)) =
     (if t \<in> set taskEvents then [[JStr ''tasks'']] else []) @
     (if t \<in> set resultEvents then [[JStr ''results''], [JStr ''statistics''], [JStr ''system'']] else []) @
     (if t \<in> set interfaceEvents then [[JStr ''interfaces'']] else []) @
     (if sublist ''route.validation'' t \<or> sublist ''route_validation'' t
      then [[JStr ''route-profiles'']] else [])"
  by (simp add: invalidations_def names_type_def type_includes_def)

lemma invalidations_subset: "set (invalidations ty) \<subseteq> set streamReconnectQueryKeys"
  by (auto simp: invalidations_def streamReconnectQueryKeys_def split: sum.splits if_splits)

text \<open>An object the daemon publishes: its own \<open>type\<close> wins over the name of the event.\<close>

lemma receive_object:
  assumes "json_parse text = Some (JObj kvs)" "obj_get kvs ''type'' = Some (JStr t)" "t \<noteq> []"
  shows "receive name text =
    (Some \<lparr>lv_value = JObj kvs, lv_type = Some (JStr t)\<rparr>, invalidations (Some (JStr t)))"
  using assms by (simp add: receive_def typed_payload_def js_prop_def truthy_def)

lemma receive_untyped:
  assumes "json_parse text = Some (JObj kvs)" "obj_get kvs ''type'' = None" "name \<noteq> ''message''"
  shows "snd (receive name text) = invalidations (Some (JStr name))"
  using assms by (simp add: receive_def typed_payload_def js_prop_def set_type_def)

text \<open>The \<open>type\<close> the hook reads agrees with the stored payload.\<close>

definition live_ok :: "live_value \<Rightarrow> bool" where
  "live_ok v =
     (case lv_value v of
        JNull \<Rightarrow> False
      | JObj kvs \<Rightarrow> obj_get kvs ''type'' = lv_type v
      | JArr vs \<Rightarrow> lv_type v = None \<or> names_type eventNames (lv_type v)
      | _ \<Rightarrow> lv_type v = None)"

definition stream_inv :: "stream \<Rightarrow> bool" where
  "stream_inv s \<longleftrightarrow> (case st_latestEvent s of None \<Rightarrow> True | Some v \<Rightarrow> live_ok v)"

lemma typed_payload_ok: "heard name \<Longrightarrow> typed_payload name parsed = Inr v \<Longrightarrow> live_ok v"
  by (cases parsed)
    (auto simp: typed_payload_def js_prop_def set_type_def live_ok_def names_type_def heard_def obj.get_put
      split: if_splits)

lemma receive_ok: "heard name \<Longrightarrow> fst (receive name text) = Some v \<Longrightarrow> live_ok v"
  by (auto simp: receive_def intro: typed_payload_ok split: option.splits sum.splits)

lemma receive_subset: "set (snd (receive name text)) \<subseteq> set streamReconnectQueryKeys"
  using invalidations_subset by (auto simp: receive_def split: option.splits sum.splits)

interpretation stream: emitting_machine stream_step stream_inv stream_emits
  "\<lambda>_ k. k \<in> set streamReconnectQueryKeys"
proof
  show "stream_inv (stream_step s e)" if "stream_inv s" for s e
    using that by (cases e) (auto simp: stream_inv_def intro: receive_ok split: option.splits)
  show "k \<in> set streamReconnectQueryKeys" if "k \<in> set (stream_emits s e)" for s k e
    using that receive_subset by (cases e) (auto split: if_splits)
qed

subsection \<open>Properties\<close>



text \<open>
  An event object that carries its type invalidates exactly what its type asks for, whatever name
  it was dispatched under: tasks for task events; results, statistics and system for run events;
  interfaces for interface changes; route profiles for route validations. It becomes the latest
  event.
\<close>

theorem event_invalidations:
  assumes "wf_json (JObj kvs)" "obj_get kvs ''type'' = Some (JStr t)" "t \<noteq> []" "heard name"
  shows "stream_emits s (Message name (json_string (JObj kvs))) =
      (if t \<in> set taskEvents then [[JStr ''tasks'']] else []) @
      (if t \<in> set resultEvents then [[JStr ''results''], [JStr ''statistics''], [JStr ''system'']] else []) @
      (if t \<in> set interfaceEvents then [[JStr ''interfaces'']] else []) @
      (if sublist ''route.validation'' t \<or> sublist ''route_validation'' t
       then [[JStr ''route-profiles'']] else []) \<and>
    st_latestEvent (stream_step s (Message name (json_string (JObj kvs)))) =
      Some \<lparr>lv_value = JObj kvs, lv_type = Some (JStr t)\<rparr>"
  using assms by (simp add: receive_object json_parse_string invalidations_string del: json_string.simps)

theorem event_invalidations_witness:
  "stream_emits (stream_init True) (Message ''route.validation.completed''
      (json_string (JObj [(''type'', JStr ''route.validation.completed'')]))) =
    [[JStr ''results''], [JStr ''statistics''], [JStr ''system''], [JStr ''route-profiles'']]"
  using event_invalidations [of "[(''type'', JStr ''route.validation.completed'')]"
      "''route.validation.completed''" "''route.validation.completed''" "stream_init True"]
  by (simp add: obj_get_def heard_def eventNames_def taskEvents_def resultEvents_def interfaceEvents_def
      sublist_code wf_json.simps obj_of_pairs_def obj_put_def array_index_def del: json_string.simps)

text \<open>
  A frame whose data is not JSON (a heartbeat), is \<open>null\<close>, or is a bare primitive dispatched
  under an event name is dropped: the exception is caught, nothing is invalidated and the state is
  unchanged.
\<close>

theorem malformed_message_ignored:
  assumes "case json_parse text of
      None \<Rightarrow> True
    | Some JNull \<Rightarrow> True
    | Some (JObj _) \<Rightarrow> False
    | Some (JArr _) \<Rightarrow> False
    | Some _ \<Rightarrow> name \<noteq> ''message''"
  shows "stream_step s (Message name text) = s \<and> stream_emits s (Message name text) = []"
  using assms
  by (auto simp: receive_def typed_payload_def js_prop_def set_type_def split: option.splits json.splits)

theorem malformed_message_ignored_witness:
  "stream_step (stream_init True) (Message ''message'' ''heartbeat'') = stream_init True \<and>
   stream_emits (stream_init True) (Message ''message'' ''heartbeat'') = []"
proof (rule malformed_message_ignored)
  have "json_parse ''heartbeat'' = None"
    by code_simp
  then show "case json_parse ''heartbeat'' of None \<Rightarrow> True | Some JNull \<Rightarrow> True | Some (JObj _) \<Rightarrow> False
    | Some (JArr _) \<Rightarrow> False | Some _ \<Rightarrow> ''message'' \<noteq> ''message''"
    by simp
qed

text \<open>
  Changes of settings, providers and route profiles made elsewhere are not heard: for each of
  these event names of the daemon a message neither changes the state nor invalidates a query,
  whatever it carries.
\<close>

theorem daemon_events_unheard:
  "list_all (\<lambda>name. stream_step s (Message name text) = s \<and> stream_emits s (Message name text) = [])
     [''settings.updated'', ''configuration.imported'', ''provider.updated'',
      ''route-profile.created'', ''route-profile.updated'', ''route-profile.deleted'']"
  by (simp add: heard_def eventNames_def taskEvents_def resultEvents_def interfaceEvents_def)

text \<open>
  Over any sequence of callbacks, the type the hook acts on is the \<open>type\<close> of the payload it shows
  as latest event, and every invalidation is one of the reconnection keys.
\<close>

theorem stream_run_consistent:
  "stream_inv (foldl stream_step (stream_init b) es) \<and>
   list_all (\<lambda>k. k \<in> set streamReconnectQueryKeys) (stream_emits (foldl stream_step (stream_init b) es) e)"
proof -
  have i: "stream_inv (stream_init b)"
    by (simp add: stream_inv_def stream_init_def)
  show ?thesis
    using stream.run_inv [OF i] stream.run_emits_good [OF i] by (auto simp: list_all_iff)
qed

end
