(* ===== verification/Theme.thy ===== *)
theory Theme
  imports Prelude
begin

text \<open>
  Light and dark mode: the boot script of \<open>main.tsx\<close> and the hook of \<open>hooks/useTheme.ts\<close>. The state
  is the browser's: the stored preference, the system's colour scheme, and what the document shows.
\<close>

datatype theme_mode = Light | Dark | System

fun mode_string :: "theme_mode \<Rightarrow> string" where
  "mode_string Light = ''light''"
| "mode_string Dark = ''dark''"
| "mode_string System = ''system''"

text \<open>The document: the class \<open>dark\<close> of the root element, its data attribute, the theme colour.\<close>

record page =
  pg_dark :: bool
  pg_dataset :: "string option"
  pg_color :: "string option"

record browser =
  br_stored :: "string option"
  br_systemDark :: bool
  br_theme :: theme_mode
  br_page :: page

subsection \<open>Operations\<close>

definition boot_dark :: "string option \<Rightarrow> bool \<Rightarrow> bool" where
  "boot_dark stored system_dark \<longleftrightarrow>
     stored = Some ''dark'' \<or> ((stored = None \<or> stored = Some ''system'') \<and> system_dark)"

definition is_dark :: "theme_mode \<Rightarrow> bool \<Rightarrow> bool" where
  "is_dark mode system_dark \<longleftrightarrow> mode = Dark \<or> (mode = System \<and> system_dark)"

definition applyTheme :: "theme_mode \<Rightarrow> browser \<Rightarrow> browser" where
  "applyTheme mode b =
     (let dark = is_dark mode (br_systemDark b) in
      b\<lparr>br_page := \<lparr>pg_dark = dark, pg_dataset = Some (mode_string mode),
          pg_color = map_option (\<lambda>_. if dark then ''#08111f'' else ''#f7f9fc'') (pg_color (br_page b))\<rparr>\<rparr>)"

definition initial_theme :: "string option \<Rightarrow> theme_mode" where
  "initial_theme stored =
     (if stored = Some ''light'' then Light else if stored = Some ''dark'' then Dark
      else if stored = Some ''system'' then System else System)"

text \<open>Loading the page: the boot script runs, then the hook mounts and its effect applies the theme.\<close>

definition boot :: "string option \<Rightarrow> bool \<Rightarrow> string option \<Rightarrow> browser" where
  "boot stored system_dark color =
     \<lparr>br_stored = stored, br_systemDark = system_dark, br_theme = initial_theme stored,
      br_page = \<lparr>pg_dark = boot_dark stored system_dark, pg_dataset = None, pg_color = color\<rparr>\<rparr>"

definition mount :: "browser \<Rightarrow> browser" where
  "mount b = applyTheme (br_theme b) b"

text \<open>
  The effect runs again when the theme changed; the listener of the system scheme applies only the
  mode \<open>system\<close>.
\<close>

datatype theme_event = Set_Theme theme_mode | System_Changed bool

fun theme_step :: "browser \<Rightarrow> theme_event \<Rightarrow> browser" where
  "theme_step b (Set_Theme mode) =
     (let b' = b\<lparr>br_stored := Some (mode_string mode), br_theme := mode\<rparr>
      in if mode = br_theme b then b' else applyTheme mode b')"
| "theme_step b (System_Changed dark) =
     (let b' = b\<lparr>br_systemDark := dark\<rparr>
      in if br_theme b = System then applyTheme System b' else b')"

subsection \<open>Invariant\<close>

definition theme_inv :: "browser \<Rightarrow> bool" where
  "theme_inv b \<longleftrightarrow>
     br_theme b = initial_theme (br_stored b) \<and>
     pg_dark (br_page b) = is_dark (br_theme b) (br_systemDark b) \<and>
     pg_dataset (br_page b) = Some (mode_string (br_theme b)) \<and>
     pg_color (br_page b) \<in> {None, Some (if pg_dark (br_page b) then ''#08111f'' else ''#f7f9fc'')}"

lemma initial_theme_mode [simp]: "initial_theme (Some (mode_string m)) = m"
  by (cases m) (simp_all add: initial_theme_def)

lemma theme_inv_apply:
  "br_theme b = m \<Longrightarrow> initial_theme (br_stored b) = m \<Longrightarrow> theme_inv (applyTheme m b)"
  by (auto simp: theme_inv_def applyTheme_def Let_def split: option.splits)

interpretation theme: machine theme_step theme_inv
proof
  show "theme_inv (theme_step b e)" if inv: "theme_inv b" for b e
  proof (cases e)
    case (Set_Theme m)
    with inv show ?thesis
      by (auto simp: Let_def theme_inv_apply) (auto simp: theme_inv_def)
  next
    case (System_Changed d)
    with inv show ?thesis
      by (cases "br_theme b") (auto simp: Let_def applyTheme_def theme_inv_def is_dark_def)
  qed
qed

lemma theme_inv_mount: "theme_inv (mount (boot stored dark color))"
  by (simp add: mount_def boot_def theme_inv_apply)

subsection \<open>Properties\<close>

text \<open>
  From any stored preference, after any choices of the user and changes of the system scheme, the
  document is dark exactly when the chosen mode asks for it, names that mode, and reloading the page
  finds the same mode.
\<close>

theorem theme_consistent:
  "(let b = foldl theme_step (mount (boot stored dark color)) es in
    (pg_dark (br_page b) \<longleftrightarrow> br_theme b = Dark \<or> br_theme b = System \<and> br_systemDark b) \<and>
    pg_dataset (br_page b) = Some (mode_string (br_theme b)) \<and>
    br_theme (boot (br_stored b) d c) = br_theme b)"
  using theme.run_inv [OF theme_inv_mount, of stored dark color es]
  by (simp add: Let_def theme_inv_def boot_def is_dark_def)

text \<open>
  The first paint agrees with the mounted hook exactly when the stored preference is absent or one
  of the three modes, or the system is light: with any other stored text on a dark system the page
  boots light and turns dark when the hook mounts.
\<close>

theorem boot_flash:
  "pg_dark (br_page (boot stored dark color)) = pg_dark (br_page (mount (boot stored dark color))) \<longleftrightarrow>
     stored \<in> {None, Some ''light'', Some ''dark'', Some ''system''} \<or> \<not> dark"
  by (auto simp: boot_def mount_def applyTheme_def Let_def boot_dark_def is_dark_def initial_theme_def)

end
