(* ===== verification/ResultsPage.thy ===== *)
theory ResultsPage
  imports Api Reporting Toast Query
begin

text \<open>
  The results table of \<open>pages/ResultsPage.tsx\<close> as a state machine: filters, sorting, paging, the
  selection with its batch deletion, and the expanded rows. The page holds what the last answer of
  the daemon carried; an answer may arrive at any time. A button that is disabled produces no event.
\<close>

subsection \<open>State\<close>

datatype direction = Asc | Desc

record result_row =
  rr_id :: string
  rr_startedAt :: "string option"
  rr_trigger :: string

record results_page =
  rp_page :: nat
  rp_pageSize :: nat
  rp_sort :: string
  rp_direction :: direction
  rp_taskId :: string
  rp_provider :: string
  rp_network :: string
  rp_status :: string
  rp_from :: string
  rp_to :: string
  rp_selected :: "string list"
  rp_expanded :: "string list"
  rp_confirm :: bool
  rp_items :: "result_row list"
  rp_totalPages :: "nat option"
  rp_fetching :: bool
  rp_deleting :: bool

text \<open>The initial filters come from the address: \<open>searchParams.get(name) ?? ''\<close>.\<close>

definition search_get :: "(string \<times> string) list \<Rightarrow> string \<Rightarrow> string" where
  "search_get ps k = (case map_of ps k of Some v \<Rightarrow> v | None \<Rightarrow> [])"

definition results_init :: "(string \<times> string) list \<Rightarrow> results_page" where
  "results_init search =
     \<lparr>rp_page = 1, rp_pageSize = 25, rp_sort = ''startedAt'', rp_direction = Desc,
      rp_taskId = search_get search ''taskId'', rp_provider = search_get search ''provider'',
      rp_network = search_get search ''interfaceName'', rp_status = search_get search ''status'',
      rp_from = search_get search ''from'', rp_to = search_get search ''to'',
      rp_selected = [], rp_expanded = [], rp_confirm = False, rp_items = [], rp_totalPages = None,
      rp_fetching = True, rp_deleting = False\<rparr>"

fun direction_string :: "direction \<Rightarrow> string" where
  "direction_string Asc = ''asc''"
| "direction_string Desc = ''desc''"

text \<open>
  \<open>query\<close>: rendering throws when a date is not of the form \<open>yyyy-mm-dd\<close>. \<open>wall\<close> is the clock of the
  reporting time zone.
\<close>

definition boundary :: "(string \<Rightarrow> string option) \<Rightarrow> string \<Rightarrow> failure + string" where
  "boundary f date =
     (if date = [] then Inr []
      else case f date of Some t \<Rightarrow> Inr t | None \<Rightarrow> Inl (Thrown (''Invalid reporting date: '' @ date)))"

definition results_query :: "(int \<Rightarrow> civil) \<Rightarrow> results_page \<Rightarrow> failure + params" where
  "results_query wall s =
     sum_bind (boundary (reportingDateStart wall) (rp_from s)) (\<lambda>a.
     sum_bind (boundary (reportingDateEndExclusive wall) (rp_to s)) (\<lambda>b.
       Inr [(''page'', Some (jint (int (rp_page s)))), (''pageSize'', Some (jint (int (rp_pageSize s)))),
            (''sort'', Some (JStr (rp_sort s))), (''direction'', Some (JStr (direction_string (rp_direction s)))),
            (''taskId'', Some (JStr (rp_taskId s))), (''provider'', Some (JStr (rp_provider s))),
            (''interfaceName'', Some (JStr (rp_network s))), (''status'', Some (JStr (rp_status s))),
            (''from'', Some (JStr a)), (''to'', Some (JStr b))]))"

subsection \<open>Operations\<close>

definition filtersActive :: "results_page \<Rightarrow> bool" where
  "filtersActive s \<longleftrightarrow>
     rp_taskId s \<noteq> [] \<or> rp_provider s \<noteq> [] \<or> rp_network s \<noteq> [] \<or> rp_status s \<noteq> [] \<or>
     rp_from s \<noteq> [] \<or> rp_to s \<noteq> []"

definition clearFilters :: "results_page \<Rightarrow> results_page" where
  "clearFilters s =
     s\<lparr>rp_taskId := [], rp_provider := [], rp_network := [], rp_status := [], rp_from := [], rp_to := [],
       rp_page := 1\<rparr>"

definition applySort :: "string \<Rightarrow> results_page \<Rightarrow> results_page" where
  "applySort key s =
     (if rp_sort s = key
      then s\<lparr>rp_direction := (case rp_direction s of Asc \<Rightarrow> Desc | Desc \<Rightarrow> Asc), rp_page := 1\<rparr>
      else s\<lparr>rp_sort := key, rp_direction := Desc, rp_page := 1\<rparr>)"

definition allVisibleSelected :: "results_page \<Rightarrow> bool" where
  "allVisibleSelected s \<longleftrightarrow>
     rp_items s \<noteq> [] \<and> list_all (\<lambda>item. rr_id item \<in> set (rp_selected s)) (rp_items s)"

definition toggleAll :: "results_page \<Rightarrow> results_page" where
  "toggleAll s =
     s\<lparr>rp_selected := fold (if allVisibleSelected s then set_delete else set_add)
         (map rr_id (rp_items s)) (rp_selected s)\<rparr>"

datatype filter_field = F_Task | F_Provider | F_Network | F_Status | F_From | F_To

fun set_filter :: "filter_field \<Rightarrow> string \<Rightarrow> results_page \<Rightarrow> results_page" where
  "set_filter F_Task v s = s\<lparr>rp_taskId := v, rp_page := 1\<rparr>"
| "set_filter F_Provider v s = s\<lparr>rp_provider := v, rp_page := 1\<rparr>"
| "set_filter F_Network v s = s\<lparr>rp_network := v, rp_page := 1\<rparr>"
| "set_filter F_Status v s = s\<lparr>rp_status := v, rp_page := 1\<rparr>"
| "set_filter F_From v s = s\<lparr>rp_from := v, rp_page := 1\<rparr>"
| "set_filter F_To v s = s\<lparr>rp_to := v, rp_page := 1\<rparr>"

datatype sort_column = Started | Download_Rate | Upload_Rate | Latency

fun column_key :: "sort_column \<Rightarrow> string" where
  "column_key Started = ''startedAt''"
| "column_key Download_Rate = ''download''"
| "column_key Upload_Rate = ''upload''"
| "column_key Latency = ''latency''"

datatype results_event =
    Filter_Set filter_field string
  | Filters_Cleared
  | Sorted_By sort_column
  | Page_Size nat
  | Previous_Page
  | Next_Page
  | Row_Toggled string
  | All_Toggled
  | Row_Expanded string
  | Delete_Asked
  | Confirm_Changed bool
  | Delete_Confirmed
  | Delete_Done nat
  | Delete_Rejected string
  | Answer "result_row list" "nat option"
  | Fetching bool

datatype results_output =
    Delete_Request "string list"
  | Invalidate query_key
  | Results_Toast ToastTone string string

definition total_pages :: "results_page \<Rightarrow> nat" where
  "total_pages s = (case rp_totalPages s of Some n \<Rightarrow> n | None \<Rightarrow> 1)"

fun results_step :: "results_page \<Rightarrow> results_event \<Rightarrow> results_page" where
  "results_step s (Filter_Set f v) = set_filter f v s"
| "results_step s Filters_Cleared = (if filtersActive s then clearFilters s else s)"
| "results_step s (Sorted_By c) = applySort (column_key c) s"
| "results_step s (Page_Size n) = s\<lparr>rp_pageSize := n, rp_page := 1\<rparr>"
| "results_step s Previous_Page =
     (if rp_page s \<le> 1 \<or> rp_fetching s then s else s\<lparr>rp_page := rp_page s - 1\<rparr>)"
| "results_step s Next_Page =
     (if total_pages s \<le> rp_page s \<or> rp_fetching s then s else s\<lparr>rp_page := rp_page s + 1\<rparr>)"
| "results_step s (Row_Toggled i) = s\<lparr>rp_selected := set_toggle i (rp_selected s)\<rparr>"
| "results_step s All_Toggled = toggleAll s"
| "results_step s (Row_Expanded i) = s\<lparr>rp_expanded := set_toggle i (rp_expanded s)\<rparr>"
| "results_step s Delete_Asked = (if rp_selected s = [] then s else s\<lparr>rp_confirm := True\<rparr>)"
| "results_step s (Confirm_Changed b) = s\<lparr>rp_confirm := b\<rparr>"
| "results_step s Delete_Confirmed =
     (if rp_confirm s \<and> \<not> rp_deleting s then s\<lparr>rp_deleting := True\<rparr> else s)"
| "results_step s (Delete_Done n) = s\<lparr>rp_selected := [], rp_confirm := False, rp_deleting := False\<rparr>"
| "results_step s (Delete_Rejected m) = s\<lparr>rp_deleting := False\<rparr>"
| "results_step s (Answer items pages) = s\<lparr>rp_items := items, rp_totalPages := pages, rp_fetching := False\<rparr>"
| "results_step s (Fetching b) = s\<lparr>rp_fetching := b\<rparr>"

fun results_emits :: "results_page \<Rightarrow> results_event \<Rightarrow> results_output list" where
  "results_emits s Delete_Confirmed =
     (if rp_confirm s \<and> \<not> rp_deleting s then [Delete_Request (rp_selected s)] else [])"
| "results_emits s (Delete_Done n) =
     [Invalidate [JStr ''results''], Invalidate [JStr ''statistics''],
      Results_Toast Success ''Results deleted''
        (nat_string n @ '' diagnostic record'' @ (if n = 1 then [] else ''s'') @ '' removed.'')]"
| "results_emits s (Delete_Rejected m) = [Results_Toast Error ''Unable to delete results'' m]"
| "results_emits s _ = []"

text \<open>The trigger the \<open>Started\<close> column shows: that of the first row with the same start time.\<close>

definition shown_trigger :: "results_page \<Rightarrow> result_row \<Rightarrow> string option" where
  "shown_trigger s row =
     map_option rr_trigger (find (\<lambda>item. rr_startedAt item = rr_startedAt row) (rp_items s))"

definition empty_title :: "results_page \<Rightarrow> string" where
  "empty_title s = (if filtersActive s then ''No results match these filters'' else ''No measurements yet'')"

subsection \<open>Invariant\<close>

definition results_inv :: "results_page \<Rightarrow> bool" where
  "results_inv s \<longleftrightarrow>
     1 \<le> rp_page s \<and> distinct (rp_selected s) \<and> distinct (rp_expanded s) \<and>
     rp_sort s \<in> {''startedAt'', ''download'', ''upload'', ''latency''}"

lemma results_init_inv: "results_inv (results_init search)"
  by (simp add: results_inv_def results_init_def)

lemma inv_set_filter: "results_inv s \<Longrightarrow> results_inv (set_filter f v s)"
  by (cases f) (simp_all add: results_inv_def)

lemma inv_applySort: "results_inv s \<Longrightarrow> results_inv (applySort (column_key c) s)"
  by (cases c) (simp_all add: results_inv_def applySort_def)

lemma inv_toggleAll: "results_inv s \<Longrightarrow> results_inv (toggleAll s)"
  by (simp add: results_inv_def toggleAll_def distinct_fold_set)

lemma results_step_inv: "results_inv s \<Longrightarrow> results_inv (results_step s e)"
  by (cases e) (auto simp: inv_set_filter inv_applySort inv_toggleAll,
      auto simp: results_inv_def clearFilters_def)

fun request_ok :: "results_page \<Rightarrow> results_output \<Rightarrow> bool" where
  "request_ok s (Delete_Request ids) \<longleftrightarrow> ids = rp_selected s \<and> distinct ids"
| "request_ok s _ \<longleftrightarrow> True"

interpretation results: emitting_machine results_step results_inv results_emits request_ok
proof
  show "results_inv (results_step s e)" if "results_inv s" for s e
    using that by (rule results_step_inv)
  show "request_ok s out" if "results_inv s" "out \<in> set (results_emits s e)" for s out e
    using that by (cases e) (auto simp: results_inv_def split: if_splits)
qed

subsection \<open>Properties\<close>

lemma results_query_fields:
  assumes "results_query wall s = Inr q"
  shows "map fst q = ResultsQuery" "obj_get q ''page'' = Some (Some (jint (int (rp_page s))))"
    "obj_get q ''sort'' = Some (Some (JStr (rp_sort s)))"
    "obj_get q ''direction'' = Some (Some (JStr (direction_string (rp_direction s))))"
  using assms
  by (cases "boundary (reportingDateStart wall) (rp_from s)";
      cases "boundary (reportingDateEndExclusive wall) (rp_to s)";
      auto simp: results_query_def ResultsQuery_def obj_get_def)+

lemma direction_cases: "direction_string d = ''asc'' \<or> direction_string d = ''desc''"
  by (cases d) simp_all


text \<open>
  The header checkbox acts on the visible rows only: it selects all of them, or deselects all when
  all were selected, and keeps what was selected on other pages; using it twice gives the selection of
  all or none of the visible rows back.
\<close>

theorem toggleAll_visible:
  "set (rp_selected (toggleAll s)) =
     (if allVisibleSelected s then set (rp_selected s) - rr_id ` set (rp_items s)
      else set (rp_selected s) \<union> rr_id ` set (rp_items s)) \<and>
   (rp_items s = [] \<or> allVisibleSelected (toggleAll s) \<noteq> allVisibleSelected s)"
proof -
  have sel: "set (rp_selected (toggleAll s)) =
     (if allVisibleSelected s then set (rp_selected s) - rr_id ` set (rp_items s)
      else set (rp_selected s) \<union> rr_id ` set (rp_items s))"
    by (simp add: toggleAll_def set_fold_add set_fold_delete)
  moreover have "rp_items (toggleAll s) = rp_items s"
    by (simp add: toggleAll_def)
  ultimately show ?thesis
    by (cases "rp_items s") (auto simp: allVisibleSelected_def list_all_iff)
qed

text \<open>
  A date in the address that is not of the form \<open>yyyy-mm-dd\<close> makes rendering throw, before any
  request is sent, in every time zone.
\<close>

theorem malformed_date_throws:
  assumes "parse_date d = None" "d \<noteq> []"
  shows "results_query wall (results_init [(''from'', d)]) = Inl (Thrown (''Invalid reporting date: '' @ d))"
  using assms
  by (simp add: results_query_def results_init_def search_get_def boundary_def reportingDateStart_def
      zonedMidnight_def zoned_instant_def)

theorem malformed_date_throws_witness:
  "results_query civil_of (results_init [(''from'', ''2024-1-1'')]) =
     Inl (Thrown ''Invalid reporting date: 2024-1-1'')"
proof -
  have "parse_date ''2024-1-1'' = None" by code_simp
  then show ?thesis using malformed_date_throws [of "''2024-1-1''" civil_of] by simp
qed

text \<open>Two runs that started at the same time show the trigger of the first one.\<close>

lemma shown_trigger_first:
  "rr_startedAt a = rr_startedAt b \<Longrightarrow> rp_items s = a # b # rest \<Longrightarrow> shown_trigger s b = Some (rr_trigger a)"
  by (simp add: shown_trigger_def)

text \<open>
  After the rows of the last page are deleted the page number stays: the answer is empty and an
  unfiltered history is announced as having no measurements.
\<close>

lemma deleted_last_page:
  assumes "\<not> filtersActive s"
  shows "rp_page (results_step (results_step s (Delete_Done n)) (Answer [] pages)) = rp_page s \<and>
    empty_title (results_step (results_step s (Delete_Done n)) (Answer [] pages)) = ''No measurements yet''"
  using assms by (simp add: empty_title_def filtersActive_def)

end
