(* ===== verification/Details.thy ===== *)
theory Details
  imports Api Tasks Format Toast Query
begin

text \<open>
  Labels and small formats of the detail pages: providers and statuses (\<open>lib/utils.ts\<close>,
  \<open>components/common/EntityBadges.tsx\<close>), external links, the uptime of \<open>pages/SystemPage.tsx\<close>, and the
  values shown by \<open>pages/ResultDetailPage.tsx\<close>.
\<close>

subsection \<open>Providers and statuses\<close>

text \<open>The middle dot of the texts is the code unit 183.\<close>

definition dot_sep :: string where
  "dot_sep = [CHR '' '', CHR 0xB7, CHR '' '']"

definition providerLabel :: "provider_id \<Rightarrow> string" where
  "providerLabel p = (if p = Ookla then ''Ookla'' else if p = Librespeed then ''LibreSpeed'' else ''Cloudflare'')"

definition provider_tone :: "provider_id \<Rightarrow> string" where
  "provider_tone p = (if p = Ookla then ''info'' else if p = Librespeed then ''violet'' else ''warning'')"

datatype result_status = Queued | Validating | Running | Succeeded | Failed | Skipped | Cancelled

fun statusTone :: "result_status \<Rightarrow> string" where
  "statusTone Queued = ''neutral''"
| "statusTone Validating = ''info''"
| "statusTone Running = ''info''"
| "statusTone Succeeded = ''success''"
| "statusTone Failed = ''danger''"
| "statusTone Skipped = ''warning''"
| "statusTone Cancelled = ''neutral''"

definition isRunning :: "result_status \<Rightarrow> bool" where
  "isRunning st \<longleftrightarrow> st = Queued \<or> st = Validating \<or> st = Running"

text \<open>The badge of a result repeats the test inline.\<close>

definition badge_running :: "result_status \<Rightarrow> bool" where
  "badge_running st \<longleftrightarrow> st = Running \<or> st = Validating \<or> st = Queued"

subsection \<open>External links\<close>

text \<open>\<open>parse_url\<close> is the platform's URL parser: protocol and normalised address, or an exception.\<close>

definition safeExternalHttpUrl :: "(string \<Rightarrow> (string \<times> string) option) \<Rightarrow> string option \<Rightarrow> string option" where
  "safeExternalHttpUrl parse_url v =
     (case v of
        None \<Rightarrow> None
      | Some [] \<Rightarrow> None
      | Some s \<Rightarrow>
          (case parse_url s of
             Some (protocol, href) \<Rightarrow> if protocol = ''http:'' \<or> protocol = ''https:'' then Some href else None
           | None \<Rightarrow> None))"

subsection \<open>Uptime\<close>

text \<open>\<open>x % n\<close> for a positive integer \<open>n\<close>: exact, with the sign of \<open>x\<close>.\<close>

definition js_rem :: "rat \<Rightarrow> rat \<Rightarrow> rat" where
  "js_rem x n = (if 0 \<le> x then x - n * of_int \<lfloor>x / n\<rfloor> else x + n * of_int \<lfloor>(- x) / n\<rfloor>)"

definition floor_string :: "int \<Rightarrow> string" where
  "floor_string i = number_string (of_int i)"

definition formatUptime :: "js_number \<Rightarrow> string" where
  "formatUptime v =
     (case v of
        Fin s \<Rightarrow>
          let days = \<lfloor>rnd (s / 86400)\<rfloor>; hours = \<lfloor>rnd (js_rem s 86400 / 3600)\<rfloor>;
              minutes = \<lfloor>rnd (js_rem s 3600 / 60)\<rfloor>
          in if days \<noteq> 0 then floor_string days @ ''d '' @ floor_string hours @ ''h''
             else if hours \<noteq> 0 then floor_string hours @ ''h '' @ floor_string minutes @ ''m''
             else floor_string minutes @ ''m''
      | _ \<Rightarrow> em_dash)"

subsection \<open>Result details\<close>

text \<open>\<open>.replace(/([a-z])([A-Z])/g, '$1 $2')\<close>: matches do not overlap.\<close>

definition is_lower :: "char \<Rightarrow> bool" where
  "is_lower c \<longleftrightarrow> 97 \<le> code_unit c \<and> code_unit c \<le> 122"

definition is_upper :: "char \<Rightarrow> bool" where
  "is_upper c \<longleftrightarrow> 65 \<le> code_unit c \<and> code_unit c \<le> 90"

fun split_camel :: "string \<Rightarrow> string" where
  "split_camel (a # b # s) =
     (if is_lower a \<and> is_upper b then a # CHR '' '' # b # split_camel s else a # split_camel (b # s))"
| "split_camel s = s"

text \<open>\<open>toUpperCase\<close> of one character; the sharp s (223) becomes two letters. The capitals of the micro
  sign and of y with diaeresis lie outside the modelled code units; these two are left as they are.\<close>

definition upper_text :: "char \<Rightarrow> string" where
  "upper_text c =
     (if code_unit c = 223 then ''SS''
      else if is_lower c \<or> (224 \<le> code_unit c \<and> code_unit c \<le> 254 \<and> code_unit c \<noteq> 247)
      then [char_of (code_unit c - 32)] else [c])"

text \<open>The dot of \<open>/^./\<close> does not match a line terminator.\<close>

definition humanize :: "string \<Rightarrow> string" where
  "humanize s =
     (case map (\<lambda>c. if c = CHR ''_'' then CHR '' '' else c) (split_camel s) of
        [] \<Rightarrow> []
      | c # r \<Rightarrow> (if c = CHR 0x0A \<or> c = CHR 0x0D then [c] else upper_text c) @ r)"

definition formatUnknown :: "json \<Rightarrow> string" where
  "formatUnknown v =
     (case v of
        JNull \<Rightarrow> em_dash
      | JStr s \<Rightarrow> s
      | JNum x \<Rightarrow> js_number_string x
      | JBool b \<Rightarrow> (if b then ''true'' else ''false'')
      | _ \<Rightarrow> json_string v)"

text \<open>\<open>JSON.stringify(JSON.parse(value), null, 2)\<close>; text that does not parse is shown as it is.\<close>

definition prettyJson :: "string \<Rightarrow> string" where
  "prettyJson v =
     (case json_parse v of Some j \<Rightarrow> json_pretty 0 j | None \<Rightarrow> if v = [] then ''{}'' else v)"

definition location_text :: "string \<Rightarrow> string \<Rightarrow> string" where
  "location_text location country = join '', '' (filter (\<lambda>s. s \<noteq> []) [location, country])"

text \<open>Deleting the result shown; the page is left when the deletion succeeded.\<close>

record detail_page =
  dp_confirmDelete :: bool
  dp_deleting :: bool

datatype detail_event = Detail_Delete_Dialog bool | Detail_Delete_Confirmed | Detail_Deleted | Detail_Delete_Failed

datatype detail_output = Detail_Call api_call | Detail_Invalidate query_key | Detail_Toast ToastTone string | Detail_Navigate string

fun detail_step :: "detail_page \<Rightarrow> detail_event \<Rightarrow> detail_page" where
  "detail_step s (Detail_Delete_Dialog b) = s\<lparr>dp_confirmDelete := b\<rparr>"
| "detail_step s Detail_Delete_Confirmed = (if dp_confirmDelete s then s\<lparr>dp_deleting := True\<rparr> else s)"
| "detail_step s Detail_Deleted = s\<lparr>dp_deleting := False\<rparr>"
| "detail_step s Detail_Delete_Failed = s\<lparr>dp_deleting := False\<rparr>"

fun detail_emits :: "string \<Rightarrow> detail_page \<Rightarrow> detail_event \<Rightarrow> detail_output list" where
  "detail_emits resultId s Detail_Delete_Confirmed =
     (if dp_confirmDelete s \<and> \<not> dp_deleting s then [Detail_Call (Api_deleteResult resultId)] else [])"
| "detail_emits resultId s Detail_Deleted =
     [Detail_Invalidate [JStr ''results''], Detail_Toast Success ''Result deleted'', Detail_Navigate ''/results'']"
| "detail_emits resultId s Detail_Delete_Failed = [Detail_Toast Error ''Delete failed'']"
| "detail_emits resultId s _ = []"

subsection \<open>Lemmas\<close>

lemma badge_agrees: "badge_running st = isRunning st"
  by (auto simp: badge_running_def isRunning_def)

text \<open>A rounded quotient of whole numbers has the floor of the exact one, while both stay small.\<close>

lemma floor_rnd_div:
  assumes "0 \<le> n" "0 < q" "q \<le> 2 ^ 17" "n div q < 2 ^ 35"
  shows "\<lfloor>rnd (of_int n / of_int q)\<rfloor> = n div q"
proof -
  define k m where "k = n div q" and "m = n mod q"
  have n: "n = q * k + m" and m: "m \<le> q - 1" "0 \<le> m" and k: "0 \<le> k" "k < 2 ^ 35"
    using assms by (auto simp: k_def m_def pos_imp_zdiv_nonneg_iff)
  have q: "(0 :: rat) < of_int q" using assms(2) by simp
  have x: "(of_int n :: rat) / of_int q = of_int k + of_int m / of_int q"
    using q by (simp add: n field_simps)
  have lower: "of_int k \<le> rnd (of_int n / of_int q)"
    using k m q by (intro rnd_ge representable_int) (auto simp: x)
  have "(of_int m :: rat) \<le> of_int (q - 1)"
    using m(1) by (simp only: of_int_le_iff)
  then have "(of_int m :: rat) / of_int q \<le> 1 - 1 / of_int q"
    using q by (simp add: field_simps)
  also have "\<dots> \<le> 1 - 1 / 2 ^ 17"
  proof -
    have "(of_int q :: rat) \<le> of_int (2 ^ 17)"
      using assms(3) by (simp only: of_int_le_iff)
    then have "(1 :: rat) / 2 ^ 17 \<le> 1 / of_int q"
      using q by (intro divide_left_mono) auto
    then show ?thesis by linarith
  qed
  finally have up: "(of_int n :: rat) / of_int q \<le> of_int ((k + 1) * 2 ^ 17 - 1) / 2 ^ 17"
    using x by (simp add: field_simps)
  have "rnd (of_int n / of_int q) \<le> of_int ((k + 1) * 2 ^ 17 - 1) / 2 ^ 17"
    using k by (intro rnd_le [OF representable_dyadic up]) auto
  also have "\<dots> < of_int k + 1" by (simp add: field_simps)
  finally have "rnd (of_int n / of_int q) < of_int k + 1" .
  with lower show ?thesis
    by (simp add: floor_eq_iff flip: k_def)
qed

lemma js_rem_int: "0 \<le> n \<Longrightarrow> 0 < q \<Longrightarrow> js_rem (of_int n) (of_int q) = of_int (n mod q)"
proof -
  assume "0 \<le> n" "0 < q"
  then have "js_rem (of_int n) (of_int q) = of_int n - of_int q * of_int (n div q)"
    by (simp add: js_rem_def floor_divide_of_int_eq)
  also have "\<dots> = of_int (n - q * (n div q))" by simp
  also have "n - q * (n div q) = n mod q" by (simp add: minus_mult_div_eq_mod)
  finally show ?thesis .
qed

subsection \<open>Properties\<close>

text \<open>
  The uptime shows whole days, hours and minutes of the uptime: for whole seconds up to 2 ^ 50 the
  rounded divisions never carry into the next unit, and hours and minutes stay below 24 and 60.
\<close>

theorem formatUptime_parts:
  assumes "0 \<le> n" "n < 2 ^ 50"
  shows "formatUptime (Fin (of_int n)) =
    (let days = n div 86400; hours = n mod 86400 div 3600; minutes = n mod 3600 div 60 in
     if days \<noteq> 0 then floor_string days @ ''d '' @ floor_string hours @ ''h''
     else if hours \<noteq> 0 then floor_string hours @ ''h '' @ floor_string minutes @ ''m''
     else floor_string minutes @ ''m'') \<and>
    n mod 86400 div 3600 < 24 \<and> n mod 3600 div 60 < 60"
proof -
  have "n div 86400 \<le> 2 ^ 50 div 86400"
    using assms by (intro zdiv_mono1) auto
  moreover have "n mod 86400 div 3600 \<le> 86399 div 3600" "n mod 3600 div 60 \<le> 3599 div 60"
    by (intro zdiv_mono1; simp add: zle_diff1_eq [symmetric])+
  ultimately have b: "n div 86400 < 2 ^ 35" "n mod 86400 div 3600 < 24" "n mod 3600 div 60 < 60"
    by simp_all
  have m: "0 \<le> n mod 86400" "0 \<le> n mod 3600" by (rule pos_mod_sign; simp)+
  have c: "n mod 86400 div 3600 < 2 ^ 35" "n mod 3600 div 60 < 2 ^ 35"
    by (rule less_trans [OF b(2)], simp, rule less_trans [OF b(3)], simp)
  have "\<lfloor>rnd (of_int n / 86400)\<rfloor> = n div 86400"
    using floor_rnd_div [OF assms(1) _ _ b(1)] by simp
  moreover have "\<lfloor>rnd (js_rem (of_int n) 86400 / 3600)\<rfloor> = n mod 86400 div 3600"
    using floor_rnd_div [OF m(1) _ _ c(1)] js_rem_int [OF assms(1), of 86400] by simp
  moreover have "\<lfloor>rnd (js_rem (of_int n) 3600 / 60)\<rfloor> = n mod 3600 div 60"
    using floor_rnd_div [OF m(2) _ _ c(2)] js_rem_int [OF assms(1), of 3600] by simp
  ultimately show ?thesis
    using b by (simp add: formatUptime_def Let_def)
qed

theorem formatUptime_parts_witness:
  "formatUptime (Fin (of_int 93784)) = ''1d 2h''"
proof -
  have "floor_string i = int_string i" if "0 \<le> i" "i < 10" for i
    using that by (simp add: floor_string_def number_string_def)
  moreover have "int_string 1 = ''1''" "int_string 2 = ''2''"
    by code_simp+
  ultimately have "floor_string 1 = ''1''" "floor_string 2 = ''2''"
    by simp_all
  then show ?thesis
    using formatUptime_parts [of 93784] by (simp add: Let_def)
qed

text \<open>Indenting a document for display does not change the value it denotes.\<close>

lemma prettyJson_value: "json_parse v = Some j \<Longrightarrow> wf_json j \<Longrightarrow> json_parse (prettyJson v) = Some j"
  using json_pretty_roundtrip [of j "[]" 0] by (simp add: prettyJson_def skip_space_def)

text \<open>
  An address taken from a measurement becomes a link only when it is an absolute web address: every
  result of \<open>safeExternalHttpUrl\<close> starts with the scheme \<open>http:\<close> or \<open>https:\<close>, so no \<open>javascript:\<close> or
  \<open>data:\<close> address is ever put into the page. The parser is the platform's; a normalised address starts with its protocol.
\<close>

theorem safe_link:
  assumes "\<And>s protocol href. parse_url s = Some (protocol, href) \<Longrightarrow> prefix protocol href"
    and "safeExternalHttpUrl parse_url v = Some href"
  shows "prefix ''http:'' href \<or> prefix ''https:'' href"
  using assms by (auto simp: safeExternalHttpUrl_def split: option.splits list.splits if_splits)

definition example_parser :: "string \<Rightarrow> (string \<times> string) option" where
  "example_parser s = (if prefix ''https:'' s then Some (''https:'', s) else if prefix ''data:'' s then Some (''data:'', s) else None)"

theorem safe_link_witness:
  "safeExternalHttpUrl example_parser (Some ''data:x'') = None \<and>
   safeExternalHttpUrl example_parser (Some ''https://a'') = Some ''https://a'' \<and>
   (prefix ''http:'' ''https://a'' \<or> prefix ''https:'' ''https://a'')"
proof -
  have "example_parser s = Some (protocol, href) \<Longrightarrow> prefix protocol href" for s protocol href
    by (auto simp: example_parser_def split: if_splits)
  moreover have "safeExternalHttpUrl example_parser (Some ''https://a'') = Some ''https://a''"
    by (simp add: safeExternalHttpUrl_def example_parser_def)
  ultimately have "prefix ''http:'' ''https://a'' \<or> prefix ''https:'' ''https://a''"
    by (rule safe_link)
  then show ?thesis
    by (simp add: safeExternalHttpUrl_def example_parser_def)
qed

end
