(* ===== verification/EditorSteps.thy ===== *)
theory EditorSteps
  imports TaskEditor Details
begin

text \<open>
  The steps of the task editor (\<open>pages/TaskEditorPage.tsx\<close>) around its core: the preview of the next
  runs, which is computed asynchronously while the schedule is edited, the server picker with its
  on-demand discovery, the choices offered for the current provider and path, and the texts of the
  review. Answers of the two asynchronous parts may arrive in any order.
\<close>

subsection \<open>Providers\<close>

record capabilities =
  cap_serverDiscovery :: bool
  cap_fixedServerIds :: bool
  cap_customServerUrls :: bool
  cap_interfaceBinding :: bool
  cap_sourceAddressBinding :: bool
  cap_ipv4 :: bool
  cap_ipv6 :: bool
  cap_jitter :: bool
  cap_packetLoss :: bool
  cap_resultUrls :: bool

record provider =
  pr_id :: provider_id
  pr_displayName :: string
  pr_available :: bool
  pr_version :: string
  pr_message :: string
  pr_capabilities :: capabilities

definition fallbackCapabilities :: capabilities where
  "fallbackCapabilities = \<lparr>cap_serverDiscovery = True, cap_fixedServerIds = True, cap_customServerUrls = False,
     cap_interfaceBinding = True, cap_sourceAddressBinding = True, cap_ipv4 = True, cap_ipv6 = True,
     cap_jitter = True, cap_packetLoss = False, cap_resultUrls = False\<rparr>"

definition fallbackProviders :: "provider list" where
  "fallbackProviders =
     [\<lparr>pr_id = Ookla, pr_displayName = ''Ookla Speedtest'', pr_available = True, pr_version = [], pr_message = [],
        pr_capabilities = fallbackCapabilities\<lparr>cap_packetLoss := True, cap_resultUrls := True\<rparr>\<rparr>,
      \<lparr>pr_id = Librespeed, pr_displayName = ''LibreSpeed'', pr_available = True, pr_version = [], pr_message = [],
        pr_capabilities = fallbackCapabilities\<lparr>cap_customServerUrls := True\<rparr>\<rparr>,
      \<lparr>pr_id = Cloudflare, pr_displayName = ''Cloudflare'', pr_available = True, pr_version = ''native'', pr_message = [],
        pr_capabilities = fallbackCapabilities\<lparr>cap_serverDiscovery := False, cap_fixedServerIds := False\<rparr>\<rparr>]"

definition activeProvider :: "provider list option \<Rightarrow> TaskFormValues \<Rightarrow> provider option" where
  "activeProvider data v =
     find (\<lambda>p. pr_id p = fv_provider v) (case data of Some ps \<Rightarrow> ps | None \<Rightarrow> fallbackProviders)"

text \<open>The target modes offered; none are shown for Cloudflare.\<close>

definition target_modes :: "provider option \<Rightarrow> TaskFormValues \<Rightarrow> selection_mode list" where
  "target_modes p v =
     (if fv_provider v = Cloudflare then []
      else [Automatic, Fixed] @
        (if fv_provider v = Librespeed \<and> (case p of Some q \<Rightarrow> cap_customServerUrls (pr_capabilities q) | None \<Rightarrow> False)
         then [Custom] else []))"

definition binding_capability :: "provider option \<Rightarrow> string" where
  "binding_capability p =
     (case p of
        Some q \<Rightarrow>
          if cap_sourceAddressBinding (pr_capabilities q) then ''Provider supports source-address binding.''
          else if cap_interfaceBinding (pr_capabilities q) then ''Provider binds to the selected interface.''
          else ''Review provider availability before enabling this task.''
      | None \<Rightarrow> ''Review provider availability before enabling this task.'')"

text \<open>A route profile can be chosen only for the selected path.\<close>

record route_option =
  ro_id :: string
  ro_name :: string
  ro_interfaceName :: string
  ro_sourceIp :: string

definition pathMatches :: "TaskFormValues \<Rightarrow> route_option \<Rightarrow> bool" where
  "pathMatches v r \<longleftrightarrow> ro_interfaceName r = fv_interfaceName v \<and> ro_sourceIp r = fv_sourceIp v"

definition choose_route :: "route_option list \<Rightarrow> nat option \<Rightarrow> TaskFormValues \<Rightarrow> TaskFormValues" where
  "choose_route routes i v =
     (case i of
        None \<Rightarrow> v\<lparr>fv_routeProfileId := []\<rparr>
      | Some n \<Rightarrow>
          if n < length routes \<and> pathMatches v (routes ! n) then v\<lparr>fv_routeProfileId := ro_id (routes ! n)\<rparr> else v)"

subsection \<open>Preview of the next runs\<close>

text \<open>
  Every change of expression or time zone starts a computation and clears the flag of the previous one;
  an answer counts only while its flag is set. Leaving the page clears the flag too. \<open>compute\<close> gives the
  runs of an expression in a zone at the time the computation ends.
\<close>

type_synonym schedule = "string \<times> string"

record preview =
  pv_schedule :: schedule
  pv_runs :: "int list"
  pv_pending :: "(schedule \<times> bool) list"
  pv_mounted :: bool

definition preview_init :: "schedule \<Rightarrow> preview" where
  "preview_init k = \<lparr>pv_schedule = k, pv_runs = [], pv_pending = [(k, True)], pv_mounted = True\<rparr>"

datatype preview_event = Schedule_Edited schedule | Runs_Computed nat int | Editor_Left

definition deactivated :: "(schedule \<times> bool) list \<Rightarrow> (schedule \<times> bool) list" where
  "deactivated ps = map (\<lambda>(k, _). (k, False)) ps"

fun preview_step :: "(schedule \<Rightarrow> int \<Rightarrow> int list) \<Rightarrow> preview \<Rightarrow> preview_event \<Rightarrow> preview" where
  "preview_step compute s (Schedule_Edited k) =
     (if k = pv_schedule s then s
      else s\<lparr>pv_schedule := k, pv_pending := deactivated (pv_pending s) @ [(k, True)]\<rparr>)"
| "preview_step compute s (Runs_Computed i now) =
     (if i < length (pv_pending s) then
        (case pv_pending s ! i of (k, active) \<Rightarrow>
           s\<lparr>pv_pending := drop_nth i (pv_pending s), pv_runs := (if active then compute k now else pv_runs s)\<rparr>)
      else s)"
| "preview_step compute s Editor_Left = s\<lparr>pv_pending := deactivated (pv_pending s), pv_mounted := False\<rparr>"

text \<open>The computation of the editor: the next five runs.\<close>

definition next_five :: "(int \<Rightarrow> string \<Rightarrow> string \<Rightarrow> (nat \<Rightarrow> int option) option) \<Rightarrow> schedule \<Rightarrow> int \<Rightarrow> int list" where
  "next_five parse k now = nextCronRuns (parse now) (fst k) (snd k) 5"

subsection \<open>Server picker\<close>

text \<open>
  Discovery is a query that runs only on demand. Its key holds the whole request, so what the picker
  lists is what the cache has for the present key.
\<close>

record server_request =
  sr_provider :: provider_id
  sr_search :: string
  sr_interfaceName :: string
  sr_sourceIp :: string
  sr_ipFamily :: ip_family

record 'server picker =
  pk_search :: string
  pk_fetching :: "server_request list"
  pk_found :: "(server_request \<times> 'server list) list"

definition picker_request :: "TaskFormValues \<Rightarrow> 'server picker \<Rightarrow> server_request" where
  "picker_request v s = \<lparr>sr_provider = fv_provider v, sr_search = pk_search s, sr_interfaceName = fv_interfaceName v,
     sr_sourceIp = fv_sourceIp v, sr_ipFamily = fv_ipFamily v\<rparr>"

definition providerServers_call :: "server_request \<Rightarrow> api_call" where
  "providerServers_call r = Api_providerServers (provider_name (sr_provider r))
     [(''search'', Some (JStr (sr_search r))), (''interfaceName'', Some (JStr (sr_interfaceName r))),
      (''sourceIp'', Some (JStr (sr_sourceIp r))), (''ipFamily'', Some (JStr (family_name (sr_ipFamily r))))]"

datatype 'server picker_event =
    Search_Edited string
  | Discover_Clicked
  | Enter_Pressed
  | Discovered server_request "'server list"
  | Discovery_Failed server_request

definition discover_enabled :: "TaskFormValues \<Rightarrow> 'server picker \<Rightarrow> bool" where
  "discover_enabled v s \<longleftrightarrow>
     fv_interfaceName v \<noteq> [] \<and> fv_sourceIp v \<noteq> [] \<and> picker_request v s \<notin> set (pk_fetching s)"

definition discover :: "TaskFormValues \<Rightarrow> 'server picker \<Rightarrow> 'server picker" where
  "discover v s = s\<lparr>pk_fetching := set_add (picker_request v s) (pk_fetching s)\<rparr>"

fun picker_step :: "TaskFormValues \<Rightarrow> 'server picker \<Rightarrow> 'server picker_event \<Rightarrow> 'server picker" where
  "picker_step v s (Search_Edited t) = s\<lparr>pk_search := t\<rparr>"
| "picker_step v s Discover_Clicked = (if discover_enabled v s then discover v s else s)"
| "picker_step v s Enter_Pressed = discover v s"
| "picker_step v s (Discovered r servers) =
     (if r \<in> set (pk_fetching s)
      then s\<lparr>pk_fetching := set_delete r (pk_fetching s), pk_found := AList.update r servers (pk_found s)\<rparr> else s)"
| "picker_step v s (Discovery_Failed r) = s\<lparr>pk_fetching := set_delete r (pk_fetching s)\<rparr>"

fun picker_emits :: "TaskFormValues \<Rightarrow> 'server picker \<Rightarrow> 'server picker_event \<Rightarrow> api_call list" where
  "picker_emits v s Discover_Clicked = (if discover_enabled v s then [providerServers_call (picker_request v s)] else [])"
| "picker_emits v s Enter_Pressed = [providerServers_call (picker_request v s)]"
| "picker_emits v s _ = []"

definition listed_servers :: "TaskFormValues \<Rightarrow> 'server picker \<Rightarrow> 'server list" where
  "listed_servers v s = (case map_of (pk_found s) (picker_request v s) of Some xs \<Rightarrow> xs | None \<Rightarrow> [])"

subsection \<open>Review\<close>

fun family_label :: "ip_family \<Rightarrow> string" where
  "family_label Auto = ''AUTO''"
| "family_label Ipv4 = ''IPV4''"
| "family_label Ipv6 = ''IPV6''"

definition target_text :: "TaskFormValues \<Rightarrow> string" where
  "target_text v =
     (if fv_provider v = Cloudflare then ''Automatic edge selection''
      else case fv_serverSelectionMode v of
        Fixed \<Rightarrow> ''Server #'' @ fv_serverId v
      | Custom \<Rightarrow> fv_serverUrl v
      | Automatic \<Rightarrow> ''Automatic provider selection'')"

definition review_details :: "TaskFormValues \<Rightarrow> provider option \<Rightarrow> route_option option \<Rightarrow> (string \<times> string \<times> string option) list" where
  "review_details v p route =
     [(''Provider'', providerLabel (fv_provider v),
        Some (if (case p of Some q \<Rightarrow> pr_available q | None \<Rightarrow> False) then ''Available'' else ''Unavailable'')),
      (''Target'', target_text v, None),
      (''Source path'', or_else (fv_interfaceName v) ''No interface'' @ dot_sep @ or_else (fv_sourceIp v) ''No address'',
        Some (family_label (fv_ipFamily v))),
      (''Route profile'', (case route of Some r \<Rightarrow> ro_name r | None \<Rightarrow> ''No persisted profile''),
        Some (route_validation_name (fv_routeValidation v))),
      (''Schedule'', fv_cronExpression v @ dot_sep @ fv_timezone v, Some (describeCron (fv_cronExpression v))),
      (''Guardrails'', js_number_string (fv_timeoutSeconds v) @ ''s timeout'' @ dot_sep @
          js_number_string (fv_randomJitterSeconds v) @ ''s jitter'',
        Some (if fv_preventOverlap v then ''Overlap prevented'' else ''Overlap allowed''))]"

definition configurationChanged :: "editor \<Rightarrow> bool" where
  "configurationChanged s \<longleftrightarrow> e_preflight s \<noteq> None \<and> currentPreflight s = None"

definition preflight_heading :: "editor \<Rightarrow> string" where
  "preflight_heading s =
     (case currentPreflight s of
        Some answer \<Rightarrow>
          if pa_success answer then ''Current configuration passed preflight''
          else ''Current configuration failed preflight''
      | None \<Rightarrow>
          if configurationChanged s then ''Configuration changed since preflight''
          else ''Current configuration has not been validated'')"

definition preflight_text :: "editor \<Rightarrow> string" where
  "preflight_text s =
     or_else (case currentPreflight s of Some answer \<Rightarrow> pa_message answer | None \<Rightarrow> [])
       (if fv_provider (e_form s) = Ookla then
          ''Ookla tasks may be saved before the operator-installed CLI is available. Validation and execution remain blocked until the provider is ready.''
        else if fv_enabled (e_form s) then ''A successful preflight is required before this enabled task can be saved.''
        else ''Disabled tasks may be saved without preflight, but validation is recommended before enabling.'')"

definition validate_route_call :: "route_option option \<Rightarrow> bool \<Rightarrow> api_call list" where
  "validate_route_call route pending =
     (case route of Some r \<Rightarrow> if pending then [] else [Api_validateRoute (ro_id r)] | None \<Rightarrow> [])"

subsection \<open>The preview follows the schedule\<close>

definition preview_inv :: "(schedule \<Rightarrow> int \<Rightarrow> int list) \<Rightarrow> preview \<Rightarrow> bool" where
  "preview_inv compute s \<longleftrightarrow>
     (\<forall>k. (k, True) \<in> set (pv_pending s) \<longrightarrow> k = pv_schedule s) \<and>
     (pv_mounted s \<longrightarrow> (\<exists>k. (k, True) \<in> set (pv_pending s)) \<or> (\<exists>now. pv_runs s = compute (pv_schedule s) now))"

lemma deactivated_inactive [simp]: "(k, True) \<notin> set (deactivated ps)"
  by (auto simp: deactivated_def)

lemma set_drop_nth_other: "x \<in> set xs \<Longrightarrow> x \<noteq> xs ! i \<Longrightarrow> x \<in> set (drop_nth i xs)"
proof -
  assume "x \<in> set xs" "x \<noteq> xs ! i"
  then have "i < length xs \<Longrightarrow> x \<in> set (take i xs) \<or> x \<in> set (drop (Suc i) xs)"
    by (subst (asm) id_take_nth_drop [of i xs]) auto
  with \<open>x \<in> set xs\<close> show ?thesis
    by (cases "i < length xs") (auto simp: drop_nth_def)
qed

lemma length_drop_nth: "i < length xs \<Longrightarrow> length (drop_nth i xs) = length xs - 1"
  by (simp add: drop_nth_def)

lemma active_current:
  "preview_inv compute s \<Longrightarrow> i < length (pv_pending s) \<Longrightarrow> pv_pending s ! i = (k, True) \<Longrightarrow> k = pv_schedule s"
  unfolding preview_inv_def by (metis nth_mem)

lemma preview_step_inv:
  assumes "preview_inv compute s"
  shows "preview_inv compute (preview_step compute s e)"
proof (cases e)
  case (Schedule_Edited k)
  with assms show ?thesis by (cases k) (auto simp: preview_inv_def)
next
  case (Runs_Computed i now)
  show ?thesis
  proof (cases "i < length (pv_pending s)")
    case True
    let ?t = "preview_step compute s e" and ?ps = "drop_nth i (pv_pending s)"
    have t: "pv_pending ?t = ?ps" "pv_schedule ?t = pv_schedule s" "pv_mounted ?t = pv_mounted s"
      using True by (simp_all add: Runs_Computed split: prod.splits)
    have keys: "\<forall>k. (k, True) \<in> set ?ps \<longrightarrow> k = pv_schedule s"
      using assms set_drop_nth [of i "pv_pending s"] unfolding preview_inv_def by blast
    show ?thesis
    proof (cases "snd (pv_pending s ! i)")
      case active: True
      then have "pv_runs ?t = compute (pv_schedule s) now"
        using True active_current [OF assms True, of "fst (pv_pending s ! i)"]
        by (auto simp: Runs_Computed split: prod.splits)
      with keys show ?thesis unfolding preview_inv_def t by blast
    next
      case False
      then have "pv_runs ?t = pv_runs s" using True by (auto simp: Runs_Computed split: prod.splits)
      moreover have "(k, True) \<in> set ?ps" if "(k, True) \<in> set (pv_pending s)" for k
        using that False by (metis set_drop_nth_other snd_conv)
      ultimately show ?thesis using assms keys unfolding preview_inv_def t by metis
    qed
  qed (use assms Runs_Computed in simp)
next
  case Editor_Left
  with assms show ?thesis by (auto simp: preview_inv_def)
qed

interpretation preview: machine "preview_step compute" "preview_inv compute" for compute
  by unfold_locales (rule preview_step_inv)

lemma preview_init_inv: "preview_inv compute (preview_init k)"
  by (simp add: preview_inv_def preview_init_def)

text \<open>Every answer ends one computation, so finitely many answers leave none pending.\<close>

lemma answer_ends_one:
  "i < length (pv_pending s) \<Longrightarrow>
   length (pv_pending (preview_step compute s (Runs_Computed i now))) = length (pv_pending s) - 1"
  by (simp add: length_drop_nth split: prod.splits)

subsection \<open>Origin of the listed servers\<close>

abbreviation picker_run :: "(TaskFormValues \<times> 'server picker_event) list \<Rightarrow> 'server picker \<Rightarrow> 'server picker" where
  "picker_run es s \<equiv> foldl (\<lambda>s (v, e). picker_step v s e) s es"

definition picker_init :: "'server picker" where
  "picker_init = \<lparr>pk_search = [], pk_fetching = [], pk_found = []\<rparr>"

text \<open>The calls a run of the picker sends, in order.\<close>

fun picker_calls :: "'server picker \<Rightarrow> (TaskFormValues \<times> 'server picker_event) list \<Rightarrow> api_call list" where
  "picker_calls s [] = []"
| "picker_calls s ((v, e) # es) = picker_emits v s e @ picker_calls (picker_step v s e) es"

lemma picker_calls_snoc:
  "picker_calls s (es @ [(v, e)]) = picker_calls s es @ picker_emits v (picker_run es s) e"
  by (induction s es rule: picker_calls.induct) auto

lemma fetching_called:
  "r \<in> set (pk_fetching (picker_run es picker_init)) \<Longrightarrow> providerServers_call r \<in> set (picker_calls picker_init es)"
proof (induction es rule: rev_induct)
  case (snoc x es)
  obtain v e where x: "x = (v, e)" by fastforce
  show ?case
    using snoc by (cases e) (auto simp: x picker_calls_snoc discover_def split: if_splits)
qed (simp add: picker_init_def)

lemma found_origin:
  "map_of (pk_found (picker_run es picker_init)) r = Some xs \<Longrightarrow>
   (\<exists>v. (v, Discovered r xs) \<in> set es) \<and> providerServers_call r \<in> set (picker_calls picker_init es)"
proof (induction es rule: rev_induct)
  case (snoc x es)
  obtain v e where x: "x = (v, e)" by fastforce
  show ?case
    using snoc fetching_called [of _ es]
    by (cases e) (auto simp: x picker_calls_snoc discover_def update_conv' split: if_splits)
qed (simp add: picker_init_def)

subsection \<open>Properties\<close>

text \<open>
  C31. The preview of the next runs belongs to the schedule in the form: however quickly expression and
  time zone are edited and in whatever order the computations end, once none is pending the runs shown
  are those of the present expression and zone. Every answer ends one computation, and the answer of an
  abandoned schedule is never shown.
\<close>

theorem preview_follows_schedule:
  assumes "Editor_Left \<notin> set es"
  shows "let s = foldl (preview_step compute) (preview_init k) es in
    (pv_pending s = [] \<longrightarrow> (\<exists>now. pv_runs s = compute (pv_schedule s) now)) \<and>
    (\<forall>i now. i < length (pv_pending s) \<longrightarrow>
       length (pv_pending (preview_step compute s (Runs_Computed i now))) < length (pv_pending s) \<and>
       (fst (pv_pending s ! i) \<noteq> pv_schedule s \<longrightarrow>
          pv_runs (preview_step compute s (Runs_Computed i now)) = pv_runs s))"
proof -
  define s where "s = foldl (preview_step compute) (preview_init k) es"
  have inv: "preview_inv compute s"
    unfolding s_def by (rule preview.run_inv) (rule preview_init_inv)
  have mounted: "pv_mounted s"
    using assms unfolding s_def
  proof (induction es rule: rev_induct)
    case (snoc e es)
    then show ?case by (cases e) (auto split: prod.splits)
  qed (simp add: preview_init_def)
  have "pv_runs (preview_step compute s (Runs_Computed i now)) = pv_runs s"
    if "i < length (pv_pending s)" "fst (pv_pending s ! i) \<noteq> pv_schedule s" for i now
    using that active_current [OF inv that(1), of "fst (pv_pending s ! i)"] by (auto split: prod.splits)
  with inv mounted show ?thesis
    unfolding s_def [symmetric] Let_def by (auto simp: preview_inv_def answer_ends_one simp del: preview_step.simps)
qed

theorem preview_follows_schedule_witness:
  "let s = foldl (preview_step (\<lambda>k now. [int (length (fst k)), now])) (preview_init (''a'', ''UTC''))
     [Schedule_Edited (''ab'', ''UTC''), Runs_Computed 1 7, Runs_Computed 0 9] in
   \<exists>now. pv_runs s = [2, now]"
  using preview_follows_schedule [of "[Schedule_Edited (''ab'', ''UTC''), Runs_Computed 1 7, Runs_Computed 0 9]"
      "\<lambda>k now. [int (length (fst k)), now]" "(''a'', ''UTC'')"]
  by (simp add: preview_init_def deactivated_def drop_nth_def Let_def)

text \<open>
  Discovery follows the selected path: the servers listed were answered to a request with exactly
  the provider, the search, the interface, the source address and the family now in the form, and that
  request was sent. Changing any of them hides the list until it is discovered again.
\<close>

theorem listed_servers_bound:
  assumes "listed_servers v (picker_run es picker_init) \<noteq> []"
  shows "(\<exists>w. (w, Discovered (picker_request v (picker_run es picker_init))
      (listed_servers v (picker_run es picker_init))) \<in> set es) \<and>
    providerServers_call (picker_request v (picker_run es picker_init)) \<in> set (picker_calls picker_init es)"
  using assms found_origin [of es "picker_request v (picker_run es picker_init)"]
  by (auto simp: listed_servers_def split: option.splits)

text \<open>
  The return key bypasses the guard of the discovery button: without an interface the button sends
  nothing, but return in the search field sends a request that lacks the interface the endpoint requires.
\<close>

theorem enter_discovers_unbound:
  assumes "fv_interfaceName v = []"
  shows "picker_emits v s Discover_Clicked = [] \<and>
    (\<exists>c ps. picker_emits v s Enter_Pressed = [c] \<and>
       parse_search (url_query (rq_url (api_request c))) = Some ps \<and>
       ''interface'' \<notin> fst ` set ps \<and> Req ''interface'' InterfaceName \<in> set (c_query (call_contract c)))"
proof -
  define c where "c = providerServers_call (picker_request v s)"
  have q: "query_ok c" by (simp add: c_def providerServers_call_def query_ok_def)
  have "search_params (call_query c) = concat (map param_pairs (call_query c))"
    using call_query_distinct [OF q] by (rule search_params_pairs)
  moreover have "skipped v'" if "(''interface'', v') \<in> set (call_query c)" for v'
  proof -
    have "obj_get (call_query c) ''interface'' = Some (Some (JStr []))"
      using assms by (simp add: c_def providerServers_call_def call_query_def with_interface_def obj.get_put
          picker_request_def) (simp add: obj_get_def)
    moreover have "obj_get (call_query c) ''interface'' = Some v'"
      using that call_query_distinct [OF q] by (simp add: obj_get_def)
    ultimately show ?thesis by (simp add: skipped_def)
  qed
  then have "''interface'' \<notin> fst ` set (concat (map param_pairs (call_query c)))"
    using param_keys by force
  ultimately show ?thesis
    using assms by (auto simp: discover_enabled_def call_query_url parse_search_string c_def
        providerServers_call_def call_contract_def listProviderServers_contract_def)
qed

definition sample_server :: server_request where
  "sample_server = \<lparr>sr_provider = Librespeed, sr_search = [], sr_interfaceName = ''eth0'', sr_sourceIp = ''192.0.2.2'',
     sr_ipFamily = Auto\<rparr>"

definition picker_form :: "string \<Rightarrow> TaskFormValues" where
  "picker_form i = (defaults ''UTC'')\<lparr>fv_provider := Librespeed, fv_interfaceName := i, fv_sourceIp := ''192.0.2.2'', fv_ipFamily := Auto\<rparr>"

theorem listed_servers_bound_witness:
  "providerServers_call sample_server \<in> set (picker_calls picker_init
     [(picker_form ''eth0'', Discover_Clicked), (picker_form ''eth1'', Discovered sample_server [''berlin''])])"
proof -
  let ?es = "[(picker_form ''eth0'', Discover_Clicked), (picker_form ''eth1'', Discovered sample_server [''berlin''])]"
  have r: "picker_request (picker_form ''eth0'') (picker_run ?es picker_init) = sample_server"
    by (simp add: picker_request_def picker_form_def picker_init_def sample_server_def discover_enabled_def discover_def)
  have "listed_servers (picker_form ''eth0'') (picker_run ?es picker_init) = [''berlin'']"
    unfolding listed_servers_def r
    by (simp add: picker_request_def picker_form_def picker_init_def sample_server_def discover_enabled_def discover_def
        set_add_def)
  then show ?thesis
    using listed_servers_bound [of "picker_form ''eth0''" ?es] by (simp only: r) simp
qed

theorem enter_discovers_unbound_witness:
  "\<exists>c. picker_emits (picker_form []) (picker_init :: string picker) Enter_Pressed = [c] \<and>
     Req ''interface'' InterfaceName \<in> set (c_query (call_contract c))"
  using enter_discovers_unbound [of "picker_form []" "picker_init :: string picker"]
  by (auto simp: picker_form_def)

end
