(* ===== verification/I18n.thy ===== *)
theory I18n
  imports Prelude
begin

text \<open>
  Translation (\<open>i18n.tsx\<close>): the German dictionary, the interpolation of parameters, and the language
  state with its storage. The ellipsis, the en dash and the right quotation mark (code units 8230, 8211 and
  8217) are outside the modelled range and stand as names; no function looks inside them. Labels and parameter names are not names of properties every
  JavaScript object inherits.
\<close>

definition ellipsis :: string where
  "ellipsis = ''(ellipsis)''"

definition en_dash :: string where
  "en_dash = ''(en dash)''"

definition right_quote :: string where
  "right_quote = ''(right quote)''"

definition german :: "(string \<times> string) list" where
  "german =
     [(''Dashboard'',
       [CHR 0xDC] @ ''bersicht''),
      (''Tasks'',
       ''Aufgaben''),
      (''Results'',
       ''Ergebnisse''),
      (''Statistics'',
       ''Statistiken''),
      (''WAN comparison'',
       ''WAN-Vergleich''),
      (''Network & routes'',
       ''Netzwerk & Routen''),
      (''Settings'',
       ''Einstellungen''),
      (''System information'',
       ''Systeminformationen''),
      (''Live overview'',
       ''Live-'' @ [CHR 0xDC] @ ''berblick''),
      (''Schedules & targets'',
       ''Zeitpl'' @ [CHR 0xE4] @ ''ne & Ziele''),
      (''Test history'',
       ''Messverlauf''),
      (''Trends & percentiles'',
       ''Trends & Perzentile''),
      (''Path performance'',
       ''Pfad-Leistung''),
      (''Bindings & validation'',
       ''Bindungen & Pr'' @ [CHR 0xFC] @ ''fung''),
      (''Runtime defaults'',
       ''Laufzeit-Standardwerte''),
      (''Health & versions'',
       ''Zustand & Versionen''),
      (''Operations overview'',
       ''Betriebs'' @ [CHR 0xFC] @ ''bersicht''),
      (''Multi-WAN observability'',
       ''Multi-WAN-'' @ [CHR 0xDC] @ ''berwachung''),
      (''Speed-test tasks'',
       ''Geschwindigkeitstest-Aufgaben''),
      (''Independent schedules'',
       ''Unabh'' @ [CHR 0xE4] @ ''ngige Zeitpl'' @ [CHR 0xE4] @ ''ne''),
      (''Create task'',
       ''Aufgabe erstellen''),
      (''Measurement configuration'',
       ''Messkonfiguration''),
      (''Measurement results'',
       ''Messergebnisse''),
      (''History & diagnostics'',
       ''Verlauf & Diagnose''),
      (''Performance statistics'',
       ''Leistungsstatistiken''),
      (''Aggregates & trends'',
       ''Aggregate & Trends''),
      (''Side-by-side analysis'',
       ''Direktvergleich''),
      (''Read-only path validation'',
       ''Schreibgesch'' @ [CHR 0xFC] @ ''tzte Pfadpr'' @ [CHR 0xFC] @ ''fung''),
      (''Application settings'',
       ''Anwendungseinstellungen''),
      (''Defaults & retention'',
       ''Standardwerte & Aufbewahrung''),
      (''Runtime health'',
       ''Laufzeitzustand''),
      (''Edit task'',
       ''Aufgabe bearbeiten''),
      (''Result diagnostics'',
       ''Ergebnisdiagnose''),
      (''Infrastructure observability'',
       ''Infrastruktur'' @ [CHR 0xFC] @ ''berwachung''),
      (''Path telemetry'',
       ''Pfad-Telemetrie''),
      (''Light theme'',
       ''Helles Design''),
      (''Dark theme'',
       ''Dunkles Design''),
      (''System theme'',
       ''Systemdesign''),
      (''Color theme'',
       ''Farbschema''),
      (''Language'',
       ''Sprache''),
      (''English'',
       ''Englisch''),
      (''German'',
       ''Deutsch''),
      (''Open navigation'',
       ''Navigation '' @ [CHR 0xF6] @ ''ffnen''),
      (''Close navigation'',
       ''Navigation schlie'' @ [CHR 0xDF] @ ''en''),
      (''Navigation'',
       ''Navigation''),
      (''Navigate between MultiSpeed screens'',
       ''Zwischen MultiSpeed-Ansichten wechseln''),
      (''Live'',
       ''Live''),
      (''Offline'',
       ''Offline''),
      (''Reconnecting'',
       ''Verbindung wird wiederhergestellt''),
      (''Server-sent events connection'',
       ''Server-Sent-Events-Verbindung''),
      (''No authentication. Keep this console on a trusted network.'',
       ''Keine Anmeldung. Diese Konsole nur in einem vertrauensw'' @ [CHR 0xFC] @ ''rdigen Netzwerk verwenden.''),
      (''Cloudflare'' @ [CHR 0xAE] @ '' is a trademark of Cloudflare, Inc. Ookla'' @ [CHR 0xAE] @ '' and Speedtest'' @ [CHR 0xAE] @ '' are registered trademarks of Ookla, LLC. MultiSpeed is an independent project and is not affiliated with, endorsed by, or sponsored by either company.'',
       ''Cloudflare'' @ [CHR 0xAE] @ '' ist eine Marke von Cloudflare, Inc. Ookla'' @ [CHR 0xAE] @ '' und Speedtest'' @ [CHR 0xAE] @ '' sind eingetragene Marken von Ookla, LLC. MultiSpeed ist ein unabh'' @ [CHR 0xE4] @ ''ngiges Projekt und steht in keiner Verbindung zu diesen Unternehmen.''),
      (''Loading data'' @ ellipsis,
       ''Daten werden geladen'' @ ellipsis),
      (''Unable to load data'',
       ''Daten konnten nicht geladen werden''),
      (''Try again'',
       ''Erneut versuchen''),
      (''Dismiss notification'',
       ''Benachrichtigung schlie'' @ [CHR 0xDF] @ ''en''),
      (''Cancel'',
       ''Abbrechen''),
      (''Working'' @ ellipsis,
       ''Wird verarbeitet'' @ ellipsis),
      (''Close'',
       ''Schlie'' @ [CHR 0xDF] @ ''en''),
      (''Opening workspace'' @ ellipsis,
       ''Arbeitsbereich wird ge'' @ [CHR 0xF6] @ ''ffnet'' @ ellipsis),
      (''Every WAN, one operational picture.'',
       ''Jedes WAN in einer Betriebs'' @ [CHR 0xFC] @ ''bersicht.''),
      (''Live throughput, route integrity, and scheduled measurements across every configured network path.'',
       ''Live-Durchsatz, Routenintegrit'' @ [CHR 0xE4] @ ''t und geplante Messungen f'' @ [CHR 0xFC] @ ''r jeden konfigurierten Netzwerkpfad.''),
      (''New task'',
       ''Neue Aufgabe''),
      (''Independent tests, precisely routed.'',
       ''Unabh'' @ [CHR 0xE4] @ ''ngige Tests, pr'' @ [CHR 0xE4] @ ''zise geroutet.''),
      (''Each task owns its provider, target, schedule, source address, and route-validation policy.'',
       ''Jede Aufgabe besitzt Provider, Ziel, Zeitplan, Quelladresse und Routenpr'' @ [CHR 0xFC] @ ''frichtlinie.''),
      (''Every sample, fully explainable.'',
       ''Jede Messung vollst'' @ [CHR 0xE4] @ ''ndig nachvollziehbar.''),
      (''Filter measurement history, inspect route and provider diagnostics, or export exactly the selected result set.'',
       ''Messverlauf filtern, Routen- und Providerdiagnosen pr'' @ [CHR 0xFC] @ ''fen oder exakt die ausgew'' @ [CHR 0xE4] @ ''hlte Ergebnismenge exportieren.''),
      (''Patterns beyond a single test.'',
       ''Muster '' @ [CHR 0xFC] @ ''ber einzelne Tests hinaus.''),
      (''Aggregate in the reporting timezone, compare dimensions, and inspect min, average, median, p95, and variance without failed sentinel values.'',
       ''In der Berichtszeitzone aggregieren, Dimensionen vergleichen und Minimum, Durchschnitt, Median, p95 und Varianz ohne fehlgeschlagene Platzhalterwerte pr'' @ [CHR 0xFC] @ ''fen.''),
      (''Compare paths, not anecdotes.'',
       ''Pfade vergleichen, nicht Anekdoten.''),
      (''Use exact full-range statistics across successful, failed, skipped, and cancelled attempts to compare independent WAN paths without page truncation.'',
       ''Exakte Statistiken '' @ [CHR 0xFC] @ ''ber den gesamten Zeitraum f'' @ [CHR 0xFC] @ ''r erfolgreiche, fehlgeschlagene, '' @ [CHR 0xFC] @ ''bersprungene und abgebrochene Versuche nutzen, ohne Seitentrunkierung.''),
      (''Observe routes. Never rewrite them.'',
       ''Routen beobachten. Niemals ver'' @ [CHR 0xE4] @ ''ndern.''),
      (''Discover source addresses in the active Linux namespace and persist read-only expectations for source-based policy routing.'',
       ''Quelladressen im aktiven Linux-Namespace erkennen und schreibgesch'' @ [CHR 0xFC] @ ''tzte Erwartungen f'' @ [CHR 0xFC] @ ''r quellenbasiertes Policy-Routing speichern.''),
      (''Refresh interfaces'',
       ''Schnittstellen aktualisieren''),
      (''Safe operational defaults.'',
       ''Sichere Betriebsstandardwerte.''),
      (''Tune new-task defaults, concurrency, retention, interface discovery, and database maintenance.'',
       ''Standardwerte f'' @ [CHR 0xFC] @ ''r neue Aufgaben, Parallelit'' @ [CHR 0xE4] @ ''t, Aufbewahrung, Schnittstellenerkennung und Datenbankwartung festlegen.''),
      (''Save settings'',
       ''Einstellungen speichern''),
      (''Runtime facts, without secrets.'',
       ''Laufzeitdaten ohne Geheimnisse.''),
      (''Build identity, database health, provider availability, interface state, and application uptime.'',
       ''Build-Identit'' @ [CHR 0xE4] @ ''t, Datenbankzustand, Provider-Verf'' @ [CHR 0xFC] @ ''gbarkeit, Schnittstellenstatus und Betriebszeit.''),
      (''Refresh'',
       ''Aktualisieren''),
      (''Measurement diagnostics'',
       ''Messdiagnose''),
      (''Delete'',
       ''L'' @ [CHR 0xF6] @ ''schen''),
      (''Create an independent speed test'',
       ''Unabh'' @ [CHR 0xE4] @ ''ngigen Geschwindigkeitstest erstellen''),
      (''The selected interface and source address are mandatory. MultiSpeed never falls back to another WAN when binding or route validation fails.'',
       ''Die ausgew'' @ [CHR 0xE4] @ ''hlte Schnittstelle und Quelladresse sind erforderlich. MultiSpeed weicht bei Bindungs- oder Routenpr'' @ [CHR 0xFC] @ ''fungsfehlern niemals auf ein anderes WAN aus.''),
      (''Back to tasks'',
       ''Zur'' @ [CHR 0xFC] @ ''ck zu Aufgaben''),
      (''This task'' @ [CHR 0x27] @ ''s network path is no longer valid'',
       ''Der Netzwerkpfad dieser Aufgabe ist nicht mehr g'' @ [CHR 0xFC] @ ''ltig''),
      (''Select a current interface and concrete source address before saving or running this task.'',
       ''Vor dem Speichern oder Ausf'' @ [CHR 0xFC] @ ''hren eine aktuelle Schnittstelle und konkrete Quelladresse ausw'' @ [CHR 0xE4] @ ''hlen.'')]"

subsection \<open>Interpolation\<close>

definition is_word :: "char \<Rightarrow> bool" where
  "is_word c \<longleftrightarrow> is_alpha c \<or> is_digit c \<or> c = CHR ''_''"

text \<open>A placeholder at the start of a text: its name and what follows it.\<close>

definition placeholder :: "string \<Rightarrow> (string \<times> string) option" where
  "placeholder s =
     (if prefix ''{{'' s then
        let w = takeWhile is_word (drop 2 s); r = dropWhile is_word (drop 2 s)
        in if w \<noteq> [] \<and> prefix ''}}'' r then Some (w, drop 2 r) else None
      else None)"

lemma placeholder_length: "placeholder s = Some (w, r) \<Longrightarrow> length r < length s"
  using length_dropWhile_le [of is_word "drop 2 s"]
  by (auto simp: placeholder_def Let_def split: if_splits dest!: prefix_length_le)

function replace_placeholders :: "(string \<Rightarrow> string option) \<Rightarrow> string \<Rightarrow> string" where
  "replace_placeholders ps [] = []"
| "replace_placeholders ps (c # s) =
     (case placeholder (c # s) of
        Some (w, r) \<Rightarrow>
          (case ps w of Some v \<Rightarrow> v | None \<Rightarrow> ''{{'' @ w @ ''}}'') @ replace_placeholders ps r
      | None \<Rightarrow> c # replace_placeholders ps s)"
  by pat_completeness auto
termination
  by (relation "measure (\<lambda>(_, s). length s)") (auto dest: placeholder_length)

text \<open>\<open>parameters\<close> gives the text of every parameter (\<open>String(parameters[key])\<close>).\<close>

definition interpolate :: "string \<Rightarrow> (string \<Rightarrow> string option) option \<Rightarrow> string" where
  "interpolate s parameters = (case parameters of None \<Rightarrow> s | Some ps \<Rightarrow> replace_placeholders ps s)"

subsection \<open>Language\<close>

datatype language = En | De

definition translate :: "language \<Rightarrow> string \<Rightarrow> (string \<Rightarrow> string option) option \<Rightarrow> string" where
  "translate l english parameters =
     interpolate (if l = De then (case map_of german english of Some g \<Rightarrow> g | None \<Rightarrow> english) else english)
       parameters"

record i18n =
  in_language :: language
  in_stored :: "string option"
  in_documentLang :: string

fun language_code :: "language \<Rightarrow> string" where
  "language_code En = ''en''"
| "language_code De = ''de''"

definition initial_language :: "string option \<Rightarrow> language" where
  "initial_language stored = (if stored = Some ''de'' then De else En)"

text \<open>The effect that runs after mounting and after every change of the language.\<close>

definition set_language :: "language \<Rightarrow> i18n \<Rightarrow> i18n" where
  "set_language l s = s\<lparr>in_language := l, in_stored := Some (language_code l), in_documentLang := language_code l\<rparr>"

definition i18n_mount :: "string option \<Rightarrow> string \<Rightarrow> i18n" where
  "i18n_mount stored lang =
     set_language (initial_language stored)
       \<lparr>in_language = initial_language stored, in_stored = stored, in_documentLang = lang\<rparr>"

definition i18n_inv :: "i18n \<Rightarrow> bool" where
  "i18n_inv s \<longleftrightarrow>
     in_stored s = Some (language_code (in_language s)) \<and> in_documentLang s = language_code (in_language s)"

interpretation i18n: machine "\<lambda>s l. set_language l s" i18n_inv
  by unfold_locales (simp add: i18n_inv_def set_language_def)

subsection \<open>Lemmas\<close>

lemma placeholder_none: "CHR ''{'' \<noteq> c \<Longrightarrow> placeholder (c # s) = None"
  by (simp add: placeholder_def)

lemma takeWhile_word: "list_all is_word w \<Longrightarrow> takeWhile is_word (w @ ''}}'' @ r) = w \<and> dropWhile is_word (w @ ''}}'' @ r) = ''}}'' @ r"
  by (induction w) (auto simp: is_word_def is_alpha_def is_digit_def)

lemma placeholder_some:
  assumes "w \<noteq> []" "list_all is_word w"
  shows "placeholder (''{{'' @ w @ ''}}'' @ r) = Some (w, r)"
  using assms takeWhile_word [OF assms(2), of r] by (simp add: placeholder_def Let_def)

lemma replace_plain:
  "CHR ''{'' \<notin> set a \<Longrightarrow> replace_placeholders ps (a @ s) = a @ replace_placeholders ps s"
  by (induction a) (auto simp: placeholder_none)

subsection \<open>Properties\<close>

text \<open>A template: literal text and named parameters, and how it is written.\<close>

datatype piece = Text string | Param string

fun show_piece :: "piece \<Rightarrow> string" where
  "show_piece (Text s) = s"
| "show_piece (Param w) = ''{{'' @ w @ ''}}''"

fun fill_piece :: "(string \<Rightarrow> string option) \<Rightarrow> piece \<Rightarrow> string" where
  "fill_piece ps (Text s) = s"
| "fill_piece ps (Param w) = (case ps w of Some v \<Rightarrow> v | None \<Rightarrow> ''{{'' @ w @ ''}}'')"

fun wf_piece :: "piece \<Rightarrow> bool" where
  "wf_piece (Text s) \<longleftrightarrow> CHR ''{'' \<notin> set s"
| "wf_piece (Param w) \<longleftrightarrow> w \<noteq> [] \<and> list_all is_word w"

text \<open>
  Interpolation fills a template in one pass: every placeholder with a value becomes that value,
  the others stay, literal text is unchanged, and a value is never interpolated again even if it looks
  like a placeholder.
\<close>

theorem interpolate_template:
  assumes "list_all wf_piece pieces"
  shows "interpolate (concat (map show_piece pieces)) (Some ps) = concat (map (fill_piece ps) pieces)"
proof -
  have "replace_placeholders ps (concat (map show_piece pieces)) = concat (map (fill_piece ps) pieces)"
    using assms
  proof (induction pieces)
    case (Cons p pieces)
    show ?case
    proof (cases p)
      case (Text s)
      with Cons show ?thesis by (simp add: replace_plain)
    next
      case (Param w)
      then have "replace_placeholders ps (show_piece p @ concat (map show_piece pieces)) =
          fill_piece ps p @ replace_placeholders ps (concat (map show_piece pieces))"
        using Cons.prems placeholder_some [of w "concat (map show_piece pieces)"] by simp
      with Cons show ?thesis by simp
    qed
  qed simp
  then show ?thesis by (simp add: interpolate_def)
qed

theorem interpolate_template_witness:
  "interpolate ''{{count}} of {{total}}'' (Some [''count'' \<mapsto> ''{{total}}'', ''total'' \<mapsto> ''5'']) = ''{{total}} of 5''"
  using interpolate_template [of "[Param ''count'', Text '' of '', Param ''total'']"
      "[''count'' \<mapsto> ''{{total}}'', ''total'' \<mapsto> ''5'']"]
  by (simp add: is_word_def is_alpha_def)

text \<open>The chosen language survives a reload, and the document names it.\<close>

lemma language_kept:
  "in_language (i18n_mount (in_stored (foldl (\<lambda>s l. set_language l s) (i18n_mount stored lang) ls)) lang') =
     in_language (foldl (\<lambda>s l. set_language l s) (i18n_mount stored lang) ls)"
proof -
  let ?s = "foldl (\<lambda>s l. set_language l s) (i18n_mount stored lang) ls"
  have "i18n_inv (i18n_mount stored lang)"
    by (simp add: i18n_mount_def i18n_inv_def set_language_def)
  then have "i18n_inv ?s" by (rule i18n.run_inv)
  then show ?thesis
    by (cases "in_language ?s") (simp_all add: i18n_inv_def i18n_mount_def set_language_def initial_language_def)
qed

end
