(* ===== verification/Widgets.thy ===== *)
theory Widgets
  imports Details I18n
begin

text \<open>
  The shared components of the console (\<open>components/ui\<close>, \<open>components/common\<close>) as functions from their
  properties to the element tree React is given. An element has a type, its properties, its event
  handlers and its children; a handler carries the event of the page it raises. Components of other
  packages (Radix, React Router) stay as elements under the name the source uses, icons as leaves. Class
  names, which only style, are left out. \<open>t\<close> is the translation of the current language; a text
  property that is absent and one that is empty behave alike and are both the empty string.
\<close>

datatype 'a element =
    Words string
  | Icon string
  | Element string "(string \<times> string) list" "(string \<times> 'a) list" "'a element list"

abbreviation node_of :: "string \<Rightarrow> 'a element list \<Rightarrow> 'a element" where
  "node_of tag children \<equiv> Element tag [] [] children"

text \<open>A part shown under a condition, \<open>{c ? x : null}\<close>.\<close>

definition shown :: "bool \<Rightarrow> 'a element \<Rightarrow> 'a element list" where
  "shown c x = (if c then [x] else [])"

subsection \<open>Reading a tree\<close>

fun get_prop :: "string \<Rightarrow> 'a element \<Rightarrow> string option" where
  "get_prop k (Element tag ps hs cs) = map_of ps k"
| "get_prop k _ = None"

fun nodes :: "'a element \<Rightarrow> 'a element list" where
  "nodes (Element tag ps hs cs) = Element tag ps hs cs # concat (map nodes cs)"
| "nodes x = [x]"

definition gather :: "('a element \<Rightarrow> 'b list) \<Rightarrow> 'a element \<Rightarrow> 'b list" where
  "gather f x = concat (map f (nodes x))"

definition prop_values :: "string \<Rightarrow> 'a element \<Rightarrow> string list" where
  "prop_values k x = (case get_prop k x of Some v \<Rightarrow> [v] | None \<Rightarrow> [])"

abbreviation ids :: "'a element \<Rightarrow> string list" where
  "ids \<equiv> gather (prop_values ''id'')"

text \<open>The addresses a tree links to: \<open>Link\<close> and \<open>NavLink\<close> by their property \<open>to\<close>.\<close>

abbreviation links :: "'a element \<Rightarrow> string list" where
  "links \<equiv> gather (prop_values ''to'')"

text \<open>What a click can raise: the handler of an element that is not disabled.\<close>

fun click_of :: "'a element \<Rightarrow> 'a list" where
  "click_of (Element tag ps hs cs) =
     (if map_of ps ''disabled'' = None then (case map_of hs ''onClick'' of Some e \<Rightarrow> [e] | None \<Rightarrow> []) else [])"
| "click_of x = []"

abbreviation clicks :: "'a element \<Rightarrow> 'a list" where
  "clicks \<equiv> gather click_of"

text \<open>
  What a user can raise on a page: the handlers of every element that is not disabled. The content of a
  closed dialog is not rendered.
\<close>

fun offered :: "'a element \<Rightarrow> 'a list" where
  "offered (Element tag ps hs cs) =
     (if map_of ps ''open'' = Some ''false'' then []
      else (if map_of ps ''disabled'' = None then map snd hs else []) @ concat (map offered cs))"
| "offered x = []"

text \<open>A form can be submitted when one of its submit buttons is not disabled.\<close>

fun submit_of :: "'a element \<Rightarrow> unit list" where
  "submit_of (Element tag ps hs cs) =
     (if tag = ''button'' \<and> map_of ps ''type'' = Some ''submit'' \<and> map_of ps ''disabled'' = None then [()] else [])"
| "submit_of _ = []"

text \<open>The events of the buttons shown as pressed.\<close>

definition pressed_of :: "'a element \<Rightarrow> 'a list" where
  "pressed_of n = (if get_prop ''aria-pressed'' n = Some ''true'' then click_of n else [])"

subsection \<open>Buttons, badges and cards\<close>

definition link_to :: "string \<Rightarrow> 'a element list \<Rightarrow> 'a element" where
  "link_to address children = Element ''Link'' [(''to'', address)] [] children"

definition disabled_prop :: "bool \<Rightarrow> (string \<times> string) list" where
  "disabled_prop b = (if b then [(''disabled'', [])] else [])"

definition Button ::
  "bool \<Rightarrow> (string \<times> string) list \<Rightarrow> (string \<times> 'a) list \<Rightarrow> 'a element list \<Rightarrow> 'a element" where
  "Button asChild props handlers children =
     (if asChild then Element ''Slot'' props handlers children
      else Element ''button''
        ((if map_of props ''type'' = None then [(''type'', ''button'')] else []) @ props) handlers children)"

definition Badge :: "'a element list \<Rightarrow> 'a element" where
  "Badge children = node_of ''span'' children"

definition StatusDot :: "'a element" where
  "StatusDot = Element ''span'' [(''aria-hidden'', ''true'')] [] []"

definition Card :: "'a element list \<Rightarrow> 'a element" where
  "Card children = node_of ''div'' children"

definition CardHeader :: "'a element list \<Rightarrow> 'a element" where
  "CardHeader children = node_of ''div'' children"

definition CardTitle :: "'a element list \<Rightarrow> 'a element" where
  "CardTitle children = node_of ''h2'' children"

definition CardContent :: "'a element list \<Rightarrow> 'a element" where
  "CardContent children = node_of ''div'' children"

fun status_name :: "result_status \<Rightarrow> string" where
  "status_name Queued = ''queued''"
| "status_name Validating = ''validating''"
| "status_name Running = ''running''"
| "status_name Succeeded = ''succeeded''"
| "status_name Failed = ''failed''"
| "status_name Skipped = ''skipped''"
| "status_name Cancelled = ''cancelled''"

definition ProviderBadge :: "provider_id \<Rightarrow> 'a element" where
  "ProviderBadge p = Badge [Words (providerLabel p)]"

definition ResultStatusBadge :: "result_status \<Rightarrow> 'a element" where
  "ResultStatusBadge st = Badge (shown (badge_running st) (Icon ''Activity'') @ [Words (status_name st)])"

text \<open>A trend is its text with its direction; whether it is good only styles it.\<close>

definition trend_icon :: "string \<Rightarrow> string" where
  "trend_icon direction =
     (if direction = ''up'' then ''ArrowUpRight'' else if direction = ''down'' then ''ArrowDownRight'' else ''Minus'')"

definition MetricCard :: "string \<Rightarrow> string \<Rightarrow> string \<Rightarrow> string \<Rightarrow> (string \<times> string) option \<Rightarrow> 'a element" where
  "MetricCard label value detail icon trend =
     Card [node_of ''div'' [node_of ''div'' [node_of ''p'' [Words label], node_of ''p'' [Words value]],
         node_of ''span'' [Icon icon]],
       node_of ''div''
         ((case trend of Some (v, direction) \<Rightarrow> [node_of ''span'' [Icon (trend_icon direction), Words v]] | None \<Rightarrow> []) @
          [node_of ''span'' [Words detail]])]"

definition PageHeader :: "(string \<Rightarrow> string) \<Rightarrow> string \<Rightarrow> string \<Rightarrow> 'a element list \<Rightarrow> 'a element" where
  "PageHeader t title description actions =
     node_of ''div'' ([node_of ''div'' [node_of ''h2'' [Words (t title)], node_of ''p'' [Words (t description)]]] @
       shown (actions \<noteq> []) (node_of ''div'' actions))"

definition SectionHeader :: "(string \<Rightarrow> string) \<Rightarrow> string \<Rightarrow> string \<Rightarrow> 'a element list \<Rightarrow> 'a element" where
  "SectionHeader t title description action =
     node_of ''div'' ([node_of ''div'' ([node_of ''h3'' [Words (t title)]] @
       shown (description \<noteq> []) (node_of ''p'' [Words (t description)]))] @ action)"

subsection \<open>States of a page\<close>

text \<open>What a page sees of a query.\<close>

record 'd query =
  qu_isLoading :: bool
  qu_error :: "failure option"
  qu_data :: "'d option"

abbreviation loaded :: "'d \<Rightarrow> 'd query" where
  "loaded d \<equiv> \<lparr>qu_isLoading = False, qu_error = None, qu_data = Some d\<rparr>"

text \<open>\<open>data ?? []\<close>, and the first of several errors.\<close>

definition or_list :: "'x list option \<Rightarrow> 'x list" where
  "or_list x = (case x of Some xs \<Rightarrow> xs | None \<Rightarrow> [])"

definition first_some :: "'x option list \<Rightarrow> 'x option" where
  "first_some xs = Option.bind (find (\<lambda>x. x \<noteq> None) xs) id"

definition Spinner :: "'a element" where
  "Spinner = Element ''LoaderCircle'' [(''aria-hidden'', ''true'')] [] []"

definition LoadingState :: "(string \<Rightarrow> string) \<Rightarrow> string \<Rightarrow> 'a element" where
  "LoadingState t label = node_of ''div'' [Spinner, node_of ''span'' [Words (t label)]]"

definition EmptyState :: "(string \<Rightarrow> string) \<Rightarrow> 'a element option \<Rightarrow> string \<Rightarrow> string \<Rightarrow> 'a element list \<Rightarrow> 'a element" where
  "EmptyState t icon title description action =
     node_of ''div'' ([node_of ''div'' [case icon of Some i \<Rightarrow> i | None \<Rightarrow> Icon ''Inbox''],
       node_of ''h3'' [Words (t title)], node_of ''p'' [Words (t description)]] @
       shown (action \<noteq> []) (node_of ''div'' action))"

definition ErrorState ::
  "(failure \<Rightarrow> string) \<Rightarrow> (string \<Rightarrow> string) \<Rightarrow> failure \<Rightarrow> 'a option \<Rightarrow> string \<Rightarrow> 'a element" where
  "ErrorState runtime_message t error onRetry title =
     Element ''div'' [(''role'', ''alert'')] []
       ([node_of ''div'' [Icon ''AlertTriangle''], node_of ''h3'' [Words (t title)],
         node_of ''p'' [Words (getApiErrorMessage runtime_message (Some error))]] @
        (case onRetry of
           Some e \<Rightarrow> [Button False [] [(''onClick'', e)] [Icon ''RefreshCw'', Words (t ''Try again'')]]
         | None \<Rightarrow> []))"

subsection \<open>Fields\<close>

text \<open>
  The controls hand their properties and children on to the element of the page; a tree is given to
  \<open>Field\<close> before its controls are rendered, so that \<open>render_controls\<close> comes after it.
\<close>

definition Input :: "(string \<times> string) list \<Rightarrow> (string \<times> 'a) list \<Rightarrow> 'a element list \<Rightarrow> 'a element" where
  "Input props handlers children = Element ''input'' props handlers children"

definition Textarea :: "(string \<times> string) list \<Rightarrow> (string \<times> 'a) list \<Rightarrow> 'a element list \<Rightarrow> 'a element" where
  "Textarea props handlers children = Element ''textarea'' props handlers children"

definition NativeSelect :: "(string \<times> string) list \<Rightarrow> (string \<times> 'a) list \<Rightarrow> 'a element list \<Rightarrow> 'a element" where
  "NativeSelect props handlers children =
     node_of ''div'' [Element ''select'' props handlers children, Element ''ChevronDown'' [(''aria-hidden'', ''true'')] [] []]"

fun render_controls :: "'a element \<Rightarrow> 'a element" where
  "render_controls (Element tag ps hs cs) =
     (let children = map render_controls cs in
      if tag = ''Input'' then Input ps hs children
      else if tag = ''Textarea'' then Textarea ps hs children
      else if tag = ''NativeSelect'' then NativeSelect ps hs children
      else Element tag ps hs children)"
| "render_controls x = x"

fun native_control :: "'a element \<Rightarrow> bool" where
  "native_control (Element tag ps hs cs) \<longleftrightarrow> tag \<in> {''input'', ''textarea'', ''select''}"
| "native_control _ \<longleftrightarrow> False"

definition Label :: "(string \<times> string) list \<Rightarrow> 'a element list \<Rightarrow> 'a element" where
  "Label props children = Element ''LabelPrimitive.Root'' props [] children"

text \<open>\<open>cloneElement(child, props)\<close>: the new properties replace those of the same name.\<close>

fun clone_element :: "'a element \<Rightarrow> (string \<times> string) list \<Rightarrow> 'a element" where
  "clone_element (Element tag ps hs cs) new = Element tag (fold (\<lambda>(k, v). AList.update k v) new ps) hs cs"
| "clone_element x new = x"

text \<open>A child that is text or a list is not an element and stays as it is.\<close>

definition control_id :: "string \<Rightarrow> 'a element \<Rightarrow> string" where
  "control_id generatedId child =
     (case get_prop ''id'' child of Some i \<Rightarrow> if i \<noteq> [] then i else generatedId | None \<Rightarrow> generatedId)"

definition describedBy :: "string \<Rightarrow> string \<Rightarrow> string \<Rightarrow> string" where
  "describedBy controlId hint error =
     join '' '' ((if hint \<noteq> [] then [controlId @ ''-hint''] else []) @ (if error \<noteq> [] then [controlId @ ''-error''] else []))"

definition accessibleProps :: "string \<Rightarrow> string \<Rightarrow> string \<Rightarrow> bool \<Rightarrow> (string \<times> string) list" where
  "accessibleProps controlId hint error isRequired =
     [(''id'', controlId)] @
     (if describedBy controlId hint error \<noteq> [] then [(''aria-describedby'', describedBy controlId hint error)] else []) @
     (if error \<noteq> [] then [(''aria-invalid'', ''true'')] else []) @
     (if isRequired then [(''aria-required'', ''true'')] else [])"

definition field_control :: "string \<Rightarrow> string \<Rightarrow> string \<Rightarrow> bool \<Rightarrow> 'a element \<Rightarrow> 'a element" where
  "field_control generatedId hint error isRequired child =
     clone_element child (accessibleProps (control_id generatedId child) hint error isRequired)"

definition Field :: "string \<Rightarrow> string \<Rightarrow> string \<Rightarrow> string \<Rightarrow> bool \<Rightarrow> 'a element \<Rightarrow> 'a element" where
  "Field generatedId label hint error isRequired child =
     (let controlId = control_id generatedId child in
      node_of ''div''
        ([node_of ''div''
            ([Label [(''htmlFor'', controlId)]
                ([Words label] @ shown isRequired (Element ''span'' [(''aria-hidden'', ''true'')] [] [Words ''*'']))] @
             shown (hint \<noteq> []) (Element ''span'' [(''id'', controlId @ ''-hint'')] [] [Words hint])),
          field_control generatedId hint error isRequired child] @
         shown (error \<noteq> []) (Element ''p'' [(''id'', controlId @ ''-error''), (''role'', ''alert'')] [] [Words error])))"

definition Switch :: "bool \<Rightarrow> (bool \<Rightarrow> 'a) \<Rightarrow> bool \<Rightarrow> string \<Rightarrow> 'a element" where
  "Switch checked onCheckedChange disabled ariaLabel =
     Element ''SwitchPrimitive.Root''
       ([(''checked'', if checked then ''true'' else ''false'')] @ disabled_prop disabled @ [(''aria-label'', ariaLabel)])
       [(''onCheckedChange'', onCheckedChange (\<not> checked))] [node_of ''SwitchPrimitive.Thumb'' []]"

definition CheckField :: "bool \<Rightarrow> (bool \<Rightarrow> 'a) \<Rightarrow> string \<Rightarrow> string \<Rightarrow> bool \<Rightarrow> 'a element" where
  "CheckField checked onChange label description disabled =
     node_of ''label''
       [node_of ''span'' ([node_of ''span'' [Words label]] @ shown (description \<noteq> []) (node_of ''span'' [Words description])),
        Switch checked onChange disabled label]"

subsection \<open>Dialogs and menus\<close>

definition DialogContent :: "(string \<Rightarrow> string) \<Rightarrow> string \<Rightarrow> string \<Rightarrow> 'a element list \<Rightarrow> 'a element" where
  "DialogContent t title description children =
     node_of ''DialogPrimitive.Portal''
       [node_of ''DialogPrimitive.Overlay'' [],
        node_of ''DialogPrimitive.Content''
          [node_of ''div'' ([node_of ''DialogPrimitive.Title'' [Words (t title)]] @
             shown (description \<noteq> []) (node_of ''DialogPrimitive.Description'' [Words (t description)])),
           Element ''DialogPrimitive.Close'' [(''aria-label'', t ''Close'')] [] [Icon ''X''],
           node_of ''div'' children]]"

definition ConfirmDialog ::
  "(string \<Rightarrow> string) \<Rightarrow> bool \<Rightarrow> (bool \<Rightarrow> 'a) \<Rightarrow> string \<Rightarrow> 'a element list \<Rightarrow> string \<Rightarrow> 'a \<Rightarrow> bool \<Rightarrow> 'a element" where
  "ConfirmDialog t is_open onOpenChange title description confirmLabel onConfirm busy =
     Element ''AlertDialogPrimitive.Root'' [(''open'', if is_open then ''true'' else ''false'')]
       [(''onOpenChange'', onOpenChange (\<not> is_open))]
       [node_of ''AlertDialogPrimitive.Portal''
          [node_of ''AlertDialogPrimitive.Overlay'' [],
           node_of ''AlertDialogPrimitive.Content''
             [node_of ''AlertDialogPrimitive.Title'' [Words (t title)],
              node_of ''AlertDialogPrimitive.Description'' [node_of ''div'' description],
              node_of ''div''
                [node_of ''AlertDialogPrimitive.Cancel'' [Button False (disabled_prop busy) [] [Words (t ''Cancel'')]],
                 node_of ''AlertDialogPrimitive.Action''
                   [Button False (disabled_prop busy) [(''onClick'', onConfirm)]
                      [Words (if busy then t (''Working'' @ ellipsis) else t confirmLabel)]]]]]]"

definition ActionMenu :: "string \<Rightarrow> 'a element list \<Rightarrow> 'a element" where
  "ActionMenu label children =
     node_of ''DropdownMenu.Root''
       [node_of ''DropdownMenu.Trigger'' [Button False [(''aria-label'', label)] [] [Icon ''MoreHorizontal'']],
        node_of ''DropdownMenu.Portal''
          [Element ''DropdownMenu.Content'' [(''align'', ''end''), (''sideOffset'', ''6'')] [] children]]"

definition ActionMenuItem :: "(string \<times> string) list \<Rightarrow> (string \<times> 'a) list \<Rightarrow> 'a element list \<Rightarrow> 'a element" where
  "ActionMenuItem props handlers children = Element ''DropdownMenu.Item'' props handlers children"

definition ActionMenuSeparator :: "'a element" where
  "ActionMenuSeparator = node_of ''DropdownMenu.Separator'' []"

definition NotFoundPage :: "'a element" where
  "NotFoundPage =
     Card [node_of ''span'' [Icon ''Compass''], node_of ''p'' [Words (''404'' @ dot_sep @ ''Unknown route'')],
       node_of ''h2'' [Words ''This path is not monitored.''],
       node_of ''p'' [Words ''The requested console page does not exist or was moved.''],
       Button True [] [] [Element ''Link'' [(''to'', ''/'')] [] [Icon ''ArrowLeft'', Words ''Return to dashboard'']]]"

text \<open>The list of notifications, each with its button; \<open>dismiss\<close> is the event of the button.\<close>

definition toast_icon :: "ToastTone \<Rightarrow> string" where
  "toast_icon tone = (case tone of Success \<Rightarrow> ''CheckCircle2'' | Error \<Rightarrow> ''CircleAlert'' | Info \<Rightarrow> ''Info'')"

definition toast_view :: "(string \<Rightarrow> string) \<Rightarrow> toasts \<Rightarrow> toast_event element" where
  "toast_view t s =
     Element ''div'' [(''aria-live'', ''polite'')] []
       (map (\<lambda>item.
          node_of ''div''
            [Icon (toast_icon (tc_tone (it_content item))),
             node_of ''div'' ([node_of ''p'' [Words (t (tc_title (it_content item)))]] @
               (case tc_description (it_content item) of
                  Some d \<Rightarrow> shown (d \<noteq> []) (node_of ''p'' [Words (t d)])
                | None \<Rightarrow> [])),
             Element ''button'' [(''type'', ''button''), (''aria-label'', t ''Dismiss notification'')]
               [(''onClick'', Dismiss (it_id item))] [Icon ''X'']]) (ts_items s))"

subsection \<open>Laws\<close>

lemmas widget_simps = shown_def Button_def disabled_prop_def Card_def CardHeader_def CardTitle_def CardContent_def Badge_def

lemma update_list_other: "k \<notin> fst ` set new \<Longrightarrow> map_of (fold (\<lambda>(k, v). AList.update k v) new ps) k = map_of ps k"
  by (induction new arbitrary: ps) (auto simp: update_conv')

lemma update_list_in:
  "distinct (map fst new) \<Longrightarrow> (k, v) \<in> set new \<Longrightarrow> map_of (fold (\<lambda>(k, v). AList.update k v) new ps) k = Some v"
proof (induction new arbitrary: ps)
  case (Cons x new)
  then show ?case by (cases x) (auto simp: update_list_other update_conv')
qed simp

lemma accessible_distinct: "distinct (map fst (accessibleProps controlId hint error isRequired))"
  by (simp add: accessibleProps_def)

lemma field_prop:
  assumes "child = Element tag ps hs cs"
  shows "get_prop k (field_control generatedId hint error isRequired child) =
    (case map_of (accessibleProps (control_id generatedId child) hint error isRequired) k of
       Some v \<Rightarrow> Some v | None \<Rightarrow> get_prop k child)"
  using assms update_list_in [OF accessible_distinct map_of_SomeD, of _ hint error isRequired k _ ps]
  by (auto simp: field_control_def update_list_other map_of_eq_None_iff split: option.split)

lemma describedBy_words:
  assumes "CHR '' '' \<notin> set i"
  shows "hint \<noteq> [] \<or> error \<noteq> [] \<Longrightarrow> split_char CHR '' '' (describedBy i hint error) =
    (if hint \<noteq> [] then [i @ ''-hint''] else []) @ (if error \<noteq> [] then [i @ ''-error''] else [])"
  unfolding describedBy_def by (rule split_char_join) (use assms in auto)

lemma describedBy_empty: "describedBy i hint error = [] \<longleftrightarrow> hint = [] \<and> error = []"
  by (auto simp: describedBy_def)

lemma gather_Element: "gather f (Element tag ps hs cs) = f (Element tag ps hs cs) @ concat (map (gather f) cs)"
proof -
  have "concat (map f (concat (map nodes cs))) = concat (map (gather f) cs)"
    by (induction cs) (simp_all add: gather_def)
  then show ?thesis by (simp add: gather_def)
qed

lemma gather_leaf [simp]: "gather f (Words s) = f (Words s)" "gather f (Icon i) = f (Icon i)"
  by (simp_all add: gather_def)

lemma prop_values_simps [simp]:
  "prop_values k (Element tag ps hs cs) = (case map_of ps k of Some v \<Rightarrow> [v] | None \<Rightarrow> [])"
  "prop_values k (Words s) = []" "prop_values k (Icon i) = []"
  by (simp_all add: prop_values_def)

lemma pressed_of_simps [simp]:
  "pressed_of (Element tag ps hs cs) = (if map_of ps ''aria-pressed'' = Some ''true'' then click_of (Element tag ps hs cs) else [])"
  "pressed_of (Words w) = []" "pressed_of (Icon i) = []"
  by (simp_all add: pressed_of_def)

lemma rendered_nodes: "x \<in> set (nodes y) \<Longrightarrow> set (nodes (render_controls x)) \<subseteq> set (nodes (render_controls y))"
proof (induction y rule: nodes.induct)
  case (1 tag ps hs cs)
  show ?case
  proof (cases "x = Element tag ps hs cs")
    case False
    then obtain c where "c \<in> set cs" "x \<in> set (nodes c)" using 1 by auto
    then have "set (nodes (render_controls x)) \<subseteq> set (nodes (render_controls c))" using 1 by blast
    then show ?thesis
      using \<open>c \<in> set cs\<close> by (auto simp: Let_def Input_def Textarea_def NativeSelect_def)
  qed simp
qed simp_all

lemma rendered_props: "k \<noteq> ''aria-hidden'' \<Longrightarrow> gather (prop_values k) (render_controls x) = gather (prop_values k) x"
proof (induction x rule: nodes.induct)
  case (1 tag ps hs cs)
  then have "map (gather (prop_values k) \<circ> render_controls) cs = map (gather (prop_values k)) cs" by simp
  with 1(2) show ?case
    by (simp add: gather_Element Let_def Input_def Textarea_def NativeSelect_def del: map_eq_conv)
qed simp_all

lemma concat_map_shown: "concat (map f (shown c x)) = (if c then f x else [])"
  by (simp add: shown_def)

lemmas view_simps = gather_Element concat_map_shown Button_def Card_def CardHeader_def CardTitle_def CardContent_def Badge_def
  MetricCard_def PageHeader_def SectionHeader_def EmptyState_def ErrorState_def LoadingState_def Spinner_def StatusDot_def
  ProviderBadge_def ResultStatusBadge_def link_to_def

lemmas offer_simps = shown_def Button_def Card_def CardHeader_def CardTitle_def CardContent_def Badge_def StatusDot_def
  PageHeader_def SectionHeader_def EmptyState_def ErrorState_def LoadingState_def Spinner_def ProviderBadge_def ResultStatusBadge_def link_to_def
  Switch_def ActionMenu_def ActionMenuItem_def ActionMenuSeparator_def disabled_prop_def

lemma offered_control: "list_all (\<lambda>c. offered c = []) cs \<Longrightarrow> offered (Field i label hint e r (Element tag ps [] cs)) = []"
  by (simp add: Field_def Label_def Let_def shown_def field_control_def list_all_iff)

lemma submit_control:
  "tag \<noteq> ''button'' \<Longrightarrow> list_all (\<lambda>c. gather submit_of c = []) cs \<Longrightarrow> gather submit_of (Field i label hint e r (Element tag ps hs cs)) = []"
  by (simp add: Field_def Label_def Let_def shown_def field_control_def gather_Element list_all_iff)

subsection \<open>Properties\<close>

text \<open>
  C40. A field is wired for assistive technology: the label names the control by the identifier the control
  carries, the control is described by exactly the hint and the error that are shown, both of which
  are in the tree under the identifiers it refers to, it is marked invalid exactly when there is an error,
  and its other properties stay. Hypotheses: the child is an element that brings no description and no
  invalid mark of its own, and its identifier has no blank.
\<close>

theorem field_accessible:
  fixes child :: "'a element"
  assumes "child = Element tag ps hs cs" "map_of ps ''aria-describedby'' = None" "map_of ps ''aria-invalid'' = None"
    and "CHR '' '' \<notin> set (control_id generatedId child)"
  shows "let c = field_control generatedId hint error isRequired child; f = Field generatedId label hint error isRequired child;
      described = (case get_prop ''aria-describedby'' c of Some d \<Rightarrow> split_char CHR '' '' d | None \<Rightarrow> []) in
    c \<in> set (nodes f) \<and>
    (\<exists>l \<in> set (nodes f). get_prop ''htmlFor'' l = get_prop ''id'' c \<and> get_prop ''id'' c = Some (control_id generatedId child)) \<and>
    described = (if hint \<noteq> [] then [control_id generatedId child @ ''-hint''] else []) @
      (if error \<noteq> [] then [control_id generatedId child @ ''-error''] else []) \<and>
    set described \<subseteq> set (ids f) \<and>
    (get_prop ''aria-invalid'' c = Some ''true'' \<longleftrightarrow> error \<noteq> []) \<and>
    (\<forall>k. k \<notin> {''id'', ''aria-describedby'', ''aria-invalid'', ''aria-required''} \<longrightarrow> get_prop k c = get_prop k child)"
proof -
  let ?id = "control_id generatedId child" and ?c = "field_control generatedId hint error isRequired child"
  let ?f = "Field generatedId label hint error isRequired child"
  note looked = field_prop [OF assms(1)]
  have child: "get_prop k child = map_of ps k" for k
    using assms(1) by simp
  have i: "get_prop ''id'' ?c = Some ?id" and inv: "get_prop ''aria-invalid'' ?c = Some ''true'' \<longleftrightarrow> error \<noteq> []"
    and d: "get_prop ''aria-describedby'' ?c = (if describedBy ?id hint error \<noteq> [] then Some (describedBy ?id hint error) else None)"
    using assms(2,3) by (simp_all add: looked child accessibleProps_def)
  have other: "get_prop k ?c = get_prop k child" if "k \<notin> {''id'', ''aria-describedby'', ''aria-invalid'', ''aria-required''}" for k
    using that by (auto simp: looked accessibleProps_def)
  have parts: "?c \<in> set (nodes ?f)" "\<exists>l \<in> set (nodes ?f). get_prop ''htmlFor'' l = Some ?id"
    by (cases ?c; auto simp: Field_def Label_def Let_def) (auto simp: Field_def Label_def Let_def)
  have texts: "hint \<noteq> [] \<Longrightarrow> ?id @ ''-hint'' \<in> set (ids ?f)" "error \<noteq> [] \<Longrightarrow> ?id @ ''-error'' \<in> set (ids ?f)"
    by (simp_all add: Field_def Label_def Let_def gather_Element concat_map_shown)
  show ?thesis
    unfolding Let_def i d inv using describedBy_words [OF assms(4), of hint error] describedBy_empty [of ?id hint error] parts texts other
    by (cases "hint = []"; cases "error = []") auto
qed

theorem field_accessible_witness:
  "(case get_prop ''aria-describedby'' (field_control '':r1:'' ''5-3600 seconds'' ''Too small'' True
      (Element ''Input'' [(''type'', ''number'')] ([] :: (string \<times> unit) list) [])) of
      Some d \<Rightarrow> split_char CHR '' '' d | None \<Rightarrow> []) = ['':r1:-hint'', '':r1:-error'']"
proof -
  let ?child = "Element ''Input'' [(''type'', ''number'')] ([] :: (string \<times> unit) list) []"
  have "control_id '':r1:'' ?child = '':r1:''" by (simp add: control_id_def)
  then show ?thesis
    using field_accessible [of ?child "''Input''" "[(''type'', ''number'')]" "[]" "[]" "'':r1:''" "''5-3600 seconds''" "''Too small''" True]
    by (simp add: Let_def)
qed

text \<open>A dialog that is busy cannot be confirmed again, nor cancelled by its button.\<close>

lemma confirm_clicks:
  "clicks (ConfirmDialog t is_open onOpenChange title description confirmLabel onConfirm busy) =
     concat (map clicks description) @ (if busy then [] else [onConfirm])"
  by (simp add: ConfirmDialog_def gather_Element widget_simps)

text \<open>Every notification shown can be dismissed, and by its own button only.\<close>

lemma toast_clicks: "clicks (toast_view t s) = map (\<lambda>item. Dismiss (it_id item)) (ts_items s)"
proof -
  have one: "concat (map (\<lambda>x. [f x]) xs) = map f xs" for f :: "ToastItem \<Rightarrow> toast_event" and xs
    by (induction xs) auto
  have none: "concat (map clicks (case d of Some d \<Rightarrow> shown (d \<noteq> []) (node_of ''p'' [Words (t d)]) | None \<Rightarrow> [])) =
      ([] :: toast_event list)" for d
    by (cases d) (simp_all add: gather_Element concat_map_shown)
  show ?thesis
    by (simp add: toast_view_def gather_Element comp_def none one del: concat_eq_Nil_conv)
qed

end
