(* ===== verification/Shell.thy ===== *)
theory Shell
  imports I18n EventStream Theme
begin

text \<open>
  The frame of the console: the routes of \<open>App.tsx\<close>, and the navigation, the page headings and the
  connection badge of \<open>components/layout/AppShell.tsx\<close>.
\<close>

datatype app_page =
    Dashboard_Page | Tasks_Page | Task_Editor_Page | Results_Page | Result_Detail_Page | Statistics_Page
  | Comparison_Page | Network_Page | Settings_Page | System_Page | Redirect string | Not_Found_Page

definition app_routes :: "(string \<times> app_page) list" where
  "app_routes =
     [(''/'', Dashboard_Page), (''/tasks'', Tasks_Page), (''/tasks/new'', Task_Editor_Page),
      (''/tasks/:taskId/edit'', Task_Editor_Page), (''/results'', Results_Page),
      (''/results/:resultId'', Result_Detail_Page), (''/statistics'', Statistics_Page),
      (''/comparison'', Comparison_Page), (''/network'', Network_Page), (''/settings'', Settings_Page),
      (''/system'', System_Page), (''/dashboard'', Redirect ''/''), (''*'', Not_Found_Page)]"

record nav_item =
  nv_href :: string
  nv_label :: string
  nv_subtitle :: string

definition navigation :: "nav_item list" where
  "navigation =
     [\<lparr>nv_href = ''/'', nv_label = ''Dashboard'', nv_subtitle = ''Live overview''\<rparr>,
      \<lparr>nv_href = ''/tasks'', nv_label = ''Tasks'', nv_subtitle = ''Schedules & targets''\<rparr>,
      \<lparr>nv_href = ''/results'', nv_label = ''Results'', nv_subtitle = ''Test history''\<rparr>,
      \<lparr>nv_href = ''/statistics'', nv_label = ''Statistics'', nv_subtitle = ''Trends & percentiles''\<rparr>,
      \<lparr>nv_href = ''/comparison'', nv_label = ''WAN comparison'', nv_subtitle = ''Path performance''\<rparr>,
      \<lparr>nv_href = ''/network'', nv_label = ''Network & routes'', nv_subtitle = ''Bindings & validation''\<rparr>,
      \<lparr>nv_href = ''/settings'', nv_label = ''Settings'', nv_subtitle = ''Runtime defaults''\<rparr>,
      \<lparr>nv_href = ''/system'', nv_label = ''System information'', nv_subtitle = ''Health & versions''\<rparr>]"

record page_meta =
  pm_title :: string
  pm_eyebrow :: string

definition pageMeta :: "(string \<times> page_meta) list" where
  "pageMeta =
     [(''/'', \<lparr>pm_title = ''Operations overview'', pm_eyebrow = ''Multi-WAN observability''\<rparr>),
      (''/tasks'', \<lparr>pm_title = ''Speed-test tasks'', pm_eyebrow = ''Independent schedules''\<rparr>),
      (''/tasks/new'', \<lparr>pm_title = ''Create task'', pm_eyebrow = ''Measurement configuration''\<rparr>),
      (''/results'', \<lparr>pm_title = ''Measurement results'', pm_eyebrow = ''History & diagnostics''\<rparr>),
      (''/statistics'', \<lparr>pm_title = ''Performance statistics'', pm_eyebrow = ''Aggregates & trends''\<rparr>),
      (''/comparison'', \<lparr>pm_title = ''WAN comparison'', pm_eyebrow = ''Side-by-side analysis''\<rparr>),
      (''/network'', \<lparr>pm_title = ''Network & routes'', pm_eyebrow = ''Read-only path validation''\<rparr>),
      (''/settings'', \<lparr>pm_title = ''Application settings'', pm_eyebrow = ''Defaults & retention''\<rparr>),
      (''/system'', \<lparr>pm_title = ''System information'', pm_eyebrow = ''Runtime health''\<rparr>)]"

definition meta :: "string \<Rightarrow> page_meta" where
  "meta pathname =
     (if prefix ''/tasks/'' pathname
      then \<lparr>pm_title = (if suffix ''/new'' pathname then ''Create task'' else ''Edit task''),
            pm_eyebrow = ''Measurement configuration''\<rparr>
      else if prefix ''/results/'' pathname
      then \<lparr>pm_title = ''Result diagnostics'', pm_eyebrow = ''Measurement detail''\<rparr>
      else case map_of pageMeta pathname of
        Some m \<Rightarrow> m
      | None \<Rightarrow> \<lparr>pm_title = ''MultiSpeed'', pm_eyebrow = ''Infrastructure observability''\<rparr>)"

datatype badge_tone = Green | Red | Amber

fun connection_badge :: "StreamState \<Rightarrow> badge_tone \<times> string" where
  "connection_badge Connected = (Green, ''Live'')"
| "connection_badge Unavailable = (Red, ''Offline'')"
| "connection_badge _ = (Amber, ''Reconnecting'')"

definition theme_options :: "(theme_mode \<times> string) list" where
  "theme_options = [(Light, ''Light theme''), (Dark, ''Dark theme''), (System, ''System theme'')]"

subsection \<open>Properties\<close>

definition translated :: "string \<Rightarrow> bool" where
  "translated s \<longleftrightarrow> map_of german s \<noteq> None"

lemma nav_translated: "list_all (\<lambda>n. translated (nv_label n) \<and> translated (nv_subtitle n)) navigation"
  by code_simp

lemma meta_translated:
  "list_all (\<lambda>(_, m). translated (pm_title m) \<and> translated (pm_eyebrow m)) pageMeta"
  by code_simp

lemma single_translated:
  "list_all translated [''Create task'', ''Edit task'', ''Measurement configuration'', ''Result diagnostics'',
     ''Infrastructure observability'', ''Live'', ''Offline'', ''Reconnecting'', ''Light theme'', ''Dark theme'',
     ''System theme'']"
  "\<not> translated ''Measurement detail''" "\<not> translated ''MultiSpeed''"
  by code_simp+

lemma map_of_all: "list_all P xs \<Longrightarrow> map_of xs k = Some v \<Longrightarrow> P (k, v)"
  by (auto simp: list_all_iff dest: map_of_SomeD)

subsection \<open>Links\<close>

text \<open>
  An address leads to a page when its path has the segments of one of the routes; a segment that starts
  with a colon stands for any segment that is not empty. The query is not part of the path.
\<close>

definition segment_matches :: "string \<Rightarrow> string \<Rightarrow> bool" where
  "segment_matches pattern segment = (if prefix '':'' pattern then segment \<noteq> [] else pattern = segment)"

definition leads_to_page :: "string \<Rightarrow> bool" where
  "leads_to_page address =
     list_ex (\<lambda>(pattern, _). pattern \<noteq> ''*'' \<and>
        list_all2 segment_matches (split_char CHR ''/'' pattern)
          (split_char CHR ''/'' (takeWhile (\<lambda>c. c \<noteq> CHR ''?'' \<and> c \<noteq> CHR ''#'') address))) app_routes"

definition segment_ok :: "string \<Rightarrow> bool" where
  "segment_ok i \<longleftrightarrow> i \<noteq> [] \<and> CHR ''/'' \<notin> set i \<and> CHR ''?'' \<notin> set i \<and> CHR ''#'' \<notin> set i"

lemma split_address:
  assumes "list_all (\<lambda>w. CHR ''/'' \<notin> set w \<and> CHR ''?'' \<notin> set w \<and> CHR ''#'' \<notin> set w) ws" "ws \<noteq> []"
  shows "split_char CHR ''/'' (takeWhile (\<lambda>c. c \<noteq> CHR ''?'' \<and> c \<noteq> CHR ''#'') (join ''/'' ws)) = ws"
proof -
  have "set (join sep ws) \<subseteq> set sep \<union> \<Union> (set ` set ws)" for sep :: string and ws
    by (induction sep ws rule: join.induct) auto
  then have whole: "takeWhile (\<lambda>c. c \<noteq> CHR ''?'' \<and> c \<noteq> CHR ''#'') (join ''/'' ws) = join ''/'' ws"
    using assms(1) by (fastforce simp: takeWhile_eq_all_conv list_all_iff)
  show ?thesis
    unfolding whole using split_char_join [OF assms(2), of "CHR ''/''"] assms(1) by (simp add: list_all_iff)
qed

lemma leads_fixed:
  "leads_to_page ''/tasks/new''" "leads_to_page ''/network''" "leads_to_page ''/results?status=running''"
  by code_simp+

lemma leads_result: "segment_ok i \<Longrightarrow> leads_to_page (''/results/'' @ i)"
proof -
  assume i: "segment_ok i"
  have "split_char CHR ''/'' (takeWhile (\<lambda>c. c \<noteq> CHR ''?'' \<and> c \<noteq> CHR ''#'') (''/results/'' @ i)) = [[], ''results'', i]"
    using split_address [of "[[], ''results'', i]"] i by (simp add: segment_ok_def)
  moreover have "split_char CHR ''/'' ''/results/:resultId'' = [[], ''results'', '':resultId'']" by code_simp
  moreover have "(''/results/:resultId'', Result_Detail_Page) \<in> set app_routes" by (simp add: app_routes_def)
  ultimately show ?thesis
    unfolding leads_to_page_def list_ex_iff using i
    by (intro bexI [of _ "(''/results/:resultId'', Result_Detail_Page)"]) (simp_all add: segment_matches_def segment_ok_def)
qed

lemma leads_edit: "segment_ok i \<Longrightarrow> leads_to_page (''/tasks/'' @ i @ ''/edit'')"
proof -
  assume i: "segment_ok i"
  have "split_char CHR ''/'' (takeWhile (\<lambda>c. c \<noteq> CHR ''?'' \<and> c \<noteq> CHR ''#'') (''/tasks/'' @ i @ ''/edit'')) = [[], ''tasks'', i, ''edit'']"
    using split_address [of "[[], ''tasks'', i, ''edit'']"] i by (simp add: segment_ok_def)
  moreover have "split_char CHR ''/'' ''/tasks/:taskId/edit'' = [[], ''tasks'', '':taskId'', ''edit'']" by code_simp
  moreover have "(''/tasks/:taskId/edit'', Task_Editor_Page) \<in> set app_routes" by (simp add: app_routes_def)
  ultimately show ?thesis
    unfolding leads_to_page_def list_ex_iff using i
    by (intro bexI [of _ "(''/tasks/:taskId/edit'', Task_Editor_Page)"]) (simp_all add: segment_matches_def segment_ok_def)
qed

subsection \<open>Headings\<close>

text \<open>
  The frame is fully translated and leads nowhere else: every navigation target is a route with a
  page of its own and with headings, every label of the navigation has a German text, and so has every
  heading of every address, with two exceptions: the product name, and the line above the heading of a
  result, which has none.
\<close>

theorem shell_translated:
  "list_all (\<lambda>n. (nv_href n) \<in> fst ` set app_routes \<and> map_of pageMeta (nv_href n) \<noteq> None \<and>
      translated (nv_label n) \<and> translated (nv_subtitle n)) navigation \<and>
   (translated (pm_title (meta pathname)) \<longleftrightarrow> pm_title (meta pathname) \<noteq> ''MultiSpeed'') \<and>
   (translated (pm_eyebrow (meta pathname)) \<longleftrightarrow> \<not> prefix ''/results/'' pathname)"
proof (intro conjI)
  have "list_all (\<lambda>n. (nv_href n) \<in> fst ` set app_routes \<and> map_of pageMeta (nv_href n) \<noteq> None) navigation"
    by (simp add: navigation_def app_routes_def pageMeta_def)
  with nav_translated show "list_all (\<lambda>n. (nv_href n) \<in> fst ` set app_routes \<and> map_of pageMeta (nv_href n) \<noteq> None \<and>
      translated (nv_label n) \<and> translated (nv_subtitle n)) navigation"
    by (simp add: list_all_iff)
  have m: "translated (pm_title m) \<and> translated (pm_eyebrow m) \<and> pm_title m \<noteq> ''MultiSpeed''"
    if "map_of pageMeta pathname = Some m" for m
    using map_of_all [OF meta_translated that] single_translated(3) by auto
  show "translated (pm_title (meta pathname)) \<longleftrightarrow> pm_title (meta pathname) \<noteq> ''MultiSpeed''"
    using m single_translated by (cases "map_of pageMeta pathname") (auto simp: meta_def)
  have "\<not> prefix ''/results/'' p" if "prefix ''/tasks/'' p" for p
    using that by (auto simp: prefix_def)
  then show "translated (pm_eyebrow (meta pathname)) \<longleftrightarrow> \<not> prefix ''/results/'' pathname"
    using m single_translated by (cases "map_of pageMeta pathname") (auto simp: meta_def)
qed

end
