(* ===== verification/Inspect.thy ===== *)
theory Inspect
  imports EditorSteps Widgets Shell
begin

text \<open>
  The two pages that only show what the daemon reports: system information (\<open>pages/SystemPage.tsx\<close>) and the
  details of a result (\<open>pages/ResultDetailPage.tsx\<close>), as the element trees they render for the
  answers of their queries. \<open>dateTime\<close> is \<open>formatDateTime\<close> with seconds in the zone of the settings,
  \<open>bitrate\<close> is \<open>formatBitrate\<close> in their units, \<open>parse_url\<close> is the platform's URL parser.
\<close>

subsection \<open>Lists of facts\<close>

definition fact_rows :: "(string \<times> string) list \<Rightarrow> 'a element" where
  "fact_rows items = node_of ''dl'' (map (\<lambda>(label, value).
     node_of ''div'' [node_of ''dt'' [Words label], node_of ''dd'' [Words (or_else value em_dash)]]) items)"

definition InfoList :: "(string \<times> string) list \<Rightarrow> 'a element" where
  "InfoList items = fact_rows items"

definition DetailList :: "(string \<times> string) list \<Rightarrow> 'a element" where
  "DetailList items = fact_rows items"

definition titled_card :: "string \<Rightarrow> string \<Rightarrow> 'a element list \<Rightarrow> 'a element" where
  "titled_card icon title content = Card [CardHeader [CardTitle [Icon icon, Words title]], CardContent content]"

subsection \<open>System information\<close>

record runtime_interface =
  ri_name :: string
  ri_operational :: bool
  ri_macAddress :: string
  ri_mtu :: js_number
  ri_addresses :: "string list"
  ri_loopback :: bool
  ri_virtual :: bool

record runtime_info =
  si_version :: string
  si_gitCommit :: string
  si_buildDate :: string
  si_buildTime :: string
  si_goVersion :: string
  si_operatingSystem :: string
  si_architecture :: string
  si_databasePath :: string
  si_databaseSizeBytes :: js_number
  si_schemaVersion :: "json option"
  si_uptimeSeconds :: js_number
  si_taskCount :: "js_number option"
  si_resultCount :: "js_number option"
  si_runningTaskCount :: "js_number option"
  si_providers :: "provider list"
  si_interfaces :: "runtime_interface list"

record health_query =
  hq_status :: "string option"
  hq_isError :: bool

datatype system_event = System_Retry | System_Refresh

text \<open>\<open>String(value ?? other)\<close> for a text or a number.\<close>

definition schema_text :: "json option \<Rightarrow> string \<Rightarrow> string" where
  "schema_text v other = (case v of None \<Rightarrow> other | Some JNull \<Rightarrow> other | Some j \<Rightarrow> formatUnknown j)"

definition count_text :: "js_number option \<Rightarrow> string" where
  "count_text v = (case v of Some n \<Rightarrow> js_number_string n | None \<Rightarrow> ''0'')"

definition RuntimeFact :: "string \<Rightarrow> string \<Rightarrow> string \<Rightarrow> 'a element" where
  "RuntimeFact icon label value =
     node_of ''div'' [node_of ''span'' [Icon icon], node_of ''div'' [node_of ''p'' [Words label], node_of ''p'' [Words value]]]"

definition health_banner :: "health_query \<Rightarrow> 'a element" where
  "health_banner h =
     node_of ''div''
       [node_of ''span'' [Icon ''ShieldCheck''],
        node_of ''div''
          [node_of ''p'' [Words (if hq_isError h then ''Health check unavailable''
             else ''Application '' @ (case hq_status h of Some st \<Rightarrow> st | None \<Rightarrow> ''healthy''))],
           node_of ''p'' [Words ''Sensitive environment variables and arbitrary filesystem content are never exposed here.'']],
        Badge [StatusDot, Words (if hq_isError h then ''Degraded'' else ''Healthy'')]]"

definition system_metrics :: "runtime_info \<Rightarrow> 'a element list" where
  "system_metrics info =
     [MetricCard ''Uptime'' (formatUptime (si_uptimeSeconds info)) (''MultiSpeed '' @ or_else (si_version info) ''development'') ''Clock3'' None,
      MetricCard ''Database'' (formatBytes (Some (si_databaseSizeBytes info)))
        (''Schema '' @ schema_text (si_schemaVersion info) ''unknown'') ''Database'' None,
      MetricCard ''Persisted tasks'' (count_text (si_taskCount info)) (count_text (si_runningTaskCount info) @ '' currently active'')
        ''Activity'' None,
      MetricCard ''Results'' (count_text (si_resultCount info))
        (nat_string (length (filter ri_operational (si_interfaces info))) @ '' interfaces up'') ''HardDrive'' None]"

definition build_facts :: "runtime_info \<Rightarrow> (string \<times> string) list" where
  "build_facts info =
     [(''MultiSpeed version'', si_version info), (''Git commit'', si_gitCommit info),
      (''Build date'', or_else (si_buildDate info) (si_buildTime info)), (''Go version'', si_goVersion info),
      (''Operating system'', si_operatingSystem info), (''Architecture'', si_architecture info)]"

definition persistence_facts :: "runtime_info \<Rightarrow> (string \<times> string) list" where
  "persistence_facts info =
     [(''Database path'', si_databasePath info), (''Database size'', formatBytes (Some (si_databaseSizeBytes info))),
      (''Schema version'', schema_text (si_schemaVersion info) em_dash), (''Task count'', count_text (si_taskCount info)),
      (''Result count'', count_text (si_resultCount info)), (''Running tasks'', count_text (si_runningTaskCount info))]"

definition provider_card :: "provider \<Rightarrow> 'a element" where
  "provider_card p =
     Card ([node_of ''div'' [node_of ''span'' [Icon (if pr_available p then ''CheckCircle2'' else ''XCircle'')],
         Badge [Words (if pr_available p then ''Available'' else ''Unavailable'')]],
       node_of ''h3'' [Words (pr_displayName p)], node_of ''p'' [Words (or_else (pr_version p) ''Version unavailable'')]] @
       shown (pr_message p \<noteq> []) (node_of ''p'' [Words (pr_message p)]))"

definition runtime_row :: "runtime_interface \<Rightarrow> 'a element" where
  "runtime_row item =
     node_of ''tr''
       [node_of ''td'' [node_of ''span'' [Icon ''Network'', Words (ri_name item)]],
        node_of ''td'' [Badge [StatusDot, Words (if ri_operational item then ''Up'' else ''Down'')]],
        node_of ''td'' [Words (or_else (ri_macAddress item) em_dash)], node_of ''td'' [Words (js_number_string (ri_mtu item))],
        node_of ''td'' [Words (or_else (join dot_sep (ri_addresses item)) em_dash)],
        node_of ''td'' [Words (if ri_loopback item then ''Loopback'' else if ri_virtual item then ''Virtual'' else ''Physical'')]]"

definition heading_cells :: "string list \<Rightarrow> 'a element" where
  "heading_cells titles = node_of ''thead'' [node_of ''tr'' (map (\<lambda>w. node_of ''th'' [Words w]) titles)]"

definition system_content :: "(string \<Rightarrow> string) \<Rightarrow> bool \<Rightarrow> health_query \<Rightarrow> runtime_info \<Rightarrow> system_event element list" where
  "system_content t fetching h info =
     [PageHeader t ''Runtime facts, without secrets.''
        ''Build identity, database health, provider availability, interface state, and application uptime.''
        [Button False (disabled_prop fetching) [(''onClick'', System_Refresh)]
           [if fetching then Spinner else Icon ''RefreshCw'', Words ''Refresh'']],
      health_banner h, node_of ''div'' (system_metrics info),
      node_of ''div''
        [titled_card ''Box'' ''Build & runtime'' [InfoList (build_facts info)],
         titled_card ''Database'' ''Persistence'' [InfoList (persistence_facts info)]],
      node_of ''section''
        [SectionHeader t ''Provider runtime'' ''Executables and native adapter availability'' [],
         node_of ''div'' (map provider_card (si_providers info) @
           shown (si_providers info = []) (Card [Words ''Provider runtime details were not included by this build.'']))],
      node_of ''section''
        [SectionHeader t ''Interface snapshot''
           (nat_string (length (si_interfaces info)) @ '' detected in the active Linux network namespace'') [],
         Card [node_of ''div'' [node_of ''table''
           [heading_cells [''Interface'', ''State'', ''MAC address'', ''MTU'', ''Addresses'', ''Kind''],
            node_of ''tbody'' (map runtime_row (si_interfaces info))]]]],
      titled_card ''Code2'' ''Runtime identifiers''
        [node_of ''div''
           [RuntimeFact ''Cpu'' ''Platform'' (or_else (si_operatingSystem info) ''unknown'' @ ''/'' @ or_else (si_architecture info) ''unknown''),
            RuntimeFact ''Server'' ''Go runtime'' (or_else (si_goVersion info) ''Unknown''),
            RuntimeFact ''Database'' ''Schema'' (schema_text (si_schemaVersion info) ''Unknown'')]]]"

definition SystemPage ::
  "(failure \<Rightarrow> string) \<Rightarrow> (string \<Rightarrow> string) \<Rightarrow> runtime_info query \<Rightarrow> bool \<Rightarrow> health_query \<Rightarrow> system_event element list" where
  "SystemPage runtime_message t q fetching h =
     (if qu_isLoading q then [LoadingState t (''Inspecting runtime health and versions'' @ ellipsis)]
      else case (qu_error q, qu_data q) of
        (None, Some info) \<Rightarrow> system_content t fetching h info
      | (e, _) \<Rightarrow> [ErrorState runtime_message t
          (case e of Some err \<Rightarrow> err | None \<Rightarrow> Thrown ''System information is unavailable.'') (Some System_Retry) ''Unable to load data''])"

subsection \<open>Result details\<close>

record result_detail =
  rd_id :: string
  rd_taskId :: string
  rd_provider :: provider_id
  rd_status :: result_status
  rd_trigger :: string
  rd_scheduledAt :: "string option"
  rd_startedAt :: "string option"
  rd_finishedAt :: "string option"
  rd_downloadBitsPerSecond :: "js_number option"
  rd_downloadBytes :: "js_number option"
  rd_uploadBitsPerSecond :: "js_number option"
  rd_uploadBytes :: "js_number option"
  rd_latencyMilliseconds :: "js_number option"
  rd_jitterMilliseconds :: "js_number option"
  rd_packetLossPercent :: "js_number option"
  rd_executionDurationMs :: "js_number option"
  rd_sanitizedError :: string
  rd_tlsVerificationDisabled :: bool
  rd_selectedInterface :: string
  rd_selectedSourceIp :: string
  rd_detectedPublicIp :: string
  rd_routeProfileId :: "string option"
  rd_cloudflareColo :: string
  rd_serverId :: string
  rd_serverName :: string
  rd_serverHost :: string
  rd_serverSponsor :: string
  rd_serverLocation :: string
  rd_serverCountry :: string
  rd_providerVersion :: string
  rd_providerResultUrl :: "string option"
  rd_processExitCode :: "js_number option"
  rd_applicationVersion :: string
  rd_rawProviderResponse :: string
  rd_routeValidationSnapshot :: "(string \<times> json) list option"

datatype detail_click = Detail detail_event | Detail_Copy string string | Detail_Retry

definition detail_metrics :: "(js_number option \<Rightarrow> string) \<Rightarrow> result_detail \<Rightarrow> 'a element list" where
  "detail_metrics bitrate r =
     [MetricCard ''Download'' (bitrate (rd_downloadBitsPerSecond r)) (formatBytes (rd_downloadBytes r)) ''ArrowDown'' None,
      MetricCard ''Upload'' (bitrate (rd_uploadBitsPerSecond r)) (formatBytes (rd_uploadBytes r)) ''ArrowUp'' None,
      MetricCard ''Latency'' (formatMilliseconds (rd_latencyMilliseconds r))
        (''Jitter '' @ formatMilliseconds (rd_jitterMilliseconds r)) ''Gauge'' None,
      MetricCard ''Packet loss'' (formatPercent (rd_packetLossPercent r))
        (''Duration '' @ formatMilliseconds (rd_executionDurationMs r)) ''RadioTower'' None]"

definition path_facts :: "result_detail \<Rightarrow> (string \<times> string) list" where
  "path_facts r =
     [(''Selected interface'', rd_selectedInterface r), (''Selected source IP'', rd_selectedSourceIp r),
      (''Detected public IP'', rd_detectedPublicIp r),
      (''IP route profile'', case rd_routeProfileId r of Some i \<Rightarrow> i | None \<Rightarrow> ''None''),
      (''Cloudflare colo'', or_else (rd_cloudflareColo r) ''Not applicable'')]"

definition target_facts :: "result_detail \<Rightarrow> (string \<times> string) list" where
  "target_facts r =
     [(''Server ID'', rd_serverId r), (''Server name'', rd_serverName r), (''Server host'', rd_serverHost r),
      (''Sponsor'', rd_serverSponsor r), (''Location'', location_text (rd_serverLocation r) (rd_serverCountry r)),
      (''Provider version'', rd_providerVersion r)]"

definition route_facts :: "(string \<times> json) list \<Rightarrow> (string \<times> string) list" where
  "route_facts snapshot = map (\<lambda>(key, value). (humanize key, formatUnknown value)) snapshot"

definition execution_facts :: "(string option \<Rightarrow> string) \<Rightarrow> result_detail \<Rightarrow> (string \<times> string) list" where
  "execution_facts dateTime r =
     [(''Scheduled'', dateTime (rd_scheduledAt r)), (''Started'', dateTime (rd_startedAt r)), (''Finished'', dateTime (rd_finishedAt r)),
      (''Duration'', formatMilliseconds (rd_executionDurationMs r)),
      (''Process exit code'', case rd_processExitCode r of None \<Rightarrow> ''Not applicable'' | Some n \<Rightarrow> js_number_string n),
      (''TLS verification'', if rd_tlsVerificationDisabled r then ''Disabled (unsafe)'' else ''Enabled''),
      (''Application version'', rd_applicationVersion r)]"

definition note_card :: "string \<Rightarrow> string \<Rightarrow> 'a element" where
  "note_card title message = Card [node_of ''p'' [Words title], node_of ''p'' [Words message]]"

definition detail_badges :: "(string \<Rightarrow> (string \<times> string) option) \<Rightarrow> result_detail \<Rightarrow> task option \<Rightarrow> 'a element" where
  "detail_badges parse_url r x =
     node_of ''div''
       ([ResultStatusBadge (rd_status r), ProviderBadge (rd_provider r)] @
        (case x of
           Some y \<Rightarrow> [Button True [] [] [link_to (''/tasks/'' @ t_id y @ ''/edit'') [Words ''Open task'', Icon ''ExternalLink'']]]
         | None \<Rightarrow> []) @
        (case safeExternalHttpUrl parse_url (rd_providerResultUrl r) of
           Some href \<Rightarrow> shown (href \<noteq> []) (Button True [] []
             [Element ''a'' [(''href'', href), (''target'', ''_blank''), (''rel'', ''noreferrer'')] []
                [Words ''Provider result'', Icon ''ExternalLink'']])
         | None \<Rightarrow> []))"

definition detail_cards :: "(string option \<Rightarrow> string) \<Rightarrow> result_detail \<Rightarrow> 'a element" where
  "detail_cards dateTime r =
     (let route = (case rd_routeValidationSnapshot r of Some kvs \<Rightarrow> kvs | None \<Rightarrow> []) in
      node_of ''div''
        [titled_card ''Network'' ''Network path'' [DetailList (path_facts r)],
         titled_card ''RadioTower'' ''Provider target'' [DetailList (target_facts r)],
         titled_card ''Route'' ''Route-validation snapshot''
           [if route \<noteq> [] then DetailList (route_facts route)
            else node_of ''p'' [Words ''No persisted route-validation snapshot was returned for this result.'']],
         titled_card ''Clock3'' ''Execution metadata'' [DetailList (execution_facts dateTime r)]])"

definition raw_card :: "result_detail \<Rightarrow> detail_click element" where
  "raw_card r =
     Card
       [CardHeader
          [node_of ''div'' [CardTitle [Words ''Sanitized provider response''],
             node_of ''p'' [Words ''Size-limited diagnostic payload stored with the result'']],
           Button False [] [(''onClick'', Detail_Copy (or_else (rd_rawProviderResponse r) ''{}'') ''Raw provider response'')]
             [Icon ''Clipboard'', Words ''Copy'']],
        CardContent [node_of ''pre'' [Words (prettyJson (or_else (rd_rawProviderResponse r) ''{}''))]]]"

definition detail_dialog :: "(string \<Rightarrow> string) \<Rightarrow> detail_page \<Rightarrow> detail_click element" where
  "detail_dialog t s =
     ConfirmDialog t (dp_confirmDelete s) (\<lambda>b. Detail (Detail_Delete_Dialog b)) ''Delete this result?''
       [Words ''The measurement, route snapshot, and sanitized provider diagnostics will be permanently removed. The task remains unchanged.'']
       ''Delete result'' (Detail Detail_Delete_Confirmed) (dp_deleting s)"

definition detail_content ::
  "(string \<Rightarrow> string) \<Rightarrow> (js_number option \<Rightarrow> string) \<Rightarrow> (string option \<Rightarrow> string) \<Rightarrow> (string \<Rightarrow> (string \<times> string) option) \<Rightarrow>
   result_detail \<Rightarrow> task option \<Rightarrow> detail_click element list" where
  "detail_content t bitrate dateTime parse_url r x =
     [PageHeader t (case x of Some y \<Rightarrow> ti_name y | None \<Rightarrow> ''Measurement diagnostics'')
        (dateTime (rd_startedAt r) @ dot_sep @ rd_trigger r @ '' execution'' @ dot_sep @ ''result '' @ rd_id r)
        [Button True [] [] [link_to ''/results'' [Icon ''ArrowLeft'', Words ''Results'']],
         Button False [] [(''onClick'', Detail (Detail_Delete_Dialog True))] [Icon ''Trash2'', Words ''Delete'']],
      detail_badges parse_url r x, node_of ''div'' (detail_metrics bitrate r)] @
     shown (rd_sanitizedError r \<noteq> []) (note_card ''Failure explanation'' (rd_sanitizedError r)) @
     shown (rd_tlsVerificationDisabled r) (note_card ''TLS verification was disabled''
       ''This measurement trusted an unverified LibreSpeed endpoint certificate. Treat its throughput, latency, and public-IP metadata as security-sensitive diagnostics.'') @
     [detail_cards dateTime r, raw_card r]"

definition ResultDetailPage ::
  "(failure \<Rightarrow> string) \<Rightarrow> (string \<Rightarrow> string) \<Rightarrow> (js_number option \<Rightarrow> string) \<Rightarrow> (string option \<Rightarrow> string) \<Rightarrow>
   (string \<Rightarrow> (string \<times> string) option) \<Rightarrow> result_detail query \<Rightarrow> task list query \<Rightarrow> detail_page \<Rightarrow> detail_click element list" where
  "ResultDetailPage runtime_message t bitrate dateTime parse_url q tasks s =
     (if qu_isLoading q \<or> qu_isLoading tasks then [LoadingState t (''Loading full result diagnostics'' @ ellipsis)]
      else case (first_some [qu_error q, qu_error tasks], qu_data q) of
        (None, Some r) \<Rightarrow>
          detail_content t bitrate dateTime parse_url r (find (\<lambda>x. t_id x = rd_taskId r) (or_list (qu_data tasks))) @ [detail_dialog t s]
      | (e, _) \<Rightarrow> [ErrorState runtime_message t (case e of Some err \<Rightarrow> err | None \<Rightarrow> Thrown ''Result not found.'') (Some Detail_Retry)
          ''Unable to load data''])"

subsection \<open>What a result can lead to\<close>

abbreviation hrefs :: "'a element \<Rightarrow> string list" where
  "hrefs \<equiv> gather (prop_values ''href'')"

lemma leads_results: "leads_to_page ''/results''"
  by code_simp

lemma gather_facts:
  "links (fact_rows items) = []" "hrefs (fact_rows items) = []" "clicks (fact_rows items) = []"
  by (auto simp: fact_rows_def gather_Element)

lemmas inspect_simps = view_simps gather_facts titled_card_def DetailList_def InfoList_def note_card_def

lemma detail_parts:
  "concat (map links (detail_metrics bitrate r)) = []" "links (detail_cards dateTime r) = []" "links (raw_card r) = []"
  "concat (map hrefs (detail_metrics bitrate r)) = []" "hrefs (detail_cards dateTime r) = []" "hrefs (raw_card r) = []"
  "concat (map clicks (detail_metrics bitrate r)) = []" "clicks (detail_cards dateTime r) = []"
  "clicks (raw_card r) = [Detail_Copy (or_else (rd_rawProviderResponse r) ''{}'') ''Raw provider response'']"
  by (simp_all add: detail_metrics_def detail_cards_def raw_card_def inspect_simps Let_def)

lemma badges_parts:
  "links (detail_badges parse_url r x) = (case x of Some y \<Rightarrow> [''/tasks/'' @ t_id y @ ''/edit''] | None \<Rightarrow> [])"
  "set (hrefs (detail_badges parse_url r x)) \<subseteq> set_option (safeExternalHttpUrl parse_url (rd_providerResultUrl r))"
  "clicks (detail_badges parse_url r x) = []"
  by (auto simp: detail_badges_def inspect_simps shown_def split: option.splits)

lemma detail_content_links:
  "concat (map links (detail_content t bitrate dateTime parse_url r x)) = ''/results'' # links (detail_badges parse_url r x :: detail_click element)"
  by (simp add: detail_content_def detail_parts inspect_simps)

lemma detail_content_hrefs:
  "concat (map hrefs (detail_content t bitrate dateTime parse_url r x)) = hrefs (detail_badges parse_url r x :: detail_click element)"
  by (simp add: detail_content_def detail_parts inspect_simps)

lemma detail_content_clicks:
  "concat (map clicks (detail_content t bitrate dateTime parse_url r x)) =
   [Detail (Detail_Delete_Dialog True), Detail_Copy (or_else (rd_rawProviderResponse r) ''{}'') ''Raw provider response'']"
  by (simp add: detail_content_def detail_parts badges_parts inspect_simps)

lemma dialog_parts:
  "links (detail_dialog t s) = []" "hrefs (detail_dialog t s) = []"
  "clicks (detail_dialog t s) = (if dp_deleting s then [] else [Detail Detail_Delete_Confirmed])"
  by (simp_all add: detail_dialog_def ConfirmDialog_def gather_Element widget_simps)

lemma leads_edit_of:
  assumes "list_all (\<lambda>y. segment_ok (t_id y)) tasks"
  shows "case find P tasks of Some y \<Rightarrow> leads_to_page (''/tasks/'' @ t_id y @ ''/edit'') | None \<Rightarrow> True"
proof (cases "find P tasks")
  case (Some y)
  then have "y \<in> set tasks" by (auto simp: find_Some_iff)
  with assms Some leads_edit show ?thesis by (auto simp: list_all_iff)
qed simp

text \<open>
  C38. The page of a result is safe to use: every link inside the console leads to a page, the only link out
  of it is the address the provider reported, and only when the URL parser says it is an http or https
  address, and the only control that deletes the result is the confirmation of the dialog, while no
  deletion is under way.
\<close>

theorem result_detail_safe:
  assumes "list_all (\<lambda>y. segment_ok (t_id y)) (or_list (qu_data tasks))"
    and "x \<in> set (ResultDetailPage runtime_message t bitrate dateTime parse_url q tasks s)"
  shows "(\<forall>a \<in> set (links x). leads_to_page a) \<and>
    (\<forall>h \<in> set (hrefs x). \<exists>r url protocol. qu_data q = Some r \<and> rd_providerResultUrl r = Some url \<and>
       parse_url url = Some (protocol, h) \<and> protocol \<in> {''http:'', ''https:''}) \<and>
    (Detail Detail_Delete_Confirmed \<in> set (clicks x) \<longrightarrow> x = detail_dialog t s \<and> \<not> dp_deleting s)"
proof (cases "\<exists>r. \<not> (qu_isLoading q \<or> qu_isLoading tasks) \<and> first_some [qu_error q, qu_error tasks] = None \<and> qu_data q = Some r")
  case True
  then obtain r where r: "\<not> (qu_isLoading q \<or> qu_isLoading tasks)" "first_some [qu_error q, qu_error tasks] = None" "qu_data q = Some r"
    by blast
  let ?x = "find (\<lambda>x. t_id x = rd_taskId r) (or_list (qu_data tasks))"
  let ?content = "detail_content t bitrate dateTime parse_url r ?x"
  consider "x \<in> set ?content" | "x = detail_dialog t s"
    using assms(2) r by (auto simp: ResultDetailPage_def)
  then show ?thesis
  proof cases
    case 1
    then have "set (links x) \<subseteq> set (concat (map links ?content))" "set (hrefs x) \<subseteq> set (concat (map hrefs ?content))"
      "set (clicks x) \<subseteq> set (concat (map clicks ?content))" by auto
    then have x: "set (links x) \<subseteq> set (''/results'' # links (detail_badges parse_url r ?x :: detail_click element))"
      "set (hrefs x) \<subseteq> set_option (safeExternalHttpUrl parse_url (rd_providerResultUrl r))"
      "Detail Detail_Delete_Confirmed \<notin> set (clicks x)"
      using badges_parts(2) [of parse_url r ?x] unfolding detail_content_links detail_content_hrefs detail_content_clicks by auto
    have "leads_to_page a" if "a \<in> set (links x)" for a
      using that x(1) leads_edit_of [OF assms(1), of "\<lambda>x. t_id x = rd_taskId r"] leads_results
      by (auto simp: badges_parts(1) split: option.splits)
    moreover have "\<exists>url protocol. rd_providerResultUrl r = Some url \<and> parse_url url = Some (protocol, h) \<and> protocol \<in> {''http:'', ''https:''}"
      if "h \<in> set (hrefs x)" for h
      using that x(2) by (auto simp: safeExternalHttpUrl_def split: option.splits list.splits if_splits)
    ultimately show ?thesis using x(3) r(3) by blast
  next
    case 2
    then show ?thesis by (simp add: dialog_parts)
  qed
next
  case False
  then have "x = LoadingState t (''Loading full result diagnostics'' @ ellipsis) \<or>
      (\<exists>e. x = ErrorState runtime_message t e (Some Detail_Retry) ''Unable to load data'')"
    using assms(2) by (auto simp: ResultDetailPage_def split: if_splits option.splits)
  then show ?thesis by (elim disjE exE) (simp_all add: inspect_simps)
qed

definition sample_result :: result_detail where
  "sample_result = \<lparr>rd_id = ''9'', rd_taskId = ''7'', rd_provider = Ookla, rd_status = Succeeded, rd_trigger = ''manual'',
     rd_scheduledAt = None, rd_startedAt = None, rd_finishedAt = None, rd_downloadBitsPerSecond = None, rd_downloadBytes = None,
     rd_uploadBitsPerSecond = None, rd_uploadBytes = None, rd_latencyMilliseconds = None, rd_jitterMilliseconds = None,
     rd_packetLossPercent = None, rd_executionDurationMs = None, rd_sanitizedError = [], rd_tlsVerificationDisabled = False,
     rd_selectedInterface = ''eth0'', rd_selectedSourceIp = [], rd_detectedPublicIp = [], rd_routeProfileId = None,
     rd_cloudflareColo = [], rd_serverId = [], rd_serverName = [], rd_serverHost = [], rd_serverSponsor = [],
     rd_serverLocation = [], rd_serverCountry = [], rd_providerVersion = [], rd_providerResultUrl = Some ''https://a'',
     rd_processExitCode = None, rd_applicationVersion = [], rd_rawProviderResponse = [], rd_routeValidationSnapshot = None\<rparr>"

abbreviation sample_detail :: "detail_click element list" where
  "sample_detail \<equiv> ResultDetailPage (\<lambda>_. []) id (\<lambda>_. []) (\<lambda>_. []) example_parser
     \<lparr>qu_isLoading = False, qu_error = None, qu_data = Some sample_result\<rparr> \<lparr>qu_isLoading = False, qu_error = None, qu_data = Some []\<rparr>
     \<lparr>dp_confirmDelete = True, dp_deleting = False\<rparr>"

theorem result_detail_safe_witness:
  "detail_badges example_parser sample_result None \<in> set sample_detail \<and>
   set (hrefs (detail_badges example_parser sample_result None :: detail_click element)) \<subseteq>
     {h. \<exists>protocol. example_parser ''https://a'' = Some (protocol, h)}"
proof
  show m: "detail_badges example_parser sample_result None \<in> set sample_detail"
    by (simp add: ResultDetailPage_def detail_content_def first_some_def or_list_def)
  show "set (hrefs (detail_badges example_parser sample_result None :: detail_click element)) \<subseteq>
      {h. \<exists>protocol. example_parser ''https://a'' = Some (protocol, h)}"
    using result_detail_safe [OF _ m] by (auto simp: or_list_def sample_result_def)
qed

end
