(* ===== verification/ResultsView.thy ===== *)
theory ResultsView
  imports ResultsPage Inspect
begin

text \<open>
  What the results page shows (\<open>pages/ResultsPage.tsx\<close>): the filters, the bar of the selection, the table
  with its sortable headings, the expanded diagnostics, the pager and the dialog before a deletion.
  \<open>items\<close> are the results of the page last answered; the state holds of each what its operations use.
\<close>

datatype results_click = Results_Event results_event | Export string | Results_Retry

definition row_of :: "result_detail \<Rightarrow> result_row" where
  "row_of r = \<lparr>rr_id = rd_id r, rr_startedAt = rd_startedAt r, rr_trigger = rd_trigger r\<rparr>"

abbreviation event :: "string \<Rightarrow> results_event \<Rightarrow> (string \<times> results_click) list" where
  "event handler e \<equiv> [(handler, Results_Event e)]"

definition checkbox :: "bool \<Rightarrow> results_event \<Rightarrow> string \<Rightarrow> results_click element" where
  "checkbox checked e label =
     Element ''input'' [(''type'', ''checkbox''), (''checked'', if checked then ''true'' else ''false''), (''aria-label'', label)]
       (event ''onChange'' e) []"

definition SortButton :: "results_page \<Rightarrow> string \<Rightarrow> sort_column \<Rightarrow> results_click element" where
  "SortButton s label column =
     Element ''button'' [(''type'', ''button'')] (event ''onClick'' (Sorted_By column))
       ([Words label] @
        shown (rp_sort s = column_key column) (Icon (case rp_direction s of Asc \<Rightarrow> ''ChevronUp'' | Desc \<Rightarrow> ''ChevronDown'')))"

definition result_headings :: "results_page \<Rightarrow> results_click element list" where
  "result_headings s =
     [checkbox (allVisibleSelected s) All_Toggled ''Select all visible results'', SortButton s ''Started'' Started, Words ''Task'',
      Words ''Status'', Words ''Provider'', Words ''WAN path'', SortButton s ''Download'' Download_Rate,
      SortButton s ''Upload'' Upload_Rate, SortButton s ''Latency'' Latency, Words []]"

text \<open>\<open>dateTime\<close> prints an instant, with seconds when the flag is set.\<close>

definition started_cell :: "(string option \<Rightarrow> bool \<Rightarrow> string) \<Rightarrow> results_page \<Rightarrow> result_detail \<Rightarrow> 'a element" where
  "started_cell dateTime s r =
     node_of ''div'' [node_of ''p'' [Words (dateTime (rd_startedAt r) False)],
       node_of ''p'' [Words (dateTime (rd_startedAt r) True @ dot_sep @
         (case shown_trigger s (row_of r) of Some trigger \<Rightarrow> trigger | None \<Rightarrow> []))]]"

definition task_cell :: "task list \<Rightarrow> result_detail \<Rightarrow> 'a element" where
  "task_cell tasks r =
     node_of ''div''
       [link_to (''/results/'' @ rd_id r)
          [Words (case find (\<lambda>x. t_id x = rd_taskId r) tasks of Some x \<Rightarrow> ti_name x | None \<Rightarrow> ''Deleted task'')],
        node_of ''p'' [Words (or_else (rd_serverName r) (or_else (rd_cloudflareColo r) ''Automatic target''))]]"

definition wan_cell :: "result_detail \<Rightarrow> 'a element" where
  "wan_cell r =
     node_of ''div'' [node_of ''p'' [Words (or_else (rd_selectedInterface r) ''Pending'')],
       node_of ''p'' [Words (or_else (rd_selectedSourceIp r) ''Source pending'')]]"

definition expand_cell :: "results_page \<Rightarrow> result_detail \<Rightarrow> results_click element" where
  "expand_cell s r =
     (let expanded = (rd_id r \<in> set (rp_expanded s)) in
      Button False [(''aria-label'', (if expanded then ''Hide'' else ''Show'') @ '' diagnostics'')] (event ''onClick'' (Row_Expanded (rd_id r)))
        [Icon (if expanded then ''ChevronUp'' else ''ChevronDown'')])"

definition result_cells ::
  "(js_number option \<Rightarrow> string) \<Rightarrow> (string option \<Rightarrow> bool \<Rightarrow> string) \<Rightarrow> task list \<Rightarrow> results_page \<Rightarrow> result_detail \<Rightarrow>
   results_click element list" where
  "result_cells bitrate dateTime tasks s r =
     [checkbox (rd_id r \<in> set (rp_selected s)) (Row_Toggled (rd_id r)) (''Select result '' @ rd_id r),
      started_cell dateTime s r, task_cell tasks r, ResultStatusBadge (rd_status r), ProviderBadge (rd_provider r), wan_cell r,
      node_of ''span'' [Words (bitrate (rd_downloadBitsPerSecond r))], node_of ''span'' [Words (bitrate (rd_uploadBitsPerSecond r))],
      node_of ''span'' [Words (formatMilliseconds (rd_latencyMilliseconds r))], expand_cell s r]"

definition diagnostics :: "result_detail \<Rightarrow> 'a element" where
  "diagnostics r =
     node_of ''div''
       [node_of ''div'' [node_of ''p'' [Words ''Route & execution''],
          node_of ''dl''
            [node_of ''dt'' [Words ''Public IP''], node_of ''dd'' [Words (or_else (rd_detectedPublicIp r) em_dash)],
             node_of ''dt'' [Words ''Jitter / loss''],
             node_of ''dd'' [Words (formatMilliseconds (rd_jitterMilliseconds r) @ '' / '' @ formatPercent (rd_packetLossPercent r))],
             node_of ''dt'' [Words ''Duration''], node_of ''dd'' [Words (formatMilliseconds (rd_executionDurationMs r))],
             node_of ''dt'' [Words ''Provider version''], node_of ''dd'' [Words (or_else (rd_providerVersion r) em_dash)],
             node_of ''dt'' [Words ''TLS verification''],
             node_of ''dd'' [Words (if rd_tlsVerificationDisabled r then ''Disabled'' else ''Enabled'')]]],
        node_of ''div'' [node_of ''p'' [Words ''Diagnostic message''],
          node_of ''p'' [Words (or_else (rd_sanitizedError r) ''No provider or route error was recorded.'')]],
        node_of ''div'' [Button True [] [] [link_to (''/results/'' @ rd_id r) [Words ''Full diagnostics'', Icon ''ExternalLink'']]]]"

definition ResultRows ::
  "(js_number option \<Rightarrow> string) \<Rightarrow> (string option \<Rightarrow> bool \<Rightarrow> string) \<Rightarrow> task list \<Rightarrow> results_page \<Rightarrow> result_detail \<Rightarrow>
   results_click element list" where
  "ResultRows bitrate dateTime tasks s r =
     [node_of ''tr'' (map (\<lambda>cell. node_of ''td'' [cell]) (result_cells bitrate dateTime tasks s r))] @
     shown (rd_id r \<in> set (rp_expanded s))
       (node_of ''tr'' [Element ''td'' [(''colSpan'', ''10'')] [] [diagnostics r]])"

subsection \<open>Filters and pager\<close>

definition select_of :: "string \<Rightarrow> string \<Rightarrow> (string \<times> string) list \<Rightarrow> 'a element" where
  "select_of value label choices =
     Element ''NativeSelect'' [(''value'', value), (''aria-label'', label)] []
       (map (\<lambda>(v, w). Element ''option'' [(''value'', v)] [] [Words w]) choices)"

definition date_input :: "string \<Rightarrow> string \<Rightarrow> 'a element" where
  "date_input value label = Element ''Input'' [(''type'', ''date''), (''value'', value), (''aria-label'', label)] [] []"

definition capitalized :: "string \<Rightarrow> string" where
  "capitalized w = (case w of [] \<Rightarrow> [] | c # cs \<Rightarrow> upper_text c @ cs)"

definition results_filters :: "task list \<Rightarrow> string list \<Rightarrow> results_page \<Rightarrow> results_click element" where
  "results_filters tasks interfaces s =
     node_of ''div''
       [select_of (rp_taskId s) ''Filter results by task'' (([], ''All tasks'') # map (\<lambda>x. (t_id x, ti_name x)) tasks),
        select_of (rp_provider s) ''Filter results by provider''
          (([], ''All providers'') # map (\<lambda>p. (provider_name p, providerLabel p)) [Ookla, Librespeed, Cloudflare]),
        select_of (rp_network s) ''Filter results by WAN'' (([], ''All WAN paths'') # map (\<lambda>n. (n, n)) interfaces),
        select_of (rp_status s) ''Filter results by status''
          (([], ''Any status'') # map (\<lambda>st. (status_name st, capitalized (status_name st)))
             [Queued, Validating, Running, Succeeded, Failed, Skipped, Cancelled]),
        date_input (rp_from s) ''Results from date'',
        node_of ''div''
          [date_input (rp_to s) ''Results to date'',
           Button False (disabled_prop (\<not> filtersActive s) @ [(''aria-label'', ''Clear result filters'')]) (event ''onClick'' Filters_Cleared)
             [Icon ''FilterX'']]]"

definition selection_bar :: "results_page \<Rightarrow> results_click element list" where
  "selection_bar s =
     shown (rp_selected s \<noteq> [])
       (node_of ''div'' [node_of ''p'' [Words (nat_string (length (rp_selected s)) @ '' selected'')],
          Button False [] (event ''onClick'' Delete_Asked) [Icon ''Trash2'', Words ''Delete selected'']])"

definition results_table ::
  "(string \<Rightarrow> string) \<Rightarrow> (js_number option \<Rightarrow> string) \<Rightarrow> (string option \<Rightarrow> bool \<Rightarrow> string) \<Rightarrow> task list \<Rightarrow> result_detail list \<Rightarrow> results_page \<Rightarrow>
   results_click element" where
  "results_table t bitrate dateTime tasks items s =
     (if items = [] then
        EmptyState t None (empty_title s)
          (if filtersActive s then ''Expand the date range or clear one or more filters.''
           else ''Completed and failed task runs will appear here with full diagnostics.'')
          (shown (filtersActive s) (Button False [] (event ''onClick'' Filters_Cleared) [Icon ''FilterX'', Words ''Clear filters'']))
      else node_of ''div'' [node_of ''table''
        [node_of ''thead'' [node_of ''tr'' (map (\<lambda>h. node_of ''th'' [h]) (result_headings s))],
         node_of ''tbody'' (concat (map (ResultRows bitrate dateTime tasks s) items))]])"

text \<open>\<open>answered\<close> is the total of results and the page number of the last answer.\<close>

definition pager :: "(nat \<times> nat) option \<Rightarrow> results_page \<Rightarrow> results_click element" where
  "pager answered s =
     node_of ''div''
       [node_of ''span'' [Words (nat_string (case answered of Some (n, _) \<Rightarrow> n | None \<Rightarrow> 0) @ '' results'' @ dot_sep @ ''page '' @
          nat_string (case answered of Some (_, p) \<Rightarrow> p | None \<Rightarrow> rp_page s) @ '' of '' @ nat_string (max (total_pages s) 1))],
        node_of ''div''
          ([select_of (nat_string (rp_pageSize s)) ''Results per page'' (map (\<lambda>n. (nat_string n, nat_string n @ '' / page'')) [10, 25, 50, 100]),
            Button False (disabled_prop (rp_page s \<le> 1 \<or> rp_fetching s) @ [(''aria-label'', ''Previous page'')])
              (event ''onClick'' Previous_Page) [Icon ''ChevronLeft''],
            Button False (disabled_prop (total_pages s \<le> rp_page s \<or> rp_fetching s) @ [(''aria-label'', ''Next page'')])
              (event ''onClick'' Next_Page) [Icon ''ChevronRight'']] @
           shown (rp_fetching s) Spinner)]"

definition batch_dialog :: "(string \<Rightarrow> string) \<Rightarrow> results_page \<Rightarrow> results_click element" where
  "batch_dialog t s =
     ConfirmDialog t (rp_confirm s) (\<lambda>b. Results_Event (Confirm_Changed b)) ''Delete selected results?''
       [Words (nat_string (length (rp_selected s)) @
          '' persisted result records and their diagnostics will be permanently deleted. Task definitions are not affected.'')]
       ''Delete results'' (Results_Event Delete_Confirmed) (rp_deleting s)"

text \<open>\<open>signature\<close> is the printed query, kept for screen readers.\<close>

definition results_view ::
  "(failure \<Rightarrow> string) \<Rightarrow> (string \<Rightarrow> string) \<Rightarrow> (js_number option \<Rightarrow> string) \<Rightarrow> (string option \<Rightarrow> bool \<Rightarrow> string) \<Rightarrow> bool \<Rightarrow>
   failure option \<Rightarrow> string \<Rightarrow> (nat \<times> nat) option \<Rightarrow> task list \<Rightarrow> string list \<Rightarrow> result_detail list \<Rightarrow> results_page \<Rightarrow>
   results_click element list" where
  "results_view runtime_message t bitrate dateTime isLoading error signature answered tasks interfaces items s =
     (if isLoading then [LoadingState t (''Querying persisted measurements'' @ ellipsis)]
      else case error of
        Some e \<Rightarrow> [ErrorState runtime_message t e (Some Results_Retry) ''Unable to load data'']
      | None \<Rightarrow>
          [PageHeader t ''Every sample, fully explainable.''
             ''Filter measurement history, inspect route and provider diagnostics, or export exactly the selected result set.''
             [Button False [] [(''onClick'', Export ''csv'')] [Icon ''Download'', Words ''CSV''],
              Button False [] [(''onClick'', Export ''json'')] [Icon ''Download'', Words ''JSON'']],
           Card ([results_filters tasks interfaces s] @ selection_bar s @
             [results_table t bitrate dateTime tasks items s, pager answered s]),
           node_of ''span'' [Words signature], batch_dialog t s])"

subsection \<open>What the page offers\<close>

definition row_offers :: "result_detail \<Rightarrow> results_click list" where
  "row_offers r = [Results_Event (Row_Toggled (rd_id r)), Results_Event (Row_Expanded (rd_id r))]"

lemma offered_select: "offered (select_of value label choices) = []" "offered (date_input value label) = []"
  by (auto simp: select_of_def date_input_def)

lemma offered_filters: "offered (results_filters tasks interfaces s) = (if filtersActive s then [Results_Event Filters_Cleared] else [])"
  by (simp add: results_filters_def offered_select offer_simps)

lemma offered_selection: "concat (map offered (selection_bar s)) = (if rp_selected s \<noteq> [] then [Results_Event Delete_Asked] else [])"
  by (simp add: selection_bar_def offer_simps)

lemma offered_rows: "concat (map offered (ResultRows bitrate dateTime tasks s r)) = row_offers r"
  by (simp add: ResultRows_def result_cells_def checkbox_def started_cell_def task_cell_def wan_cell_def expand_cell_def diagnostics_def
      row_offers_def Let_def offer_simps)

lemma offered_headings:
  "concat (map offered (result_headings s)) =
   map Results_Event [All_Toggled, Sorted_By Started, Sorted_By Download_Rate, Sorted_By Upload_Rate, Sorted_By Latency]"
  by (simp add: result_headings_def checkbox_def SortButton_def offer_simps)

lemma offered_results_table:
  "offered (results_table t bitrate dateTime tasks items s) =
   (if items = [] then (if filtersActive s then [Results_Event Filters_Cleared] else [])
    else map Results_Event [All_Toggled, Sorted_By Started, Sorted_By Download_Rate, Sorted_By Upload_Rate, Sorted_By Latency] @
      concat (map row_offers items))"
proof (cases "items = []")
  case True
  then show ?thesis by (simp add: results_table_def offer_simps)
next
  case False
  have "concat (map offered (concat (map (ResultRows bitrate dateTime tasks s) items))) = concat (map row_offers items)"
    by (induction items) (simp_all add: offered_rows)
  with False show ?thesis
    using offered_headings [of s] by (simp add: results_table_def comp_def)
qed

lemma offered_pager:
  "offered (pager answered s) =
   (if rp_page s \<le> 1 \<or> rp_fetching s then [] else [Results_Event Previous_Page]) @
   (if total_pages s \<le> rp_page s \<or> rp_fetching s then [] else [Results_Event Next_Page])"
  by (simp add: pager_def offered_select offer_simps)

lemma offered_batch:
  "offered (batch_dialog t s) =
   (if rp_confirm s then Results_Event (Confirm_Changed False) # (if rp_deleting s then [] else [Results_Event Delete_Confirmed]) else [])"
  by (simp add: batch_dialog_def ConfirmDialog_def offer_simps)

lemma offered_view:
  "concat (map offered (results_view runtime_message t bitrate dateTime False None signature answered tasks interfaces items s)) =
   [Export ''csv'', Export ''json''] @ offered (results_filters tasks interfaces s) @ concat (map offered (selection_bar s)) @
   offered (results_table t bitrate dateTime tasks items s) @ offered (pager answered s) @ offered (batch_dialog t s)"
  by (simp add: results_view_def Card_def PageHeader_def Button_def shown_def)


end
