(* ===== verification/Charts.thy ===== *)
theory Charts
  imports ApiClient Format Reporting
begin

text \<open>
  What the charts show: the data and labels of \<open>statisticsOption\<close> (\<open>pages/StatisticsPage.tsx\<close>),
  \<open>comparisonOption\<close> with the WAN ranking (\<open>pages/ComparisonPage.tsx\<close>) and \<open>throughputOption\<close> with the
  latest measurement (\<open>pages/DashboardPage.tsx\<close>). Line styles, axes and tooltips are left out. The
  collation of \<open>localeCompare\<close> and the date formatter are parameters.
\<close>

subsection \<open>Colours and keys\<close>

definition ookla_color :: string where "ookla_color = ''#67e8f9''"
definition librespeed_color :: string where "librespeed_color = ''#a78bfa''"
definition cloudflare_color :: string where "cloudflare_color = ''#fb923c''"

definition palette :: "string list" where
  "palette = [ookla_color, librespeed_color, cloudflare_color, ''#34d399'', ''#f472b6'', ''#facc15'']"

definition series_color :: "nat \<Rightarrow> string" where
  "series_color i = palette ! (i mod length palette)"

definition bucketKey :: "StatisticBucket \<Rightarrow> string" where
  "bucketKey b = (if sb_bucket b \<noteq> [] then sb_bucket b else case sb_timestamp b of Some t \<Rightarrow> t | None \<Rightarrow> [])"

text \<open>One line of a chart; \<^const>\<open>None\<close> is a gap.\<close>

record chart_series =
  cs_name :: string
  cs_data :: "rat option list"
  cs_color :: string

record chart =
  ch_labels :: "string list"
  ch_series :: "chart_series list"

subsection \<open>Statistics\<close>

datatype metric = Download_M | Upload_M | Latency_M | Jitter_M | PacketLoss_M | Duration_M | SuccessRate_M

fun metric_name :: "metric \<Rightarrow> string" where
  "metric_name Download_M = ''download''"
| "metric_name Upload_M = ''upload''"
| "metric_name Latency_M = ''latency''"
| "metric_name Jitter_M = ''jitter''"
| "metric_name PacketLoss_M = ''packetLoss''"
| "metric_name Duration_M = ''duration''"
| "metric_name SuccessRate_M = ''successRate''"

fun bucket_metric :: "StatisticBucket \<Rightarrow> metric \<Rightarrow> MetricAggregate option" where
  "bucket_metric b Download_M = sb_download b"
| "bucket_metric b Upload_M = sb_upload b"
| "bucket_metric b Latency_M = sb_latency b"
| "bucket_metric b Jitter_M = sb_jitter b"
| "bucket_metric b PacketLoss_M = sb_packetLoss b"
| "bucket_metric b Duration_M = sb_duration b"
| "bucket_metric b SuccessRate_M = None"

definition empty_aggregate :: MetricAggregate where
  "empty_aggregate = \<lparr>ag_min = None, ag_max = None, ag_average = None, ag_median = None, ag_p95 = None,
     ag_standardDeviation = None\<rparr>"

definition first_number :: "(string \<Rightarrow> rat option) \<Rightarrow> string list \<Rightarrow> rat option" where
  "first_number extra names = (case find (\<lambda>n. extra n \<noteq> None) names of Some n \<Rightarrow> extra n | None \<Rightarrow> None)"

text \<open>\<open>extra b\<close> are the numeric properties of the bucket object beyond the declared ones.\<close>

definition metricAggregate ::
  "(StatisticBucket \<Rightarrow> string \<Rightarrow> rat option) \<Rightarrow> StatisticBucket option \<Rightarrow> metric \<Rightarrow> MetricAggregate" where
  "metricAggregate extra bucket m =
     (case bucket of
        None \<Rightarrow> empty_aggregate
      | Some b \<Rightarrow>
          if m = SuccessRate_M then
            let rate = (case sb_successRate b of
                  Some r \<Rightarrow> Some r
                | None \<Rightarrow> if sb_sampleCount b \<noteq> 0
                    then Some (rnd (rnd (sb_successfulCount b / sb_sampleCount b) * 100)) else None)
            in \<lparr>ag_min = rate, ag_max = rate, ag_average = rate, ag_median = rate, ag_p95 = rate,
                ag_standardDeviation = None\<rparr>
          else case bucket_metric b m of
            Some a \<Rightarrow> a
          | None \<Rightarrow>
              let name = metric_name m; get = first_number (extra b)
              in \<lparr>ag_min = get [name @ ''Min'', ''min''], ag_max = get [name @ ''Max'', ''max''],
                  ag_average = get [name @ ''Average'', ''average'', ''avg''],
                  ag_median = get [name @ ''Median'', ''median''], ag_p95 = get [name @ ''P95'', ''p95''],
                  ag_standardDeviation = get [name @ ''StandardDeviation'', ''standardDeviation'', ''stdDev'']\<rparr>)"

text \<open>\<open>[...new Set(keys)].filter(Boolean).sort()\<close> over all buckets of all series.\<close>

definition timeline :: "StatisticsSeries list \<Rightarrow> string list" where
  "timeline series =
     sort_by compare_units (unique (filter (\<lambda>k. k \<noteq> []) (concat (map (\<lambda>e. map bucketKey (ss_buckets e)) series))))"

definition bucket_at :: "StatisticBucket list \<Rightarrow> string \<Rightarrow> StatisticBucket option" where
  "bucket_at buckets k = map_get (map (\<lambda>b. (bucketKey b, b)) buckets) k"

definition bucket_label :: "StatisticBucket \<Rightarrow> string" where
  "bucket_label b = (case sb_label b of Some l \<Rightarrow> l | None \<Rightarrow> bucketKey b)"

definition statisticsOption ::
  "(StatisticBucket \<Rightarrow> string \<Rightarrow> rat option) \<Rightarrow> StatisticsSeries list option \<Rightarrow> StatisticBucket list \<Rightarrow> metric \<Rightarrow> chart"
  where
  "statisticsOption extra series buckets m =
     (let all_buckets = (case series of Some ss \<Rightarrow> concat (map ss_buckets ss) | None \<Rightarrow> buckets);
          grouped = (case series of Some ss \<Rightarrow> ss \<noteq> [] | None \<Rightarrow> False);
          timestamps = (if grouped then timeline (case series of Some ss \<Rightarrow> ss | None \<Rightarrow> []) else map bucketKey buckets);
          label = (\<lambda>t. case map_get (map (\<lambda>b. (bucketKey b, bucket_label b)) all_buckets) t of Some l \<Rightarrow> l | None \<Rightarrow> t);
          line = (\<lambda>name f color. \<lparr>cs_name = name, cs_data = map (\<lambda>b. f (metricAggregate extra (Some b) m)) buckets, cs_color = color\<rparr>)
      in \<lparr>ch_labels = map label timestamps,
          ch_series =
            (if grouped
             then map (\<lambda>(i, e). \<lparr>cs_name = ss_name e,
                 cs_data = map (\<lambda>t. ag_average (metricAggregate extra (bucket_at (ss_buckets e) t) m)) timestamps,
                 cs_color = series_color i\<rparr>) (enumerate 0 (case series of Some ss \<Rightarrow> ss | None \<Rightarrow> []))
             else [line ''Minimum'' ag_min ookla_color, line ''Average'' ag_average ookla_color,
                   line ''P95'' ag_p95 librespeed_color, line ''Maximum'' ag_max librespeed_color])\<rparr>)"

subsection \<open>Comparison\<close>

definition average_of :: "(StatisticBucket \<Rightarrow> MetricAggregate option) \<Rightarrow> StatisticBucket option \<Rightarrow> rat option" where
  "average_of f b = Option.bind (Option.bind b f) ag_average"

definition comparisonOption :: "(string \<Rightarrow> string) \<Rightarrow> StatisticsSeries list option \<Rightarrow> chart" where
  "comparisonOption formatDateTime series =
     (let entries = (case series of Some ss \<Rightarrow> ss | None \<Rightarrow> []);
          timestamps = timeline entries;
          line = (\<lambda>i e suffix f. \<lparr>cs_name = ss_name e @ suffix,
             cs_data = map (\<lambda>t. average_of f (bucket_at (ss_buckets e) t)) timestamps, cs_color = series_color i\<rparr>)
      in \<lparr>ch_labels = map formatDateTime timestamps,
          ch_series = concat (map (\<lambda>(i, e). [line i e '' download'' sb_download, line i e '' upload'' sb_upload,
             line i e '' latency'' sb_latency]) (enumerate 0 entries))\<rparr>)"

record wan_summary =
  ws_id :: string
  ws_name :: string
  ws_samples :: rat
  ws_succeeded :: rat
  ws_failed :: rat
  ws_skipped :: rat
  ws_download :: "rat option"
  ws_upload :: "rat option"
  ws_latency :: "rat option"
  ws_jitter :: "rat option"
  ws_successRate :: rat

definition summarizeWan :: "StatisticsSeries \<Rightarrow> wan_summary option" where
  "summarizeWan e =
     map_option (\<lambda>o'. \<lparr>ws_id = ss_id e, ws_name = ss_name e, ws_samples = sb_sampleCount o',
        ws_succeeded = sb_successfulCount o', ws_failed = sb_failedCount o', ws_skipped = sb_skippedCount o',
        ws_download = Option.bind (sb_download o') ag_average, ws_upload = Option.bind (sb_upload o') ag_average,
        ws_latency = Option.bind (sb_latency o') ag_average, ws_jitter = Option.bind (sb_jitter o') ag_average,
        ws_successRate = (case sb_successRate o' of
            Some r \<Rightarrow> r
          | None \<Rightarrow> if sb_sampleCount o' \<noteq> 0
              then rnd (rnd (sb_successfulCount o' / sb_sampleCount o') * 100) else 0)\<rparr>) (ss_overall e)"

definition opt_rat :: "rat \<Rightarrow> rat option \<Rightarrow> rat" where
  "opt_rat d v = (case v of Some x \<Rightarrow> x | None \<Rightarrow> d)"

definition scoreWan :: "wan_summary \<Rightarrow> rat" where
  "scoreWan s =
     rnd (rnd (rnd (rnd (opt_rat 0 (ws_download s) / 10 ^ 8) + rnd (opt_rat 0 (ws_upload s) / 10 ^ 8))
       - rnd (opt_rat 100 (ws_latency s) / 50)) + rnd (ws_successRate s / 100))"

definition wan_summaries :: "StatisticsSeries list option \<Rightarrow> wan_summary list" where
  "wan_summaries series =
     filter (\<lambda>s. 0 < ws_samples s)
       (List.map_filter summarizeWan (case series of Some ss \<Rightarrow> ss | None \<Rightarrow> []))"

text \<open>The comparison of two scores; \<open>sort\<close> uses the sign of the rounded difference.\<close>

definition compare_scores :: "wan_summary \<Rightarrow> wan_summary \<Rightarrow> int" where
  "compare_scores a b = (let d = rnd (scoreWan b - scoreWan a) in if d < 0 then - 1 else if d = 0 then 0 else 1)"

definition winner :: "StatisticsSeries list option \<Rightarrow> wan_summary option" where
  "winner series =
     (case sort_by compare_scores (wan_summaries series) of [] \<Rightarrow> None | s # _ \<Rightarrow> Some s)"

definition selectedWan :: "string list \<Rightarrow> string list \<Rightarrow> string list" where
  "selectedWan selected allInterfaces = (if selected \<noteq> [] then selected else take 4 allInterfaces)"

definition toggleWan :: "string list \<Rightarrow> string \<Rightarrow> string list \<Rightarrow> string list" where
  "toggleWan allInterfaces name current = set_toggle name (selectedWan current allInterfaces)"

definition chartRangeDays :: "string \<Rightarrow> int" where
  "chartRangeDays v = (if v = ''24h'' then 1 else if v = ''7d'' then 7 else if v = ''90d'' then 90 else 30)"

subsection \<open>Dashboard\<close>

definition successful_samples :: "StatisticsSeries list option \<Rightarrow> (StatisticsSeries \<times> StatisticBucket) list" where
  "successful_samples series =
     concat (map (\<lambda>e. map (Pair e)
         (filter (\<lambda>b. 0 < sb_successfulCount b \<and> average_of sb_download (Some b) \<noteq> None) (ss_buckets e)))
       (case series of Some ss \<Rightarrow> ss | None \<Rightarrow> []))"

definition latestSuccessfulMeasurement ::
  "(string \<Rightarrow> string \<Rightarrow> int) \<Rightarrow> StatisticsSeries list option \<Rightarrow> (string \<times> string \<times> StatisticBucket) option" where
  "latestSuccessfulMeasurement localeCompare series =
     (case sort_by (\<lambda>left right. localeCompare (bucketKey (snd right)) (bucketKey (snd left)))
             (successful_samples series) of
        [] \<Rightarrow> None
      | (e, b) # _ \<Rightarrow> Some (ss_id e, ss_name e, b))"

text \<open>The points of one line, in the order of their time stamps.\<close>

definition metricPoints ::
  "(string \<Rightarrow> string \<Rightarrow> int) \<Rightarrow> (StatisticBucket \<Rightarrow> MetricAggregate option) \<Rightarrow> StatisticBucket list \<Rightarrow> (string \<times> rat) list"
  where
  "metricPoints localeCompare f buckets =
     sort_by (\<lambda>left right. localeCompare (fst left) (fst right))
       (List.map_filter (\<lambda>b. case average_of f (Some b) of
            Some v \<Rightarrow> if bucketKey b \<noteq> [] then Some (bucketKey b, v) else None
          | None \<Rightarrow> None) buckets)"

record point_series =
  ps_name :: string
  ps_points :: "(string \<times> rat) list"
  ps_color :: string

text \<open>\<open>tasks\<close> gives the name and the interface of a task by its identifier.\<close>

definition throughputOption ::
  "(string \<Rightarrow> string \<Rightarrow> int) \<Rightarrow> StatisticsSeries list option \<Rightarrow> (string \<Rightarrow> (string \<times> string) option) \<Rightarrow> point_series list"
  where
  "throughputOption localeCompare series tasks =
     concat (map (\<lambda>(i, e).
         let label = (case tasks (ss_id e) of Some (name, path) \<Rightarrow> name @ '' '' @ [char_of (183 :: nat)] @ '' '' @ path
               | None \<Rightarrow> ss_name e)
         in [\<lparr>ps_name = label @ '' download'', ps_points = metricPoints localeCompare sb_download (ss_buckets e),
              ps_color = series_color i\<rparr>,
             \<lparr>ps_name = label @ '' upload'', ps_points = metricPoints localeCompare sb_upload (ss_buckets e),
              ps_color = series_color i\<rparr>])
       (enumerate 0 (case series of Some ss \<Rightarrow> ss | None \<Rightarrow> [])))"

subsection \<open>Lemmas\<close>

lemma set_timeline: "set (timeline series) = bucketKey ` (\<Union>e \<in> set series. set (ss_buckets e)) - {[]}"
  by (auto simp: timeline_def)

lemma distinct_timeline: "distinct (timeline series)"
  by (simp add: timeline_def)

lemma sorted_timeline: "sorted_wrt (\<lambda>a b. compare_units a b \<le> 0) (timeline series)"
  unfolding timeline_def by (rule units.sort_sorted)

lemma bucket_at_Some: "bucket_at bs k = Some b \<Longrightarrow> b \<in> set bs \<and> bucketKey b = k"
  by (auto simp: bucket_at_def dest!: map_get_Some)

lemma bucket_at_None: "bucket_at bs k = None \<longleftrightarrow> k \<notin> bucketKey ` set bs"
  by (auto simp: bucket_at_def map_get_None image_image)

lemma bucket_at_unique:
  assumes "distinct (map bucketKey bs)" "b \<in> set bs"
  shows "bucket_at bs (bucketKey b) = Some b"
proof -
  obtain b' where b': "bucket_at bs (bucketKey b) = Some b'"
    using assms(2) bucket_at_None [of bs "bucketKey b"] by (cases "bucket_at bs (bucketKey b)") auto
  from bucket_at_Some [OF b'] assms have "b' = b"
    by (auto simp: distinct_map inj_on_def)
  with b' show ?thesis by simp
qed

lemma representable_score: "representable (scoreWan s)"
  by (simp add: scoreWan_def)

lemma compare_scores_le: "compare_scores a b \<le> 0 \<longleftrightarrow> scoreWan b \<le> scoreWan a"
  using rnd_diff_le_0 [OF representable_score [of b] representable_score [of a]]
  by (auto simp: compare_scores_def Let_def)

interpretation scores: comparator compare_scores
  by unfold_locales (auto simp: compare_scores_le)

text \<open>A comparison stays consistent under a key and under exchanging the arguments.\<close>

lemma comparator_key: "comparator cmp \<Longrightarrow> comparator (\<lambda>a b. cmp (f a) (f b))"
  unfolding comparator_def by blast

lemma comparator_flip: "comparator cmp \<Longrightarrow> comparator (\<lambda>a b. cmp (f b) (f a))"
  unfolding comparator_def by blast

subsection \<open>Properties\<close>


definition sample_bucket :: "string \<Rightarrow> rat \<Rightarrow> StatisticBucket" where
  "sample_bucket key rate =
     \<lparr>sb_bucket = key, sb_resultId = None, sb_timestamp = None, sb_label = None, sb_sampleCount = 1,
      sb_successfulCount = 1, sb_failedCount = 0, sb_skippedCount = 0, sb_successRate = None,
      sb_download = Some (empty_aggregate\<lparr>ag_average := Some rate\<rparr>), sb_upload = None, sb_latency = None,
      sb_jitter = None, sb_packetLoss = None, sb_duration = None\<rparr>"

definition sample_path :: StatisticsSeries where
  "sample_path = \<lparr>ss_id = ''eth0'', ss_name = ''eth0'', ss_overall = Some (sample_bucket ''all'' 5),
     ss_buckets = [sample_bucket ''2024-05-02'' 7, sample_bucket ''2024-05-01'' 3]\<rparr>"

definition other_path :: StatisticsSeries where
  "other_path = \<lparr>ss_id = ''eth1'', ss_name = ''eth1'', ss_overall = None,
     ss_buckets = [sample_bucket ''2024-05-03'' 4]\<rparr>"

lemma sample_key [simp]: "bucketKey (sample_bucket k r) = k"
  by (simp add: sample_bucket_def bucketKey_def)


text \<open>
  The best balanced path is one of the compared paths with at least one attempt, and no such path
  has a higher score, although the ranking sorts by rounded differences; there is a winner whenever
  there is such a path.
\<close>

theorem winner_best:
  "case winner series of
     None \<Rightarrow> wan_summaries series = []
   | Some w \<Rightarrow> w \<in> set (wan_summaries series) \<and> 0 < ws_samples w \<and>
       list_all (\<lambda>s. scoreWan s \<le> scoreWan w) (wan_summaries series)"
proof (cases "sort_by compare_scores (wan_summaries series)")
  case Nil
  then show ?thesis
    using length_sort_by [of compare_scores "wan_summaries series"] by (simp add: winner_def)
next
  case (Cons w ws)
  have w: "w \<in> set (wan_summaries series)"
    using set_sort_by [of compare_scores "wan_summaries series"] Cons by auto
  have "scoreWan s \<le> scoreWan w" if "s \<in> set (wan_summaries series)" for s
    using scores.sort_hd_least [OF that] Cons by (simp add: compare_scores_le)
  moreover have "0 < ws_samples w"
    using w by (simp add: wan_summaries_def)
  ultimately show ?thesis
    using w by (simp add: winner_def Cons list_all_iff)
qed

text \<open>
  The headline measurement of the dashboard is a successful one with a download rate, none is more
  recent in the order of \<open>localeCompare\<close>, and it is missing only when no measurement succeeded. Every
  line of the throughput chart runs in that order. Hypothesis: \<open>localeCompare\<close> is a consistent
  comparison, as the language requires.
\<close>

theorem latest_measurement:
  assumes "comparator localeCompare"
  shows "(case latestSuccessfulMeasurement localeCompare series of
       None \<Rightarrow> successful_samples series = []
     | Some (i, n, b) \<Rightarrow>
         list_ex (\<lambda>(e, b'). b' = b \<and> ss_id e = i \<and> ss_name e = n) (successful_samples series) \<and>
         list_all (\<lambda>(_, b'). localeCompare (bucketKey b') (bucketKey b) \<le> 0) (successful_samples series)) \<and>
    list_all (\<lambda>s. sorted_wrt (\<lambda>p q. localeCompare (fst p) (fst q) \<le> 0) (ps_points s))
      (throughputOption localeCompare series tasks)"
proof
  let ?cmp = "\<lambda>left right :: StatisticsSeries \<times> StatisticBucket. localeCompare (bucketKey (snd right)) (bucketKey (snd left))"
  have cmp: "comparator ?cmp"
    using comparator_flip [OF assms, of "bucketKey \<circ> snd"] by (simp add: comp_def)
  show "case latestSuccessfulMeasurement localeCompare series of
       None \<Rightarrow> successful_samples series = []
     | Some (i, n, b) \<Rightarrow>
         list_ex (\<lambda>(e, b'). b' = b \<and> ss_id e = i \<and> ss_name e = n) (successful_samples series) \<and>
         list_all (\<lambda>(_, b'). localeCompare (bucketKey b') (bucketKey b) \<le> 0) (successful_samples series)"
  proof (cases "sort_by ?cmp (successful_samples series)")
    case Nil
    then show ?thesis
      using length_sort_by [of ?cmp "successful_samples series"] by (simp add: latestSuccessfulMeasurement_def)
  next
    case (Cons x xs)
    obtain e b where x: "x = (e, b)" by (cases x)
    have "(e, b) \<in> set (successful_samples series)"
      using set_sort_by [of ?cmp "successful_samples series"] Cons x by auto
    moreover have "localeCompare (bucketKey (snd y)) (bucketKey b) \<le> 0"
      if "y \<in> set (successful_samples series)" for y
      using comparator.sort_hd_least [OF cmp that] Cons x by simp
    ultimately show ?thesis
      by (auto simp: latestSuccessfulMeasurement_def Cons x list_ex_iff list_all_iff)
  qed
  have "sorted_wrt (\<lambda>p q. localeCompare (fst p) (fst q) \<le> 0) (metricPoints localeCompare f bs)" for f bs
    unfolding metricPoints_def by (rule comparator.sort_sorted [OF comparator_key [OF assms]])
  then show "list_all (\<lambda>s. sorted_wrt (\<lambda>p q. localeCompare (fst p) (fst q) \<le> 0) (ps_points s))
      (throughputOption localeCompare series tasks)"
    by (auto simp: throughputOption_def Let_def list_all_iff)
qed

theorem latest_measurement_witness:
  "latestSuccessfulMeasurement compare_units (Some [sample_path, other_path]) =
     Some (''eth1'', ''eth1'', sample_bucket ''2024-05-03'' 4) \<and>
   list_all (\<lambda>s. sorted_wrt (\<lambda>p q. compare_units (fst p) (fst q) \<le> 0) (ps_points s))
     (throughputOption compare_units (Some [sample_path, other_path]) (\<lambda>_. None))"
proof
  show "latestSuccessfulMeasurement compare_units (Some [sample_path, other_path]) =
     Some (''eth1'', ''eth1'', sample_bucket ''2024-05-03'' 4)"
    by code_simp
  show "list_all (\<lambda>s. sorted_wrt (\<lambda>p q. compare_units (fst p) (fst q) \<le> 0) (ps_points s))
     (throughputOption compare_units (Some [sample_path, other_path]) (\<lambda>_. None))"
    using latest_measurement [OF units.comparator_axioms, of "Some [sample_path, other_path]" "\<lambda>_. None"]
    by blast
qed

text \<open>Deselecting the only selected path selects the first four again.\<close>

lemma deselect_last_path: "selectedWan (toggleWan names n [n]) names = take 4 names"
  by (simp add: selectedWan_def toggleWan_def set_toggle_def set_delete_def)

end
