(* ===== verification/NetworkPage.thy ===== *)
theory NetworkPage
  imports Api JsRegex Toast Query
begin

text \<open>
  Interfaces and route profiles (\<open>pages/NetworkPage.tsx\<close>): the schema of the profile dialog, what it
  saves, the page with its dialogs as a state machine, and the host commands the page offers for copying, with the part of the POSIX shell's lexical rules that
  reads them.
\<close>

subsection \<open>The profile dialog\<close>

record RouteValues =
  rv_name :: string
  rv_description :: string
  rv_interfaceName :: string
  rv_sourceIp :: string
  rv_expectedGateway :: string
  rv_expectedRoutingTable :: string
  rv_validationTarget :: string
  rv_notes :: string

definition routeDefaults :: RouteValues where
  "routeDefaults = \<lparr>rv_name = [], rv_description = [], rv_interfaceName = [], rv_sourceIp = [],
     rv_expectedGateway = [], rv_expectedRoutingTable = [], rv_validationTarget = ''one.one.one.one'',
     rv_notes = []\<rparr>"

definition is_table_char :: "char \<Rightarrow> bool" where
  "is_table_char c \<longleftrightarrow> is_alpha c \<or> is_digit c \<or> c \<in> {CHR ''_'', CHR ''.'', CHR ''-''}"

definition routing_table :: rx where
  "routing_table = RAlt REps (RAlt (RSeq (RCls is_digit) (RUpto 9 (RCls is_digit)))
     (RSeq (RCls is_alpha) (RUpto 63 (RCls is_table_char))))"

text \<open>The parsed values are the trimmed ones; the schema does not trim the two bindings.\<close>

definition trimmed_route :: "RouteValues \<Rightarrow> RouteValues" where
  "trimmed_route v = v\<lparr>rv_name := trim (rv_name v), rv_description := trim (rv_description v),
     rv_expectedGateway := trim (rv_expectedGateway v),
     rv_expectedRoutingTable := trim (rv_expectedRoutingTable v),
     rv_validationTarget := trim (rv_validationTarget v), rv_notes := trim (rv_notes v)\<rparr>"

definition route_ok :: "RouteValues \<Rightarrow> bool" where
  "route_ok v \<longleftrightarrow>
     2 \<le> length (rv_name v) \<and> length (rv_name v) \<le> 100 \<and> length (rv_description v) \<le> 500 \<and>
     rv_interfaceName v \<noteq> [] \<and> rv_sourceIp v \<noteq> [] \<and> length (rv_expectedGateway v) \<le> 128 \<and>
     length (rv_expectedRoutingTable v) \<le> 64 \<and> rx_match routing_table (rv_expectedRoutingTable v) \<and>
     rv_validationTarget v \<noteq> [] \<and> length (rv_validationTarget v) \<le> 255 \<and> length (rv_notes v) \<le> 1000"

definition routeSchema :: "RouteValues \<Rightarrow> RouteValues option" where
  "routeSchema v = (let t = trimmed_route v in if route_ok t then Some t else None)"

definition route_json :: "RouteValues \<Rightarrow> json" where
  "route_json v = JObj
     [(''name'', JStr (rv_name v)), (''description'', JStr (rv_description v)),
      (''interfaceName'', JStr (rv_interfaceName v)), (''sourceIp'', JStr (rv_sourceIp v)),
      (''expectedGateway'', JStr (rv_expectedGateway v)),
      (''expectedRoutingTable'', JStr (rv_expectedRoutingTable v)),
      (''validationTarget'', JStr (rv_validationTarget v)), (''notes'', JStr (rv_notes v))]"

record route_profile = RouteValues +
  rv_id :: string

definition profile_values :: "route_profile option \<Rightarrow> RouteValues" where
  "profile_values p = (case p of Some q \<Rightarrow> RouteValues.truncate q | None \<Rightarrow> routeDefaults)"

definition choose_interface :: "string \<Rightarrow> RouteValues \<Rightarrow> RouteValues" where
  "choose_interface n v = v\<lparr>rv_interfaceName := n, rv_sourceIp := []\<rparr>"

text \<open>Submitting the dialog: nothing when the schema refuses, else the call.\<close>

definition save_route :: "route_profile option \<Rightarrow> RouteValues \<Rightarrow> api_call option" where
  "save_route p v =
     map_option (\<lambda>t. case p of
         Some q \<Rightarrow> Api_updateRoute (rv_id q) (route_json t)
       | None \<Rightarrow> Api_createRoute (route_json t)) (routeSchema v)"

subsection \<open>Validating a profile\<close>

text \<open>The profile whose validation was asked for last, and whether its spinner shows.\<close>

type_synonym validation = "(string \<times> bool) option"

datatype validation_event = Validate_Route string | Validation_Settled

fun validation_step :: "validation \<Rightarrow> validation_event \<Rightarrow> validation" where
  "validation_step s (Validate_Route i) = Some (i, True)"
| "validation_step s Validation_Settled = map_option (\<lambda>(i, _). (i, False)) s"

definition validating :: "validation \<Rightarrow> string \<Rightarrow> bool" where
  "validating s i = (case s of Some (j, pending) \<Rightarrow> j = i \<and> pending | None \<Rightarrow> False)"

subsection \<open>The page\<close>

text \<open>The open editor shows a new profile (\<^term>\<open>Some None\<close>) or an existing one.\<close>

record network_page =
  np_includeDown :: bool
  np_includeVirtual :: bool
  np_editRoute :: "route_profile option option"
  np_deleteRoute :: "route_profile option"
  np_validation :: validation
  np_refreshing :: bool
  np_deleting :: bool
  np_saving :: bool

definition network_init :: network_page where
  "network_init = \<lparr>np_includeDown = False, np_includeVirtual = False, np_editRoute = None, np_deleteRoute = None,
     np_validation = None, np_refreshing = False, np_deleting = False, np_saving = False\<rparr>"

datatype network_event =
    Show_Down bool
  | Show_Virtual bool
  | Refresh_Asked
  | Refresh_Settled bool
  | Validate_Asked route_profile
  | Validation_Answered bool
  | Validation_Failed
  | Route_New
  | Route_Edit route_profile
  | Route_Editor_Closed
  | Route_Submitted RouteValues
  | Route_Stored
  | Route_Refused
  | Route_Delete_Asked route_profile
  | Route_Delete_Closed
  | Route_Delete_Confirmed
  | Route_Deleted
  | Route_Delete_Failed

datatype network_output = Net_Call api_call | Net_Invalidate query_key | Net_Toast ToastTone string

definition interface_query :: "network_page \<Rightarrow> api_call" where
  "interface_query s = Api_interfaces [(''includeDown'', Some (JBool (np_includeDown s))),
     (''includeVirtual'', Some (JBool (np_includeVirtual s)))]"

fun network_step :: "network_page \<Rightarrow> network_event \<Rightarrow> network_page" where
  "network_step s (Show_Down b) = s\<lparr>np_includeDown := b\<rparr>"
| "network_step s (Show_Virtual b) = s\<lparr>np_includeVirtual := b\<rparr>"
| "network_step s Refresh_Asked = s\<lparr>np_refreshing := True\<rparr>"
| "network_step s (Refresh_Settled ok) = s\<lparr>np_refreshing := False\<rparr>"
| "network_step s (Validate_Asked p) =
     (if validating (np_validation s) (rv_id p) then s
      else s\<lparr>np_validation := validation_step (np_validation s) (Validate_Route (rv_id p))\<rparr>)"
| "network_step s (Validation_Answered ok) = s\<lparr>np_validation := validation_step (np_validation s) Validation_Settled\<rparr>"
| "network_step s Validation_Failed = s\<lparr>np_validation := validation_step (np_validation s) Validation_Settled\<rparr>"
| "network_step s Route_New = s\<lparr>np_editRoute := Some None\<rparr>"
| "network_step s (Route_Edit p) = s\<lparr>np_editRoute := Some (Some p)\<rparr>"
| "network_step s Route_Editor_Closed = s\<lparr>np_editRoute := None\<rparr>"
| "network_step s (Route_Submitted v) =
     (case np_editRoute s of
        Some p \<Rightarrow> if save_route p v \<noteq> None \<and> \<not> np_saving s then s\<lparr>np_saving := True\<rparr> else s
      | None \<Rightarrow> s)"
| "network_step s Route_Stored = s\<lparr>np_editRoute := None, np_saving := False\<rparr>"
| "network_step s Route_Refused = s\<lparr>np_saving := False\<rparr>"
| "network_step s (Route_Delete_Asked p) = s\<lparr>np_deleteRoute := Some p\<rparr>"
| "network_step s Route_Delete_Closed = s\<lparr>np_deleteRoute := None\<rparr>"
| "network_step s Route_Delete_Confirmed = (if np_deleteRoute s \<noteq> None then s\<lparr>np_deleting := True\<rparr> else s)"
| "network_step s Route_Deleted = s\<lparr>np_deleteRoute := None, np_deleting := False\<rparr>"
| "network_step s Route_Delete_Failed = s\<lparr>np_deleting := False\<rparr>"

fun network_emits :: "network_page \<Rightarrow> network_event \<Rightarrow> network_output list" where
  "network_emits s Refresh_Asked = (if np_refreshing s then [] else [Net_Call Api_refreshInterfaces])"
| "network_emits s (Refresh_Settled ok) =
     (if ok then [Net_Invalidate (queryKeys Q_interfaces), Net_Invalidate (queryKeys Q_tasks),
        Net_Toast Success ''Interface snapshot refreshed'']
      else [Net_Toast Error ''Refresh failed''])"
| "network_emits s (Validate_Asked p) =
     (if validating (np_validation s) (rv_id p) then [] else [Net_Call (Api_validateRoute (rv_id p))])"
| "network_emits s (Validation_Answered ok) =
     [Net_Invalidate (queryKeys Q_routes),
      if ok then Net_Toast Success ''Route matches expectations'' else Net_Toast Error ''Route mismatch detected'']"
| "network_emits s Validation_Failed = [Net_Toast Error ''Validation failed'']"
| "network_emits s (Route_Submitted v) =
     (case np_editRoute s of
        Some p \<Rightarrow> (case save_route p v of Some c \<Rightarrow> if np_saving s then [] else [Net_Call c] | None \<Rightarrow> [])
      | None \<Rightarrow> [])"
| "network_emits s Route_Stored =
     [Net_Toast Success (case np_editRoute s of Some (Some p) \<Rightarrow> ''Route profile updated'' | _ \<Rightarrow> ''Route profile created''),
      Net_Invalidate (queryKeys Q_routes)]"
| "network_emits s Route_Refused = [Net_Toast Error ''Unable to save route profile'']"
| "network_emits s Route_Delete_Confirmed =
     (case np_deleteRoute s of Some p \<Rightarrow> if np_deleting s then [] else [Net_Call (Api_deleteRoute (rv_id p))] | None \<Rightarrow> [])"
| "network_emits s Route_Deleted = [Net_Invalidate (queryKeys Q_routes), Net_Toast Success ''Route profile deleted'']"
| "network_emits s Route_Delete_Failed = [Net_Toast Error ''Unable to delete profile'']"
| "network_emits s _ = []"

subsection \<open>Host commands\<close>

definition shellQuote :: "string \<Rightarrow> string" where
  "shellQuote v = CHR 0x27 # concat (map (\<lambda>c. if c = CHR 0x27 then [CHR 0x27, CHR 0x22, CHR 0x27, CHR 0x22, CHR 0x27] else [c]) v) @ [CHR 0x27]"

definition or_text :: "string \<Rightarrow> string \<Rightarrow> string" where
  "or_text s d = (if s = [] then d else s)"

definition example_profile :: "route_profile list \<Rightarrow> route_profile option" where
  "example_profile routes =
     (case find (\<lambda>p. rv_expectedGateway p \<noteq> []) routes of
        Some p \<Rightarrow> Some p
      | None \<Rightarrow> (case routes of [] \<Rightarrow> None | p # _ \<Rightarrow> Some p))"

definition profile_text :: "route_profile option \<Rightarrow> (route_profile \<Rightarrow> string) \<Rightarrow> string \<Rightarrow> string" where
  "profile_text p f d = (case p of Some q \<Rightarrow> or_text (f q) d | None \<Rightarrow> d)"

definition source_prefix :: "string \<Rightarrow> string" where
  "source_prefix source = (if CHR '':'' \<in> set source then source @ ''/128'' else source @ ''/32'')"

definition policy_commands :: "route_profile list \<Rightarrow> string" where
  "policy_commands routes =
     (let p = example_profile routes;
          source = profile_text p rv_sourceIp ''192.0.2.10'';
          gateway = profile_text p rv_expectedGateway ''192.0.2.1'';
          device = profile_text p rv_interfaceName ''eth1'';
          table = profile_text p rv_expectedRoutingTable ''100''
      in ''ip rule add from '' @ source_prefix source @ '' table '' @ shellQuote table @ [CHR 0x0A] @
         ''ip route add default via '' @ gateway @ '' dev '' @ shellQuote device @ '' table '' @ shellQuote table)"

subsection \<open>How the shell reads them\<close>

text \<open>
  Words of ordinary characters, single-quoted parts, and double-quoted parts without expansions,
  separated by one blank or newline; anything else is refused.
\<close>

definition break_at :: "char \<Rightarrow> string \<Rightarrow> (string \<times> string) option" where
  "break_at c s =
     (case dropWhile (\<lambda>x. x \<noteq> c) s of [] \<Rightarrow> None | _ # r \<Rightarrow> Some (takeWhile (\<lambda>x. x \<noteq> c) s, r))"

definition plain_char :: "char \<Rightarrow> bool" where
  "plain_char c \<longleftrightarrow> is_alpha c \<or> is_digit c \<or> c \<in> {CHR ''.'', CHR '':'', CHR ''/'', CHR ''_'', CHR ''-''}"

definition separator :: "char \<Rightarrow> bool" where
  "separator c \<longleftrightarrow> c = CHR '' '' \<or> c = CHR 0x0A"

lemma break_at_length: "break_at c s = Some (q, r) \<Longrightarrow> length r < length s"
  using length_dropWhile_le [of "\<lambda>x. x \<noteq> c" s] by (auto simp: break_at_def split: list.splits)

function read_word :: "string \<Rightarrow> (string \<times> string) option" where
  "read_word [] = Some ([], [])"
| "read_word (c # s) =
     (if separator c then Some ([], c # s)
      else if c = CHR 0x27 then
        (case break_at (CHR 0x27) s of
           None \<Rightarrow> None | Some (q, r) \<Rightarrow> map_option (apfst (append q)) (read_word r))
      else if c = CHR 0x22 then
        (case break_at (CHR 0x22) s of
           None \<Rightarrow> None
         | Some (q, r) \<Rightarrow>
             if list_ex (\<lambda>x. x \<in> {CHR ''$'', CHR 0x60, CHR 0x5C}) q then None
             else map_option (apfst (append q)) (read_word r))
      else if plain_char c then map_option (apfst (Cons c)) (read_word s)
      else None)"
  by pat_completeness auto
termination
  by (relation "measure length") (auto dest: break_at_length)

lemma read_word_rest:
  assumes "read_word (c # s) = Some (w, r)"
  shows "r = c # s \<or> (\<exists>w'. read_word s = Some (w', r)) \<or>
    (\<exists>d q t w'. break_at d s = Some (q, t) \<and> read_word t = Some (w', r))"
  using assms by (auto split: if_splits option.splits)

lemma read_word_length: "read_word s = Some (w, r) \<Longrightarrow> length r \<le> length s"
proof (induction s arbitrary: w r rule: length_induct)
  case (1 s)
  show ?case
  proof (cases s)
    case Nil
    with "1.prems" show ?thesis by simp
  next
    case (Cons c s')
    with "1.prems" consider "r = c # s'" | w' where "read_word s' = Some (w', r)"
      | d q t w' where "break_at d s' = Some (q, t)" "read_word t = Some (w', r)"
      using read_word_rest [of c s' w r] by auto
    then show ?thesis
    proof cases
      case 3
      then have "length t < length s"
        using break_at_length [OF 3(1)] Cons by simp
      moreover from this have "length r \<le> length t" using "1.IH" 3(2) by blast
      ultimately show ?thesis by simp
    next
      case 2
      then have "length r \<le> length s'" using "1.IH" Cons by auto
      then show ?thesis using Cons by simp
    qed (simp add: Cons)
  qed
qed

text \<open>The commands of a script, each with its words.\<close>

function read_script :: "string \<Rightarrow> string list list option" where
  "read_script s =
     (case read_word s of
        None \<Rightarrow> None
      | Some (w, []) \<Rightarrow> Some [[w]]
      | Some (w, c # r) \<Rightarrow>
          (case read_script r of
             Some (ws # commands) \<Rightarrow>
               Some (if c = CHR '' '' then (w # ws) # commands else [w] # ws # commands)
           | _ \<Rightarrow> None))"
  by pat_completeness auto
termination
  by (relation "measure length") (auto dest: read_word_length)

declare read_script.simps [simp del]

subsection \<open>Lemmas\<close>

definition word_end :: "string \<Rightarrow> bool" where
  "word_end r \<longleftrightarrow> r = [] \<or> separator (hd r)"

lemma read_word_end: "word_end r \<Longrightarrow> read_word r = Some ([], r)"
  by (cases r) (auto simp: word_end_def)

lemma break_at_append: "c \<notin> set q \<Longrightarrow> break_at c (q @ c # r) = Some (q, r)"
  by (simp add: break_at_def takeWhile_append dropWhile_append)

lemma read_plain:
  "list_all plain_char w \<Longrightarrow> word_end r \<Longrightarrow> read_word (w @ r) = Some (w, r)"
proof (induction w)
  case Nil
  then show ?case by (simp add: read_word_end)
next
  case (Cons c w)
  then have "plain_char c" by simp
  then have "\<not> separator c" "c \<noteq> CHR 0x27" "c \<noteq> CHR 0x22"
    by (auto simp: plain_char_def separator_def is_alpha_def is_digit_def)
  with Cons show ?case by simp
qed

definition quote_body :: "string \<Rightarrow> string" where
  "quote_body v = concat (map (\<lambda>c. if c = CHR 0x27 then [CHR 0x27, CHR 0x22, CHR 0x27, CHR 0x22, CHR 0x27] else [c]) v)"

lemma shellQuote_body: "shellQuote v = CHR 0x27 # quote_body v @ [CHR 0x27]"
  by (simp add: shellQuote_def quote_body_def)

lemma quote_body_plain: "CHR 0x27 \<notin> set v \<Longrightarrow> quote_body v = v"
  by (induction v) (auto simp: quote_body_def)

lemma quote_body_append: "quote_body (a @ b) = quote_body a @ quote_body b"
  by (simp add: quote_body_def)

text \<open>The shell reads a quoted value back as one word, whatever characters it has.\<close>

lemma read_quoted:
  "word_end r \<Longrightarrow> read_word (shellQuote v @ r) = Some (v, r)"
proof (induction v rule: length_induct)
  case (1 v)
  show ?case
  proof (cases "CHR 0x27 \<in> set v")
    case False
    then have "break_at (CHR 0x27) (v @ CHR 0x27 # r) = Some (v, r)"
      by (rule break_at_append)
    with False "1.prems" show ?thesis
      by (simp add: shellQuote_body quote_body_plain read_word_end separator_def)
  next
    case True
    then obtain a b where v: "v = a @ CHR 0x27 # b" "CHR 0x27 \<notin> set a"
      by (meson split_list_first)
    let ?b = "shellQuote b @ r"
    have body: "quote_body v = a @ CHR 0x27 # CHR 0x22 # CHR 0x27 # CHR 0x22 # CHR 0x27 # quote_body b"
      using v by (simp add: quote_body_append quote_body_plain) (simp add: quote_body_def)
    have s: "shellQuote v @ r = CHR 0x27 # a @ CHR 0x27 # CHR 0x22 # CHR 0x27 # CHR 0x22 # ?b"
      by (simp add: shellQuote_body body)
    have "break_at (CHR 0x27) (a @ CHR 0x27 # CHR 0x22 # CHR 0x27 # CHR 0x22 # ?b) =
        Some (a, CHR 0x22 # CHR 0x27 # CHR 0x22 # ?b)"
      using v(2) by (rule break_at_append)
    moreover have "break_at (CHR 0x22) (CHR 0x27 # CHR 0x22 # ?b) = Some ([CHR 0x27], ?b)"
      using break_at_append [of "CHR 0x22" "[CHR 0x27]" ?b] by simp
    moreover have "read_word ?b = Some (b, r)"
      using 1 v by simp
    ultimately show ?thesis
      unfolding s by (simp add: separator_def v)
  qed
qed

interpretation shell: prefix_codec shellQuote read_word "\<lambda>_. True" word_end
  by unfold_locales (simp_all add: read_quoted word_end_def)

lemma script_word:
  "read_word (w @ CHR '' '' # r) = Some (v, CHR '' '' # r) \<Longrightarrow> read_script r = Some (ws # cs) \<Longrightarrow>
   read_script (w @ CHR '' '' # r) = Some ((v # ws) # cs)"
  by (subst read_script.simps) simp

lemma script_line:
  "read_word (w @ CHR 0x0A # r) = Some (v, CHR 0x0A # r) \<Longrightarrow> read_script r = Some (ws # cs) \<Longrightarrow>
   read_script (w @ CHR 0x0A # r) = Some ([v] # ws # cs)"
  by (subst read_script.simps) simp

lemma script_last: "read_word w = Some (v, []) \<Longrightarrow> read_script w = Some [[v]]"
  by (subst read_script.simps) simp

subsection \<open>Properties\<close>

lemma script_plain_word:
  assumes "list_all plain_char w" "read_script r = Some (ws # cs)"
  shows "read_script (w @ CHR '' '' # r) = Some ((w # ws) # cs)"
  by (rule script_word [OF read_plain [OF assms(1)] assms(2)]) (simp add: word_end_def separator_def)

lemma script_quoted_word:
  assumes "read_script r = Some (ws # cs)"
  shows "read_script (shellQuote v @ CHR '' '' # r) = Some ((v # ws) # cs)"
  by (rule script_word [OF read_quoted assms]) (simp add: word_end_def separator_def)

lemma script_quoted_line:
  assumes "read_script r = Some (ws # cs)"
  shows "read_script (shellQuote v @ CHR 0x0A # r) = Some ([v] # ws # cs)"
  by (rule script_line [OF read_quoted assms]) (simp add: word_end_def separator_def)

lemma script_quoted_last: "read_script (shellQuote v) = Some [[v]]"
  using read_quoted [of "[]" v] by (intro script_last) (simp add: word_end_def)

lemmas script_steps =
  script_plain_word [where w = "''ip''", simplified] script_plain_word [where w = "''rule''", simplified]
  script_plain_word [where w = "''add''", simplified] script_plain_word [where w = "''from''", simplified]
  script_plain_word [where w = "''table''", simplified] script_plain_word [where w = "''route''", simplified]
  script_plain_word [where w = "''default''", simplified] script_plain_word [where w = "''via''", simplified]
  script_plain_word [where w = "''dev''", simplified]

text \<open>
  C11. The commands offered for copying are two commands with the intended arguments, for every device
  and table name, whatever characters these contain: their quoting is undone by the shell. Source and
  gateway are not quoted; the hypothesis is that they consist of characters an address has, which the
  daemon checks before it stores a profile.
\<close>

theorem policy_commands_words:
  assumes "list_all plain_char (profile_text (example_profile routes) rv_sourceIp ''192.0.2.10'')"
    and "list_all plain_char (profile_text (example_profile routes) rv_expectedGateway ''192.0.2.1'')"
  shows "read_script (policy_commands routes) =
    (let p = example_profile routes;
         table = profile_text p rv_expectedRoutingTable ''100'' in
     Some [[''ip'', ''rule'', ''add'', ''from'', source_prefix (profile_text p rv_sourceIp ''192.0.2.10''),
            ''table'', table],
           [''ip'', ''route'', ''add'', ''default'', ''via'', profile_text p rv_expectedGateway ''192.0.2.1'',
            ''dev'', profile_text p rv_interfaceName ''eth1'', ''table'', table]])"
proof -
  let ?p = "example_profile routes"
  let ?src = "source_prefix (profile_text ?p rv_sourceIp ''192.0.2.10'')"
  let ?gw = "profile_text ?p rv_expectedGateway ''192.0.2.1''"
  let ?dev = "profile_text ?p rv_interfaceName ''eth1''"
  let ?tab = "profile_text ?p rv_expectedRoutingTable ''100''"
  have src: "list_all plain_char ?src"
    using assms(1) by (auto simp: source_prefix_def plain_char_def is_digit_def)
  have line2: "read_script (''ip route add default via '' @ ?gw @ '' dev '' @ shellQuote ?dev @ '' table '' @ shellQuote ?tab) =
      Some [[''ip'', ''route'', ''add'', ''default'', ''via'', ?gw, ''dev'', ?dev, ''table'', ?tab]]"
    using script_plain_word [OF assms(2)]
    by (simp add: script_steps script_quoted_word script_quoted_last plain_char_def is_alpha_def is_digit_def)
  have "read_script (''ip rule add from '' @ ?src @ '' table '' @ shellQuote ?tab @ [CHR 0x0A] @
      ''ip route add default via '' @ ?gw @ '' dev '' @ shellQuote ?dev @ '' table '' @ shellQuote ?tab) =
      Some [[''ip'', ''rule'', ''add'', ''from'', ?src, ''table'', ?tab],
            [''ip'', ''route'', ''add'', ''default'', ''via'', ?gw, ''dev'', ?dev, ''table'', ?tab]]"
    using script_plain_word [OF src] line2
    by (simp add: script_steps script_quoted_line plain_char_def is_alpha_def is_digit_def)
  then show ?thesis
    by (simp add: policy_commands_def Let_def)
qed

definition sample_profile :: route_profile where
  "sample_profile = \<lparr>rv_name = ''Fiber'', rv_description = [], rv_interfaceName = ''wan0; reboot'',
     rv_sourceIp = ''2001:db8::1'', rv_expectedGateway = ''2001:db8::ff'',
     rv_expectedRoutingTable = ''100'', rv_validationTarget = ''one.one.one.one'', rv_notes = [],
     rv_id = ''p1''\<rparr>"

theorem policy_commands_words_witness:
  "read_script (policy_commands [sample_profile]) =
     Some [[''ip'', ''rule'', ''add'', ''from'', ''2001:db8::1/128'', ''table'', ''100''],
           [''ip'', ''route'', ''add'', ''default'', ''via'', ''2001:db8::ff'', ''dev'', ''wan0; reboot'',
            ''table'', ''100'']]"
  using policy_commands_words [of "[sample_profile]"]
  by (simp add: Let_def example_profile_def sample_profile_def profile_text_def or_text_def source_prefix_def
      plain_char_def is_alpha_def is_digit_def)

lemma trimmed_route_idem: "trimmed_route (trimmed_route v) = trimmed_route v"
  by (simp add: trimmed_route_def)

lemma route_json_typed: "has_type ui_RouteProfileInput (route_json v)" "wf_json (route_json v)"
proof -
  show "has_type ui_RouteProfileInput (route_json v)"
    by (simp add: route_json_def ui_RouteProfileInput_def ui_RouteProfile_def RouteProfile_def
        RouteProfileFields_def ts_ops contract_types obj_get_def)
  show "wf_json (route_json v)"
    unfolding route_json_def by (rule wf_literal) (simp_all add: letter_key_def is_alpha_def)
qed



text \<open>A second validation's spinner ends with the answer of the first.\<close>

lemma validation_settles_other:
  "validating (foldl validation_step s [Validate_Route a, Validate_Route b, Validation_Settled]) b = False"
  by (simp add: validating_def)

text \<open>
  Every call of the page is typed; a deletion is for the profile that was last chosen for deletion, and a
  profile is saved only from the open editor, as what the editor shows.
\<close>

lemma route_delete_origin:
  "np_deleteRoute (foldl network_step network_init es) = Some p \<Longrightarrow> Route_Delete_Asked p \<in> set es"
proof (induction es rule: rev_induct)
  case (snoc e es)
  let ?s = "foldl network_step network_init es"
  have "np_deleteRoute (network_step ?s e) = Some p \<Longrightarrow> np_deleteRoute ?s = Some p \<or> e = Route_Delete_Asked p"
    by (cases e) (auto split: option.splits if_splits)
  with snoc show ?case by auto
qed (simp add: network_init_def)

lemma network_calls:
  assumes "Net_Call c \<in> set (network_emits (foldl network_step network_init es) e)"
  shows "c = Api_refreshInterfaces \<or> (\<exists>p. c = Api_validateRoute (rv_id p) \<and> e = Validate_Asked p) \<or>
    (\<exists>p v. e = Route_Submitted v \<and> save_route p v = Some c) \<or>
    (\<exists>p. c = Api_deleteRoute (rv_id p) \<and> Route_Delete_Asked p \<in> set es)"
  using assms by (cases e) (auto split: option.splits if_splits dest: route_delete_origin [OF sym] route_delete_origin)

end
