(* ===== verification/NetworkView.thy ===== *)
theory NetworkView
  imports NetworkPage EditorSteps Widgets Shell
begin

text \<open>
  What the network page shows (\<open>pages/NetworkPage.tsx\<close>): the cards of interfaces and of route profiles, the
  host commands for copying, the dialog of a profile and the one before a deletion. \<open>check\<close> gives what the
  daemon reports of the last validation of a profile, \<open>dateTime\<close> prints an instant, \<open>err\<close> and \<open>uid\<close>
  give the message and the identifier of a field of the dialog.
\<close>

record shown_interface = network_interface +
  ni_macAddress :: string
  ni_mtu :: js_number
  ni_operational :: bool
  ni_operationalState :: string
  ni_loopback :: bool

record route_check =
  rc_lastValidationAt :: "string option"
  rc_lastValidationSucceeded :: "bool option"
  rc_snapshot :: "(string \<times> json) list"

text \<open>Submitting the dialog sends what its form holds; a copied text goes to the clipboard.\<close>

datatype network_click = Net network_event | Submit_Route | Copy_Commands string | Network_Retry

abbreviation net :: "network_event \<Rightarrow> (string \<times> network_click) list" where
  "net e \<equiv> [(''onClick'', Net e)]"

subsection \<open>Cards\<close>

definition state_text :: "shown_interface \<Rightarrow> string \<Rightarrow> string \<Rightarrow> string" where
  "state_text item up down = or_else (ni_operationalState item) (if ni_operational item then up else down)"

definition InterfaceCard :: "shown_interface \<Rightarrow> 'a element" where
  "InterfaceCard item =
     (let routable = filter (\<lambda>a. \<not> ia_linkLocal a) (ni_addresses item) in
      Card
        [node_of ''div'' [],
         node_of ''div''
           [node_of ''div''
              [node_of ''div'' [node_of ''span'' [Icon ''Cable''],
                 node_of ''div'' [node_of ''h3'' [Words (ni_name item)], node_of ''p'' [Words (or_else (ni_macAddress item) ''MAC unavailable'')]]],
               Badge [StatusDot, Words (state_text item ''Up'' ''Down'')]],
            node_of ''div''
              ([Badge [Words (''MTU '' @ js_number_string (ni_mtu item))]] @ shown (ni_virtual item) (Badge [Words ''Virtual'']) @
               shown (ni_loopback item) (Badge [Words ''Loopback''])),
            node_of ''div''
              (if routable \<noteq> []
               then map (\<lambda>a. node_of ''div'' [node_of ''code'' [Words (ia_address a)], Badge [Words (family_label (ia_family a))]]) routable
               else [node_of ''p'' [Words ''No routable source addresses detected.'']])]])"

definition snapshot_text :: "(string \<times> json) list \<Rightarrow> string \<Rightarrow> string option" where
  "snapshot_text kvs k = (case obj_get kvs k of Some (JStr s) \<Rightarrow> Some s | _ \<Rightarrow> None)"

definition detected :: "(string \<times> json) list \<Rightarrow> string \<Rightarrow> string" where
  "detected kvs k = (case snapshot_text kvs k of Some s \<Rightarrow> or_else s em_dash | None \<Rightarrow> em_dash)"

definition snapshot_number :: "(string \<times> json) list \<Rightarrow> string \<Rightarrow> js_number option" where
  "snapshot_number kvs k = (case obj_get kvs k of Some (JNum n) \<Rightarrow> Some n | _ \<Rightarrow> None)"

definition fact :: "string \<Rightarrow> string \<Rightarrow> 'a element list" where
  "fact label value = [node_of ''dt'' [Words label], node_of ''dd'' [Words value]]"

definition route_list :: "(string option \<Rightarrow> string) \<Rightarrow> route_check \<Rightarrow> route_profile \<Rightarrow> 'a element" where
  "route_list dateTime c p =
     node_of ''dl''
       (fact ''Expected path'' (rv_interfaceName p @ dot_sep @ rv_sourceIp p) @
        fact ''Expected gateway'' (or_else (rv_expectedGateway p) ''Any'') @ fact ''Detected gateway'' (detected (rc_snapshot c) ''gateway'') @
        fact ''Expected table'' (or_else (rv_expectedRoutingTable p) ''Any'') @
        fact ''Detected table'' (detected (rc_snapshot c) ''routingTable'') @ fact ''Target'' (rv_validationTarget p) @
        (case rc_lastValidationAt c of
           None \<Rightarrow> []
         | Some moment \<Rightarrow>
             if moment = [] then []
             else fact ''Last validation'' (dateTime (Some moment) @ dot_sep @ formatMilliseconds (snapshot_number (rc_snapshot c) ''durationMs'')) @
               fact ''Detected public IP'' (case snapshot_text (rc_snapshot c) ''detectedPublicIp'' of Some s \<Rightarrow> s | None \<Rightarrow> em_dash)))"

definition RouteCard :: "(string option \<Rightarrow> string) \<Rightarrow> route_check \<Rightarrow> bool \<Rightarrow> route_profile \<Rightarrow> network_click element" where
  "RouteCard dateTime c busy p =
     (let success = rc_lastValidationSucceeded c in
      Card
        [CardHeader
           [node_of ''div'' [node_of ''span'' [Icon ''Route''],
              node_of ''div'' [CardTitle [Words (rv_name p)], node_of ''p'' [Words (or_else (rv_description p) ''No description'')]]],
            Badge [Icon (case success of Some True \<Rightarrow> ''CheckCircle2'' | Some False \<Rightarrow> ''XCircle'' | None \<Rightarrow> ''Eye''),
              Words (case success of Some True \<Rightarrow> ''Valid'' | Some False \<Rightarrow> ''Mismatch'' | None \<Rightarrow> ''Not validated'')]],
         CardContent
           ([route_list dateTime c p] @
            (case snapshot_text (rc_snapshot c) ''message'' of
               Some m \<Rightarrow> shown (success = Some False) (node_of ''p'' [Words m]) | None \<Rightarrow> []) @
            [node_of ''div''
               [Button False (disabled_prop busy) (net (Validate_Asked p)) [if busy then Spinner else Icon ''Eye'', Words ''Validate now''],
                Button False [] (net (Route_Edit p)) [Icon ''Edit3'', Words ''Edit''],
                Button False [] (net (Route_Delete_Asked p)) [Icon ''Trash2'', Words ''Delete'']]])])"

definition PolicyExamples :: "(string \<Rightarrow> string) \<Rightarrow> route_profile list \<Rightarrow> network_click element" where
  "PolicyExamples t routes =
     node_of ''section''
       [SectionHeader t ''Host policy-routing example'' ''Copy-only examples derived from the selected route profile; never executed by MultiSpeed'' [],
        Card [CardContent [node_of ''div''
          [Icon ''Network'',
           node_of ''div'' [node_of ''pre'' [node_of ''code'' [Words (policy_commands routes)]],
             node_of ''p'' [Words ''Review interface names, prefixes, gateways, and table IDs on the Docker host. These examples are informational and may not match your network design.'']],
           Button False [] [(''onClick'', Copy_Commands (policy_commands routes))] [Icon ''Clipboard'', Words ''Copy'']]]]]"

subsection \<open>Dialogs\<close>

definition route_field ::
  "(string \<Rightarrow> string) \<Rightarrow> (string \<Rightarrow> string) \<Rightarrow> string \<Rightarrow> string \<Rightarrow> string \<Rightarrow> bool \<Rightarrow> string \<Rightarrow> string \<Rightarrow> 'a element" where
  "route_field uid err tag k hint isRequired label example =
     Field (uid k) label hint (err k) isRequired (Element tag [(''name'', k), (''placeholder'', example)] [] [])"

definition route_select ::
  "(string \<Rightarrow> string) \<Rightarrow> (string \<Rightarrow> string) \<Rightarrow> string \<Rightarrow> string \<Rightarrow> bool \<Rightarrow> (string \<times> string) list \<Rightarrow> 'a element" where
  "route_select uid err k label off choices =
     Field (uid k) label [] (err k) True
       (Element ''NativeSelect'' ([(''name'', k)] @ disabled_prop off) [] (map (\<lambda>(v, w). Element ''option'' [(''value'', v)] [] [Words w]) choices))"

definition interface_choices :: "shown_interface list \<Rightarrow> (string \<times> string) list" where
  "interface_choices interfaces =
     ([], ''Select interface'' @ ellipsis) # map (\<lambda>item. (ni_name item, ni_name item @ dot_sep @ state_text item ''up'' ''down'')) interfaces"

definition address_choices :: "shown_interface list \<Rightarrow> string \<Rightarrow> (string \<times> string) list" where
  "address_choices interfaces name =
     ([], ''Select concrete address'' @ ellipsis) #
     (case find (\<lambda>item. ni_name item = name) interfaces of
        Some item \<Rightarrow> map (\<lambda>a. (ia_address a, ia_address a @ dot_sep @ family_label (ia_family a))) (filter (\<lambda>a. \<not> ia_linkLocal a) (ni_addresses item))
      | None \<Rightarrow> [])"

text \<open>\<open>v\<close> is what the form of the dialog holds.\<close>

definition route_form ::
  "(string \<Rightarrow> string) \<Rightarrow> (string \<Rightarrow> string) \<Rightarrow> shown_interface list \<Rightarrow> bool \<Rightarrow> bool \<Rightarrow> RouteValues \<Rightarrow> network_click element" where
  "route_form uid err interfaces existing saving v =
     Element ''form'' [] [(''onSubmit'', Submit_Route)]
       [node_of ''div''
          [route_field uid err ''Input'' ''name'' [] True ''Profile name'' ''Fiber policy route'',
           route_field uid err ''Input'' ''validationTarget'' [] True ''Validation target'' ''one.one.one.one''],
        route_field uid err ''Input'' ''description'' [] False ''Description'' ''Expected path for the primary fiber uplink'',
        node_of ''div''
          [route_select uid err ''interfaceName'' ''Interface'' False (interface_choices interfaces),
           route_select uid err ''sourceIp'' ''Source address'' (rv_interfaceName v = []) (address_choices interfaces (rv_interfaceName v))],
        node_of ''div''
          [route_field uid err ''Input'' ''expectedGateway'' ''Optional'' False ''Expected gateway'' ''192.0.2.1'',
           route_field uid err ''Input'' ''expectedRoutingTable'' ''ID or name'' False ''Expected routing table'' ''100 or wan_fiber''],
        route_field uid err ''Textarea'' ''notes'' ''Optional'' False ''Operator notes'' ''Host policy-routing prerequisites and change record.'',
        node_of ''div''
          [Button False ([(''type'', ''button'')] @ disabled_prop saving) (net Route_Editor_Closed) [Words ''Cancel''],
           Button False ([(''type'', ''submit'')] @ disabled_prop saving) []
             (shown saving Spinner @ [Words (if existing then ''Save changes'' else ''Create profile'')])]]"

definition RouteDialog ::
  "(string \<Rightarrow> string) \<Rightarrow> (string \<Rightarrow> string) \<Rightarrow> (string \<Rightarrow> string) \<Rightarrow> shown_interface list \<Rightarrow> RouteValues \<Rightarrow> network_page \<Rightarrow> network_click element" where
  "RouteDialog t uid err interfaces v s =
     (let existing = (case np_editRoute s of Some (Some p) \<Rightarrow> True | _ \<Rightarrow> False) in
      Element ''Dialog'' [(''open'', if np_editRoute s \<noteq> None then ''true'' else ''false'')] [(''onOpenChange'', Net Route_Editor_Closed)]
        [DialogContent t (if existing then ''Edit route profile'' else ''Create route profile'')
           ''Persist expected routing facts. MultiSpeed never executes route changes.''
           [route_form uid err interfaces existing (np_saving s) v]])"

definition route_delete_dialog :: "(string \<Rightarrow> string) \<Rightarrow> network_page \<Rightarrow> network_click element" where
  "route_delete_dialog t s =
     ConfirmDialog t (np_deleteRoute s \<noteq> None) (\<lambda>_. Net Route_Delete_Closed) ''Delete route profile?''
       [node_of ''strong'' [Words (case np_deleteRoute s of Some p \<Rightarrow> rv_name p | None \<Rightarrow> [])],
        Words '' will no longer be available for task validation. Tasks that reference it must be updated first.'']
       ''Delete profile'' (Net Route_Delete_Confirmed) (np_deleting s)"

subsection \<open>The page\<close>

definition interfaces_section :: "(string \<Rightarrow> string) \<Rightarrow> shown_interface list \<Rightarrow> network_page \<Rightarrow> network_click element" where
  "interfaces_section t interfaces s =
     node_of ''section''
       [SectionHeader t ''Detected interfaces''
          (nat_string (length interfaces) @ '' interface'' @ (if length interfaces = 1 then [] else ''s'') @ '' shown from the active namespace'')
          [node_of ''div''
             [CheckField (np_includeDown s) (\<lambda>b. Net (Show_Down b)) ''Down'' [] False,
              CheckField (np_includeVirtual s) (\<lambda>b. Net (Show_Virtual b)) ''Virtual'' [] False]],
        if interfaces = [] then Card [EmptyState t None ''No matching interfaces'' ''Show down or virtual interfaces, or refresh discovery.'' []]
        else node_of ''div'' (map InterfaceCard interfaces)]"

definition routes_section ::
  "(string \<Rightarrow> string) \<Rightarrow> (string option \<Rightarrow> string) \<Rightarrow> (string \<Rightarrow> route_check) \<Rightarrow> route_profile list \<Rightarrow> network_page \<Rightarrow> network_click element" where
  "routes_section t dateTime check routes s =
     node_of ''section''
       [SectionHeader t ''Route profiles'' ''Persisted expected paths used before speed tests''
          [Button False [] (net Route_New) [Icon ''Plus'', Words ''New route profile'']],
        if routes = []
        then Card [EmptyState t None ''No route expectations yet''
          ''Create a read-only profile to verify interface, source, gateway, routing table, reachability, and public IP.''
          [Button False [] (net Route_New) [Icon ''Plus'', Words ''Create profile'']]]
        else node_of ''div'' (map (\<lambda>p. RouteCard dateTime (check (rv_id p)) (validating (np_validation s) (rv_id p)) p) routes)]"

definition network_view ::
  "(failure \<Rightarrow> string) \<Rightarrow> (string \<Rightarrow> string) \<Rightarrow> (string option \<Rightarrow> string) \<Rightarrow> (string \<Rightarrow> string) \<Rightarrow> (string \<Rightarrow> string) \<Rightarrow>
   (string \<Rightarrow> route_check) \<Rightarrow> shown_interface list query \<Rightarrow> route_profile list query \<Rightarrow> RouteValues \<Rightarrow> network_page \<Rightarrow>
   network_click element list" where
  "network_view runtime_message t dateTime uid err check iq rq v s =
     (if qu_isLoading iq \<or> qu_isLoading rq then [LoadingState t (''Inspecting Linux interfaces and route expectations'' @ ellipsis)]
      else case first_some [qu_error iq, qu_error rq] of
        Some e \<Rightarrow> [ErrorState runtime_message t e (Some Network_Retry) ''Unable to load data'']
      | None \<Rightarrow>
          let interfaces = or_list (qu_data iq); routes = or_list (qu_data rq) in
          [PageHeader t ''Observe routes. Never rewrite them.''
             ''Discover source addresses in the active Linux namespace and persist read-only expectations for source-based policy routing.''
             [Button False (disabled_prop (np_refreshing s)) (net Refresh_Asked)
                [if np_refreshing s then Spinner else Icon ''RefreshCw'', Words ''Refresh interfaces'']],
           node_of ''div'' [Icon ''ShieldAlert'',
             node_of ''div'' [node_of ''p'' [Words ''MultiSpeed does not modify host networking''],
               node_of ''p'' [Words ''Route profiles only validate route lookup, effective source, gateway, reachability, and public IP. Configure policy rules and gateways on the Docker host.'']]],
           interfaces_section t interfaces s, routes_section t dateTime check routes s, PolicyExamples t routes,
           RouteDialog t uid err interfaces v s, route_delete_dialog t s])"

subsection \<open>What the page offers\<close>

lemma offered_route_fields:
  "offered (route_field uid err tag k hint isRequired label example) = []" "offered (route_select uid err k label off choices) = []"
proof -
  show "offered (route_field uid err tag k hint isRequired label example) = []"
    unfolding route_field_def by (rule offered_control) simp
  show "offered (route_select uid err k label off choices) = []"
    unfolding route_select_def by (rule offered_control) (auto simp: list_all_iff)
qed

lemma offered_interface: "offered (InterfaceCard item) = []"
  by (auto simp: InterfaceCard_def Let_def offer_simps)

lemma offered_route_list: "offered (route_list dateTime c p) = []"
  by (cases "rc_lastValidationAt c") (simp_all add: route_list_def fact_def)

lemma offered_route_card:
  "offered (RouteCard dateTime c busy p) = (if busy then [] else [Net (Validate_Asked p)]) @ [Net (Route_Edit p), Net (Route_Delete_Asked p)]"
  by (cases "snapshot_text (rc_snapshot c) ''message''"; cases busy; simp add: RouteCard_def offered_route_list Let_def offer_simps)

lemma offered_policy: "offered (PolicyExamples t routes) = [Copy_Commands (policy_commands routes)]"
  by (simp add: PolicyExamples_def offer_simps)

lemma offered_interfaces:
  "offered (interfaces_section t interfaces s) = [Net (Show_Down (\<not> np_includeDown s)), Net (Show_Virtual (\<not> np_includeVirtual s))]"
  by (simp add: interfaces_section_def CheckField_def offered_interface offer_simps comp_def)

lemma offered_routes:
  "set (offered (routes_section t dateTime check routes s)) =
   insert (Net Route_New) (\<Union>p \<in> set routes. set (offered (RouteCard dateTime (check (rv_id p)) (validating (np_validation s) (rv_id p)) p)))"
  by (simp add: routes_section_def offer_simps comp_def)

lemma offered_route_dialog:
  "offered (RouteDialog t uid err interfaces v s) =
   (if np_editRoute s = None then []
    else [Net Route_Editor_Closed, Submit_Route] @ (if np_saving s then [] else [Net Route_Editor_Closed]))"
  by (simp add: RouteDialog_def route_form_def DialogContent_def offered_route_fields Let_def offer_simps)

lemma offered_route_delete:
  "offered (route_delete_dialog t s) =
   (if np_deleteRoute s = None then [] else Net Route_Delete_Closed # (if np_deleting s then [] else [Net Route_Delete_Confirmed]))"
  by (simp add: route_delete_dialog_def ConfirmDialog_def offer_simps)

lemma submit_route_fields:
  "tag \<noteq> ''button'' \<Longrightarrow> gather submit_of (route_field uid err tag k hint isRequired label example) = []"
  "gather submit_of (route_select uid err k label off choices) = []"
proof -
  show "tag \<noteq> ''button'' \<Longrightarrow> gather submit_of (route_field uid err tag k hint isRequired label example) = []"
    unfolding route_field_def by (rule submit_control) simp_all
  show "gather submit_of (route_select uid err k label off choices) = []"
    unfolding route_select_def by (rule submit_control) (auto simp: list_all_iff gather_Element)
qed

lemma submit_dialog: "gather submit_of (RouteDialog t uid err interfaces v s) \<noteq> [] \<longleftrightarrow> \<not> np_saving s"
  by (simp add: RouteDialog_def route_form_def DialogContent_def submit_route_fields Let_def gather_Element offer_simps)

lemma offered_network:
  "concat (map offered (network_view runtime_message t dateTime uid err check (loaded interfaces) (loaded routes) v s)) =
   (if np_refreshing s then [] else [Net Refresh_Asked]) @ offered (interfaces_section t interfaces s) @
   offered (routes_section t dateTime check routes s) @ offered (PolicyExamples t routes) @
   offered (RouteDialog t uid err interfaces v s) @ offered (route_delete_dialog t s)"
  by (simp add: network_view_def Let_def PageHeader_def Button_def Spinner_def shown_def disabled_prop_def first_some_def or_list_def)

text \<open>
  The controls of the network page agree with its guards: refreshing, validating a profile of the list
  and confirming a deletion are offered exactly when choosing them sends the request; the dialog is open
  with an enabled submit button and a valid form exactly when submitting it sends one; and the text offered
  for copying is that of the host commands and no other.
\<close>

theorem network_view_agrees:
  "let offers = set (concat (map offered
      (network_view runtime_message t dateTime uid err check (loaded interfaces) (loaded routes) v s))) in
   (Net Refresh_Asked \<in> offers \<longleftrightarrow> network_emits s Refresh_Asked \<noteq> []) \<and>
   (Net (Validate_Asked p) \<in> offers \<longleftrightarrow> p \<in> set routes \<and> network_emits s (Validate_Asked p) \<noteq> []) \<and>
   (Net Route_Delete_Confirmed \<in> offers \<longleftrightarrow> network_emits s Route_Delete_Confirmed \<noteq> []) \<and>
   (Submit_Route \<in> offers \<and> gather submit_of (RouteDialog t uid err interfaces v s) \<noteq> [] \<and> routeSchema v \<noteq> None \<longleftrightarrow>
      network_emits s (Route_Submitted v) \<noteq> []) \<and>
   (Copy_Commands c \<in> offers \<longleftrightarrow> c = policy_commands routes)"
  unfolding Let_def offered_network set_append submit_dialog offered_interfaces offered_routes offered_policy offered_route_dialog
    offered_route_delete offered_route_card
  by (intro conjI) (auto simp: save_route_def split: option.splits if_splits)

end
