(* ===== verification/SettingsPage.thy ===== *)
theory SettingsPage
  imports Api Cron Toast Query
begin

text \<open>
  The settings page (\<open>pages/SettingsPage.tsx\<close>) with the fallback values of
  \<open>hooks/useAppSettings.ts\<close>: the schema of the form, the preview of a configuration file, and the page
  as a state machine whose outputs are calls of the REST client, invalidations and toasts.
  \<open>known_zone\<close> is the runtime's time zone check.
\<close>

subsection \<open>Form values\<close>

record SettingsValues =
  sv_displayUnits :: string
  sv_defaultTimezone :: string
  sv_globalConcurrency :: js_number
  sv_allowSeparateWanConcurrency :: bool
  sv_retentionMode :: string
  sv_retentionValue :: js_number
  sv_defaultChartRange :: string
  sv_interfaceRefreshIntervalSeconds :: js_number
  sv_defaultTaskTimeoutSeconds :: js_number
  sv_databaseMaintenanceSchedule :: string
  sv_ooklaEulaAccepted :: bool
  sv_ooklaEulaAcceptedAt :: "string option"
  sv_ooklaEulaVersion :: string
  sv_ooklaEulaCurrentVersion :: string
  sv_ooklaEulaEffectiveAccepted :: bool
  sv_ooklaEulaAcceptanceSource :: string

definition fallbackSettings :: SettingsValues where
  "fallbackSettings =
     \<lparr>sv_displayUnits = ''bits'', sv_defaultTimezone = ''UTC'', sv_globalConcurrency = Fin 1,
      sv_allowSeparateWanConcurrency = False, sv_retentionMode = ''forever'', sv_retentionValue = Fin 0,
      sv_defaultChartRange = ''30d'', sv_interfaceRefreshIntervalSeconds = Fin 60,
      sv_defaultTaskTimeoutSeconds = Fin 120, sv_databaseMaintenanceSchedule = ''30 3 * * *'',
      sv_ooklaEulaAccepted = False, sv_ooklaEulaAcceptedAt = None, sv_ooklaEulaVersion = [],
      sv_ooklaEulaCurrentVersion = [], sv_ooklaEulaEffectiveAccepted = False,
      sv_ooklaEulaAcceptanceSource = ''none''\<rparr>"

text \<open>\<open>z.number().int().min(a).max(b)\<close>\<close>

fun int_between :: "rat \<Rightarrow> rat \<Rightarrow> js_number \<Rightarrow> bool" where
  "int_between a b (Fin x) \<longleftrightarrow> of_int \<lfloor>x\<rfloor> = x \<and> a \<le> x \<and> x \<le> b"
| "int_between a b _ \<longleftrightarrow> False"

fun number_below_one :: "js_number \<Rightarrow> bool" where
  "number_below_one (Fin x) \<longleftrightarrow> x < 1"
| "number_below_one NInf \<longleftrightarrow> True"
| "number_below_one _ \<longleftrightarrow> False"

definition settings_ok :: "(string \<Rightarrow> bool) \<Rightarrow> SettingsValues \<Rightarrow> bool" where
  "settings_ok known_zone v \<longleftrightarrow>
     sv_displayUnits v \<in> {''bits'', ''bytes''} \<and>
     sv_defaultTimezone v \<noteq> [] \<and> known_zone (sv_defaultTimezone v) \<and>
     int_between 1 16 (sv_globalConcurrency v) \<and>
     sv_retentionMode v \<in> {''forever'', ''days'', ''months''} \<and>
     int_between 0 3650 (sv_retentionValue v) \<and>
     sv_defaultChartRange v \<in> {''24h'', ''7d'', ''30d'', ''90d''} \<and>
     int_between 5 3600 (sv_interfaceRefreshIntervalSeconds v) \<and>
     int_between 5 3600 (sv_defaultTaskTimeoutSeconds v) \<and>
     validateCron (sv_databaseMaintenanceSchedule v) \<and>
     sv_ooklaEulaAcceptanceSource v \<in> {''none'', ''persisted'', ''environment''}"

definition settingsSchema :: "(string \<Rightarrow> bool) \<Rightarrow> SettingsValues \<Rightarrow> bool" where
  "settingsSchema known_zone v \<longleftrightarrow>
     settings_ok known_zone v \<and>
     \<not> (sv_retentionMode v \<noteq> ''forever'' \<and> number_below_one (sv_retentionValue v))"

definition settings_json :: "SettingsValues \<Rightarrow> json" where
  "settings_json v = JObj
     [(''displayUnits'', JStr (sv_displayUnits v)), (''defaultTimezone'', JStr (sv_defaultTimezone v)),
      (''globalConcurrency'', JNum (sv_globalConcurrency v)),
      (''allowSeparateWanConcurrency'', JBool (sv_allowSeparateWanConcurrency v)),
      (''retentionMode'', JStr (sv_retentionMode v)), (''retentionValue'', JNum (sv_retentionValue v)),
      (''defaultChartRange'', JStr (sv_defaultChartRange v)),
      (''interfaceRefreshIntervalSeconds'', JNum (sv_interfaceRefreshIntervalSeconds v)),
      (''defaultTaskTimeoutSeconds'', JNum (sv_defaultTaskTimeoutSeconds v)),
      (''databaseMaintenanceSchedule'', JStr (sv_databaseMaintenanceSchedule v)),
      (''ooklaEulaAccepted'', JBool (sv_ooklaEulaAccepted v)),
      (''ooklaEulaAcceptedAt'', case sv_ooklaEulaAcceptedAt v of Some t \<Rightarrow> JStr t | None \<Rightarrow> JNull),
      (''ooklaEulaVersion'', JStr (sv_ooklaEulaVersion v)),
      (''ooklaEulaCurrentVersion'', JStr (sv_ooklaEulaCurrentVersion v)),
      (''ooklaEulaEffectiveAccepted'', JBool (sv_ooklaEulaEffectiveAccepted v)),
      (''ooklaEulaAcceptanceSource'', JStr (sv_ooklaEulaAcceptanceSource v))]"

subsection \<open>Configuration files\<close>

definition maximumConfigurationBytes :: nat where
  "maximumConfigurationBytes = 2 ^ 20"

fun is_text :: "json option \<Rightarrow> bool" where
  "is_text (Some (JStr _)) = True"
| "is_text _ = False"

fun is_object :: "json option \<Rightarrow> bool" where
  "is_object (Some (JObj _)) = True"
| "is_object (Some (JArr _)) = True"
| "is_object _ = False"

fun is_array :: "json option \<Rightarrow> bool" where
  "is_array (Some (JArr _)) = True"
| "is_array _ = False"

definition parseConfigurationPreview :: "string \<Rightarrow> failure + json" where
  "parseConfigurationPreview text =
     (case json_parse text of
        None \<Rightarrow> Inl (Thrown ''The selected file is not valid JSON.'')
      | Some (JObj c) \<Rightarrow>
          if obj_get c ''format'' \<noteq> Some (JStr ''multispeed-config'') \<or> obj_get c ''version'' \<noteq> Some (JNum (Fin 1))
          then Inl (Thrown ''The selected file is not a supported MultiSpeed configuration export.'')
          else if \<not> is_text (obj_get c ''exportedAt'') \<or> \<not> is_object (obj_get c ''settings'') \<or>
                  \<not> is_array (obj_get c ''tasks'') \<or> \<not> is_array (obj_get c ''routeProfiles'')
          then Inl (Thrown ''The selected configuration is incomplete.'')
          else Inr (JObj c)
      | Some _ \<Rightarrow> Inl (Thrown ''The selected file does not contain a configuration object.''))"

record config_file =
  cf_name :: string
  cf_size :: nat
  cf_text :: string

text \<open>\<open>selectConfiguration\<close> on a chosen file.\<close>

definition selectConfiguration :: "config_file \<Rightarrow> failure + json" where
  "selectConfiguration f =
     (if maximumConfigurationBytes < cf_size f
      then Inl (Thrown ''Configuration files must not exceed 1 MiB.'')
      else parseConfigurationPreview (cf_text f))"

subsection \<open>The page\<close>

text \<open>\<open>sp_baseline\<close> holds the values of the last reset; the form is dirty when it differs from them.\<close>

record settings_page =
  sp_form :: SettingsValues
  sp_baseline :: SettingsValues
  sp_saving :: bool
  sp_pending :: "(json \<times> string) option"
  sp_importing :: bool
  sp_confirmCleanup :: bool
  sp_cleaning :: bool
  sp_backingUp :: bool
  sp_exporting :: bool

definition settings_init :: settings_page where
  "settings_init = \<lparr>sp_form = fallbackSettings, sp_baseline = fallbackSettings, sp_saving = False,
     sp_pending = None, sp_importing = False, sp_confirmCleanup = False, sp_cleaning = False,
     sp_backingUp = False, sp_exporting = False\<rparr>"

datatype settings_event =
    Settings_Data SettingsValues
  | Settings_Edited SettingsValues
  | Settings_Submitted
  | Settings_Saved SettingsValues
  | Settings_Rejected string
  | File_Chosen config_file
  | Import_Dialog_Closed
  | Import_Confirmed
  | Import_Done nat nat
  | Import_Rejected string
  | Cleanup_Asked
  | Cleanup_Dialog bool
  | Cleanup_Confirmed
  | Cleanup_Done nat
  | Cleanup_Rejected string
  | Backup_Asked
  | Backup_Done download
  | Backup_Rejected string
  | Export_Asked
  | Export_Done download
  | Export_Rejected string

datatype settings_output =
    Settings_Call api_call
  | Save_File download
  | Settings_Invalidate query_key
  | Settings_Toast ToastTone string

definition reset_form :: "SettingsValues \<Rightarrow> settings_page \<Rightarrow> settings_page" where
  "reset_form v s = s\<lparr>sp_form := v, sp_baseline := v\<rparr>"

definition submit_ok :: "(string \<Rightarrow> bool) \<Rightarrow> settings_page \<Rightarrow> bool" where
  "submit_ok known_zone s \<longleftrightarrow>
     \<not> sp_saving s \<and> sp_form s \<noteq> sp_baseline s \<and> settingsSchema known_zone (sp_form s)"

fun settings_step :: "(string \<Rightarrow> bool) \<Rightarrow> settings_page \<Rightarrow> settings_event \<Rightarrow> settings_page" where
  "settings_step z s (Settings_Data v) = reset_form v s"
| "settings_step z s (Settings_Edited v) = s\<lparr>sp_form := v\<rparr>"
| "settings_step z s Settings_Submitted = (if submit_ok z s then s\<lparr>sp_saving := True\<rparr> else s)"
| "settings_step z s (Settings_Saved v) = (reset_form v s)\<lparr>sp_saving := False\<rparr>"
| "settings_step z s (Settings_Rejected m) = s\<lparr>sp_saving := False\<rparr>"
| "settings_step z s (File_Chosen f) =
     (if sp_importing s then s
      else case selectConfiguration f of
        Inr d \<Rightarrow> s\<lparr>sp_pending := Some (d, cf_name f)\<rparr> | Inl _ \<Rightarrow> s)"
| "settings_step z s Import_Dialog_Closed = (if sp_importing s then s else s\<lparr>sp_pending := None\<rparr>)"
| "settings_step z s Import_Confirmed =
     (if sp_pending s \<noteq> None \<and> \<not> sp_importing s then s\<lparr>sp_importing := True\<rparr> else s)"
| "settings_step z s (Import_Done t r) = s\<lparr>sp_pending := None, sp_importing := False\<rparr>"
| "settings_step z s (Import_Rejected m) = s\<lparr>sp_importing := False\<rparr>"
| "settings_step z s Cleanup_Asked =
     (if sv_retentionMode (sp_form s) = ''forever'' then s else s\<lparr>sp_confirmCleanup := True\<rparr>)"
| "settings_step z s (Cleanup_Dialog b) = s\<lparr>sp_confirmCleanup := b\<rparr>"
| "settings_step z s Cleanup_Confirmed =
     (if sp_confirmCleanup s \<and> \<not> sp_cleaning s then s\<lparr>sp_cleaning := True\<rparr> else s)"
| "settings_step z s (Cleanup_Done n) = s\<lparr>sp_confirmCleanup := False, sp_cleaning := False\<rparr>"
| "settings_step z s (Cleanup_Rejected m) = s\<lparr>sp_cleaning := False\<rparr>"
| "settings_step z s Backup_Asked = s\<lparr>sp_backingUp := True\<rparr>"
| "settings_step z s (Backup_Done d) = s\<lparr>sp_backingUp := False\<rparr>"
| "settings_step z s (Backup_Rejected m) = s\<lparr>sp_backingUp := False\<rparr>"
| "settings_step z s Export_Asked = s\<lparr>sp_exporting := True\<rparr>"
| "settings_step z s (Export_Done d) = s\<lparr>sp_exporting := False\<rparr>"
| "settings_step z s (Export_Rejected m) = s\<lparr>sp_exporting := False\<rparr>"

fun settings_emits :: "(string \<Rightarrow> bool) \<Rightarrow> settings_page \<Rightarrow> settings_event \<Rightarrow> settings_output list" where
  "settings_emits z s Settings_Submitted =
     (if submit_ok z s then [Settings_Call (Api_updateSettings (settings_json (sp_form s)))] else [])"
| "settings_emits z s (Settings_Saved v) =
     [Settings_Invalidate (queryKeys Q_settings), Settings_Toast Success ''Settings saved'']"
| "settings_emits z s (Settings_Rejected m) = [Settings_Toast Error ''Unable to save settings'']"
| "settings_emits z s (File_Chosen f) =
     (if sp_importing s then []
      else case selectConfiguration f of
        Inr d \<Rightarrow> [] | Inl _ \<Rightarrow> [Settings_Toast Error ''Configuration file rejected''])"
| "settings_emits z s Import_Confirmed =
     (case sp_pending s of
        Some (d, _) \<Rightarrow> if sp_importing s then [] else [Settings_Call (Api_importConfiguration d)]
      | None \<Rightarrow> [])"
| "settings_emits z s (Import_Done t r) =
     [Settings_Invalidate (queryKeys Q_settings), Settings_Invalidate (queryKeys Q_tasks),
      Settings_Invalidate (queryKeys Q_routes), Settings_Invalidate (queryKeys Q_system),
      Settings_Toast Success ''Configuration imported'']"
| "settings_emits z s (Import_Rejected m) = [Settings_Toast Error ''Import failed'']"
| "settings_emits z s Cleanup_Confirmed =
     (if sp_confirmCleanup s \<and> \<not> sp_cleaning s then [Settings_Call (Api_cleanupResults None)] else [])"
| "settings_emits z s (Cleanup_Done n) =
     [Settings_Invalidate [JStr ''results''], Settings_Invalidate [JStr ''statistics''],
      Settings_Toast Success ''Retention cleanup complete'']"
| "settings_emits z s (Cleanup_Rejected m) = [Settings_Toast Error ''Cleanup failed'']"
| "settings_emits z s Backup_Asked = (if sp_backingUp s then [] else [Settings_Call Api_backup])"
| "settings_emits z s (Backup_Done d) = [Save_File d, Settings_Toast Success ''Consistent backup created'']"
| "settings_emits z s (Backup_Rejected m) = [Settings_Toast Error ''Backup failed'']"
| "settings_emits z s Export_Asked = (if sp_exporting s then [] else [Settings_Call Api_exportConfiguration])"
| "settings_emits z s (Export_Done d) = [Save_File d, Settings_Toast Success ''Configuration exported'']"
| "settings_emits z s (Export_Rejected m) = [Settings_Toast Error ''Export failed'']"
| "settings_emits z s _ = []"

abbreviation settings_run :: "(string \<Rightarrow> bool) \<Rightarrow> settings_event list \<Rightarrow> settings_page" where
  "settings_run z es \<equiv> foldl (settings_step z) settings_init es"

subsection \<open>Lemmas\<close>

lemma int_between_exact: "int_between a b n \<Longrightarrow> \<exists>i. n = Fin (of_int i) \<and> a \<le> of_int i \<and> of_int i \<le> b"
proof (cases n)
  case (Fin x)
  assume "int_between a b n"
  with Fin show ?thesis by auto
qed simp_all

lemma settings_json_typed:
  assumes "settings_ok z v"
  shows "has_type ui_Settings (settings_json v)" "wf_json (settings_json v)"
proof -
  obtain a b c d where n: "sv_globalConcurrency v = Fin (of_int a)" "1 \<le> a" "a \<le> 16"
    "sv_retentionValue v = Fin (of_int b)" "0 \<le> b" "b \<le> 3650"
    "sv_interfaceRefreshIntervalSeconds v = Fin (of_int c)" "5 \<le> c" "c \<le> 3600"
    "sv_defaultTaskTimeoutSeconds v = Fin (of_int d)" "5 \<le> d" "d \<le> 3600"
    using assms unfolding settings_ok_def by (auto dest!: int_between_exact)
  show "has_type ui_Settings (settings_json v)"
    using assms n
    by (auto simp: settings_json_def ui_Settings_def Settings_def ts_ops obj_get_def settings_ok_def
        split: option.splits)
  show "wf_json (settings_json v)"
    unfolding settings_json_def
    by (rule wf_literal) (use n in \<open>auto simp: letter_key_def is_alpha_def split: option.splits\<close>)
qed

lemma pending_step:
  "sp_pending (settings_step z s e) = Some (d, n) \<Longrightarrow>
   sp_pending s = Some (d, n) \<or> (\<exists>f. e = File_Chosen f \<and> cf_name f = n \<and> selectConfiguration f = Inr d)"
  by (cases e) (auto simp: reset_form_def split: if_splits sum.splits)

lemma pending_origin:
  "sp_pending (settings_run z es) = Some (d, n) \<Longrightarrow>
   \<exists>f. File_Chosen f \<in> set es \<and> cf_name f = n \<and> selectConfiguration f = Inr d"
proof (induction es rule: rev_induct)
  case Nil
  then show ?case by (simp add: settings_init_def)
next
  case (snoc e es)
  then show ?case
    using pending_step [of z "settings_run z es" e d n] by auto
qed

lemma preview_document:
  assumes "parseConfigurationPreview text = Inr d"
  shows "\<exists>c. d = JObj c \<and> json_parse text = Some d \<and> obj_get c ''format'' = Some (JStr ''multispeed-config'') \<and>
    obj_get c ''version'' = Some (JNum (Fin 1)) \<and> is_text (obj_get c ''exportedAt'') \<and>
    is_object (obj_get c ''settings'') \<and> is_array (obj_get c ''tasks'') \<and> is_array (obj_get c ''routeProfiles'')"
  using assms by (auto simp: parseConfigurationPreview_def split: option.splits json.splits if_splits)

subsection \<open>Properties\<close>

text \<open>
  C9. A configuration is imported only after a file was chosen that is at most 1 MiB, parses to a
  configuration object of the supported format and version with its required parts, and only that
  document is sent.
\<close>

theorem import_previewed:
  assumes "Settings_Call (Api_importConfiguration d) \<in> set (settings_emits z (settings_run z es) e)"
  shows "e = Import_Confirmed \<and>
    (\<exists>f c. File_Chosen f \<in> set es \<and> cf_size f \<le> 2 ^ 20 \<and> json_parse (cf_text f) = Some d \<and> d = JObj c \<and>
      obj_get c ''format'' = Some (JStr ''multispeed-config'') \<and> obj_get c ''version'' = Some (JNum (Fin 1)) \<and>
      is_array (obj_get c ''tasks'') \<and> is_array (obj_get c ''routeProfiles'') \<and> is_object (obj_get c ''settings''))"
proof -
  obtain n where e: "e = Import_Confirmed" and p: "sp_pending (settings_run z es) = Some (d, n)"
    using assms by (cases e; cases "sp_pending (settings_run z es)") (auto split: if_splits sum.splits)
  obtain f where f: "File_Chosen f \<in> set es" "selectConfiguration f = Inr d"
    using pending_origin [OF p] by blast
  then have "cf_size f \<le> 2 ^ 20" "parseConfigurationPreview (cf_text f) = Inr d"
    by (auto simp: selectConfiguration_def maximumConfigurationBytes_def split: if_splits)
  with e f show ?thesis
    using preview_document [of "cf_text f" d] by blast
qed

definition sample_config :: json where
  "sample_config = JObj [(''format'', JStr ''multispeed-config''), (''version'', JNum (Fin 1)),
     (''exportedAt'', JStr ''now''), (''settings'', JObj []), (''tasks'', JArr []), (''routeProfiles'', JArr [])]"

definition sample_file :: config_file where
  "sample_file = \<lparr>cf_name = ''c.json'', cf_size = 120, cf_text = json_string sample_config\<rparr>"

lemma sample_config_parses: "json_parse (json_string sample_config) = Some sample_config"
  by (rule json_parse_string) (unfold sample_config_def, rule wf_literal,
      simp_all add: letter_key_def is_alpha_def obj_of_pairs_def)

lemma sample_selected: "selectConfiguration sample_file = Inr sample_config"
  using sample_config_parses
  by (simp add: selectConfiguration_def maximumConfigurationBytes_def sample_file_def
      parseConfigurationPreview_def del: json_string.simps)
    (simp add: sample_config_def obj_get_def)

theorem import_previewed_witness:
  "\<exists>f c. File_Chosen f \<in> set [File_Chosen sample_file] \<and> cf_size f \<le> 2 ^ 20 \<and>
     json_parse (cf_text f) = Some sample_config \<and> sample_config = JObj c"
proof -
  have "Settings_Call (Api_importConfiguration sample_config) \<in>
      set (settings_emits (\<lambda>_. True) (settings_run (\<lambda>_. True) [File_Chosen sample_file]) Import_Confirmed)"
    by (simp add: settings_init_def sample_selected)
  from import_previewed [OF this] show ?thesis by blast
qed



text \<open>New settings data replaces the form, with the user's unsaved edits.\<close>

lemma settings_data_discards_edits:
  "sp_form (settings_run z (es @ [Settings_Edited v, Settings_Data w])) = w"
  by (simp add: reset_form_def)

end
