(* ===== verification/SettingsView.thy ===== *)
theory SettingsView
  imports SettingsPage Widgets Shell
begin

text \<open>
  What the settings page shows (\<open>pages/SettingsPage.tsx\<close>): the cards of the form with their fields, the
  configuration files, the cleanup and the backup, and the two dialogs. \<open>err\<close> gives the message of a
  field, \<open>uid\<close> its generated identifier, \<open>zones\<close> the list of time zones. The acceptance of the Ookla terms is a
  component with its own state and stays as an element.
\<close>

datatype settings_click = Setting settings_event | Choose_File | Settings_Retry

abbreviation setting :: "settings_event \<Rightarrow> (string \<times> settings_click) list" where
  "setting e \<equiv> [(''onClick'', Setting e)]"

definition settings_card :: "string \<Rightarrow> string \<Rightarrow> string \<Rightarrow> 'a element list \<Rightarrow> 'a element" where
  "settings_card icon title description content =
     Card [CardHeader [CardTitle [Icon icon, Words title], node_of ''p'' [Words description]], CardContent content]"

definition select_field ::
  "(string \<Rightarrow> string) \<Rightarrow> (string \<Rightarrow> string) \<Rightarrow> string \<Rightarrow> string \<Rightarrow> (string \<times> string) list \<Rightarrow> 'a element" where
  "select_field uid err k label choices =
     Field (uid k) label [] (err k) False
       (Element ''NativeSelect'' [(''name'', k)] [] (map (\<lambda>(v, w). Element ''option'' [(''value'', v)] [] [Words w]) choices))"

definition number_field ::
  "(string \<Rightarrow> string) \<Rightarrow> (string \<Rightarrow> string) \<Rightarrow> string \<Rightarrow> string \<Rightarrow> string \<Rightarrow> nat \<Rightarrow> nat \<Rightarrow> bool \<Rightarrow> 'a element" where
  "number_field uid err k label hint lo hi off =
     Field (uid k) label hint (err k) False
       (Element ''Input'' ([(''type'', ''number''), (''min'', nat_string lo), (''max'', nat_string hi)] @ disabled_prop off @ [(''name'', k)]) [] [])"

definition explained :: "string \<Rightarrow> string \<Rightarrow> 'a element list \<Rightarrow> 'a element" where
  "explained title description controls =
     node_of ''div'' (node_of ''div'' [node_of ''p'' [Words title], node_of ''p'' [Words description]] # controls)"

definition busy_button :: "bool \<Rightarrow> string \<Rightarrow> string \<Rightarrow> settings_event \<Rightarrow> settings_click element" where
  "busy_button pending icon label e =
     Button False ([(''type'', ''button'')] @ disabled_prop pending) (setting e) [if pending then Spinner else Icon icon, Words label]"

definition isDirty :: "settings_page \<Rightarrow> bool" where
  "isDirty s \<longleftrightarrow> sp_form s \<noteq> sp_baseline s"

definition save_button :: "settings_page \<Rightarrow> settings_click element" where
  "save_button s =
     Button False ([(''type'', ''submit'')] @ disabled_prop (sp_saving s \<or> \<not> isDirty s)) []
       [if sp_saving s then Spinner else Icon ''Save'', Words ''Save settings'']"

subsection \<open>Cards\<close>

definition defaults_card ::
  "(string \<Rightarrow> string) \<Rightarrow> (string \<Rightarrow> string) \<Rightarrow> string list \<Rightarrow> SettingsValues \<Rightarrow> settings_click element" where
  "defaults_card uid err zones v =
     settings_card ''Gauge'' ''Display & task defaults'' ''Applied to new tasks and reporting views''
       [node_of ''div''
          [select_field uid err ''displayUnits'' ''Display units'' [(''bits'', ''Bits per second''), (''bytes'', ''Bytes per second'')],
           select_field uid err ''defaultChartRange'' ''Default chart range''
             [(''24h'', ''Last 24 hours''), (''7d'', ''Last 7 days''), (''30d'', ''Last 30 days''), (''90d'', ''Last 90 days'')]],
        node_of ''div''
          [select_field uid err ''defaultTimezone'' ''Default timezone''
             ((if sv_defaultTimezone v \<in> set zones then [] else [(sv_defaultTimezone v, sv_defaultTimezone v)]) @ map (\<lambda>z. (z, z)) zones),
           number_field uid err ''defaultTaskTimeoutSeconds'' ''Default task timeout'' ''Seconds'' 5 3600 False]]"

definition concurrency_card ::
  "(string \<Rightarrow> string) \<Rightarrow> (string \<Rightarrow> string) \<Rightarrow> SettingsValues \<Rightarrow> settings_click element" where
  "concurrency_card uid err v =
     settings_card ''Network'' ''Concurrency & discovery'' ''The global concurrency default is one; same-WAN tests never overlap''
       [node_of ''div''
          [number_field uid err ''globalConcurrency'' ''Global concurrency'' (''1'' @ en_dash @ ''16'') 1 16 False,
           number_field uid err ''interfaceRefreshIntervalSeconds'' ''Interface refresh interval'' ''Seconds'' 5 3600 False],
        CheckField (sv_allowSeparateWanConcurrency v) (\<lambda>b. Setting (Settings_Edited (v\<lparr>sv_allowSeparateWanConcurrency := b\<rparr>)))
          ''Allow concurrency on separate WANs''
          ''Only tasks with distinct interface/source locks may execute together, bounded by global concurrency.'' False]"

definition terms_card :: "settings_click element" where
  "terms_card =
     settings_card ''Scale'' ''Ookla provider terms & authorization''
       ''Technical acknowledgement and CLI flag authorization, independent from installation and any separate license permission''
       [node_of ''OoklaEulaAcceptance'' []]"

definition configuration_card :: "settings_page \<Rightarrow> settings_click element" where
  "configuration_card s =
     settings_card ''FileJson'' ''Configuration import & export'' ''Portable JSON for operational settings, tasks, and route profiles''
       [explained ''Export current configuration''
          ''Downloads a versioned JSON file. Results and the Ookla terms acknowledgement are excluded.''
          [busy_button (sp_exporting s) ''Download'' ''Export'' Export_Asked],
        explained ''Import configuration'' ''Validates the complete file before atomically replacing saved configuration.''
          [Element ''input'' [(''type'', ''file''), (''accept'', ''application/json,.json''), (''aria-label'', ''Configuration file'')] [] [],
           Button False ([(''type'', ''button'')] @ disabled_prop (sp_importing s)) [(''onClick'', Choose_File)]
             [Icon ''Upload'', Words ''Choose file'']]]"

definition retention_card ::
  "(string \<Rightarrow> string) \<Rightarrow> (string \<Rightarrow> string) \<Rightarrow> SettingsValues \<Rightarrow> settings_click element" where
  "retention_card uid err v =
     (let forever = (sv_retentionMode v = ''forever'') in
      settings_card ''Archive'' ''Retention'' ''Cleanup deletes old results in bounded batches and preserves task definitions''
        [node_of ''div''
           [select_field uid err ''retentionMode'' ''Retention policy''
              [(''forever'', ''Keep forever''), (''days'', ''Fixed number of days''), (''months'', ''Fixed number of months'')],
            number_field uid err ''retentionValue'' (if sv_retentionMode v = ''months'' then ''Months to retain'' else ''Days to retain'') []
              (if forever then 0 else 1) 3650 forever],
         explained ''Run configured cleanup now''
           ''Applies the saved retention policy in bounded batches. Review individual records separately.''
           [node_of ''div''
              [Button True [] [] [link_to ''/results'' [Words ''Review'']],
               Button False ([(''type'', ''button'')] @ disabled_prop forever) (setting Cleanup_Asked) [Icon ''Trash2'', Words ''Clean up'']]]])"

definition maintenance_card :: "(string \<Rightarrow> string) \<Rightarrow> (string \<Rightarrow> string) \<Rightarrow> settings_page \<Rightarrow> settings_click element" where
  "maintenance_card uid err s =
     settings_card ''Database'' ''Database maintenance'' ''WAL checkpointing and bounded upkeep''
       [Field (uid ''databaseMaintenanceSchedule'') ''Maintenance schedule'' ''Five-field cron'' (err ''databaseMaintenanceSchedule'') False
          (Element ''Input'' [(''name'', ''databaseMaintenanceSchedule''), (''placeholder'', ''30 3 * * *'')] [] []),
        explained ''Consistent SQLite backup'' ''Creates a transactional backup that includes active WAL data.''
          [busy_button (sp_backingUp s) ''Download'' ''Create backup'' Backup_Asked]]"

subsection \<open>Dialogs and page\<close>

definition cleanup_dialog :: "(string \<Rightarrow> string) \<Rightarrow> settings_page \<Rightarrow> settings_click element" where
  "cleanup_dialog t s =
     ConfirmDialog t (sp_confirmCleanup s) (\<lambda>b. Setting (Cleanup_Dialog b)) ''Delete expired results now?''
       [Words ''The currently saved retention policy will be applied immediately. Matching results and their diagnostics cannot be recovered unless you created a backup.'']
       ''Run cleanup'' (Setting Cleanup_Confirmed) (sp_cleaning s)"

definition array_length :: "json \<Rightarrow> string \<Rightarrow> nat" where
  "array_length d k = (case d of JObj kvs \<Rightarrow> (case obj_get kvs k of Some (JArr xs) \<Rightarrow> length xs | _ \<Rightarrow> 0) | _ \<Rightarrow> 0)"

definition import_text :: "settings_page \<Rightarrow> json \<times> string \<Rightarrow> settings_click element" where
  "import_text s = (\<lambda>(d, filename).
     node_of ''div''
       ([node_of ''p'' [node_of ''span'' [Words filename],
           Words ('' contains '' @ nat_string (array_length d ''tasks'') @ '' tasks and '' @ nat_string (array_length d ''routeProfiles'') @ '' route profiles.'')],
         node_of ''p'' [Words ''Saved settings, tasks, and route profiles will be replaced. Measurement results and the Ookla terms acknowledgement remain unchanged. Import is blocked while a test is active.'']] @
        shown (isDirty s) (node_of ''p'' [Words ''Unsaved edits on this page will be discarded.''])))"

definition import_dialog :: "(string \<Rightarrow> string) \<Rightarrow> settings_page \<Rightarrow> settings_click element" where
  "import_dialog t s =
     ConfirmDialog t (sp_pending s \<noteq> None) (\<lambda>_. Setting Import_Dialog_Closed) ''Replace the saved configuration?''
       (case sp_pending s of Some p \<Rightarrow> [import_text s p] | None \<Rightarrow> [Words []])
       ''Import configuration'' (Setting Import_Confirmed) (sp_importing s)"

definition trusted_note :: "'a element" where
  "trusted_note =
     node_of ''div'' [Icon ''ShieldAlert'',
       node_of ''div'' [node_of ''p'' [Words ''Trusted network only''],
         node_of ''p'' [Words ''MultiSpeed does not include authentication and must only be exposed to trusted networks unless protected by an authenticating reverse proxy.'']]]"

definition settings_view ::
  "(failure \<Rightarrow> string) \<Rightarrow> (string \<Rightarrow> string) \<Rightarrow> (string \<Rightarrow> string) \<Rightarrow> (string \<Rightarrow> string) \<Rightarrow> string list \<Rightarrow> bool \<Rightarrow>
   failure option \<Rightarrow> settings_page \<Rightarrow> settings_click element" where
  "settings_view runtime_message t uid err zones isLoading error s =
     (if isLoading then LoadingState t (''Loading runtime defaults'' @ ellipsis)
      else case error of
        Some e \<Rightarrow> ErrorState runtime_message t e (Some Settings_Retry) ''Unable to load data''
      | None \<Rightarrow>
          Element ''form'' [] [(''onSubmit'', Setting Settings_Submitted)]
            [PageHeader t ''Safe operational defaults.''
               ''Tune new-task defaults, concurrency, retention, interface discovery, and database maintenance.'' [save_button s],
             trusted_note,
             node_of ''div''
               [defaults_card uid err zones (sp_form s), concurrency_card uid err (sp_form s), terms_card, configuration_card s,
                retention_card uid err (sp_form s), maintenance_card uid err s],
             node_of ''div''
               [node_of ''p'' [Icon ''TimerReset'',
                  Words ''Changes affect future scheduling and maintenance cycles; active tests are not interrupted.''],
                save_button s],
             cleanup_dialog t s, import_dialog t s])"

subsection \<open>What the page offers\<close>

lemma offered_fields:
  "offered (select_field uid err k label choices) = []" "offered (number_field uid err k label hint lo hi off) = []"
proof -
  show "offered (select_field uid err k label choices) = []"
    unfolding select_field_def by (rule offered_control) (auto simp: list_all_iff)
  show "offered (number_field uid err k label hint lo hi off) = []"
    unfolding number_field_def by (rule offered_control) simp
qed

lemma offered_cards:
  "offered (defaults_card uid err zones v) = []"
  "offered (concurrency_card uid err v) =
     [Setting (Settings_Edited (v\<lparr>sv_allowSeparateWanConcurrency := \<not> sv_allowSeparateWanConcurrency v\<rparr>))]"
  "offered terms_card = []"
  "offered (configuration_card s) =
     (if sp_exporting s then [] else [Setting Export_Asked]) @ (if sp_importing s then [] else [Choose_File])"
  "offered (retention_card uid err v) = (if sv_retentionMode v = ''forever'' then [] else [Setting Cleanup_Asked])"
  "offered (maintenance_card uid err s) = (if sp_backingUp s then [] else [Setting Backup_Asked])"
  by (simp_all add: defaults_card_def concurrency_card_def terms_card_def configuration_card_def retention_card_def maintenance_card_def
      settings_card_def explained_def busy_button_def offered_fields offered_control Let_def CheckField_def offer_simps)

lemma offered_dialogs:
  "offered (cleanup_dialog t s) =
     (if sp_confirmCleanup s then Setting (Cleanup_Dialog False) # (if sp_cleaning s then [] else [Setting Cleanup_Confirmed]) else [])"
  "offered (import_dialog t s) =
     (if sp_pending s = None then [] else Setting Import_Dialog_Closed # (if sp_importing s then [] else [Setting Import_Confirmed]))"
  by (auto simp: cleanup_dialog_def import_dialog_def import_text_def ConfirmDialog_def offer_simps split: option.splits prod.splits)

lemma submit_fields:
  "gather submit_of (select_field uid err k label choices) = []" "gather submit_of (number_field uid err k label hint lo hi off) = []"
proof -
  show "gather submit_of (select_field uid err k label choices) = []"
    unfolding select_field_def by (rule submit_control) (auto simp: list_all_iff gather_Element)
  show "gather submit_of (number_field uid err k label hint lo hi off) = []"
    unfolding number_field_def by (rule submit_control) simp_all
qed

lemma submit_cards:
  "gather submit_of (defaults_card uid err zones v) = []" "gather submit_of (concurrency_card uid err v) = []"
  "gather submit_of terms_card = []" "gather submit_of (configuration_card s) = []"
  "gather submit_of (retention_card uid err v) = []" "gather submit_of (maintenance_card uid err s) = []"
  "gather submit_of (cleanup_dialog t s) = []" "gather submit_of trusted_note = []"
  by (simp_all add: defaults_card_def concurrency_card_def terms_card_def configuration_card_def retention_card_def maintenance_card_def
      cleanup_dialog_def trusted_note_def ConfirmDialog_def settings_card_def explained_def busy_button_def submit_fields submit_control
      Let_def CheckField_def gather_Element offer_simps)

lemma submit_import: "gather submit_of (import_dialog t s) = []"
  by (auto simp: import_dialog_def import_text_def ConfirmDialog_def gather_Element offer_simps split: option.splits prod.splits)

lemma submit_view:
  "gather submit_of (settings_view runtime_message t uid err zones False None s) \<noteq> [] \<longleftrightarrow> \<not> sp_saving s \<and> isDirty s"
  by (simp add: settings_view_def save_button_def PageHeader_def Button_def Spinner_def disabled_prop_def shown_def gather_Element
      submit_cards submit_import)


end
