(* ===== verification/OoklaTerms.thy ===== *)
theory OoklaTerms
  imports Api Toast Query
begin

text \<open>
  The Ookla acknowledgement and the upload of the separately obtained executable
  (\<open>components/common/OoklaEulaAcceptance.tsx\<close>) as two state machines. Which of the two forms shows
  depends on the settings of the daemon, which may change at any time.
\<close>

subsection \<open>Acknowledgement\<close>

datatype acceptance_source = Src_None | Src_Persisted | Src_Environment

record eula =
  el_effective :: bool
  el_source :: acceptance_source
  el_confirmed :: bool
  el_confirmRevoke :: bool
  el_pending :: bool

definition eula_init :: "bool \<Rightarrow> acceptance_source \<Rightarrow> eula" where
  "eula_init effective src =
     \<lparr>el_effective = effective, el_source = src, el_confirmed = False, el_confirmRevoke = False,
      el_pending = False\<rparr>"

definition environmentOverride :: "eula \<Rightarrow> bool" where
  "environmentOverride s \<longleftrightarrow> el_source s = Src_Environment"

datatype eula_event =
    Eula_Settings bool acceptance_source
  | Agree bool
  | Record_Acknowledgement
  | Revoke_Asked
  | Revoke_Dialog bool
  | Revoke_Confirmed
  | Eula_Updated bool acceptance_source
  | Eula_Failed string

definition can_record :: "eula \<Rightarrow> bool" where
  "can_record s \<longleftrightarrow> \<not> el_effective s \<and> el_confirmed s \<and> \<not> el_pending s"

definition can_revoke :: "eula \<Rightarrow> bool" where
  "can_revoke s \<longleftrightarrow> el_effective s \<and> \<not> environmentOverride s \<and> el_confirmRevoke s \<and> \<not> el_pending s"

fun eula_step :: "eula \<Rightarrow> eula_event \<Rightarrow> eula" where
  "eula_step s (Eula_Settings effective src) = s\<lparr>el_effective := effective, el_source := src\<rparr>"
| "eula_step s (Agree b) = (if el_effective s then s else s\<lparr>el_confirmed := b\<rparr>)"
| "eula_step s Record_Acknowledgement = (if can_record s then s\<lparr>el_pending := True\<rparr> else s)"
| "eula_step s Revoke_Asked =
     (if el_effective s \<and> \<not> environmentOverride s \<and> \<not> el_pending s then s\<lparr>el_confirmRevoke := True\<rparr> else s)"
| "eula_step s (Revoke_Dialog b) = (if el_effective s \<and> \<not> environmentOverride s then s\<lparr>el_confirmRevoke := b\<rparr> else s)"
| "eula_step s Revoke_Confirmed = (if can_revoke s then s\<lparr>el_pending := True\<rparr> else s)"
| "eula_step s (Eula_Updated effective src) =
     s\<lparr>el_effective := effective, el_source := src, el_confirmed := False, el_confirmRevoke := False,
       el_pending := False\<rparr>"
| "eula_step s (Eula_Failed m) = s\<lparr>el_pending := False\<rparr>"

fun eula_emits :: "eula \<Rightarrow> eula_event \<Rightarrow> api_call list" where
  "eula_emits s Record_Acknowledgement = (if can_record s then [Api_updateOoklaEula True True] else [])"
| "eula_emits s Revoke_Confirmed = (if can_revoke s then [Api_updateOoklaEula False False] else [])"
| "eula_emits s _ = []"

text \<open>What an update does beside the form: the cached settings are replaced, these are fetched again.\<close>

definition eula_invalidates :: "query_key list" where
  "eula_invalidates = [queryKeys Q_providers, queryKeys Q_system]"

subsection \<open>Upload\<close>

record chosen_file =
  fl_name :: string
  fl_size :: nat
  fl_contents :: string

text \<open>\<open>up_status\<close>: \<open>uploadEnabled\<close> and \<open>maxUploadBytes\<close>, once known.\<close>

record upload =
  up_status :: "(bool \<times> nat) option"
  up_file :: "chosen_file option"
  up_confirmed :: bool
  up_pending :: bool

definition upload_init :: upload where
  "upload_init = \<lparr>up_status = None, up_file = None, up_confirmed = False, up_pending = False\<rparr>"

definition tooLarge :: "upload \<Rightarrow> bool" where
  "tooLarge s =
     (case (up_file s, up_status s) of (Some f, Some (_, limit)) \<Rightarrow> limit < fl_size f | _ \<Rightarrow> False)"

definition upload_shown :: "upload \<Rightarrow> bool" where
  "upload_shown s = (case up_status s of Some (enabled, _) \<Rightarrow> enabled | None \<Rightarrow> False)"

datatype upload_event =
    Upload_Status bool nat
  | File_Picked "chosen_file option"
  | Authorized bool
  | Install
  | Installed bool nat
  | Install_Failed string

definition can_install :: "upload \<Rightarrow> bool" where
  "can_install s \<longleftrightarrow>
     upload_shown s \<and> up_file s \<noteq> None \<and> up_confirmed s \<and> \<not> tooLarge s \<and> \<not> up_pending s"

fun upload_step :: "upload \<Rightarrow> upload_event \<Rightarrow> upload" where
  "upload_step s (Upload_Status enabled limit) = s\<lparr>up_status := Some (enabled, limit)\<rparr>"
| "upload_step s (File_Picked f) = (if upload_shown s then s\<lparr>up_file := f, up_confirmed := False\<rparr> else s)"
| "upload_step s (Authorized b) =
     (if \<not> upload_shown s \<or> up_file s = None \<or> tooLarge s \<or> up_pending s then s else s\<lparr>up_confirmed := b\<rparr>)"
| "upload_step s Install = (if can_install s then s\<lparr>up_pending := True\<rparr> else s)"
| "upload_step s (Installed enabled limit) =
     s\<lparr>up_status := Some (enabled, limit), up_file := None, up_confirmed := False, up_pending := False\<rparr>"
| "upload_step s (Install_Failed m) = s\<lparr>up_pending := False\<rparr>"

fun upload_emits :: "upload \<Rightarrow> upload_event \<Rightarrow> api_call list" where
  "upload_emits s Install =
     (case up_file s of
        Some f \<Rightarrow> if can_install s then [Api_uploadOoklaBinary (fl_contents f)] else []
      | None \<Rightarrow> [])"
| "upload_emits s _ = []"

abbreviation eula_run :: "eula \<Rightarrow> eula_event list \<Rightarrow> eula" where
  "eula_run \<equiv> foldl eula_step"

abbreviation upload_run :: "upload_event list \<Rightarrow> upload" where
  "upload_run \<equiv> foldl upload_step upload_init"

subsection \<open>Where a confirmation comes from\<close>

definition agreed :: "eula_event list \<Rightarrow> bool" where
  "agreed es \<longleftrightarrow>
     (\<exists>a b. es = a @ Agree True # b \<and>
       list_all (\<lambda>e. case e of Eula_Updated _ _ \<Rightarrow> False | _ \<Rightarrow> True) b)"

lemma agreed_snoc:
  "agreed es \<Longrightarrow> (case e of Eula_Updated _ _ \<Rightarrow> False | _ \<Rightarrow> True) \<Longrightarrow> agreed (es @ [e])"
proof -
  assume "agreed es" and e: "case e of Eula_Updated _ _ \<Rightarrow> False | _ \<Rightarrow> True"
  then obtain a b where "es = a @ Agree True # b"
    "list_all (\<lambda>e. case e of Eula_Updated _ _ \<Rightarrow> False | _ \<Rightarrow> True) b"
    unfolding agreed_def by blast
  with e have "es @ [e] = a @ Agree True # (b @ [e])"
    "list_all (\<lambda>e. case e of Eula_Updated _ _ \<Rightarrow> False | _ \<Rightarrow> True) (b @ [e])"
    by simp_all
  then show ?thesis unfolding agreed_def by blast
qed

lemma agreed_now: "agreed (es @ [Agree True])"
  unfolding agreed_def by (intro exI [of _ es] exI [of _ "[]"]) simp

lemma confirmed_agreed: "el_confirmed (eula_run (eula_init effective src) es) \<Longrightarrow> agreed es"
proof (induction es rule: rev_induct)
  case Nil
  then show ?case by (simp add: eula_init_def)
next
  case (snoc e es)
  let ?s = "eula_run (eula_init effective src) es"
  consider "e = Agree True" | "el_confirmed ?s" "case e of Eula_Updated _ _ \<Rightarrow> False | _ \<Rightarrow> True"
    using snoc.prems by (cases e) (auto split: if_splits)
  then show ?case
  proof cases
    case 1
    then show ?thesis by (simp add: agreed_now)
  next
    case 2
    then show ?thesis using snoc.IH agreed_snoc by blast
  qed
qed

definition authorized :: "chosen_file \<Rightarrow> upload_event list \<Rightarrow> bool" where
  "authorized f es \<longleftrightarrow> (\<exists>a b. es = a @ File_Picked (Some f) # b \<and> Authorized True \<in> set b)"

definition picked :: "chosen_file \<Rightarrow> upload_event list \<Rightarrow> bool" where
  "picked f es \<longleftrightarrow> File_Picked (Some f) \<in> set es"

lemma authorized_snoc: "authorized f es \<Longrightarrow> authorized f (es @ [e])"
proof -
  assume "authorized f es"
  then obtain a b where "es = a @ File_Picked (Some f) # b" "Authorized True \<in> set b"
    unfolding authorized_def by blast
  then have "es @ [e] = a @ File_Picked (Some f) # (b @ [e])" "Authorized True \<in> set (b @ [e])"
    by simp_all
  then show ?thesis unfolding authorized_def by blast
qed

lemma authorized_now: "picked f es \<Longrightarrow> authorized f (es @ [Authorized True])"
proof -
  assume "picked f es"
  then obtain a b where "es = a @ File_Picked (Some f) # b"
    unfolding picked_def by (meson split_list)
  then have "es @ [Authorized True] = a @ File_Picked (Some f) # (b @ [Authorized True])" by simp
  then show ?thesis unfolding authorized_def by fastforce
qed

lemma upload_origin:
  "up_file (upload_run es) = Some f \<Longrightarrow> picked f es \<and> (up_confirmed (upload_run es) \<longrightarrow> authorized f es)"
proof (induction es rule: rev_induct)
  case Nil
  then show ?case by (simp add: upload_init_def)
next
  case (snoc e es)
  let ?s = "upload_run es" and ?t = "upload_run (es @ [e])"
  consider (same) "up_file ?s = Some f" "up_confirmed ?t \<longrightarrow> up_confirmed ?s \<or> e = Authorized True"
    | (new) "e = File_Picked (Some f)" "\<not> up_confirmed ?t"
    using snoc.prems by (cases e) (auto split: if_splits)
  then show ?case
  proof cases
    case same
    then have "picked f es" "up_confirmed ?s \<longrightarrow> authorized f es" using snoc.IH by blast+
    with same show ?thesis
      using authorized_snoc authorized_now by (fastforce simp: picked_def)
  next
    case new
    then show ?thesis by (simp add: picked_def)
  qed
qed

subsection \<open>Properties\<close>

text \<open>
  C6. The acknowledgement is recorded only with explicit confirmation: the request carries both flags,
  the box was ticked since the last recorded change, and nothing was recorded before. A revocation is
  sent only from its dialog and never while the environment overrides the record. No request is sent
  while another is pending.
\<close>

theorem eula_requires_consent:
  assumes "Api_updateOoklaEula accepted confirmed \<in> set (eula_emits (eula_run (eula_init effective src) es) e)"
  shows "(let s = eula_run (eula_init effective src) es in
     \<not> el_pending s \<and> accepted = confirmed \<and>
     (if accepted then agreed es \<and> \<not> el_effective s
      else el_confirmRevoke s \<and> el_effective s \<and> el_source s \<noteq> Src_Environment))"
  using assms confirmed_agreed [of effective src es]
  by (cases e) (auto simp: Let_def can_record_def can_revoke_def environmentOverride_def split: if_splits)

theorem eula_requires_consent_witness:
  "agreed [Agree True] \<and>
   Api_updateOoklaEula True True \<in> set (eula_emits (eula_run (eula_init False Src_None) [Agree True]) Record_Acknowledgement)"
proof -
  have emit: "Api_updateOoklaEula True True \<in>
      set (eula_emits (eula_run (eula_init False Src_None) [Agree True]) Record_Acknowledgement)"
    by (simp add: eula_init_def can_record_def)
  from eula_requires_consent [OF this] emit show ?thesis
    by (simp add: Let_def)
qed

text \<open>
  C5. An executable is uploaded only if the daemon enabled uploads and allows its size, it is the file
  the operator picked, and the operator authorized it after picking it: choosing another file withdraws
  the confirmation.
\<close>

theorem upload_authorized:
  assumes "Api_uploadOoklaBinary contents \<in> set (upload_emits (upload_run es) e)"
  shows "e = Install \<and> (\<exists>f limit. fl_contents f = contents \<and> authorized f es \<and>
    up_status (upload_run es) = Some (True, limit) \<and> fl_size f \<le> limit)"
proof -
  obtain f where f: "e = Install" "up_file (upload_run es) = Some f" "can_install (upload_run es)"
    "contents = fl_contents f"
    using assms by (cases e; cases "up_file (upload_run es)") (auto split: if_splits)
  then obtain limit where "up_status (upload_run es) = Some (True, limit)" "fl_size f \<le> limit"
    by (auto simp: can_install_def upload_shown_def tooLarge_def split: option.splits)
  moreover have "authorized f es"
    using upload_origin [OF f(2)] f(3) by (simp add: can_install_def)
  ultimately show ?thesis using f by blast
qed

definition sample_binary :: chosen_file where
  "sample_binary = \<lparr>fl_name = ''speedtest'', fl_size = 3, fl_contents = ''ELF''\<rparr>"

theorem upload_authorized_witness:
  "\<exists>f limit. fl_contents f = ''ELF'' \<and>
     authorized f [Upload_Status True 10, File_Picked (Some sample_binary), Authorized True] \<and> fl_size f \<le> limit"
proof -
  have "Api_uploadOoklaBinary ''ELF'' \<in> set (upload_emits
      (upload_run [Upload_Status True 10, File_Picked (Some sample_binary), Authorized True]) Install)"
    by (simp add: upload_init_def sample_binary_def can_install_def upload_shown_def tooLarge_def)
  from upload_authorized [OF this] show ?thesis by blast
qed

end
