(* ===== verification/OoklaView.thy ===== *)
theory OoklaView
  imports OoklaTerms Widgets Format
begin

text \<open>
  What the acknowledgement of the Ookla terms and the upload show
  (\<open>components/common/OoklaEulaAcceptance.tsx\<close>): the form or the record of the acknowledgement, the links to
  the documents, and the installation of the executable. \<open>dateTime\<close> prints an instant.
\<close>

datatype ookla_click = Terms eula_event | Up upload_event | Open_Picker

record ookla_texts =
  ot_acceptedAt :: "string option"
  ot_version :: string
  ot_currentVersion :: string

text \<open>What the query of the upload status says beside the limit.\<close>

record binary_note =
  bn_isLoading :: bool
  bn_error :: "failure option"
  bn_installed :: bool
  bn_message :: string

definition ooklaEulaUrl :: string where "ooklaEulaUrl = ''https://www.speedtest.net/about/eula''"
definition ooklaTermsUrl :: string where "ooklaTermsUrl = ''https://www.speedtest.net/about/terms''"
definition ooklaPrivacyUrl :: string where "ooklaPrivacyUrl = ''https://www.speedtest.net/about/privacy''"
definition ooklaCliDownloadUrl :: string where "ooklaCliDownloadUrl = ''https://www.speedtest.net/apps/cli''"

definition registered :: string where
  "registered = [char_of (174 :: nat)]"

subsection \<open>Documents\<close>

definition OoklaTrademarkNotice :: "'a element" where
  "OoklaTrademarkNotice =
     node_of ''p'' [Words (''Ookla'' @ registered @ '' and Speedtest'' @ registered @
       '' are registered trademarks of Ookla, LLC. MultiSpeed is independent and is not affiliated with, endorsed by, or sponsored by Ookla.'')]"

definition document_link :: "string \<Rightarrow> string \<Rightarrow> 'a element" where
  "document_link url label =
     Button True [] []
       [Element ''a'' [(''href'', url), (''target'', ''_blank''), (''rel'', ''noopener noreferrer'')] [] [Icon ''ExternalLink'', Words label]]"

definition OoklaTermsLinks :: "'a element list" where
  "OoklaTermsLinks =
     [document_link ooklaEulaUrl ''EULA'', document_link ooklaTermsUrl ''Terms of Use'', document_link ooklaPrivacyUrl ''Privacy Policy'']"

subsection \<open>Upload\<close>

definition mebibytes :: "nat \<Rightarrow> rat" where
  "mebibytes n = rnd (of_nat n / (1024 * 1024))"

definition file_text :: "upload \<Rightarrow> nat \<Rightarrow> string" where
  "file_text u limit =
     (case up_file u of
        Some f \<Rightarrow> fl_name f @ dot_sep @ to_fixed (mebibytes (fl_size f)) 1 @ '' MiB''
      | None \<Rightarrow> ''Maximum '' @ to_fixed (mebibytes limit) 0 @ '' MiB'')"



definition upload_form :: "upload \<Rightarrow> nat \<Rightarrow> ookla_click element list" where
  "upload_form u limit =
     [Element ''input'' [(''type'', ''file''), (''aria-label'', ''Ookla Speedtest executable'')] [] [],
      node_of ''div''
        [Button False ([(''type'', ''button'')] @ disabled_prop (up_pending u)) [(''onClick'', Open_Picker)] [Icon ''Upload'', Words ''Choose executable''],
         document_link ooklaCliDownloadUrl ''Get official Speedtest CLI'',
         node_of ''span'' [Words (file_text u limit)]],
      node_of ''p'' [Words ''On Ookla's download page, choose the Linux x86_64 archive, extract it, and select the contained '',
        node_of ''code'' [Words ''speedtest''], Words '' executable here.'']] @
     shown (tooLarge u)
       (Element ''p'' [(''role'', ''alert'')] []
          [Words (''The selected file exceeds the '' @ int_string (math_round (mebibytes limit)) @ '' MiB upload limit.'')]) @
     [CheckField (up_confirmed u) (\<lambda>b. Up (Authorized b)) ''This is an authorized Speedtest by Ookla executable''
        ''I obtained this Linux amd64 file separately, agreed to the current EULA/Terms, reviewed the Privacy Policy, and confirm this device and any network access from multiple devices fit those documents or have separate written Ookla authorization.''
        (up_file u = None \<or> tooLarge u \<or> up_pending u),
      Button False ([(''type'', ''button'')] @ disabled_prop (up_file u = None \<or> \<not> up_confirmed u \<or> tooLarge u \<or> up_pending u))
        [(''onClick'', Up Install)] [if up_pending u then Spinner else Icon ''Upload'', Words ''Install executable''],
      node_of ''p'' [Words ''Because MultiSpeed has no authentication, keep this opt-in upload endpoint limited to a trusted private network.'']]"

definition OoklaBinaryUpload :: "(failure \<Rightarrow> string) \<Rightarrow> binary_note \<Rightarrow> upload \<Rightarrow> ookla_click element" where
  "OoklaBinaryUpload runtime_message n u =
     node_of ''div''
       ([node_of ''div''
           ([node_of ''div'' [node_of ''p'' [Words ''Ookla executable''],
               node_of ''p'' [Words ''MultiSpeed accepts one separately obtained Linux amd64 executable and stores it persistently outside the image.'']]] @
            shown (up_status u \<noteq> None \<and> bn_installed n) (Badge [Icon ''FileCheck2'', Words ''Installed'']))] @
        shown (bn_isLoading n) (node_of ''p'' [Words (''Checking manual upload support'' @ ellipsis)]) @
        (case bn_error n of Some e \<Rightarrow> [node_of ''p'' [Words (getApiErrorMessage runtime_message (Some e))]] | None \<Rightarrow> []) @
        (case up_status u of
           Some (enabled, limit) \<Rightarrow>
             if enabled then upload_form u limit
             else [node_of ''p'' [Words (bn_message n @ '' Set ''), node_of ''code'' [Words ''APP_ALLOW_OOKLA_BINARY_UPLOAD=true''],
               Words '' and use the managed binary path to enable it.'']]
         | None \<Rightarrow> []))"

subsection \<open>Acknowledgement\<close>

definition environment_note :: string where
  "environment_note = ''The environment override authorizes MultiSpeed to pass --accept-license and --accept-gdpr non-interactively and opens only its technical gate. It does not grant a license. Use only when the deployment fits the current documents or you have separate written Ookla authorization; clear ACCEPT_OOKLA_EULA and restart to block runs.''"

definition record_note :: string where
  "record_note = ''This record authorizes MultiSpeed to pass --accept-license and --accept-gdpr non-interactively and opens only its technical gate. It does not grant a license, install the proprietary CLI, or replace separate written authorization when the deployment falls outside Ookla's express grant.''"

definition grant_note :: string where
  "grant_note = ''Ookla's public EULA describes personal, non-commercial CLI use on one personal computer, excludes routers, modems, and other non-PC devices, and restricts making the CLI available on a network where more than one device can access it. The binding current documents or individual written authorization govern your deployment.''"

definition review_note :: string where
  "review_note = ''Review all current Ookla documents. Its public EULA describes personal, non-commercial CLI use on one personal computer, excludes routers, modems, and other non-PC devices, and restricts making the CLI available on a network where more than one device can access it. Use only when this deployment fits the binding current documents or you have separate written Ookla authorization. MultiSpeed never downloads or bundles the proprietary CLI.''"

definition accepted_since :: "(string option \<Rightarrow> string) \<Rightarrow> ookla_texts \<Rightarrow> eula \<Rightarrow> string" where
  "accepted_since dateTime x s =
     (if environmentOverride s then ''ACCEPT_OOKLA_EULA=true''
      else case ot_acceptedAt x of
        Some moment \<Rightarrow> if moment \<noteq> [] then dateTime (Some moment) else ''Timestamp unavailable''
      | None \<Rightarrow> ''Timestamp unavailable'')"

definition revoke_dialog :: "(string \<Rightarrow> string) \<Rightarrow> eula \<Rightarrow> ookla_click element" where
  "revoke_dialog t s =
     ConfirmDialog t (el_confirmRevoke s) (\<lambda>b. Terms (Revoke_Dialog b)) ''Revoke Ookla terms acknowledgement?''
       [Words ''New Ookla provider discovery and test runs will be blocked. Existing result history is preserved.'']
       ''Revoke acknowledgement'' (Terms Revoke_Confirmed) (el_pending s)"

definition accepted_view ::
  "(failure \<Rightarrow> string) \<Rightarrow> (string \<Rightarrow> string) \<Rightarrow> (string option \<Rightarrow> string) \<Rightarrow> ookla_texts \<Rightarrow> binary_note \<Rightarrow> eula \<Rightarrow> upload \<Rightarrow>
   ookla_click element" where
  "accepted_view runtime_message t dateTime x n s u =
     node_of ''div''
       ([node_of ''div''
           [Badge [Icon ''ShieldCheck'', Words (if environmentOverride s then ''Enabled by environment'' else ''Acknowledgement recorded'')],
            node_of ''span'' [Words (accepted_since dateTime x s)]],
         node_of ''p'' [Words (if environmentOverride s then environment_note else record_note)],
         node_of ''p'' [Words grant_note],
         node_of ''p'' [Words ''MultiSpeed review marker (not an Ookla version identifier): '', node_of ''code'' [Words (ot_currentVersion x)]],
         node_of ''div''
           (OoklaTermsLinks @
            shown (\<not> environmentOverride s)
              (Button False (disabled_prop (el_pending s)) [(''onClick'', Terms Revoke_Asked)] [Icon ''ShieldOff'', Words ''Revoke acknowledgement''])),
         OoklaBinaryUpload runtime_message n u, OoklaTrademarkNotice] @
        shown (\<not> environmentOverride s) (revoke_dialog t s))"

definition agreement_view :: "ookla_texts \<Rightarrow> eula \<Rightarrow> ookla_click element" where
  "agreement_view x s =
     node_of ''div''
       (shown (ot_version x \<noteq> [] \<and> ot_version x \<noteq> ot_currentVersion x)
          (node_of ''p'' [Words ''The previous acknowledgement covered '', node_of ''code'' [Words (ot_version x)],
             Words ''. Review and agree to the currently required documents again.'']) @
        [node_of ''p'' [Words review_note],
         node_of ''p'' [Words ''Required MultiSpeed review marker (not an Ookla version identifier): '', node_of ''code'' [Words (ot_currentVersion x)]],
         node_of ''div'' OoklaTermsLinks,
         CheckField (el_confirmed s) (\<lambda>b. Terms (Agree b)) ''I agree to the current EULA and Terms of Use and reviewed the Privacy Policy''
           ''I authorize MultiSpeed to pass --accept-license and --accept-gdpr non-interactively, and confirm this personal-computer/non-commercial deployment, device type, and any network access from multiple devices fit the current documents or I have separate written authorization.''
           False,
         Button False (disabled_prop (\<not> el_confirmed s \<or> el_pending s)) [(''onClick'', Terms Record_Acknowledgement)]
           [if el_pending s then Spinner else Icon ''ShieldCheck'', Words ''Record acknowledgement''],
         OoklaTrademarkNotice])"

definition OoklaEulaAcceptance ::
  "(failure \<Rightarrow> string) \<Rightarrow> (string \<Rightarrow> string) \<Rightarrow> (string option \<Rightarrow> string) \<Rightarrow> ookla_texts \<Rightarrow> binary_note \<Rightarrow> eula \<Rightarrow> upload \<Rightarrow>
   ookla_click element" where
  "OoklaEulaAcceptance runtime_message t dateTime x n s u =
     (if el_effective s then accepted_view runtime_message t dateTime x n s u else agreement_view x s)"

subsection \<open>What is offered\<close>

abbreviation addresses :: "'a element \<Rightarrow> string list" where
  "addresses \<equiv> gather (prop_values ''href'')"

lemma offered_links: "concat (map offered OoklaTermsLinks) = []" "offered (document_link url label) = []"
  "offered OoklaTrademarkNotice = []"
  by (simp_all add: OoklaTermsLinks_def document_link_def OoklaTrademarkNotice_def Button_def)

lemma address_links: "concat (map addresses OoklaTermsLinks) = [ooklaEulaUrl, ooklaTermsUrl, ooklaPrivacyUrl]"
  "addresses (document_link url label) = [url]" "addresses OoklaTrademarkNotice = []"
  by (simp_all add: OoklaTermsLinks_def document_link_def OoklaTrademarkNotice_def Button_def gather_Element)

lemma offered_check: "offered (CheckField checked onChange label description off) = (if off then [] else [onChange (\<not> checked)])"
  by (simp add: CheckField_def Switch_def shown_def disabled_prop_def)

lemma address_check: "addresses (CheckField checked onChange label description off) = []"
  by (simp add: CheckField_def Switch_def shown_def disabled_prop_def gather_Element)

lemma offered_form:
  "concat (map offered (upload_form u limit)) =
   (if up_pending u then [] else [Open_Picker]) @
   (if up_file u = None \<or> tooLarge u \<or> up_pending u then [] else [Up (Authorized (\<not> up_confirmed u))]) @
   (if up_file u = None \<or> \<not> up_confirmed u \<or> tooLarge u \<or> up_pending u then [] else [Up Install])"
  by (simp add: upload_form_def offered_links offered_check Button_def shown_def Spinner_def disabled_prop_def)

lemma address_form: "concat (map addresses (upload_form u limit)) = [ooklaCliDownloadUrl]"
  by (simp add: upload_form_def address_links address_check Button_def shown_def Spinner_def disabled_prop_def gather_Element)

lemma offered_upload:
  "offered (OoklaBinaryUpload runtime_message n u) =
   (case up_status u of Some (enabled, limit) \<Rightarrow> if enabled then concat (map offered (upload_form u limit)) else [] | None \<Rightarrow> [])"
  by (auto simp: OoklaBinaryUpload_def shown_def Badge_def split: option.split)

lemma address_upload:
  "addresses (OoklaBinaryUpload runtime_message n u) =
   (case up_status u of Some (enabled, limit) \<Rightarrow> if enabled then [ooklaCliDownloadUrl] else [] | None \<Rightarrow> [])"
proof -
  have none: "concat (map addresses (case bn_error n of Some e \<Rightarrow> [node_of ''p'' [Words (f e)]] | None \<Rightarrow> [])) = []" for f
    by (cases "bn_error n") (simp_all add: gather_Element)
  show ?thesis
    by (cases "up_status u"; simp add: OoklaBinaryUpload_def shown_def Badge_def gather_Element none address_form split_def)
qed

lemma install_offered: "Up Install \<in> set (offered (OoklaBinaryUpload runtime_message n u)) \<longleftrightarrow> upload_emits u Install \<noteq> []"
  by (auto simp: offered_upload offered_form can_install_def upload_shown_def split: option.splits)

lemma upload_no_terms: "Terms e \<notin> set (offered (OoklaBinaryUpload runtime_message n u))"
  by (auto simp: offered_upload offered_form split: option.splits)

lemma revoke_offers:
  "offered (revoke_dialog t s) =
   (if \<not> el_confirmRevoke s then [] else Terms (Revoke_Dialog False) # (if el_pending s then [] else [Terms Revoke_Confirmed]))"
  "addresses (revoke_dialog t s) = []"
  by (simp_all add: revoke_dialog_def ConfirmDialog_def Button_def disabled_prop_def gather_Element)

lemma offered_accepted:
  "offered (accepted_view runtime_message t dateTime x n s u) =
   (if environmentOverride s \<or> el_pending s then [] else [Terms Revoke_Asked]) @ offered (OoklaBinaryUpload runtime_message n u) @
   (if environmentOverride s \<or> \<not> el_confirmRevoke s then []
    else Terms (Revoke_Dialog False) # (if el_pending s then [] else [Terms Revoke_Confirmed]))"
  by (simp add: accepted_view_def revoke_offers offered_links shown_def Badge_def Button_def disabled_prop_def)

lemma offered_agreement:
  "offered (agreement_view x s) =
   Terms (Agree (\<not> el_confirmed s)) # (if \<not> el_confirmed s \<or> el_pending s then [] else [Terms Record_Acknowledgement])"
  by (simp add: agreement_view_def offered_links offered_check shown_def Button_def Spinner_def disabled_prop_def)

lemma address_accepted:
  "addresses (accepted_view runtime_message t dateTime x n s u) =
   [ooklaEulaUrl, ooklaTermsUrl, ooklaPrivacyUrl] @ addresses (OoklaBinaryUpload runtime_message n u)"
  by (simp add: accepted_view_def revoke_offers address_links shown_def Badge_def Button_def disabled_prop_def gather_Element)

lemma address_agreement: "addresses (agreement_view x s) = [ooklaEulaUrl, ooklaTermsUrl, ooklaPrivacyUrl]"
  by (simp add: agreement_view_def address_links address_check shown_def Button_def Spinner_def disabled_prop_def gather_Element)

text \<open>
  Consent is asked for beside what it is given to: the form shows all three documents of Ookla whenever it
  shows at all and links nowhere but to them and to the download page; recording, revoking and installing
  are offered exactly when choosing them sends the request; and nothing is offered that records an
  acknowledgement already in force or installs an executable without one.
\<close>

theorem ookla_view_agrees:
  "let v = OoklaEulaAcceptance runtime_message t dateTime x n s u; offers = set (offered v) in
   {ooklaEulaUrl, ooklaTermsUrl, ooklaPrivacyUrl} \<subseteq> set (addresses v) \<and>
   set (addresses v) \<subseteq> {ooklaEulaUrl, ooklaTermsUrl, ooklaPrivacyUrl, ooklaCliDownloadUrl} \<and>
   (Terms Record_Acknowledgement \<in> offers \<longleftrightarrow> eula_emits s Record_Acknowledgement \<noteq> []) \<and>
   (Terms Revoke_Confirmed \<in> offers \<longleftrightarrow> eula_emits s Revoke_Confirmed \<noteq> []) \<and>
   (Up Install \<in> offers \<longleftrightarrow> el_effective s \<and> upload_emits u Install \<noteq> []) \<and>
   (el_effective s \<longleftrightarrow> Terms (Agree (\<not> el_confirmed s)) \<notin> offers)"
proof (cases "el_effective s")
  case True
  then show ?thesis
    using upload_no_terms [of _ runtime_message n u] install_offered [of runtime_message n u]
    by (cases "up_status u"; simp add: Let_def OoklaEulaAcceptance_def address_accepted address_upload offered_accepted can_record_def can_revoke_def
        split_def del: upload_emits.simps(1)) blast+
next
  case False
  then show ?thesis
    by (simp add: OoklaEulaAcceptance_def address_agreement offered_agreement can_record_def can_revoke_def)
qed

end
