(* ===== verification/TasksPage.thy ===== *)
theory TasksPage
  imports Api Tasks Toast Query
begin

text \<open>
  The task list (\<open>pages/TasksPage.tsx\<close>): filters, and the actions of a row as a state machine over the
  rendered tasks. Toasts are reduced to their tone and title.
\<close>

subsection \<open>Filters\<close>

record task_filters =
  tf_search :: string
  tf_provider :: string
  tf_enabled :: string
  tf_network :: string

definition no_filters :: task_filters where
  "no_filters = \<lparr>tf_search = [], tf_provider = ''all'', tf_enabled = ''all'', tf_network = ''all''\<rparr>"

definition bool_string :: "bool \<Rightarrow> string" where
  "bool_string b = (if b then ''true'' else ''false'')"

definition matches_task :: "task_filters \<Rightarrow> task \<Rightarrow> bool" where
  "matches_task f t \<longleftrightarrow>
     (let term = to_lower (trim (tf_search f)) in
      (term = [] \<or> sublist term (to_lower (ti_name t @ '' '' @ ti_description t @ '' '' @ ti_interfaceName t @
         '' '' @ ti_sourceIp t))) \<and>
      (tf_provider f = ''all'' \<or> provider_name (ti_provider t) = tf_provider f) \<and>
      (tf_enabled f = ''all'' \<or> bool_string (ti_enabled t) = tf_enabled f) \<and>
      (tf_network f = ''all'' \<or> ti_interfaceName t = tf_network f))"

definition filtered :: "task_filters \<Rightarrow> task list \<Rightarrow> task list" where
  "filtered f ts = filter (matches_task f) ts"

definition networks :: "task list \<Rightarrow> string list" where
  "networks ts = sort_by compare_units (unique (map ti_interfaceName ts))"

subsection \<open>Actions\<close>

record tasks_page =
  tp_filters :: task_filters
  tp_tasks :: "task list"
  tp_deleteTask :: "task option"
  tp_running :: bool
  tp_duplicating :: bool
  tp_deleting :: bool

definition tasks_init :: tasks_page where
  "tasks_init = \<lparr>tp_filters = no_filters, tp_tasks = [], tp_deleteTask = None, tp_running = False,
     tp_duplicating = False, tp_deleting = False\<rparr>"

text \<open>A row event names the index of a rendered row.\<close>

datatype tasks_event =
    Tasks_Data "task list"
  | Filters_Changed task_filters
  | Switched nat bool
  | Run_Now nat
  | Run_Settled "string option"
  | Duplicate nat
  | Duplicated "string + string"
  | Delete_Chosen nat
  | Delete_Closed
  | Delete_Agreed
  | Task_Deleted
  | Task_Delete_Failed string
  | Update_Settled "bool option"

datatype tasks_output =
    Tasks_Call api_call
  | Tasks_Navigate string
  | Tasks_Invalidate query_key
  | Tasks_Toast ToastTone string

definition row :: "tasks_page \<Rightarrow> nat \<Rightarrow> task option" where
  "row s i = (let rows = filtered (tp_filters s) (tp_tasks s) in if i < length rows then Some (rows ! i) else None)"

definition edit_path :: "string \<Rightarrow> string" where
  "edit_path i = ''/tasks/'' @ i @ ''/edit''"

definition switched :: "task \<Rightarrow> bool \<Rightarrow> tasks_output list" where
  "switched t next_enabled =
     (if next_enabled \<and> \<not> ti_enabled t
      then [Tasks_Toast Info ''Preflight required before enabling'', Tasks_Navigate (edit_path (t_id t))]
      else [Tasks_Call (Api_updateTask (t_id t) (input_json ((taskToInput t)\<lparr>ti_enabled := next_enabled\<rparr>)))])"

definition can_run :: "tasks_page \<Rightarrow> task \<Rightarrow> bool" where
  "can_run s t \<longleftrightarrow> \<not> (tp_running s \<or> t_networkPathValid t = Some False)"

fun tasks_step :: "tasks_page \<Rightarrow> tasks_event \<Rightarrow> tasks_page" where
  "tasks_step s (Tasks_Data ts) = s\<lparr>tp_tasks := ts\<rparr>"
| "tasks_step s (Filters_Changed f) = s\<lparr>tp_filters := f\<rparr>"
| "tasks_step s (Run_Now i) =
     (case row s i of Some t \<Rightarrow> if can_run s t then s\<lparr>tp_running := True\<rparr> else s | None \<Rightarrow> s)"
| "tasks_step s (Run_Settled m) = s\<lparr>tp_running := False\<rparr>"
| "tasks_step s (Duplicate i) = (case row s i of Some t \<Rightarrow> s\<lparr>tp_duplicating := True\<rparr> | None \<Rightarrow> s)"
| "tasks_step s (Duplicated r) = s\<lparr>tp_duplicating := False\<rparr>"
| "tasks_step s (Delete_Chosen i) = (case row s i of Some t \<Rightarrow> s\<lparr>tp_deleteTask := Some t\<rparr> | None \<Rightarrow> s)"
| "tasks_step s Delete_Closed = s\<lparr>tp_deleteTask := None\<rparr>"
| "tasks_step s Delete_Agreed = (if tp_deleteTask s \<noteq> None then s\<lparr>tp_deleting := True\<rparr> else s)"
| "tasks_step s Task_Deleted = s\<lparr>tp_deleteTask := None, tp_deleting := False\<rparr>"
| "tasks_step s (Task_Delete_Failed m) = s\<lparr>tp_deleting := False\<rparr>"
| "tasks_step s _ = s"

fun tasks_emits :: "tasks_page \<Rightarrow> tasks_event \<Rightarrow> tasks_output list" where
  "tasks_emits s (Switched i b) = (case row s i of Some t \<Rightarrow> switched t b | None \<Rightarrow> [])"
| "tasks_emits s (Run_Now i) =
     (case row s i of Some t \<Rightarrow> if can_run s t then [Tasks_Call (Api_runTask (t_id t))] else [] | None \<Rightarrow> [])"
| "tasks_emits s (Run_Settled m) =
     (case m of
        None \<Rightarrow> [Tasks_Invalidate [JStr ''results''], Tasks_Toast Success ''Test queued'']
      | Some _ \<Rightarrow> [Tasks_Toast Error ''Unable to queue test''])"
| "tasks_emits s (Duplicate i) =
     (case row s i of
        Some t \<Rightarrow> if tp_duplicating s then [] else [Tasks_Call (Api_duplicateTask (t_id t))] | None \<Rightarrow> [])"
| "tasks_emits s (Duplicated r) =
     (case r of
        Inr i \<Rightarrow> [Tasks_Invalidate (queryKeys Q_tasks), Tasks_Toast Success ''Task duplicated'', Tasks_Navigate (edit_path i)]
      | Inl _ \<Rightarrow> [Tasks_Toast Error ''Duplicate failed''])"
| "tasks_emits s Delete_Agreed =
     (case tp_deleteTask s of
        Some t \<Rightarrow> if tp_deleting s then [] else [Tasks_Call (Api_deleteTask (t_id t))] | None \<Rightarrow> [])"
| "tasks_emits s Task_Deleted = [Tasks_Invalidate (queryKeys Q_tasks), Tasks_Toast Success ''Task deleted'']"
| "tasks_emits s (Task_Delete_Failed m) = [Tasks_Toast Error ''Delete failed'']"
| "tasks_emits s (Update_Settled r) =
     (case r of
        Some b \<Rightarrow> [Tasks_Invalidate (queryKeys Q_tasks), Tasks_Toast Success (if b then ''Task enabled'' else ''Task disabled'')]
      | None \<Rightarrow> [Tasks_Toast Error ''Task update failed''])"
| "tasks_emits s _ = []"

abbreviation tasks_run :: "tasks_event list \<Rightarrow> tasks_page" where
  "tasks_run \<equiv> foldl tasks_step tasks_init"

subsection \<open>Lemmas\<close>

lemma row_in: "row s i = Some t \<Longrightarrow> t \<in> set (tp_tasks s) \<and> matches_task (tp_filters s) t"
  by (auto simp: row_def filtered_def Let_def split: if_splits dest: nth_mem)

lemma no_filters_all: "filtered no_filters ts = ts"
  by (simp add: filtered_def matches_task_def no_filters_def Let_def trim_def trim_start_def to_lower_def)

text \<open>A request a row may send, for the task it was sent for.\<close>

fun call_allowed :: "task \<Rightarrow> api_call \<Rightarrow> bool" where
  "call_allowed t (Api_updateTask i v) \<longleftrightarrow>
     i = t_id t \<and> (\<exists>b. v = input_json ((taskToInput t)\<lparr>ti_enabled := b\<rparr>) \<and> (b \<longrightarrow> ti_enabled t))"
| "call_allowed t (Api_runTask i) \<longleftrightarrow> i = t_id t \<and> t_networkPathValid t \<noteq> Some False"
| "call_allowed t (Api_duplicateTask i) \<longleftrightarrow> i = t_id t"
| "call_allowed t (Api_deleteTask i) \<longleftrightarrow> i = t_id t"
| "call_allowed t _ \<longleftrightarrow> False"

text \<open>The task a deletion was asked for came from the list.\<close>

lemma delete_origin:
  "tp_deleteTask (tasks_run es) = Some t \<Longrightarrow> \<exists>ts. t \<in> set ts \<and> Tasks_Data ts \<in> set es"
  and tasks_origin: "t \<in> set (tp_tasks (tasks_run es)) \<Longrightarrow> \<exists>ts. t \<in> set ts \<and> Tasks_Data ts \<in> set es"
proof (induction es rule: rev_induct)
  case Nil
  {
    case 1
    then show ?case by (simp add: tasks_init_def)
  next
    case 2
    then show ?case by (simp add: tasks_init_def)
  }
next
  case (snoc e es)
  {
    case 1
    then consider "tp_deleteTask (tasks_run es) = Some t" | i where "row (tasks_run es) i = Some t"
      by (cases e) (auto split: option.splits if_splits)
    then show ?case using snoc row_in by cases auto
  next
    case 2
    then show ?case using snoc by (cases e) (auto split: option.splits if_splits)
  }
qed

lemma switched_allowed: "Tasks_Call c \<in> set (switched t b) \<Longrightarrow> call_allowed t c"
  by (auto simp: switched_def split: if_splits)

lemma emits_allowed:
  assumes "Tasks_Call c \<in> set (tasks_emits s e)"
  shows "(\<exists>i t. row s i = Some t \<and> call_allowed t c) \<or> (\<exists>t. tp_deleteTask s = Some t \<and> call_allowed t c)"
proof (cases e)
  case (Switched i b)
  with assms show ?thesis by (cases "row s i") (auto dest: switched_allowed)
next
  case (Run_Now i)
  with assms show ?thesis by (cases "row s i") (auto simp: can_run_def split: if_splits)
next
  case (Duplicate i)
  with assms show ?thesis by (cases "row s i") (auto split: if_splits)
next
  case Delete_Agreed
  with assms show ?thesis by (cases "tp_deleteTask s") (auto split: if_splits)
qed (use assms in \<open>auto split: option.splits sum.splits\<close>)

subsection \<open>Properties\<close>


definition sample_task :: task where
  "sample_task = \<lparr>ti_name = ''Fiber'', ti_description = [], ti_enabled = True, ti_provider = Cloudflare,
     ti_cronExpression = ''0 * * * *'', ti_timezone = ''UTC'', ti_randomJitterSeconds = Fin 0,
     ti_serverSelectionMode = Automatic, ti_serverId = [], ti_serverUrl = [], ti_customServerDefinition = [],
     ti_interfaceName = ''eth0'', ti_sourceIp = ''192.0.2.1'', ti_ipFamily = Ipv4, ti_routeProfileId = None,
     ti_timeoutSeconds = Fin 120, ti_providerOptions = [], ti_preventOverlap = True, ti_routeValidation = Required,
     t_id = ''t1'', t_createdAt = [], t_updatedAt = [], t_lastScheduledAt = None, t_nextScheduledAt = None,
     t_networkPathValid = None, t_networkPathMessage = None\<rparr>"


end
