(* ===== verification/TasksView.thy ===== *)
theory TasksView
  imports TasksPage Widgets Shell
begin

text \<open>
  What the task list shows (\<open>pages/TasksPage.tsx\<close>): the filters, the table with the cells of a task and its
  menu, and the dialog before a deletion. \<open>relative\<close> is \<open>formatRelative\<close>. The table library renders the
  columns for every filtered task in order; a row event names the index of its row.
\<close>

datatype tasks_click = Task_Event tasks_event | Go string | Tasks_Retry

definition path_gone :: "task \<Rightarrow> bool" where
  "path_gone x \<longleftrightarrow> t_networkPathValid x = Some False"

definition name_cell :: "task \<Rightarrow> 'a element" where
  "name_cell x =
     node_of ''div''
       [node_of ''div'' ([link_to (edit_path (t_id x)) [Words (ti_name x)]] @
          shown (path_gone x) (Badge [Icon ''AlertTriangle'', Words ''Invalid path''])),
        node_of ''p'' [Words (or_else (ti_description x) ''No description'')]]"

definition path_cell :: "task \<Rightarrow> 'a element" where
  "path_cell x =
     node_of ''div''
       ([node_of ''p'' [Words (ti_interfaceName x)], node_of ''p'' [Words (ti_sourceIp x)]] @
        shown (path_gone x) (node_of ''p'' [Words (or_else (case t_networkPathMessage x of Some m \<Rightarrow> m | None \<Rightarrow> [])
          ''The configured interface or source address is unavailable.'')]))"

definition schedule_cell :: "task \<Rightarrow> 'a element" where
  "schedule_cell x = node_of ''div'' [node_of ''p'' [Words (ti_cronExpression x)], node_of ''p'' [Words (ti_timezone x)]]"

definition next_cell :: "(string option \<Rightarrow> string) \<Rightarrow> task \<Rightarrow> 'a element" where
  "next_cell relative x =
     node_of ''div''
       [node_of ''p'' [Words (if ti_enabled x then relative (t_nextScheduledAt x) else ''Paused'')],
        node_of ''p'' [Words (case t_lastScheduledAt x of
            Some l \<Rightarrow> if l \<noteq> [] then ''Last '' @ relative (Some l) else ''Never run'' | None \<Rightarrow> ''Never run'')]]"

definition enabled_cell :: "nat \<Rightarrow> task \<Rightarrow> tasks_click element" where
  "enabled_cell i x =
     node_of ''div''
       [Switch (ti_enabled x) (\<lambda>b. Task_Event (Switched i b)) False ((if ti_enabled x then ''Disable'' else ''Enable'') @ '' '' @ ti_name x),
        Badge [StatusDot, Words (if ti_enabled x then ''On'' else ''Off'')]]"

definition menu_cell :: "tasks_page \<Rightarrow> nat \<Rightarrow> task \<Rightarrow> tasks_click element" where
  "menu_cell s i x =
     ActionMenu (''Actions for '' @ ti_name x)
       [ActionMenuItem [] [(''onSelect'', Go (edit_path (t_id x)))] [Icon ''Edit3'', Words ''Edit task''],
        ActionMenuItem (disabled_prop (tp_running s \<or> path_gone x)) [(''onSelect'', Task_Event (Run_Now i))] [Icon ''Play'', Words ''Run now''],
        ActionMenuItem (disabled_prop (tp_duplicating s)) [(''onSelect'', Task_Event (Duplicate i))] [Icon ''Copy'', Words ''Duplicate''],
        ActionMenuSeparator,
        ActionMenuItem [] [(''onSelect'', Task_Event (Delete_Chosen i))] [Icon ''Trash2'', Words ''Delete'']]"

definition task_row :: "(string option \<Rightarrow> string) \<Rightarrow> tasks_page \<Rightarrow> nat \<times> task \<Rightarrow> tasks_click element" where
  "task_row relative s = (\<lambda>(i, x).
     node_of ''tr'' (map (\<lambda>cell. node_of ''td'' [cell])
       [name_cell x, ProviderBadge (ti_provider x), path_cell x, schedule_cell x, next_cell relative x, enabled_cell i x, menu_cell s i x]))"

definition task_columns :: "string list" where
  "task_columns = [''Task'', ''Provider'', ''Network path'', ''Schedule'', ''Next run'', ''Enabled'', []]"

definition choice :: "string \<Rightarrow> string \<Rightarrow> 'a element" where
  "choice value label = Element ''option'' [(''value'', value)] [] [Words label]"

definition filters_active :: "task_filters \<Rightarrow> bool" where
  "filters_active f \<longleftrightarrow> tf_search f \<noteq> [] \<or> tf_provider f \<noteq> ''all'' \<or> tf_enabled f \<noteq> ''all'' \<or> tf_network f \<noteq> ''all''"

definition filter_bar :: "tasks_page \<Rightarrow> tasks_click element" where
  "filter_bar s =
     (let f = tp_filters s in
      node_of ''div''
        [node_of ''div'' [Icon ''Search'',
           Element ''Input'' [(''value'', tf_search f), (''placeholder'', ''Search name, WAN, or source IP'' @ ellipsis),
             (''aria-label'', ''Search tasks'')] [] []],
         Element ''NativeSelect'' [(''value'', tf_provider f), (''aria-label'', ''Filter by provider'')] []
           (choice ''all'' ''All providers'' # map (\<lambda>p. choice (provider_name p) (providerLabel p)) [Ookla, Librespeed, Cloudflare]),
         Element ''NativeSelect'' [(''value'', tf_enabled f), (''aria-label'', ''Filter by enabled state'')] []
           [choice ''all'' ''Any state'', choice ''true'' ''Enabled'', choice ''false'' ''Disabled''],
         Element ''NativeSelect'' [(''value'', tf_network f), (''aria-label'', ''Filter by network interface'')] []
           (choice ''all'' ''All interfaces'' # map (\<lambda>n. choice n n) (networks (tp_tasks s))),
         Button False (disabled_prop (\<not> filters_active f) @ [(''aria-label'', ''Clear filters'')])
           [(''onClick'', Task_Event (Filters_Changed no_filters))] [Icon ''FilterX'']])"

definition task_table :: "(string \<Rightarrow> string) \<Rightarrow> (string option \<Rightarrow> string) \<Rightarrow> tasks_page \<Rightarrow> tasks_click element" where
  "task_table t relative s =
     (let rows = filtered (tp_filters s) (tp_tasks s) in
      if rows \<noteq> [] then
        node_of ''div'' [node_of ''table''
          [node_of ''thead'' [node_of ''tr'' (map (\<lambda>w. node_of ''th'' [Words w]) task_columns)],
           node_of ''tbody'' (map (task_row relative s) (List.enumerate 0 rows))]]
      else if tp_tasks s \<noteq> [] then
        EmptyState t None ''No tasks match these filters'' ''Clear or adjust filters to see more tasks.''
          [Button False [] [(''onClick'', Task_Event (Filters_Changed no_filters))] [Icon ''FilterX'', Words ''Clear filters'']]
      else
        EmptyState t None ''Create your first measurement path'' ''Configure a provider, concrete source address, and independent schedule.''
          [Button True [] [] [link_to ''/tasks/new'' [Icon ''Plus'', Words ''Create task'']]])"

definition task_footer :: "bool \<Rightarrow> tasks_page \<Rightarrow> 'a element" where
  "task_footer updating s =
     node_of ''div''
       [node_of ''span'' [Words (nat_string (length (filtered (tp_filters s) (tp_tasks s))) @ '' of '' @ nat_string (length (tp_tasks s)) @
          '' task'' @ (if length (tp_tasks s) = 1 then [] else ''s''))],
        if updating \<or> tp_running s \<or> tp_duplicating s then node_of ''span'' [Spinner, Words (''Applying change'' @ ellipsis)]
        else node_of ''span'' [Words ''Schedules update immediately'']]"

definition delete_dialog :: "(string \<Rightarrow> string) \<Rightarrow> tasks_page \<Rightarrow> tasks_click element" where
  "delete_dialog t s =
     ConfirmDialog t (tp_deleteTask s \<noteq> None) (\<lambda>_. Task_Event Delete_Closed) ''Delete this task?''
       [node_of ''strong'' [Words (case tp_deleteTask s of Some x \<Rightarrow> ti_name x | None \<Rightarrow> [])],
        Words '' and its future schedule will be removed. Existing results remain available for analysis.'']
       ''Delete task'' (Task_Event Delete_Agreed) (tp_deleting s)"

text \<open>\<open>updating\<close> tells whether an update is under way.\<close>

definition tasks_view ::
  "(failure \<Rightarrow> string) \<Rightarrow> (string \<Rightarrow> string) \<Rightarrow> (string option \<Rightarrow> string) \<Rightarrow> bool \<Rightarrow> failure option \<Rightarrow> bool \<Rightarrow> tasks_page \<Rightarrow>
   tasks_click element list" where
  "tasks_view runtime_message t relative isLoading error updating s =
     (if isLoading then [LoadingState t (''Loading independent schedules'' @ ellipsis)]
      else case error of
        Some e \<Rightarrow> [ErrorState runtime_message t e (Some Tasks_Retry) ''Unable to load data'']
      | None \<Rightarrow>
          [PageHeader t ''Independent tests, precisely routed.''
             ''Each task owns its provider, target, schedule, source address, and route-validation policy.''
             [Button True [] [] [link_to ''/tasks/new'' [Icon ''Plus'', Words ''Create task'']]],
           Card [filter_bar s, task_table t relative s, task_footer updating s], delete_dialog t s])"

subsection \<open>What the list offers\<close>

text \<open>The events of a row.\<close>

definition row_events :: "tasks_page \<Rightarrow> nat \<Rightarrow> task \<Rightarrow> tasks_click list" where
  "row_events s i x =
     [Task_Event (Switched i (\<not> ti_enabled x)), Go (edit_path (t_id x))] @
     (if can_run s x then [Task_Event (Run_Now i)] else []) @
     (if tp_duplicating s then [] else [Task_Event (Duplicate i)]) @ [Task_Event (Delete_Chosen i)]"

lemma offered_row: "offered (task_row relative s (i, x)) = row_events s i x"
  by (simp add: task_row_def name_cell_def path_cell_def schedule_cell_def next_cell_def enabled_cell_def menu_cell_def offer_simps
      row_events_def can_run_def path_gone_def)

lemma offered_bar: "set (offered (filter_bar s)) \<subseteq> {Task_Event (Filters_Changed no_filters)}"
  by (simp add: filter_bar_def Let_def offer_simps choice_def comp_def)

lemma offered_table:
  "set (offered (task_table t relative s)) \<union> {Task_Event (Filters_Changed no_filters)} =
   {e. \<exists>i x. row s i = Some x \<and> e \<in> set (row_events s i x)} \<union> {Task_Event (Filters_Changed no_filters)}"
proof (cases "filtered (tp_filters s) (tp_tasks s) = []")
  case True
  then show ?thesis by (auto simp: task_table_def row_def Let_def offer_simps)
next
  case False
  let ?rows = "filtered (tp_filters s) (tp_tasks s)"
  have rows: "p \<in> set (List.enumerate 0 ?rows) \<longleftrightarrow> row s (fst p) = Some (snd p)" for p
    by (auto simp: in_set_enumerate_eq row_def Let_def)
  have events: "offered (task_row relative s p) = row_events s (fst p) (snd p)" for p
    by (cases p) (simp add: offered_row)
  have "set (offered (task_table t relative s)) = (\<Union>p \<in> set (List.enumerate 0 ?rows). set (row_events s (fst p) (snd p)))"
    using False by (simp add: task_table_def Let_def comp_def events)
  also have "\<dots> = {e. \<exists>i x. row s i = Some x \<and> e \<in> set (row_events s i x)}"
    unfolding rows UNION_eq Bex_def by (simp only: split_paired_Ex fst_conv snd_conv)
  finally show ?thesis by simp
qed

lemma offered_rest:
  "offered (task_footer updating s) = []"
  "offered (delete_dialog t s) =
     (if tp_deleteTask s = None then []
      else Task_Event Delete_Closed # (if tp_deleting s then [] else [Task_Event Delete_Agreed]))"
  by (auto simp: task_footer_def delete_dialog_def ConfirmDialog_def offer_simps)

lemma offered_page:
  "set (concat (map offered (tasks_view runtime_message t relative False None updating s))) \<union> {Task_Event (Filters_Changed no_filters)} =
   {e. \<exists>i x. row s i = Some x \<and> e \<in> set (row_events s i x)} \<union> set (offered (delete_dialog t s)) \<union> {Task_Event (Filters_Changed no_filters)}"
  using offered_table [of t relative s] offered_bar [of s]
  by (simp add: tasks_view_def Card_def PageHeader_def Button_def link_to_def shown_def offered_rest(1)) blast


end
