(* ===== verification/Analytics.thy ===== *)
theory Analytics
  imports Api Charts Tasks
begin

text \<open>
  The controls of the analysis pages and the requests they lead to: the statistics page
  (\<open>pages/StatisticsPage.tsx\<close>) with its filters and date range, the periods of the comparison page
  (\<open>pages/ComparisonPage.tsx\<close>), and the range and the schedule of the dashboard
  (\<open>pages/DashboardPage.tsx\<close>). The clock, the settings of the daemon and the time zone are arguments.
\<close>

subsection \<open>Statistics page\<close>

datatype group = Raw | Day | Week | Month | Year

fun granularity :: "group \<Rightarrow> string" where
  "granularity Raw = ''raw''"
| "granularity Day = ''day''"
| "granularity Week = ''iso-week''"
| "granularity Month = ''month''"
| "granularity Year = ''year''"

datatype dimension =
  Dim_None | Dim_Task | Dim_Provider | Dim_Interface | Dim_Source_Ip | Dim_Server | Dim_Route_Profile | Dim_Public_Ip

fun dimension_name :: "dimension \<Rightarrow> string" where
  "dimension_name Dim_None = ''none''"
| "dimension_name Dim_Task = ''task''"
| "dimension_name Dim_Provider = ''provider''"
| "dimension_name Dim_Interface = ''interface''"
| "dimension_name Dim_Source_Ip = ''source-ip''"
| "dimension_name Dim_Server = ''server''"
| "dimension_name Dim_Route_Profile = ''route-profile''"
| "dimension_name Dim_Public_Ip = ''public-ip''"

record statistics_page =
  st_asOf :: int
  st_groupBy :: group
  st_metric :: metric
  st_dateOverride :: "(string \<times> string) option"
  st_taskIds :: "string list"
  st_interfaces :: "string list"
  st_providers :: "provider_id list"
  st_serverIds :: "string list"
  st_sourceIps :: "string list"
  st_routeProfileIds :: "string list"
  st_publicIps :: "string list"
  st_dimension :: dimension

definition statistics_init :: "int \<Rightarrow> statistics_page" where
  "statistics_init now = \<lparr>st_asOf = now, st_groupBy = Day, st_metric = Download_M, st_dateOverride = None,
     st_taskIds = [], st_interfaces = [], st_providers = [], st_serverIds = [], st_sourceIps = [],
     st_routeProfileIds = [], st_publicIps = [], st_dimension = Dim_None\<rparr>"

definition datesForRange :: "int \<Rightarrow> string \<Rightarrow> string \<times> string" where
  "datesForRange asOf value =
     (let days = (if value = ''24h'' then 1 else if value = ''7d'' then 7 else if value = ''90d'' then 90 else 30)
      in (take 10 (toISOString (asOf - days * 86400000)), take 10 (toISOString asOf)))"

text \<open>The dates shown: the user's, or those of the default range of the settings.\<close>

definition shown_dates :: "string \<Rightarrow> statistics_page \<Rightarrow> string \<times> string" where
  "shown_dates defaultRange s =
     (case st_dateOverride s of Some d \<Rightarrow> d | None \<Rightarrow> datesForRange (st_asOf s) defaultRange)"

datatype statistics_event =
    Group_Set group
  | Metric_Set metric
  | From_Set string
  | To_Set string
  | Task_Toggled string
  | Interface_Toggled string
  | Provider_Toggled provider_id
  | Server_Toggled string
  | Source_Ip_Toggled string
  | Route_Profile_Toggled string
  | Public_Ip_Toggled string
  | Dimension_Set dimension
  | Dimensions_Cleared

definition dimension_filters_active :: "statistics_page \<Rightarrow> bool" where
  "dimension_filters_active s \<longleftrightarrow>
     0 < length (st_taskIds s) + length (st_interfaces s) + length (st_providers s) + length (st_serverIds s) +
         length (st_sourceIps s) + length (st_routeProfileIds s) + length (st_publicIps s)"

definition clearDimensions :: "statistics_page \<Rightarrow> statistics_page" where
  "clearDimensions s = s\<lparr>st_taskIds := [], st_interfaces := [], st_providers := [], st_serverIds := [],
     st_sourceIps := [], st_routeProfileIds := [], st_publicIps := [], st_dimension := Dim_None\<rparr>"

text \<open>Changing one date keeps the other as it is shown, so the default range is frozen by the first edit.\<close>

fun statistics_step :: "string \<Rightarrow> statistics_page \<Rightarrow> statistics_event \<Rightarrow> statistics_page" where
  "statistics_step r s (Group_Set g) = s\<lparr>st_groupBy := g\<rparr>"
| "statistics_step r s (Metric_Set m) = s\<lparr>st_metric := m\<rparr>"
| "statistics_step r s (From_Set d) = s\<lparr>st_dateOverride := Some (d, snd (shown_dates r s))\<rparr>"
| "statistics_step r s (To_Set d) = s\<lparr>st_dateOverride := Some (fst (shown_dates r s), d)\<rparr>"
| "statistics_step r s (Task_Toggled v) = s\<lparr>st_taskIds := set_toggle v (st_taskIds s)\<rparr>"
| "statistics_step r s (Interface_Toggled v) = s\<lparr>st_interfaces := set_toggle v (st_interfaces s)\<rparr>"
| "statistics_step r s (Provider_Toggled v) = s\<lparr>st_providers := set_toggle v (st_providers s)\<rparr>"
| "statistics_step r s (Server_Toggled v) = s\<lparr>st_serverIds := set_toggle v (st_serverIds s)\<rparr>"
| "statistics_step r s (Source_Ip_Toggled v) = s\<lparr>st_sourceIps := set_toggle v (st_sourceIps s)\<rparr>"
| "statistics_step r s (Route_Profile_Toggled v) = s\<lparr>st_routeProfileIds := set_toggle v (st_routeProfileIds s)\<rparr>"
| "statistics_step r s (Public_Ip_Toggled v) = s\<lparr>st_publicIps := set_toggle v (st_publicIps s)\<rparr>"
| "statistics_step r s (Dimension_Set d) = s\<lparr>st_dimension := d\<rparr>"
| "statistics_step r s Dimensions_Cleared =
     (if \<not> dimension_filters_active s \<and> st_dimension s = Dim_None then s else clearDimensions s)"

definition strings :: "string list \<Rightarrow> json option" where
  "strings ss = Some (JArr (map JStr ss))"

text \<open>The request, built while rendering; a malformed date throws.\<close>

definition statsParams :: "(int \<Rightarrow> civil) \<Rightarrow> string \<Rightarrow> string \<Rightarrow> statistics_page \<Rightarrow> params option" where
  "statsParams wall zone defaultRange s =
     map_option (\<lambda>(a, b).
       [(''granularity'', Some (JStr (granularity (st_groupBy s)))), (''metric'', Some (JStr (metric_name (st_metric s)))),
        (''from'', Some (JStr a)), (''to'', Some (JStr b)), (''timezone'', Some (JStr zone)),
        (''taskId'', strings (st_taskIds s)), (''interfaceName'', strings (st_interfaces s)),
        (''sourceIp'', strings (st_sourceIps s)), (''provider'', strings (map provider_name (st_providers s))),
        (''serverId'', strings (st_serverIds s)), (''routeProfileId'', strings (st_routeProfileIds s)),
        (''publicIp'', strings (st_publicIps s))] @
       (if st_dimension s = Dim_None then [] else [(''groupBy'', Some (JStr (dimension_name (st_dimension s))))]))
     (case shown_dates defaultRange s of (f, t) \<Rightarrow> reportingDateRange wall f t)"

text \<open>The results whose servers and addresses become filter options.\<close>

definition dimension_results :: "(int \<Rightarrow> civil) \<Rightarrow> string \<Rightarrow> statistics_page \<Rightarrow> params option" where
  "dimension_results wall defaultRange s =
     map_option (\<lambda>(a, b). [(''page'', Some (jint 1)), (''pageSize'', Some (jint 200)), (''from'', Some (JStr a)), (''to'', Some (JStr b))])
     (case shown_dates defaultRange s of (f, t) \<Rightarrow> reportingDateRange wall f t)"

subsection \<open>Comparison page\<close>

record comparison_page =
  cp_daysOverride :: "int option"
  cp_selected :: "string list"
  cp_asOf :: int

definition comparison_init :: "int \<Rightarrow> comparison_page" where
  "comparison_init now = \<lparr>cp_daysOverride = None, cp_selected = [], cp_asOf = now\<rparr>"

definition periods :: "int list" where
  "periods = [1, 7, 30, 90, 365]"

datatype comparison_event = Period_Chosen nat int | Wan_Toggled string

text \<open>A chosen period restarts the clock; \<open>names\<close> are the interfaces shown.\<close>

fun comparison_step :: "string list \<Rightarrow> comparison_page \<Rightarrow> comparison_event \<Rightarrow> comparison_page" where
  "comparison_step names s (Period_Chosen i now) =
     (if i < length periods then s\<lparr>cp_daysOverride := Some (periods ! i), cp_asOf := now\<rparr> else s)"
| "comparison_step names s (Wan_Toggled n) =
     (if n \<in> set names then s\<lparr>cp_selected := toggleWan names n (cp_selected s)\<rparr> else s)"

definition comparison_params :: "string \<Rightarrow> string \<Rightarrow> string list \<Rightarrow> comparison_page \<Rightarrow> params option" where
  "comparison_params zone defaultRange names s =
     (let days = (case cp_daysOverride s of Some d \<Rightarrow> d | None \<Rightarrow> chartRangeDays defaultRange);
          wans = selectedWan (cp_selected s) names
      in if wans = [] then None
         else Some [(''granularity'', Some (JStr ''day'')),
           (''from'', Some (JStr (toISOString (cp_asOf s - days * 86400000)))),
           (''to'', Some (JStr (toISOString (cp_asOf s)))), (''timezone'', Some (JStr zone)),
           (''interfaceName'', strings wans), (''groupBy'', Some (JStr ''interface''))])"

subsection \<open>Dashboard\<close>

definition ranges :: "(string \<times> int) list" where
  "ranges = [(''24h'', 24), (''7d'', 24 * 7), (''30d'', 24 * 30), (''90d'', 24 * 90)]"

definition dashboard_range :: "(string \<times> int) option \<Rightarrow> string \<Rightarrow> string \<times> int" where
  "dashboard_range rangeOverride defaultRange =
     (case rangeOverride of
        Some r \<Rightarrow> r
      | None \<Rightarrow> (case find (\<lambda>item. fst item = defaultRange) ranges of Some r \<Rightarrow> r | None \<Rightarrow> ranges ! 2))"

definition chartParams :: "string \<Rightarrow> string \<times> int \<Rightarrow> int \<Rightarrow> params" where
  "chartParams zone rg asOf =
     [(''granularity'', Some (JStr ''raw'')),
      (''from'', Some (JStr (toISOString (asOf - snd rg * 3600000)))),
      (''to'', Some (JStr (toISOString asOf))), (''timezone'', Some (JStr zone)),
      (''groupBy'', Some (JStr ''task''))]"

text \<open>The next runs: enabled tasks with a scheduled time, earliest first, at most five.\<close>

definition scheduled_text :: "task \<Rightarrow> string" where
  "scheduled_text t = (case t_nextScheduledAt t of Some d \<Rightarrow> d | None \<Rightarrow> ''null'')"

definition nextTasks :: "(string \<Rightarrow> string \<Rightarrow> int) \<Rightarrow> task list \<Rightarrow> task list" where
  "nextTasks localeCompare tasks =
     take 5 (sort_by (\<lambda>a b. localeCompare (scheduled_text a) (scheduled_text b))
       (filter (\<lambda>t. t_nextScheduledAt t \<noteq> None \<and> t_nextScheduledAt t \<noteq> Some [])
         (filter ti_enabled tasks)))"

subsection \<open>Requests follow the contract\<close>

definition statistics_request_ok :: "params \<Rightarrow> bool" where
  "statistics_request_ok q \<longleftrightarrow>
     query_ok (Api_statistics q) \<and>
     has_type (TObj (c_query getStatistics_contract)) (JObj (defined_props (statistics_params q)))"

lemma get_defined: "distinct (map fst x) \<Longrightarrow> obj_get (defined_props x) k = Option.bind (obj_get x k) id"
proof (induction x)
  case (Cons e x)
  have "k \<notin> fst ` set x \<Longrightarrow> map_of (defined_props x) k = None"
    by (force simp: defined_props_def map_of_eq_None_iff split: option.splits)
  with Cons show ?case
    by (cases e; cases "snd e") (auto simp: obj_get_def defined_props_def)
qed (simp add: obj_get_def defined_props_def)

lemma get_statistics:
  assumes "distinct (map fst q)"
  shows "obj_get (defined_props (statistics_params q)) k =
    (if k = ''interface'' then Option.bind (obj_get q ''interfaceName'') id
     else if k = ''metric'' \<or> k = ''interfaceName'' then None else Option.bind (obj_get q k) id)"
proof -
  have "distinct (map fst (statistics_params q))"
    unfolding statistics_params_def by (intro obj.invar_put obj.invar_delete assms)
  then show ?thesis
    by (simp add: get_defined statistics_params_def obj.get_put obj.get_delete assms)
qed

text \<open>A request is fine when its keys are known and every value has the declared type.\<close>

lemma statistics_request_iff:
  "statistics_request_ok q \<longleftrightarrow>
     distinct (map fst q) \<and> set (map fst q) \<subseteq> set StatisticsQuery \<and>
     list_all (\<lambda>f. case f of
         Opt k t \<Rightarrow>
           (case Option.bind (obj_get q (if k = ''interface'' then ''interfaceName'' else k)) id of
              None \<Rightarrow> True | Some v \<Rightarrow> has_type t v)
       | Req k t \<Rightarrow> True) (c_query getStatistics_contract)"
proof (cases "distinct (map fst q)")
  case True
  show ?thesis
    by (simp add: statistics_request_ok_def query_ok_def True get_statistics [OF True] getStatistics_contract_def)
next
  case False
  then show ?thesis by (simp add: statistics_request_ok_def query_ok_def)
qed

lemma granularity_typed: "has_type StatisticsGranularity (JStr (granularity g))"
  by (cases g) (simp_all add: StatisticsGranularity_def has_type_lits)

lemma dimension_typed: "d \<noteq> Dim_None \<Longrightarrow> has_type StatisticsDimension (JStr (dimension_name d))"
  by (cases d) (simp_all add: StatisticsDimension_def has_type_lits)

lemma provider_typed: "has_type ProviderId (JStr (provider_name p))"
  by (cases p) (simp_all add: ProviderId_def has_type_lits)

lemmas typed_values = granularity_typed dimension_typed provider_typed list_all_iff

lemmas request_simps = statistics_request_iff StatisticsQuery_def getStatistics_contract_def strings_def
  Uuid_def InterfaceName_def IpAddress_def obj_get_def typed_values

lemma statsParams_ok: "statsParams wall zone r s = Some q \<Longrightarrow> statistics_request_ok q"
  by (cases "st_dimension s = Dim_None") (auto simp: statsParams_def request_simps)

lemma comparison_params_ok: "comparison_params zone r names s = Some q \<Longrightarrow> statistics_request_ok q"
  by (auto simp: comparison_params_def Let_def request_simps StatisticsGranularity_def StatisticsDimension_def has_type_lits split: if_splits)

lemma chartParams_ok: "statistics_request_ok (chartParams zone rg asOf)"
  by (simp add: chartParams_def request_simps StatisticsGranularity_def StatisticsDimension_def has_type_lits)

subsection \<open>Dates of an instant\<close>

lemma month_day:
  assumes "0 \<le> yd" "yd < 366"
  shows "0 \<le> yd - month_starts l ! nat (month_of l yd) \<and> yd - month_starts l ! nat (month_of l yd) \<le> 31"
proof -
  have "list_all (\<lambda>l. list_all (\<lambda>yd. 0 \<le> yd - month_starts l ! nat (month_of l yd) \<and>
      yd - month_starts l ! nat (month_of l yd) \<le> 31) [0..365]) [True, False]"
    by code_simp
  with assms show ?thesis by (cases l) (auto simp: list_all_iff)
qed

lemma year_of_day_range:
  assumes "0 \<le> d" "d < day_from_year 10000"
  shows "1970 \<le> year_of_day d" "year_of_day d \<le> 9999"
proof -
  have "day_from_year 1970 < day_from_year (year_of_day d + 1)"
    using year_of_day_bounds [of d] assms(1) by (simp add: day_from_year_def)
  then have "\<not> year_of_day d + 1 \<le> 1970"
    using day_from_year_mono [of "year_of_day d + 1" 1970] by (cases "year_of_day d + 1 = 1970") auto
  then show "1970 \<le> year_of_day d" by simp
  have "day_from_year (year_of_day d) < day_from_year 10000"
    using year_of_day_bounds [of d] assms(2) by linarith
  then have "\<not> 10000 \<le> year_of_day d"
    using day_from_year_mono [of 10000 "year_of_day d"] by (cases "year_of_day d = 10000") auto
  then show "year_of_day d \<le> 9999" by simp
qed

text \<open>The date of an instant between 1970 and 9999 is well formed and denotes the day of the instant.\<close>

lemma date_of_instant:
  assumes "0 \<le> t" "t < day_from_year 10000 * ms_per_day"
  obtains y m d where "parse_date (take 10 (toISOString t)) = Some (y, m, d)" "1970 \<le> y"
    "make_day y (m - 1) d = t div ms_per_day" "1 \<le> m" "m \<le> 12"
proof -
  define n where "n = t div ms_per_day"
  have n: "0 \<le> n" "n < day_from_year 10000"
    using assms by (auto simp: n_def ms_per_day_def pos_imp_zdiv_nonneg_iff div_less_iff_less_mult)
  define y where "y = year_of_day n"
  define yd where "yd = n - day_from_year y"
  define m where "m = month_of (leap_year y) yd"
  have y: "1970 \<le> y" "y \<le> 9999" using year_of_day_range [OF n] by (simp_all add: y_def)
  have yd: "0 \<le> yd" "yd < 366"
    using year_of_day_bounds [of n] day_from_year_Suc [of y] by (auto simp: yd_def y_def split: if_splits)
  have m: "0 \<le> m" "m < 12" using month_of_range [OF yd(1)] by (simp_all add: m_def)
  have d: "0 \<le> yd - month_start y m" "yd - month_start y m \<le> 31"
    using month_day [OF yd, of "leap_year y"] by (simp_all add: month_start_def m_def)
  have "iso_date (civil_of t) = date_string (y, m + 1, yd - month_start y m + 1)"
    using y by (simp add: iso_date_def iso_year_def date_string_def civil_of_def Let_def flip: n_def y_def yd_def m_def)
  moreover note parse_date_string [of y "m + 1" "yd - month_start y m + 1"]
  ultimately have "parse_date (take 10 (toISOString t)) = Some (y, m + 1, yd - month_start y m + 1)"
    using y m d by (simp add: toISOString_def Let_def)
  moreover have "make_day y (m + 1 - 1) (yd - month_start y m + 1) = n"
    using m by (simp add: make_day_canonical yd_def)
  ultimately show ?thesis
    using y m by (intro that) (auto simp: n_def)
qed

lemma next_date_instant:
  assumes "0 \<le> t" "t < (day_from_year 10000 - 1) * ms_per_day"
  shows "addUtcDays (take 10 (toISOString t)) 1 = Some (take 10 (toISOString ((t div ms_per_day + 1) * ms_per_day)))"
proof -
  have t: "t < day_from_year 10000 * ms_per_day" using assms(2) by (simp add: ms_per_day_def)
  obtain y m d where p: "parse_date (take 10 (toISOString t)) = Some (y, m, d)" "1970 \<le> y"
      "make_day y (m - 1) d = t div ms_per_day" "1 \<le> m" "m \<le> 12"
    using assms(1) t by (rule date_of_instant)
  have "date_UTC y (m - 1) (d + 1) 0 0 0 = (t div ms_per_day + 1) * ms_per_day"
    using p by (simp add: date_UTC_def full_year_def make_day_canonical)
  then show ?thesis
    using p(1) by (simp add: addUtcDays_def)
qed

lemma reporting_dates_defined:
  assumes "0 \<le> t" "t < (day_from_year 10000 - 1) * ms_per_day"
  shows "reportingDateStart wall (take 10 (toISOString t)) \<noteq> None"
    "reportingDateEndExclusive wall (take 10 (toISOString t)) \<noteq> None"
proof -
  define u where "u = (t div ms_per_day + 1) * ms_per_day"
  have t: "t < day_from_year 10000 * ms_per_day" using assms(2) by (simp add: ms_per_day_def)
  have u: "0 \<le> u" "u < day_from_year 10000 * ms_per_day"
    using assms by (auto simp: u_def ms_per_day_def pos_imp_zdiv_nonneg_iff)
  obtain z where "parse_date (take 10 (toISOString t)) = Some z"
    using assms(1) t by (rule date_of_instant)
  then show "reportingDateStart wall (take 10 (toISOString t)) \<noteq> None"
    by (simp add: reportingDateStart_def zonedMidnight_def zoned_instant_def)
  obtain z where "parse_date (take 10 (toISOString u)) = Some z"
    using u by (rule date_of_instant)
  then show "reportingDateEndExclusive wall (take 10 (toISOString t)) \<noteq> None"
    using next_date_instant [OF assms]
    by (simp add: reportingDateEndExclusive_def zonedMidnight_def zoned_instant_def u_def)
qed

subsection \<open>Properties\<close>

text \<open>
  C24. Every statistics request of the analysis pages follows the contract of the endpoint: whatever
  filters, dates, groupings and periods are chosen, its parameters are declared ones, each given once, and
  each value has the declared type once the client has renamed the interface filter and dropped the
  metric. This covers the statistics page, the comparison page and the dashboard.
\<close>

theorem analysis_requests:
  "(case statsParams wall zone r s of None \<Rightarrow> True | Some q \<Rightarrow> statistics_request_ok q) \<and>
   (case comparison_params zone r names c of None \<Rightarrow> True | Some q \<Rightarrow> statistics_request_ok q) \<and>
   statistics_request_ok (chartParams zone (dashboard_range rangeOverride r) now)"
  using statsParams_ok comparison_params_ok chartParams_ok by (simp split: option.splits)

text \<open>
  With the default range the statistics page always has a request, from 1970 to 9999 and in every
  time zone; clearing either date field makes building the request throw, which happens while rendering.
\<close>

theorem cleared_date_throws:
  assumes "st_dateOverride s = None" "90 * ms_per_day \<le> st_asOf s"
    and "st_asOf s < (day_from_year 10000 - 1) * ms_per_day"
  shows "statsParams wall zone r s \<noteq> None \<and>
    statsParams wall zone r (statistics_step r s (From_Set [])) = None \<and>
    statsParams wall zone r (statistics_step r s (To_Set [])) = None"
proof -
  obtain k where k: "datesForRange (st_asOf s) r =
      (take 10 (toISOString (st_asOf s - k * ms_per_day)), take 10 (toISOString (st_asOf s)))" "0 \<le> k" "k \<le> 90"
    by (auto simp: datesForRange_def Let_def ms_per_day_def)
  have "0 \<le> st_asOf s - k * ms_per_day" "st_asOf s - k * ms_per_day < (day_from_year 10000 - 1) * ms_per_day"
    "0 \<le> st_asOf s"
    using k(2,3) assms(2,3) by (auto simp: ms_per_day_def)
  then have "reportingDateRange wall (fst (datesForRange (st_asOf s) r)) (snd (datesForRange (st_asOf s) r)) \<noteq> None"
    using reporting_dates_defined [of "st_asOf s - k * ms_per_day" wall] reporting_dates_defined [of "st_asOf s" wall] assms(3)
    by (auto simp: k(1) reportingDateRange_def split: option.splits)
  then have "statsParams wall zone r s \<noteq> None"
    using assms(1) by (auto simp: statsParams_def shown_dates_def case_prod_unfold)
  moreover have "reportingDateStart wall [] = None" "reportingDateEndExclusive wall [] = None"
    by (simp_all add: reportingDateStart_def reportingDateEndExclusive_def zonedMidnight_def zoned_instant_def
        addUtcDays_def parse_date_def)
  ultimately show ?thesis
    by (simp add: statsParams_def shown_dates_def reportingDateRange_def split: option.splits)
qed

theorem cleared_date_throws_witness:
  "statsParams civil_of ''UTC'' ''30d'' (statistics_init 1700000000000) \<noteq> None \<and>
   statsParams civil_of ''UTC'' ''30d'' (statistics_step ''30d'' (statistics_init 1700000000000) (From_Set [])) = None"
proof -
  have init: "st_dateOverride (statistics_init t) = None" "st_asOf (statistics_init t) = t" for t
    by (simp_all add: statistics_init_def)
  have "90 * ms_per_day \<le> 1700000000000" "1700000000000 < (day_from_year 10000 - 1) * ms_per_day"
    by code_simp+
  from cleared_date_throws [of "statistics_init 1700000000000", unfolded init, OF refl this] show ?thesis by blast
qed

text \<open>A zone with a fixed offset: the iteration finds the shifted midnight in two steps.\<close>

lemma fixed_zone_midnight:
  assumes "parse_date v = Some (y, m, d)" "offset mod 1000 = 0"
    and "epoch_100 \<le> date_UTC y (m - 1) d 0 0 0" "epoch_100 \<le> date_UTC y (m - 1) d 0 0 0 + offset"
  shows "zoned_instant (\<lambda>i. civil_of (i + offset)) v = Some (date_UTC y (m - 1) d 0 0 0 - offset)"
proof -
  define u where "u = date_UTC y (m - 1) d 0 0 0"
  have "u mod 1000 = 0" by (simp add: u_def date_UTC_def ms_per_day_def)
  then have "represented (civil_of (u + offset)) = u + offset" "represented (civil_of u) = u"
    using assms(2-4) by (auto intro!: represented_civil simp: mod_add_eq [of u 1000 offset, symmetric] simp flip: u_def)
  then have "settle (\<lambda>i. civil_of (i + offset)) u 4 u = u - offset"
    by (simp add: numeral_eq_Suc Let_def)
  with assms(1) show ?thesis
    by (simp add: zoned_instant_def u_def Let_def)
qed

text \<open>
  The default dates are those of UTC, whatever the reporting time zone: east of Greenwich, from local
  midnight until the date changes in UTC, the default range ends before the present moment, so the
  statistics page leaves out everything measured since local midnight.
\<close>

theorem default_range_misses_today:
  assumes "0 \<le> t" "t < (day_from_year 10000 - 1) * ms_per_day"
    and "0 \<le> offset" "offset mod 1000 = 0" "ms_per_day - offset \<le> t mod ms_per_day"
  shows "\<exists>e. Option.bind (addUtcDays (snd (datesForRange t r)) 1) (zoned_instant (\<lambda>i. civil_of (i + offset))) = Some e \<and> e \<le> t"
proof -
  obtain u where u: "addUtcDays (take 10 (toISOString t)) 1 = Some (take 10 (toISOString u))"
      "u = (t div ms_per_day + 1) * ms_per_day"
    using next_date_instant [OF assms(1,2)] by blast
  have ur: "0 \<le> u" "u < day_from_year 10000 * ms_per_day"
    using assms(1,2) by (auto simp: u(2) ms_per_day_def pos_imp_zdiv_nonneg_iff)
  obtain y m d where p: "parse_date (take 10 (toISOString u)) = Some (y, m, d)" "1970 \<le> y"
      "make_day y (m - 1) d = u div ms_per_day"
    using ur by (rule date_of_instant)
  have du: "date_UTC y (m - 1) d 0 0 0 = u"
    using p u(2) by (simp add: date_UTC_def full_year_def ms_per_day_def)
  have "epoch_100 \<le> 0" by code_simp
  then have "zoned_instant (\<lambda>i. civil_of (i + offset)) (take 10 (toISOString u)) = Some (u - offset)"
    using fixed_zone_midnight [OF p(1) assms(4)] ur(1) assms(3) by (simp add: du)
  moreover have "u = ms_per_day * (t div ms_per_day) + ms_per_day" by (simp add: u(2) algebra_simps)
  then have "u - offset \<le> t"
    using assms(5) mult_div_mod_eq [of ms_per_day t] by linarith
  ultimately show ?thesis
    by (simp add: datesForRange_def Let_def u(1))
qed

theorem default_range_misses_today_witness:
  "\<exists>e. Option.bind (addUtcDays (snd (datesForRange 1704139200000 ''24h'')) 1)
     (zoned_instant (\<lambda>i. civil_of (i + 43200000))) = Some e \<and> e \<le> 1704139200000"
proof -
  have "(1704139200000 :: int) < (day_from_year 10000 - 1) * ms_per_day"
    "ms_per_day - 43200000 \<le> 1704139200000 mod ms_per_day"
    by code_simp+
  then show ?thesis by (intro default_range_misses_today) auto
qed

text \<open>The next runs are enabled and scheduled, in order, at most five.\<close>

lemma nextTasks_first:
  assumes "comparator localeCompare"
  shows "sorted_wrt (\<lambda>a b. localeCompare (scheduled_text a) (scheduled_text b) \<le> 0) (nextTasks localeCompare tasks)"
    "set (nextTasks localeCompare tasks) \<subseteq> {t \<in> set tasks. ti_enabled t \<and> t_nextScheduledAt t \<noteq> None}"
    "length (nextTasks localeCompare tasks) \<le> 5"
proof -
  have c: "comparator (\<lambda>a b. localeCompare (scheduled_text a) (scheduled_text b))"
    using assms by (rule comparator_key)
  show "sorted_wrt (\<lambda>a b. localeCompare (scheduled_text a) (scheduled_text b) \<le> 0) (nextTasks localeCompare tasks)"
    unfolding nextTasks_def by (rule sorted_wrt_take) (rule comparator.sort_sorted [OF c])
  show "set (nextTasks localeCompare tasks) \<subseteq> {t \<in> set tasks. ti_enabled t \<and> t_nextScheduledAt t \<noteq> None}"
    by (auto simp: nextTasks_def dest!: in_set_takeD)
  show "length (nextTasks localeCompare tasks) \<le> 5"
    by (simp add: nextTasks_def)
qed

end
