(* ===== verification/AnalyticsView.thy ===== *)
theory AnalyticsView
  imports Analytics NetworkPage Inspect
begin

text \<open>
  What the pages of statistics and of the comparison show (\<open>pages/StatisticsPage.tsx\<close>,
  \<open>pages/ComparisonPage.tsx\<close>): filters, metric cards, the table beside the chart, the paths to choose and the
  cards of the paths compared. The answers of the queries are arguments; \<open>bitrate\<close> prints a rate,
  \<open>extra\<close> gives the numbers of a bucket beyond the declared ones, \<open>wall\<close> is the clock of the zone.
\<close>

subsection \<open>Statistics: values and options\<close>

record statistics_data =
  sd_tasks :: "task list query"
  sd_interfaces :: "network_interface list query"
  sd_routes :: "route_profile list query"
  sd_results :: "result_detail list query"
  sd_settings :: "unit query"
  sd_statistics :: "StatisticsResponse query"
  sd_isFetching :: bool
  sd_zone :: string
  sd_defaultRange :: string

datatype statistics_click = Stat statistics_event | Statistics_Refresh | Statistics_Retry | Supporting_Retry

definition metric_labels :: "(metric \<times> string) list" where
  "metric_labels =
     [(Download_M, ''Download throughput''), (Upload_M, ''Upload throughput''), (Latency_M, ''Latency''), (Jitter_M, ''Jitter''),
      (PacketLoss_M, ''Packet loss''), (Duration_M, ''Test duration''), (SuccessRate_M, ''Success rate'')]"

definition metric_label :: "metric \<Rightarrow> string" where
  "metric_label m = (case map_of metric_labels m of Some l \<Rightarrow> l | None \<Rightarrow> ''undefined'')"

fun metricFormatter :: "metric \<Rightarrow> (js_number option \<Rightarrow> string) \<Rightarrow> js_number option \<Rightarrow> string" where
  "metricFormatter Download_M bitrate = bitrate"
| "metricFormatter Upload_M bitrate = bitrate"
| "metricFormatter Latency_M bitrate = formatMilliseconds"
| "metricFormatter Jitter_M bitrate = formatMilliseconds"
| "metricFormatter Duration_M bitrate = formatMilliseconds"
| "metricFormatter PacketLoss_M bitrate = formatPercent"
| "metricFormatter SuccessRate_M bitrate = formatPercent"

definition format_value :: "metric \<Rightarrow> (js_number option \<Rightarrow> string) \<Rightarrow> rat option \<Rightarrow> string" where
  "format_value m bitrate v = metricFormatter m bitrate (map_option Fin v)"

text \<open>\<open>[...new Map(pairs).entries()]\<close>: the keys in the order of their first pair, with the last value.\<close>

definition map_entries :: "('k \<times> 'v) list \<Rightarrow> ('k \<times> 'v) list" where
  "map_entries ps = List.map_filter (\<lambda>k. map_option (Pair k) (map_get ps k)) (unique (map fst ps))"

definition server_options :: "result_detail list \<Rightarrow> (string \<times> string) list" where
  "server_options items =
     map_entries (map (\<lambda>r. (rd_serverId r, or_else (rd_serverName r) (rd_serverId r))) (filter (\<lambda>r. rd_serverId r \<noteq> []) items))"

definition address_options :: "(result_detail \<Rightarrow> string) \<Rightarrow> result_detail list \<Rightarrow> (string \<times> string) list" where
  "address_options f items = map (\<lambda>v. (v, v)) (sort_by compare_units (unique (filter (\<lambda>v. v \<noteq> []) (map f items))))"

definition overall_summary :: "StatisticsResponse option \<Rightarrow> StatisticBucket option" where
  "overall_summary response =
     Option.bind response (\<lambda>r. first_some [sr_overall r, sr_summary r, sr_totals r])"

definition count_of :: "(StatisticBucket \<Rightarrow> rat) \<Rightarrow> StatisticBucket option \<Rightarrow> string" where
  "count_of f b = number_string (case b of Some x \<Rightarrow> f x | None \<Rightarrow> 0)"

subsection \<open>Statistics: the filters\<close>

definition MultiFilter :: "string \<Rightarrow> ('v \<times> string) list \<Rightarrow> 'v list \<Rightarrow> ('v \<Rightarrow> statistics_event) \<Rightarrow> statistics_click element" where
  "MultiFilter label options selected toggle =
     node_of ''details''
       [node_of ''summary'' ([Words label] @ shown (selected \<noteq> []) (node_of ''span'' [Words (nat_string (length selected))])),
        node_of ''div''
          (if options \<noteq> []
           then map (\<lambda>(v, w). node_of ''label''
                  [Element ''input'' [(''type'', ''checkbox''), (''checked'', if v \<in> set selected then ''true'' else ''false'')]
                     [(''onChange'', Stat (toggle v))] [], Words w]) options
           else [node_of ''p'' [Words ''No options available'']])]"

definition group_label :: "group \<Rightarrow> string" where
  "group_label g = (case g of Raw \<Rightarrow> ''raw'' | Day \<Rightarrow> ''day'' | Week \<Rightarrow> ''ISO week'' | Month \<Rightarrow> ''month'' | Year \<Rightarrow> ''year'')"

definition groups :: "group list" where
  "groups = [Raw, Day, Week, Month, Year]"

definition group_button :: "statistics_page \<Rightarrow> group \<Rightarrow> statistics_click element" where
  "group_button s g =
     Element ''button'' [(''type'', ''button''), (''aria-pressed'', if st_groupBy s = g then ''true'' else ''false'')]
       [(''onClick'', Stat (Group_Set g))] [Words (group_label g)]"

definition dimension_labels :: "(dimension \<times> string) list" where
  "dimension_labels =
     [(Dim_None, ''Single series''), (Dim_Task, ''Group by task''), (Dim_Provider, ''Group by provider''),
      (Dim_Interface, ''Group by interface''), (Dim_Source_Ip, ''Group by source IP''), (Dim_Server, ''Group by server''),
      (Dim_Route_Profile, ''Group by route profile''), (Dim_Public_Ip, ''Group by public IP'')]"

definition choices_of :: "(string \<times> string) list \<Rightarrow> (string \<times> string) list \<Rightarrow> 'a element" where
  "choices_of props choices =
     Element ''NativeSelect'' props [] (map (\<lambda>(v, w). Element ''option'' [(''value'', v)] [] [Words w]) choices)"

definition captioned :: "string \<Rightarrow> 'a element \<Rightarrow> 'a element" where
  "captioned label x = node_of ''div'' [node_of ''p'' [Words label], x]"

definition refresh_button :: "bool \<Rightarrow> statistics_click element" where
  "refresh_button busy =
     Button False (disabled_prop busy) [(''onClick'', Statistics_Refresh)]
       [if busy then Spinner else Icon ''CalendarRange'', Words ''Refresh'']"

definition clear_button :: "bool \<Rightarrow> statistics_click element" where
  "clear_button off =
     Button False (disabled_prop off) [(''onClick'', Stat Dimensions_Cleared)] [Icon ''FilterX'', Words ''Clear dimensions'']"

definition period_controls :: "statistics_data \<Rightarrow> statistics_page \<Rightarrow> statistics_click element" where
  "period_controls d s =
     (let (a, b) = shown_dates (sd_defaultRange d) s in
      node_of ''div''
        [captioned ''Aggregation'' (node_of ''div'' (map (group_button s) groups)),
         captioned ''Metric'' (choices_of [(''value'', metric_name (st_metric s))] (map (\<lambda>(m, l). (metric_name m, l)) metric_labels)),
         captioned ''From'' (Element ''Input'' [(''type'', ''date''), (''value'', a), (''max'', b)] [] []),
         captioned ''To'' (Element ''Input'' [(''type'', ''date''), (''value'', b), (''min'', a)] [] []),
         node_of ''div'' [refresh_button (sd_isFetching d)]])"

definition dimension_controls :: "statistics_data \<Rightarrow> statistics_page \<Rightarrow> statistics_click element" where
  "dimension_controls d s =
     (let results = or_list (qu_data (sd_results d)) in
      node_of ''div''
        [MultiFilter ''Tasks'' (map (\<lambda>x. (t_id x, ti_name x)) (or_list (qu_data (sd_tasks d)))) (st_taskIds s) Task_Toggled,
         MultiFilter ''WAN interfaces'' (map (\<lambda>x. (ni_name x, ni_name x)) (or_list (qu_data (sd_interfaces d)))) (st_interfaces s) Interface_Toggled,
         MultiFilter ''Providers'' (map (\<lambda>p. (p, providerLabel p)) [Ookla, Librespeed, Cloudflare]) (st_providers s) Provider_Toggled,
         MultiFilter ''Servers'' (server_options results) (st_serverIds s) Server_Toggled,
         MultiFilter ''Source IPs'' (address_options rd_selectedSourceIp results) (st_sourceIps s) Source_Ip_Toggled,
         MultiFilter ''Route profiles'' (map (\<lambda>x. (rv_id x, rv_name x)) (or_list (qu_data (sd_routes d)))) (st_routeProfileIds s) Route_Profile_Toggled,
         MultiFilter ''Public IPs'' (address_options rd_detectedPublicIp results) (st_publicIps s) Public_Ip_Toggled,
         choices_of [(''value'', dimension_name (st_dimension s)), (''aria-label'', ''Group series by'')]
           (map (\<lambda>(x, l). (dimension_name x, l)) dimension_labels),
         clear_button (\<not> dimension_filters_active s \<and> st_dimension s = Dim_None)])"

subsection \<open>Statistics: cards and table\<close>

definition statistics_cards ::
  "(StatisticBucket \<Rightarrow> string \<Rightarrow> rat option) \<Rightarrow> (js_number option \<Rightarrow> string) \<Rightarrow> StatisticBucket option \<Rightarrow> metric \<Rightarrow> 'a element list" where
  "statistics_cards extra bitrate summary m =
     (let aggregate = metricAggregate extra summary m; fmt = format_value m bitrate in
      [MetricCard ''Average'' (fmt (ag_average aggregate)) (count_of sb_successfulCount summary @ '' successful samples'') ''BarChart3'' None,
       MetricCard ''Median'' (fmt (ag_median aggregate)) ''50th percentile'' ''Target'' None,
       MetricCard ''P95'' (fmt (ag_p95 aggregate)) ''95th percentile'' ''Gauge'' None,
       MetricCard ''Standard deviation'' (fmt (ag_standardDeviation aggregate))
         (count_of sb_failedCount summary @ '' failed'' @ dot_sep @ count_of sb_skippedCount summary @ '' skipped'') ''Sigma'' None])"

definition bucket_cells ::
  "(StatisticBucket \<Rightarrow> string \<Rightarrow> rat option) \<Rightarrow> (js_number option \<Rightarrow> string) \<Rightarrow> metric \<Rightarrow> StatisticBucket \<Rightarrow> string list" where
  "bucket_cells extra bitrate m b =
     (let item = metricAggregate extra (Some b) m in
      [case sb_label b of Some l \<Rightarrow> l | None \<Rightarrow> sb_bucket b, number_string (sb_sampleCount b), number_string (sb_successfulCount b),
       number_string (sb_failedCount b)] @
      map (format_value m bitrate)
        [ag_min item, ag_average item, ag_median item, ag_p95 item, ag_max item, ag_standardDeviation item])"

definition table_of :: "string list \<Rightarrow> string list list \<Rightarrow> 'a element" where
  "table_of headings rows =
     node_of ''div'' [node_of ''table''
       [node_of ''thead'' [node_of ''tr'' (map (\<lambda>h. node_of ''th'' [Words h]) headings)],
        node_of ''tbody'' (map (\<lambda>r. node_of ''tr'' (map (\<lambda>c. node_of ''td'' [Words c]) r)) rows)]]"

definition statistics_headings :: "string list" where
  "statistics_headings = [''Bucket'', ''Samples'', ''Succeeded'', ''Failed'', ''Minimum'', ''Average'', ''Median'', ''P95'', ''Maximum'', ''Std. deviation'']"

definition statistics_chart_card ::
  "(string \<Rightarrow> string) \<Rightarrow> statistics_data \<Rightarrow> statistics_page \<Rightarrow> 'a element" where
  "statistics_chart_card t d s =
     (let response = qu_data (sd_statistics d); label = metric_label (st_metric s) in
      Card
        [CardHeader
           ([node_of ''div'' [CardTitle [Words (label @ '' trend'')],
               node_of ''p'' [Words (''Min / average / max band with median and p95'' @ dot_sep @
                 (case Option.bind response sr_timezone of Some z \<Rightarrow> z | None \<Rightarrow> sd_zone d))]]] @
            shown (sd_isFetching d) Spinner),
         CardContent
           [if or_list (map_option sr_buckets response) \<noteq> [] \<or> or_list (Option.bind response sr_series) \<noteq> []
            then Element ''EChart'' [(''ariaLabel'', label @ '' statistics by '' @ (case st_groupBy s of Week \<Rightarrow> ''week'' | g \<Rightarrow> granularity g))] [] []
            else EmptyState t None ''No statistical samples'' ''No completed results match this date range and dimension filter.'' []]])"

definition statistics_table_card ::
  "(StatisticBucket \<Rightarrow> string \<Rightarrow> rat option) \<Rightarrow> (string \<Rightarrow> string) \<Rightarrow> (js_number option \<Rightarrow> string) \<Rightarrow> StatisticBucket list \<Rightarrow> metric \<Rightarrow> 'a element" where
  "statistics_table_card extra t bitrate buckets m =
     Card
       [CardHeader [CardTitle [Words ''Accessible statistical table''], node_of ''p'' [Words ''Exact aggregate values for every reporting bucket'']],
        if buckets \<noteq> [] then table_of statistics_headings (map (bucket_cells extra bitrate m) buckets)
        else EmptyState t None ''No rows to display'' ''Adjust the reporting period or dimension filters.'' []]"

definition statistics_content ::
  "(failure \<Rightarrow> string) \<Rightarrow> (StatisticBucket \<Rightarrow> string \<Rightarrow> rat option) \<Rightarrow> (string \<Rightarrow> string) \<Rightarrow> (js_number option \<Rightarrow> string) \<Rightarrow>
   statistics_data \<Rightarrow> statistics_page \<Rightarrow> statistics_click element list" where
  "statistics_content runtime_message extra t bitrate d s =
     (case qu_error (sd_statistics d) of
        Some e \<Rightarrow> [Card [ErrorState runtime_message t e (Some Statistics_Retry) ''Unable to calculate statistics'']]
      | None \<Rightarrow>
          if qu_isLoading (sd_statistics d) then [Card [LoadingState t (''Calculating statistical buckets'' @ ellipsis)]]
          else [node_of ''div'' (statistics_cards extra bitrate (overall_summary (qu_data (sd_statistics d))) (st_metric s)),
                statistics_chart_card t d s,
                statistics_table_card extra t bitrate (or_list (map_option sr_buckets (qu_data (sd_statistics d)))) (st_metric s)])"

text \<open>The request is built before anything is shown, so a date that throws there leaves no page.\<close>

definition statistics_view ::
  "(failure \<Rightarrow> string) \<Rightarrow> (StatisticBucket \<Rightarrow> string \<Rightarrow> rat option) \<Rightarrow> (string \<Rightarrow> string) \<Rightarrow> (js_number option \<Rightarrow> string) \<Rightarrow> (int \<Rightarrow> civil) \<Rightarrow>
   statistics_data \<Rightarrow> statistics_page \<Rightarrow> statistics_click element list option" where
  "statistics_view runtime_message extra t bitrate wall d s =
     map_option (\<lambda>_.
       if qu_isLoading (sd_tasks d) \<or> qu_isLoading (sd_interfaces d) \<or> qu_isLoading (sd_routes d) \<or> qu_isLoading (sd_results d) \<or>
          qu_isLoading (sd_settings d)
       then [LoadingState t (''Loading statistics controls'' @ ellipsis)]
       else case first_some [qu_error (sd_tasks d), qu_error (sd_interfaces d), qu_error (sd_routes d), qu_error (sd_results d),
             qu_error (sd_settings d)] of
         Some e \<Rightarrow> [ErrorState runtime_message t e (Some Supporting_Retry) ''Unable to load data'']
       | None \<Rightarrow>
           [PageHeader t ''Patterns beyond a single test.''
              ''Aggregate in the reporting timezone, compare dimensions, and inspect min, average, median, p95, and variance without failed sentinel values.'' [],
            Card [period_controls d s, dimension_controls d s]] @
           statistics_content runtime_message extra t bitrate d s)
     (statsParams wall (sd_zone d) (sd_defaultRange d) s)"

subsection \<open>Comparison\<close>

record comparison_data =
  co_interfaces :: "network_interface list query"
  co_statistics :: "StatisticsResponse query"
  co_settings :: "unit query"
  co_defaultRange :: string

datatype comparison_click = Compare comparison_event | Comparison_Retry

definition allInterfaces :: "comparison_data \<Rightarrow> string list" where
  "allInterfaces d = map ni_name (or_list (qu_data (co_interfaces d)))"

definition comparison_days :: "comparison_data \<Rightarrow> comparison_page \<Rightarrow> int" where
  "comparison_days d s = (case cp_daysOverride s of Some n \<Rightarrow> n | None \<Rightarrow> chartRangeDays (co_defaultRange d))"

definition period_labels :: "(int \<times> string) list" where
  "period_labels =
     [(1, ''Last 24 hours''), (7, ''Last 7 days''), (30, ''Last 30 days''), (90, ''Last 90 days''), (365, ''Last year'')]"

definition period_select :: "comparison_data \<Rightarrow> comparison_page \<Rightarrow> 'a element" where
  "period_select d s =
     choices_of [(''value'', int_string (comparison_days d s))] (map (\<lambda>(n, l). (int_string n, l)) period_labels)"

definition wan_button :: "string list \<Rightarrow> string \<Rightarrow> comparison_click element" where
  "wan_button wans name =
     Element ''button'' [(''type'', ''button''), (''aria-pressed'', if name \<in> set wans then ''true'' else ''false'')]
       [(''onClick'', Compare (Wan_Toggled name))]
       [if name \<in> set wans then Icon ''CheckCircle2'' else node_of ''span'' [], Words name]"

definition MiniMetric :: "string \<Rightarrow> string \<Rightarrow> string \<Rightarrow> 'a element" where
  "MiniMetric icon label value = node_of ''div'' [node_of ''p'' [Icon icon, Words label], node_of ''p'' [Words value]]"

definition shown_rate :: "(js_number option \<Rightarrow> string) \<Rightarrow> rat option \<Rightarrow> string" where
  "shown_rate fmt v = fmt (map_option Fin v)"

definition wan_card :: "(js_number option \<Rightarrow> string) \<Rightarrow> wan_summary \<Rightarrow> 'a element" where
  "wan_card bitrate w =
     Card
       [node_of ''div'' [],
        node_of ''div''
          [node_of ''div''
             [node_of ''div'' [node_of ''h3'' [Words (ws_name w)],
                node_of ''p'' [Words (number_string (ws_succeeded w) @ '' succeeded'' @ dot_sep @ number_string (ws_failed w) @ '' failed'' @
                  dot_sep @ number_string (ws_skipped w) @ '' skipped'')]],
              Badge [Words (number_string (ws_samples w) @ '' attempt'' @ (if ws_samples w = 1 then [] else ''s''))]],
           node_of ''dl''
             [MiniMetric ''ArrowDown'' ''Download'' (shown_rate bitrate (ws_download w)),
              MiniMetric ''ArrowUp'' ''Upload'' (shown_rate bitrate (ws_upload w)),
              MiniMetric ''Gauge'' ''Latency'' (shown_rate formatMilliseconds (ws_latency w)),
              MiniMetric ''CheckCircle2'' ''Success'' (formatPercent (Some (Fin (ws_successRate w))))]]]"

definition matrix_headings :: "string list" where
  "matrix_headings =
     [''WAN'', ''Attempts'', ''Succeeded'', ''Failed'', ''Average download'', ''Average upload'', ''Average latency'', ''Average jitter'', ''Success rate'']"

definition matrix_cells :: "(js_number option \<Rightarrow> string) \<Rightarrow> wan_summary \<Rightarrow> string list" where
  "matrix_cells bitrate w =
     [ws_name w, number_string (ws_samples w), number_string (ws_succeeded w), number_string (ws_failed w),
      shown_rate bitrate (ws_download w), shown_rate bitrate (ws_upload w), shown_rate formatMilliseconds (ws_latency w),
      shown_rate formatMilliseconds (ws_jitter w), formatPercent (Some (Fin (ws_successRate w)))]"

definition winner_banner :: "wan_summary option \<Rightarrow> 'a element list" where
  "winner_banner w =
     (case w of
        Some x \<Rightarrow> [node_of ''div'' [node_of ''span'' [Icon ''Trophy''],
          node_of ''div'' [node_of ''p'' [Words (''Best balanced path: '' @ ws_name x)],
            node_of ''p'' [Words ''Highest normalized blend of exact download, upload, latency, and all-attempt success rate in this period.'']]]]
      | None \<Rightarrow> [])"

definition comparison_content ::
  "(string \<Rightarrow> string) \<Rightarrow> (js_number option \<Rightarrow> string) \<Rightarrow> StatisticsSeries list option \<Rightarrow> 'a element list" where
  "comparison_content t bitrate series =
     (let summaries = wan_summaries series in
      if summaries = []
      then [Card [EmptyState t None ''No comparable WAN samples'' ''Select at least one interface with measurement attempts in this reporting range.'' []]]
      else winner_banner (winner series) @
        [node_of ''div'' (map (wan_card bitrate) summaries),
         Card [CardHeader [CardTitle [Words ''WAN performance timeline''],
             node_of ''p'' [Words ''Sparse interface series are aligned by reporting-bucket start; missing buckets remain gaps'']],
           CardContent [Element ''EChart'' [(''ariaLabel'', ''WAN comparison for throughput and latency'')] [] []]],
         Card [CardHeader [CardTitle [Words ''Comparison matrix'']], table_of matrix_headings (map (matrix_cells bitrate) summaries)]])"

text \<open>Without a path there is no request, so the state of its query does not count.\<close>

definition comparison_view ::
  "(failure \<Rightarrow> string) \<Rightarrow> (string \<Rightarrow> string) \<Rightarrow> (js_number option \<Rightarrow> string) \<Rightarrow> comparison_data \<Rightarrow> comparison_page \<Rightarrow>
   comparison_click element list" where
  "comparison_view runtime_message t bitrate d s =
     (let wans = selectedWan (cp_selected s) (allInterfaces d) in
      if qu_isLoading (co_interfaces d) \<or> qu_isLoading (co_settings d) \<or> wans \<noteq> [] \<and> qu_isLoading (co_statistics d)
      then [LoadingState t (''Comparing independent WAN paths'' @ ellipsis)]
      else case first_some [qu_error (co_interfaces d), qu_error (co_settings d), qu_error (co_statistics d)] of
        Some e \<Rightarrow> [ErrorState runtime_message t e (Some Comparison_Retry) ''Unable to load data'']
      | None \<Rightarrow>
          [PageHeader t ''Compare paths, not anecdotes.''
             ''Use exact full-range statistics across successful, failed, skipped, and cancelled attempts to compare independent WAN paths without page truncation.''
             [period_select d s],
           Card [node_of ''p'' [Words ''WAN paths to compare''], node_of ''div'' (map (wan_button wans) (allInterfaces d))]] @
          comparison_content t bitrate (Option.bind (qu_data (co_statistics d)) sr_series))"

subsection \<open>What the pages offer\<close>

text \<open>The events of the boxes shown as checked.\<close>

fun checked_of :: "'a element \<Rightarrow> 'a list" where
  "checked_of (Element tag ps hs cs) = (if map_of ps ''checked'' = Some ''true'' then map snd hs else [])"
| "checked_of x = []"

lemma offered_multi: "offered (MultiFilter label options selected toggle) = map (\<lambda>(v, w). Stat (toggle v)) options"
proof -
  have "concat (map (\<lambda>x. [f x]) xs) = map f xs" for f :: "'v \<times> string \<Rightarrow> statistics_click" and xs by (induction xs) auto
  then show ?thesis by (simp add: MultiFilter_def shown_def comp_def split_def)
qed

lemma flag_true: "(if b then ''true'' else ''false'') = ''true'' \<longleftrightarrow> b"
  by simp

lemma checked_multi:
  "gather checked_of (MultiFilter label options selected toggle) =
   map (\<lambda>(v, w). Stat (toggle v)) (filter (\<lambda>(v, w). v \<in> set selected) options)"
proof -
  have one: "concat (map (\<lambda>x. if fst x \<in> set selected then [Stat (toggle (fst x))] else []) xs) =
      map (\<lambda>x. Stat (toggle (fst x))) (filter (\<lambda>x. fst x \<in> set selected) xs)" for xs
    by (induction xs) auto
  show ?thesis by (simp add: MultiFilter_def gather_Element shown_def comp_def split_def flag_true one cong: if_cong del: if_split)
qed

lemma pressed_multi: "gather pressed_of (MultiFilter label options selected toggle) = []"
  by (simp add: MultiFilter_def gather_Element shown_def comp_def split_def)

text \<open>The events of the boxes of a page, and whether the filter an event stands for is in force.\<close>

definition filter_events :: "statistics_data \<Rightarrow> statistics_event list" where
  "filter_events d =
     (let results = or_list (qu_data (sd_results d)) in
      map (\<lambda>x. Task_Toggled (t_id x)) (or_list (qu_data (sd_tasks d))) @
      map (\<lambda>x. Interface_Toggled (ni_name x)) (or_list (qu_data (sd_interfaces d))) @
      map Provider_Toggled [Ookla, Librespeed, Cloudflare] @
      map (\<lambda>x. Server_Toggled (fst x)) (server_options results) @
      map (\<lambda>x. Source_Ip_Toggled (fst x)) (address_options rd_selectedSourceIp results) @
      map (\<lambda>x. Route_Profile_Toggled (rv_id x)) (or_list (qu_data (sd_routes d))) @
      map (\<lambda>x. Public_Ip_Toggled (fst x)) (address_options rd_detectedPublicIp results))"

fun in_force :: "statistics_page \<Rightarrow> statistics_event \<Rightarrow> bool" where
  "in_force s (Task_Toggled v) \<longleftrightarrow> v \<in> set (st_taskIds s)"
| "in_force s (Interface_Toggled v) \<longleftrightarrow> v \<in> set (st_interfaces s)"
| "in_force s (Provider_Toggled v) \<longleftrightarrow> v \<in> set (st_providers s)"
| "in_force s (Server_Toggled v) \<longleftrightarrow> v \<in> set (st_serverIds s)"
| "in_force s (Source_Ip_Toggled v) \<longleftrightarrow> v \<in> set (st_sourceIps s)"
| "in_force s (Route_Profile_Toggled v) \<longleftrightarrow> v \<in> set (st_routeProfileIds s)"
| "in_force s (Public_Ip_Toggled v) \<longleftrightarrow> v \<in> set (st_publicIps s)"
| "in_force s _ \<longleftrightarrow> False"

lemma in_toggle: "x \<in> set (set_toggle v xs) \<longleftrightarrow> (if x = v then v \<notin> set xs else x \<in> set xs)"
  by (auto simp: set_toggle_def set_delete_def)

lemma filter_toggled:
  "e \<in> set (filter_events d) \<Longrightarrow> in_force (statistics_step r s e) e' = (if e' = e then \<not> in_force s e else in_force s e')"
  unfolding filter_events_def Let_def set_append Un_iff set_map
  by (elim disjE imageE; cases e'; simp add: in_toggle)

lemma offered_choices: "offered (choices_of props choices) = []"
  by (simp add: choices_of_def split_def comp_def)

lemma plain_choices: "gather pressed_of (choices_of [(''value'', v)] choices) = []" "gather checked_of (choices_of [(''value'', v)] choices) = []"
  "gather pressed_of (choices_of [(''value'', v), (''aria-label'', l)] choices) = []"
  "gather checked_of (choices_of [(''value'', v), (''aria-label'', l)] choices) = []"
  by (simp_all add: choices_of_def gather_Element split_def comp_def)

lemma group_buttons:
  "concat (map offered (map (group_button s) groups)) = map (\<lambda>g. Stat (Group_Set g)) groups"
  "concat (map (gather pressed_of) (map (group_button s) groups)) = [Stat (Group_Set (st_groupBy s))]"
  "concat (map (gather checked_of) (map (group_button s) groups)) = []"
proof -
  have "concat (map (\<lambda>g. if st_groupBy s = g then [Stat (Group_Set g)] else []) groups) = [Stat (Group_Set (st_groupBy s))]"
    by (cases "st_groupBy s"; simp add: groups_def)
  then show "concat (map (gather pressed_of) (map (group_button s) groups)) = [Stat (Group_Set (st_groupBy s))]"
    by (simp add: group_button_def gather_Element flag_true comp_def cong: if_cong del: if_split)
qed (simp_all add: group_button_def groups_def gather_Element)

lemma refresh_parts:
  "offered (refresh_button busy) = (if busy then [] else [Statistics_Refresh])"
  "gather pressed_of (refresh_button busy) = []" "gather checked_of (refresh_button busy) = []"
  by (cases busy; simp add: refresh_button_def Button_def Spinner_def disabled_prop_def gather_Element)+

lemma period_offers:
  "offered (period_controls d s) = map (\<lambda>g. Stat (Group_Set g)) groups @ (if sd_isFetching d then [] else [Statistics_Refresh])"
  "gather pressed_of (period_controls d s) = [Stat (Group_Set (st_groupBy s))]"
  "gather checked_of (period_controls d s) = []"
  using group_buttons [of s]
  by (simp_all add: period_controls_def captioned_def offered_choices plain_choices split_def Let_def refresh_parts gather_Element
      del: map_map concat_eq_Nil_conv if_split)

lemma clear_parts:
  "offered (clear_button off) = (if off then [] else [Stat Dimensions_Cleared])"
  "gather pressed_of (clear_button off) = []" "gather checked_of (clear_button off) = []"
  by (cases off; simp add: clear_button_def Button_def disabled_prop_def gather_Element)+

lemma dimension_offers:
  "offered (dimension_controls d s) =
     map Stat (filter_events d) @ (if dimension_filters_active s \<or> st_dimension s \<noteq> Dim_None then [Stat Dimensions_Cleared] else [])"
  "gather pressed_of (dimension_controls d s) = []"
  "gather checked_of (dimension_controls d s) = map Stat (filter (in_force s) (filter_events d))"
  by (simp_all add: dimension_controls_def filter_events_def Let_def offered_multi checked_multi pressed_multi offered_choices plain_choices
      clear_parts gather_Element comp_def filter_map split_def)

lemma content_plain:
  "gather pressed_of x = []" "gather checked_of x = []" if "x \<in> set (statistics_content runtime_message extra t bitrate d s)"
  using that
  by (auto simp: statistics_content_def statistics_cards_def statistics_chart_card_def statistics_table_card_def table_of_def Let_def
      view_simps split: option.splits if_splits)

lemma content_offers:
  "concat (map offered (statistics_content runtime_message extra t bitrate d s)) =
     (if qu_error (sd_statistics d) \<noteq> None then [Statistics_Retry] else [])"
  by (auto simp: statistics_content_def statistics_cards_def MetricCard_def statistics_chart_card_def statistics_table_card_def table_of_def Let_def
      offer_simps split: option.splits)

lemma clear_changes: "statistics_step r s Dimensions_Cleared \<noteq> s \<longleftrightarrow> dimension_filters_active s \<or> st_dimension s \<noteq> Dim_None"
  by (cases s) (auto simp: clearDimensions_def dimension_filters_active_def)

text \<open>
  Once the supporting data is there, the statistics page shows what is in force and lets it be changed:
  the pressed button is the aggregation of the state and no other; the boxes of the filters are those of
  the options, and the checked ones are exactly the filters in force; clearing is offered exactly when it
  changes the state; and the page fails to appear only when the dates give no range.
\<close>

theorem statistics_view_agrees:
  "let d = \<lparr>sd_tasks = loaded tasks, sd_interfaces = loaded interfaces, sd_routes = loaded routes, sd_results = loaded results,
        sd_settings = loaded (), sd_statistics = q, sd_isFetching = busy, sd_zone = zone, sd_defaultRange = r\<rparr> in
   case statistics_view runtime_message extra t bitrate wall d s of
     None \<Rightarrow> statsParams wall zone r s = None
   | Some page \<Rightarrow>
       concat (map (gather pressed_of) page) = [Stat (Group_Set (st_groupBy s))] \<and>
       concat (map (gather checked_of) page) = map Stat (filter (in_force s) (filter_events d)) \<and>
       concat (map offered page) =
         map (\<lambda>g. Stat (Group_Set g)) groups @ (if busy then [] else [Statistics_Refresh]) @ map Stat (filter_events d) @
         (if statistics_step r s Dimensions_Cleared \<noteq> s then [Stat Dimensions_Cleared] else []) @
         (if qu_error q \<noteq> None then [Statistics_Retry] else [])"
proof (cases "statsParams wall zone r s")
  case None
  then show ?thesis by (simp add: statistics_view_def Let_def)
next
  case (Some ps)
  define d where "d = \<lparr>sd_tasks = loaded tasks, sd_interfaces = loaded interfaces, sd_routes = loaded routes, sd_results = loaded results,
        sd_settings = loaded (), sd_statistics = q, sd_isFetching = busy, sd_zone = zone, sd_defaultRange = r\<rparr>"
  let ?content = "statistics_content runtime_message extra t bitrate d s"
  have d: "sd_isFetching d = busy" "sd_statistics d = q" by (simp_all add: d_def)
  have "statistics_view runtime_message extra t bitrate wall d s =
      Some ([PageHeader t ''Patterns beyond a single test.''
        ''Aggregate in the reporting timezone, compare dimensions, and inspect min, average, median, p95, and variance without failed sentinel values.'' [],
        Card [period_controls d s, dimension_controls d s]] @ ?content)"
    using Some by (simp add: statistics_view_def d_def first_some_def)
  moreover have "concat (map (gather pressed_of) ?content) = []" "concat (map (gather checked_of) ?content) = []"
    using content_plain by auto
  ultimately show ?thesis
    unfolding d_def [symmetric] Let_def clear_changes
    by (simp add: period_offers dimension_offers content_offers d PageHeader_def Card_def shown_def gather_Element del: statistics_step.simps)
qed

text \<open>
  The table beside the chart has the values the chart draws: of a response without groups, the cells of
  minimum, average, p95 and maximum in the row of a bucket are the printed values of the four lines at
  its place, whatever the metric. Hypothesis: the row exists.
\<close>

theorem table_matches_chart:
  assumes "i < length buckets"
  shows "map (\<lambda>k. bucket_cells extra bitrate m (buckets ! i) ! k) [4, 5, 7, 8] =
    map (\<lambda>line. format_value m bitrate (cs_data line ! i)) (ch_series (statisticsOption extra None buckets m))"
  using assms by (simp add: bucket_cells_def statisticsOption_def Let_def)

theorem table_matches_chart_witness:
  "map (\<lambda>k. bucket_cells (\<lambda>_ _. None) (\<lambda>_. ''fast'') Download_M (sample_bucket ''a'' 5) ! k) [4, 5, 7, 8] = replicate 4 ''fast''"
  using table_matches_chart [of 0 "[sample_bucket ''a'' 5]" "\<lambda>_ _. None" "\<lambda>_. ''fast''" Download_M]
  by (simp add: statisticsOption_def format_value_def Let_def numeral_eq_Suc)

subsection \<open>The comparison page\<close>

lemma comparison_plain:
  "concat (map offered (comparison_content t bitrate series)) = []"
  "concat (map (gather pressed_of) (comparison_content t bitrate series)) = []"
  by (auto simp: comparison_content_def winner_banner_def wan_card_def MiniMetric_def table_of_def Let_def view_simps shown_def
      split: option.splits)

lemma wan_buttons:
  "concat (map offered (map (wan_button wans) names)) = map (\<lambda>n. Compare (Wan_Toggled n)) names"
  "concat (map (gather pressed_of) (map (wan_button wans) names)) = map (\<lambda>n. Compare (Wan_Toggled n)) (filter (\<lambda>n. n \<in> set wans) names)"
proof -
  show "concat (map offered (map (wan_button wans) names)) = map (\<lambda>n. Compare (Wan_Toggled n)) names"
    by (induction names) (auto simp: wan_button_def)
  show "concat (map (gather pressed_of) (map (wan_button wans) names)) = map (\<lambda>n. Compare (Wan_Toggled n)) (filter (\<lambda>n. n \<in> set wans) names)"
    by (induction names) (auto simp: wan_button_def gather_Element)
qed

text \<open>What holds of the page after any events: the period is one of those offered, the paths are shown ones.\<close>

definition comparison_inv :: "string list \<Rightarrow> comparison_page \<Rightarrow> bool" where
  "comparison_inv names s \<longleftrightarrow> cp_daysOverride s \<in> insert None (Some ` set periods) \<and> set (cp_selected s) \<subseteq> set names"

interpretation comparison: machine "comparison_step names" "comparison_inv names"
proof
  fix s e
  assume "comparison_inv names s"
  then show "comparison_inv names (comparison_step names s e)"
    by (cases e) (auto simp: comparison_inv_def toggleWan_def in_toggle selectedWan_def dest!: in_set_takeD split: if_splits)
qed

lemma shown_paths_empty:
  "set selected \<subseteq> set names \<Longrightarrow> filter (\<lambda>n. n \<in> set (selectedWan selected names)) names = [] \<longleftrightarrow> names = []"
  by (cases names; cases selected) (auto simp: selectedWan_def filter_empty_conv)

definition option_values :: "'a element \<Rightarrow> string list" where
  "option_values x = (case x of Element tag ps hs cs \<Rightarrow> concat (map (prop_values ''value'') cs) | _ \<Rightarrow> [])"

lemma period_options:
  "option_values (period_select d s) = map int_string periods"
  "get_prop ''value'' (period_select d s) = Some (int_string (comparison_days d s))"
  by (simp_all add: period_select_def choices_of_def option_values_def period_labels_def periods_def)

lemma chartRangeDays_period: "chartRangeDays r \<in> set periods"
  by (simp add: chartRangeDays_def periods_def)

lemma comparison_days_period:
  "comparison_inv names s \<Longrightarrow> comparison_days d s \<in> set periods"
  by (auto simp: comparison_inv_def comparison_days_def chartRangeDays_period split: option.split)

text \<open>
  After any choices, while the interfaces stay the same, the comparison page shows what it compares: it
  offers every path and nothing else to press, the pressed ones are exactly the paths asked for, which
  are none only when there is no interface, and the period shown as chosen is the one asked for and one of
  the choices.
\<close>

theorem comparison_view_agrees:
  "let d = \<lparr>co_interfaces = loaded interfaces, co_statistics = loaded response, co_settings = loaded (), co_defaultRange = r\<rparr>;
       names = map ni_name interfaces; s = foldl (comparison_step names) (comparison_init now) es;
       page = comparison_view runtime_message t bitrate d s;
       asked = filter (\<lambda>n. n \<in> set (selectedWan (cp_selected s) names)) names in
   concat (map offered page) = map (\<lambda>n. Compare (Wan_Toggled n)) names \<and>
   concat (map (gather pressed_of) page) = map (\<lambda>n. Compare (Wan_Toggled n)) asked \<and>
   (asked = [] \<longleftrightarrow> names = []) \<and>
   get_prop ''value'' (period_select d s) = Some (int_string (comparison_days d s)) \<and>
   int_string (comparison_days d s) \<in> set (option_values (period_select d s))"
proof -
  define d where "d = \<lparr>co_interfaces = loaded interfaces, co_statistics = loaded response, co_settings = loaded (), co_defaultRange = r\<rparr>"
  define names where "names = map ni_name interfaces"
  define s where "s = foldl (comparison_step names) (comparison_init now) es"
  have inv: "comparison_inv names s"
    unfolding s_def by (rule comparison.run_inv) (simp add: comparison_inv_def comparison_init_def)
  have names: "allInterfaces d = names" by (simp add: allInterfaces_def d_def or_list_def names_def)
  have page: "comparison_view runtime_message t bitrate d s =
      [PageHeader t ''Compare paths, not anecdotes.''
         ''Use exact full-range statistics across successful, failed, skipped, and cancelled attempts to compare independent WAN paths without page truncation.''
         [period_select d s],
       Card [node_of ''p'' [Words ''WAN paths to compare''],
         node_of ''div'' (map (wan_button (selectedWan (cp_selected s) names)) names)]] @
      comparison_content t bitrate (sr_series response)"
    by (simp add: comparison_view_def Let_def names) (simp add: d_def first_some_def names [unfolded d_def])
  have plain: "offered (period_select d s) = []" "gather pressed_of (period_select d s) = []"
    by (simp_all add: period_select_def offered_choices plain_choices)
  have listed: "int_string (comparison_days d s) \<in> set (option_values (period_select d s))"
    using comparison_days_period [OF inv, of d] by (simp add: period_options)
  show ?thesis
    unfolding d_def [symmetric] names_def [symmetric] s_def [symmetric] Let_def page
    using inv listed wan_buttons [of "selectedWan (cp_selected s) names" names]
    by (simp add: comparison_plain shown_paths_empty comparison_inv_def period_options(2) PageHeader_def Card_def shown_def plain gather_Element
        del: map_map)
qed

text \<open>A page with samples names the path it recommends, and that path is one of those compared.\<close>

lemma winner_named:
  "wan_summaries series \<noteq> [] \<Longrightarrow>
     \<exists>w \<in> set (wan_summaries series). winner series = Some w \<and>
       hd (comparison_content t bitrate series) = hd (winner_banner (Some w))"
proof -
  assume h: "wan_summaries series \<noteq> []"
  then obtain w ws where sorted: "sort_by compare_scores (wan_summaries series) = w # ws"
    by (cases "sort_by compare_scores (wan_summaries series)") (metis length_0_conv length_sort_by, blast)
  then have "w \<in> set (wan_summaries series)" by (metis list.set_intros(1) set_sort_by)
  with h sorted show ?thesis
    by (auto simp: winner_def comparison_content_def Let_def winner_banner_def)
qed

end
