(* ===== verification/EditorView.thy ===== *)
theory EditorView
  imports EditorSteps Widgets
begin

text \<open>
  What the task editor shows (\<open>pages/TaskEditorPage.tsx\<close>): the issues of the form by field, the check of
  a step before the wizard goes on, and the element trees of the four steps and of the frame around them.
  The form library reports for a field the first issue the schema finds for it. \<open>zod\<close> gives the
  message of the schema library for a check that has none of its own, \<open>uid\<close> the identifier React
  generates for the field of a name.
\<close>

subsection \<open>Issues\<close>

definition issue :: "bool \<Rightarrow> string \<Rightarrow> string \<Rightarrow> (string \<times> string) list" where
  "issue ok k message = (if ok then [] else [(k, message)])"

definition customEndpointError :: string where
  "customEndpointError = ''Use a safe relative endpoint without a leading slash, traversal, backslash, encoded separator, control character, scheme, host, or fragment.''"

text \<open>The transformation is applied, and the second check made, only when the first checks pass.\<close>

definition endpoint_issues :: "(string \<Rightarrow> bool) \<Rightarrow> (string \<Rightarrow> string) \<Rightarrow> string \<Rightarrow> string \<Rightarrow> (string \<times> string) list" where
  "endpoint_issues resolves zod k s =
     (let first = issue (length s \<le> 2048) k (zod k) @ issue (\<not> list_ex isURLControlCharacter s) k customEndpointError in
      if first = [] then issue (isSafeCustomEndpoint resolves (trim s)) k customEndpointError else first)"

definition field_issues :: "zod_env \<Rightarrow> (string \<Rightarrow> string) \<Rightarrow> TaskFormValues \<Rightarrow> (string \<times> string) list" where
  "field_issues env zod v =
     issue (2 \<le> length (trim (fv_name v))) ''name'' ''Enter at least 2 characters.'' @
     issue (length (trim (fv_name v)) \<le> 100) ''name'' (zod ''name'') @
     issue (length (trim (fv_description v)) \<le> 500) ''description'' (zod ''description'') @
     issue (validateCron (trim (fv_cronExpression v))) ''cronExpression'' ''Enter a valid five-field cron expression.'' @
     issue (1 \<le> length (trim (fv_timezone v))) ''timezone'' ''Select a timezone.'' @
     issue (isValidTimezone (zone_known env) (trim (fv_timezone v))) ''timezone'' ''Select a valid IANA timezone.'' @
     issue (is_int (fv_randomJitterSeconds v) 0 3600) ''randomJitterSeconds'' (zod ''randomJitterSeconds'') @
     issue (length (trim (fv_serverId v)) \<le> 200) ''serverId'' (zod ''serverId'') @
     issue (length (trim (fv_serverUrl v)) \<le> 2048) ''serverUrl'' (zod ''serverUrl'') @
     issue (length (trim (fv_customServerName v)) \<le> 200) ''customServerName'' (zod ''customServerName'') @
     endpoint_issues (url_resolves env) zod ''customDownloadPath'' (fv_customDownloadPath v) @
     endpoint_issues (url_resolves env) zod ''customUploadPath'' (fv_customUploadPath v) @
     endpoint_issues (url_resolves env) zod ''customPingPath'' (fv_customPingPath v) @
     endpoint_issues (url_resolves env) zod ''customIpPath'' (fv_customIpPath v) @
     issue (1 \<le> length (trim (fv_interfaceName v))) ''interfaceName'' ''Select a concrete interface.'' @
     issue (1 \<le> length (trim (fv_sourceIp v))) ''sourceIp'' ''Select one concrete source address.'' @
     issue (is_int (fv_timeoutSeconds v) 5 3600) ''timeoutSeconds'' (zod ''timeoutSeconds'')"

definition refinement_issues :: "(string \<Rightarrow> string option) \<Rightarrow> TaskFormValues \<Rightarrow> (string \<times> string) list" where
  "refinement_issues z_url v =
     issue (\<not> (fv_provider v = Cloudflare \<and> fv_serverSelectionMode v \<noteq> Automatic)) ''serverSelectionMode''
       ''Cloudflare always uses automatic edge selection.'' @
     issue (\<not> (fv_serverSelectionMode v = Fixed \<and> fv_serverId v = [])) ''serverId'' ''Select or enter a server ID.'' @
     (if fv_serverSelectionMode v = Custom then
        issue (fv_provider v = Librespeed) ''serverSelectionMode'' ''Custom URLs are supported by LibreSpeed only.'' @
        (case z_url (fv_serverUrl v) of
           None \<Rightarrow> [(''serverUrl'', ''Enter a valid HTTP or HTTPS URL.'')]
         | Some u \<Rightarrow> issue (\<not> (prefix ''http:'' (to_lower u) \<and> \<not> fv_allowInsecureCustomServer v)) ''allowInsecureCustomServer''
             ''Explicitly allow plain HTTP or use HTTPS.'')
      else [])"

text \<open>
  A number that is not an integer ends the parse of the form, so that the checks across fields are
  not made; the other issues let it continue.
\<close>

definition integral :: "js_number \<Rightarrow> bool" where
  "integral x = (case x of Fin q \<Rightarrow> of_int \<lfloor>q\<rfloor> = q | _ \<Rightarrow> False)"

definition form_issues :: "zod_env \<Rightarrow> (string \<Rightarrow> string) \<Rightarrow> TaskFormValues \<Rightarrow> (string \<times> string) list" where
  "form_issues env zod v =
     field_issues env zod v @
     (if integral (fv_randomJitterSeconds v) \<and> integral (fv_timeoutSeconds v)
      then refinement_issues (http_url env) (trimmed_form v) else [])"

text \<open>The message of a field, empty when it has no issue.\<close>

definition field_error :: "zod_env \<Rightarrow> (string \<Rightarrow> string) \<Rightarrow> TaskFormValues \<Rightarrow> string \<Rightarrow> string" where
  "field_error env zod v k = (case map_of (form_issues env zod v) k of Some m \<Rightarrow> m | None \<Rightarrow> [])"

subsection \<open>Steps\<close>

definition steps :: "(string \<times> string \<times> string) list" where
  "steps =
     [(''Identity & provider'', ''Name the test and select its measurement methodology.'', ''Gauge''),
      (''Target & network'', ''Pin the server and concrete Linux source path.'', ''Network''),
      (''Schedule & safety'', ''Control timing, timeout, jitter, and overlap.'', ''Clock3''),
      (''Review & validate'', ''Confirm the persisted task before activation.'', ''ShieldCheck'')]"

definition custom_fields :: "string list" where
  "custom_fields = [''serverUrl'', ''customServerName'', ''customDownloadPath'', ''customUploadPath'', ''customPingPath'',
     ''customIpPath'', ''allowInsecureCustomServer'']"

definition identity_fields :: "string list" where
  "identity_fields = [''name'', ''description'']"

definition binding_fields :: "string list" where
  "binding_fields = [''interfaceName'', ''sourceIp'', ''ipFamily'', ''routeProfileId'']"

definition schedule_fields :: "string list" where
  "schedule_fields = [''cronExpression'', ''timezone'', ''randomJitterSeconds'', ''timeoutSeconds'']"

definition stepFields :: "nat \<Rightarrow> string list" where
  "stepFields n =
     (if n = 0 then identity_fields @ [''provider'']
      else if n = 1 then [''serverSelectionMode'', ''serverId''] @ custom_fields @ binding_fields
      else if n = 2 then schedule_fields @ [''preventOverlap'', ''routeValidation'']
      else [])"

lemmas step_field_names = stepFields_def identity_fields_def custom_fields_def binding_fields_def schedule_fields_def

text \<open>\<open>form.trigger(fields)\<close>: whether none of the fields has an issue.\<close>

definition trigger :: "zod_env \<Rightarrow> (string \<Rightarrow> string) \<Rightarrow> TaskFormValues \<Rightarrow> string list \<Rightarrow> bool" where
  "trigger env zod v ks \<longleftrightarrow> list_all (\<lambda>k. map_of (form_issues env zod v) k = None) ks"

definition nextStep :: "zod_env \<Rightarrow> (string \<Rightarrow> string) \<Rightarrow> editor \<Rightarrow> editor" where
  "nextStep env zod s = editor_next env s (Continue (trigger env zod (e_form s) (stepFields (e_step s))))"

subsection \<open>The issues are those of the schema\<close>

lemma issue_Nil [simp]: "issue ok k m = [] \<longleftrightarrow> ok"
  by (simp add: issue_def)

lemma issue_keys [simp]: "fst ` set (issue ok k m) = (if ok then {} else {k})"
  by (simp add: issue_def)

lemma endpoint_issues_Nil [simp]:
  "endpoint_issues resolves zod k s = [] \<longleftrightarrow> customEndpointSchema resolves s \<noteq> None"
  by (simp add: endpoint_issues_def customEndpointSchema_def Let_def)

lemma endpoint_issues_keys [simp]:
  "fst ` set (endpoint_issues resolves zod k s) = (if customEndpointSchema resolves s = None then {k} else {})"
  by (auto simp: endpoint_issues_def customEndpointSchema_def Let_def issue_def)

lemma field_issues_Nil: "field_issues env zod v = [] \<longleftrightarrow> fields_ok (zone_known env) (url_resolves env) v"
  by (simp add: field_issues_def fields_ok_def del: not_None_eq)

lemma refinement_issues_Nil: "refinement_issues z_url v = [] \<longleftrightarrow> refinement_ok z_url v"
  by (auto simp: refinement_issues_def refinement_ok_def split: option.splits if_splits)

lemma is_int_integral: "is_int x lo hi \<Longrightarrow> integral x"
  by (cases x) (auto simp: is_int_def integral_def)

lemma issues_exact: "form_issues env zod v = [] \<longleftrightarrow> schema env v \<noteq> None"
proof -
  have "fields_ok (zone_known env) (url_resolves env) v \<Longrightarrow> integral (fv_randomJitterSeconds v) \<and> integral (fv_timeoutSeconds v)"
    unfolding fields_ok_def using is_int_integral by blast
  then show ?thesis
    by (auto simp: form_issues_def taskSchema_def field_issues_Nil refinement_issues_Nil)
qed

lemma issue_within: "k \<in> S \<Longrightarrow> fst ` set (issue ok k m) \<subseteq> S"
  by simp

lemma endpoint_issues_within: "k \<in> S \<Longrightarrow> fst ` set (endpoint_issues resolves zod k s) \<subseteq> S"
  by simp

lemma form_issues_keys: "fst ` set (form_issues env zod v) \<subseteq> set (stepFields 0) \<union> set (stepFields 1) \<union> set (stepFields 2)"
proof -
  let ?S = "set (stepFields 0) \<union> set (stepFields 1) \<union> set (stepFields 2)"
  have "fst ` set (field_issues env zod v) \<subseteq> ?S"
    unfolding field_issues_def set_append image_Un
    by (intro Un_least issue_within endpoint_issues_within) (simp_all add: step_field_names)
  moreover have "fst ` set (refinement_issues z_url w) \<subseteq> set (stepFields 1)" for z_url w
    by (auto simp: refinement_issues_def issue_def step_field_names split: option.splits)
  then have "fst ` set (if c then refinement_issues z_url w else []) \<subseteq> set (stepFields 1)" for c z_url w
    by (cases c) simp_all
  ultimately show ?thesis
    unfolding form_issues_def set_append image_Un by (intro Un_least) (assumption, rule le_supI1, rule le_supI2)
qed

lemma below_last_step: "(\<forall>n < last_step. P n) \<longleftrightarrow> P 0 \<and> P 1 \<and> P 2"
  by (auto simp: last_step_def numeral_3_eq_3 numeral_2_eq_2 less_Suc_eq)

lemma trigger_iff: "trigger env zod v ks \<longleftrightarrow> set ks \<inter> fst ` set (form_issues env zod v) = {}"
  by (auto simp: trigger_def list_all_iff map_of_eq_None_iff)

lemma trigger_steps: "(\<forall>n < last_step. trigger env zod v (stepFields n)) \<longleftrightarrow> schema env v \<noteq> None"
proof -
  have "(\<forall>n < last_step. trigger env zod v (stepFields n)) \<longleftrightarrow> fst ` set (form_issues env zod v) = {}"
    unfolding below_last_step trigger_iff Int_Un_distrib2 [symmetric] Un_empty [symmetric]
    using Int_absorb1 [OF form_issues_keys [of env zod v]] by (simp only: Int_Un_distrib2 Un_assoc Un_empty conj_assoc)
  then show ?thesis using issues_exact [of env zod v] by (simp only: set_empty image_is_empty)
qed

lemma nextStep_moves: "e_step (nextStep env zod s) = (if trigger env zod (e_form s) (stepFields (e_step s)) then min (e_step s + 1) last_step else e_step s)"
  by (simp add: nextStep_def editor_next_def editor_step_def)

text \<open>
  C29. Going through the wizard establishes what saving needs: all steps let the user continue
  exactly when the schema accepts the form, so a form that has passed all steps is never rejected on the last,
  and a form that would be rejected is stopped on one of the steps.
\<close>

theorem wizard_complete:
  "(\<forall>n < last_step. e_step (nextStep env zod (s\<lparr>e_step := n\<rparr>)) = n + 1) \<longleftrightarrow> schema env (e_form s) \<noteq> None"
proof -
  have "e_step (nextStep env zod (s\<lparr>e_step := n\<rparr>)) = n + 1 \<longleftrightarrow> trigger env zod (e_form s) (stepFields n)" if "n < last_step" for n
    using that by (simp add: nextStep_moves)
  then show ?thesis unfolding trigger_steps [of env zod, symmetric] by blast
qed

subsection \<open>Events of the page\<close>

record listed_interface = network_interface +
  ni_operationalState :: string
  ni_operational :: bool

record provider_server =
  ps_id :: string
  ps_name :: string
  ps_host :: string
  ps_sponsor :: string
  ps_location :: string
  ps_country :: string

datatype view_event =
    Wizard editor_event
  | Picking "provider_server picker_event"
  | Show_Virtual bool
  | Check_Route
  | Retry_Queries

text \<open>The properties of a registered control. Handlers that read the typed text are left to the events of
  the editor and of the server picker.\<close>

definition register :: "string \<Rightarrow> (string \<times> string) list" where
  "register k = [(''name'', k)]"

abbreviation edit_form :: "TaskFormValues \<Rightarrow> view_event" where
  "edit_form w \<equiv> Wizard (Edit (Set_Values w))"

definition option_of :: "string \<Rightarrow> string \<Rightarrow> 'a element" where
  "option_of value label = Element ''option'' [(''value'', value)] [] [Words label]"

definition bool_prop :: "string \<Rightarrow> bool \<Rightarrow> string \<times> string" where
  "bool_prop k b = (k, if b then ''true'' else ''false'')"

definition warning_box :: "string \<Rightarrow> 'a element" where
  "warning_box message = node_of ''div'' [Icon ''AlertTriangle'', Words message]"

subsection \<open>Identity\<close>

fun provider_icon :: "provider_id \<Rightarrow> string" where
  "provider_icon Ookla = ''Gauge''"
| "provider_icon Librespeed = ''Server''"
| "provider_icon Cloudflare = ''Cloud''"

fun provider_text :: "provider_id \<Rightarrow> string" where
  "provider_text Cloudflare = ''Native edge methodology with automatic colo selection.''"
| "provider_text Ookla = ''Official CLI with broad fixed-server discovery.''"
| "provider_text Librespeed = ''Open-source CLI with public and custom backends.''"

definition provider_button :: "TaskFormValues \<Rightarrow> provider \<Rightarrow> view_event element" where
  "provider_button v p =
     Element ''button'' [(''type'', ''button''), bool_prop ''aria-pressed'' (fv_provider v = pr_id p)]
       [(''onClick'', Wizard (Edit (Choose_Provider (pr_id p))))]
       [node_of ''div'' [node_of ''span'' [Icon (provider_icon (pr_id p))],
          Badge [StatusDot, Words (if pr_available p then ''Available'' else ''Unavailable'')]],
        node_of ''p'' [Words (pr_displayName p)], node_of ''p'' [Words (provider_text (pr_id p))]]"

text \<open>\<open>terms\<close> is the compact acceptance of the Ookla terms.\<close>

definition IdentityStep ::
  "(string \<Rightarrow> string) \<Rightarrow> (string \<Rightarrow> string) \<Rightarrow> view_event element \<Rightarrow> provider list \<Rightarrow> provider option \<Rightarrow> TaskFormValues \<Rightarrow>
   view_event element" where
  "IdentityStep uid err terms providers active v =
     Card
       [CardHeader [CardTitle [Words ''Identity & measurement provider''],
          node_of ''p'' [Words ''Provider behavior remains isolated per task; changing this task cannot affect another schedule.'']],
        CardContent
          ([node_of ''div''
              [Field (uid ''name'') ''Task name'' [] (err ''name'') True
                 (Element ''Input'' (register ''name'' @ [(''placeholder'', ''Fiber uplink'' @ dot_sep @ ''Frankfurt''), (''autoFocus'', ''true'')]) [] []),
               CheckField (fv_enabled v) (\<lambda>b. edit_form (v\<lparr>fv_enabled := b\<rparr>)) ''Task enabled''
                 ''Schedule immediately after saving.'' False],
            Field (uid ''description'') ''Description'' ''Optional'' (err ''description'') False
              (Element ''Textarea'' (register ''description'' @ [(''placeholder'', ''Primary WAN baseline during business hours.'')]) [] []),
            node_of ''div''
              [node_of ''p'' [Words ''Provider '', node_of ''span'' [Words ''*'']],
               node_of ''div'' (map (provider_button v) providers)]] @
           (case active of
              Some p \<Rightarrow>
                shown (\<not> pr_available p)
                  (node_of ''div'' [Icon ''AlertTriangle'',
                     node_of ''div''
                       ([node_of ''p'' [Words (pr_displayName p @ '' is not available'')],
                         node_of ''p'' [Words (or_else (pr_message p) ''Check provider installation details on System information.'')]] @
                        shown (pr_id p = Ookla) terms)])
            | None \<Rightarrow> []))]"

subsection \<open>Target\<close>

definition ServerOption :: "provider_server \<Rightarrow> bool \<Rightarrow> view_event element" where
  "ServerOption server selected =
     Element ''button'' [(''type'', ''button''), (''role'', ''option''), bool_prop ''aria-selected'' selected]
       [(''onClick'', Wizard (Edit (Choose_Server (ps_id server))))]
       [node_of ''span'' [Icon ''Server''],
        node_of ''span''
          [node_of ''span'' [Words (or_else (ps_name server) (ps_host server))],
           node_of ''span'' [Words (ps_sponsor server @ dot_sep @ ps_location server @
             (if ps_country server \<noteq> [] then '', '' @ ps_country server else []))]],
        node_of ''span'' [Words (''#'' @ ps_id server)]]"

record discovery =
  dq_data :: "provider_server list option"
  dq_error :: "failure option"
  dq_isFetching :: bool
  dq_isFetched :: bool

definition ServerPicker ::
  "(failure \<Rightarrow> string) \<Rightarrow> (string \<Rightarrow> string) \<Rightarrow> (string \<Rightarrow> string) \<Rightarrow> (string \<Rightarrow> string) \<Rightarrow> discovery \<Rightarrow> string \<Rightarrow> TaskFormValues \<Rightarrow>
   view_event element" where
  "ServerPicker runtime_message t uid err q search v =
     (let unbound = (fv_interfaceName v = [] \<or> fv_sourceIp v = []) in
      node_of ''div''
        ([Field (uid ''serverId'') (providerLabel (fv_provider v) @ '' server'') ''Discovery follows selected WAN'' (err ''serverId'') True
            (node_of ''div''
               [node_of ''div''
                  [Icon ''Search'',
                   Element ''Input''
                     [(''value'', search), (''placeholder'', ''City, sponsor, host, or server ID''),
                      (''aria-label'', providerLabel (fv_provider v) @ '' server search'')]
                     [(''onKeyDown'', Picking Enter_Pressed)] []],
                Button False (disabled_prop (unbound \<or> dq_isFetching q)) [(''onClick'', Picking Discover_Clicked)]
                  [if dq_isFetching q then Spinner else Icon ''RadioTower'', Words ''Discover'']])] @
         shown unbound (node_of ''p'' [Words ''Select an interface and concrete source address before discovery.'']) @
         (case dq_error q of Some e \<Rightarrow> [node_of ''p'' [Words (getApiErrorMessage runtime_message (Some e))]] | None \<Rightarrow> []) @
         (if or_list (dq_data q) \<noteq> []
          then [Element ''div'' [(''role'', ''listbox''), (''aria-label'', ''Discovered servers'')] []
                  (map (\<lambda>server. ServerOption server (ps_id server = fv_serverId v)) (or_list (dq_data q)))]
          else shown (dq_isFetched q \<and> \<not> dq_isFetching q \<and> dq_error q = None)
            (EmptyState t None ''No servers found'' ''Try a broader search or verify that discovery can use this source path.'' [])) @
         shown (fv_serverId v \<noteq> [])
           (node_of ''div'' [Icon ''CheckCircle2'', Words ''Persisted server ID: '', node_of ''code'' [Words (fv_serverId v)]])))"

definition mode_button :: "TaskFormValues \<Rightarrow> selection_mode \<Rightarrow> view_event element" where
  "mode_button v mode =
     (let (label, description) = (case mode of
          Automatic \<Rightarrow> (''Automatic'', ''Provider selects a target'')
        | Fixed \<Rightarrow> (''Fixed server'', ''Persist a discovered ID'')
        | Custom \<Rightarrow> (''Custom backend'', ''Use your own HTTPS URL'')) in
      Element ''button'' [(''type'', ''button'')] [(''onClick'', edit_form (v\<lparr>fv_serverSelectionMode := mode\<rparr>))]
        [node_of ''span'' [Words label], node_of ''span'' [Words description]])"

definition custom_field ::
  "(string \<Rightarrow> string) \<Rightarrow> (string \<Rightarrow> string) \<Rightarrow> string \<Rightarrow> string \<Rightarrow> string \<Rightarrow> string \<Rightarrow> 'a element" where
  "custom_field uid err k label hint example =
     Field (uid k) label hint (err k) False (Element ''Input'' (register k @ [(''placeholder'', example)]) [] [])"

definition custom_target :: "(string \<Rightarrow> string) \<Rightarrow> (string \<Rightarrow> string) \<Rightarrow> TaskFormValues \<Rightarrow> view_event element" where
  "custom_target uid err v =
     node_of ''div''
       ([node_of ''div''
           [Field (uid ''serverUrl'') ''LibreSpeed backend URL'' [] (err ''serverUrl'') True
              (Element ''Input'' ([(''type'', ''url'')] @ register ''serverUrl'' @ [(''placeholder'', ''https://speed.example.net'')]) [] []),
            custom_field uid err ''customServerName'' ''Display name'' ''Optional'' ''Office LibreSpeed'',
            custom_field uid err ''customDownloadPath'' ''Download endpoint'' ''Relative to backend URL'' ''garbage.php'',
            custom_field uid err ''customUploadPath'' ''Upload endpoint'' ''Relative to backend URL'' ''empty.php'',
            custom_field uid err ''customPingPath'' ''Ping endpoint'' ''Relative to backend URL'' ''empty.php'',
            custom_field uid err ''customIpPath'' ''Public-IP endpoint'' ''Relative to backend URL'' ''getIP.php''],
         node_of ''div''
           [CheckField (fv_allowInsecureCustomServer v) (\<lambda>b. edit_form (v\<lparr>fv_allowInsecureCustomServer := b\<rparr>))
              ''Allow plain HTTP backend'' ''Unsafe. Required only when the custom URL starts with http://.'' False,
            CheckField (fv_skipTlsVerification v) (\<lambda>b. edit_form (v\<lparr>fv_skipTlsVerification := b\<rparr>))
              ''Skip TLS certificate verification''
              ''Unsafe. Enable only for a backend you control; every result records this setting.'' False]] @
        shown (err ''allowInsecureCustomServer'' \<noteq> []) (node_of ''p'' [Words (err ''allowInsecureCustomServer'')]) @
        shown (fv_allowInsecureCustomServer v)
          (warning_box ''Plain HTTP permits interception and response tampering. Use this only on an isolated network you control.'') @
        shown (fv_skipTlsVerification v)
          (warning_box ''TLS verification is disabled for this task. Traffic can be intercepted or redirected.''))"

definition target_card ::
  "(failure \<Rightarrow> string) \<Rightarrow> (string \<Rightarrow> string) \<Rightarrow> (string \<Rightarrow> string) \<Rightarrow> (string \<Rightarrow> string) \<Rightarrow> provider option \<Rightarrow> discovery \<Rightarrow> string \<Rightarrow>
   TaskFormValues \<Rightarrow> view_event element" where
  "target_card runtime_message t uid err p q search v =
     Card
       [CardHeader [CardTitle [Words ''Target selection''],
          node_of ''p'' [Words ''Discovery uses the same network binding as the final measurement.'']],
        CardContent
          (if fv_provider v = Cloudflare
           then [node_of ''div'' [Icon ''Cloud'',
              node_of ''div'' [node_of ''p'' [Words ''Automatic edge selection''],
                node_of ''p'' [Words ''Cloudflare selects the reachable edge colo for this source path. Its native multi-sample methodology differs from Ookla and LibreSpeed.'']]]]
           else [node_of ''div'' (map (mode_button v) (target_modes p v))] @
             shown (fv_provider v = Librespeed \<and> Custom \<notin> set (target_modes p v))
               (warning_box ''Custom backends are disabled by this deployment. Add the exact base URL to APP_ALLOWED_CUSTOM_SERVER_URLS and restart MultiSpeed.'') @
             shown (fv_serverSelectionMode v = Fixed) (ServerPicker runtime_message t uid err q search v) @
             shown (fv_serverSelectionMode v = Custom) (custom_target uid err v))]"

subsection \<open>Source binding\<close>

definition interface_text :: "listed_interface \<Rightarrow> string" where
  "interface_text item =
     ni_name item @ dot_sep @ or_else (ni_operationalState item) (if ni_operational item then ''up'' else ''down'') @
     (if ni_virtual item then dot_sep @ ''virtual'' else [])"

definition route_choice :: "TaskFormValues \<Rightarrow> route_option \<Rightarrow> 'a element" where
  "route_choice v route =
     Element ''option'' ([(''value'', ro_id route)] @ disabled_prop (\<not> pathMatches v route)) []
       [Words (ro_name route @ dot_sep @ ro_interfaceName route @ dot_sep @ ro_sourceIp route @
          (if pathMatches v route then [] else dot_sep @ ''path mismatch''))]"

definition binding_card ::
  "(string \<Rightarrow> string) \<Rightarrow> (string \<Rightarrow> string) \<Rightarrow> provider option \<Rightarrow> listed_interface list \<Rightarrow> route_option list \<Rightarrow> bool \<Rightarrow> TaskFormValues \<Rightarrow>
   view_event element" where
  "binding_card uid err p allInterfaces routes showVirtual v =
     (let addresses = addressOptions v allInterfaces in
      Card
        [CardHeader [CardTitle [Words ''Concrete source binding''],
           node_of ''p'' [Words ''No arbitrary address is selected and there is no fallback to the default route.'']],
         CardContent
           ([node_of ''div''
               [node_of ''div'' [node_of ''p'' [Words ''Virtual network paths''],
                  node_of ''p'' [Words ''Show VPN, tunnel, bridge, and other virtual interfaces when they are intentional WAN paths.'']],
                CheckField showVirtual Show_Virtual ''Show virtual paths'' [] False],
             node_of ''div''
               [Field (uid ''ipFamily'') ''IP family'' [] (err ''ipFamily'') True
                  (Element ''NativeSelect'' (register ''ipFamily'') []
                     [option_of ''auto'' ''IPv4 or IPv6'', option_of ''ipv4'' ''IPv4 only'', option_of ''ipv6'' ''IPv6 only'']),
                Field (uid ''interfaceName'') ''Linux interface'' [] (err ''interfaceName'') True
                  (Element ''NativeSelect'' (register ''interfaceName'') []
                     (option_of [] (''Select interface'' @ ellipsis) #
                      map (\<lambda>item. option_of (ni_name item) (interface_text item)) (visible_interfaces showVirtual v allInterfaces))),
                Field (uid ''sourceIp'') ''Source address'' [] (err ''sourceIp'') True
                  (Element ''NativeSelect'' (register ''sourceIp'' @ disabled_prop (fv_interfaceName v = [])) []
                     (option_of [] (''Select concrete address'' @ ellipsis) #
                      map (\<lambda>a. option_of (ia_address a) (ia_address a @ dot_sep @ family_label (ia_family a))) addresses))]] @
            shown (fv_interfaceName v \<noteq> [] \<and> addresses = [])
              (node_of ''p'' [Words (''This interface has no non-link-local '' @
                 (if fv_ipFamily v = Auto then [] else family_label (fv_ipFamily v)) @ '' address. Choose another interface or family.'')]) @
            [node_of ''div''
               [Field (uid ''routeProfileId'') ''Route profile'' ''Recommended'' (err ''routeProfileId'') False
                  (Element ''NativeSelect'' (register ''routeProfileId'') []
                     (option_of [] ''No persisted route expectation'' # map (route_choice v) routes)),
                node_of ''div'' [node_of ''p'' [Words ''Binding capability''], node_of ''p'' [Words (binding_capability p)]]]])])"

subsection \<open>Schedule\<close>

definition preset_button :: "SchedulePreset \<Rightarrow> view_event element" where
  "preset_button item =
     Element ''button'' [(''type'', ''button'')] [(''onClick'', Wizard (Edit (Choose_Preset (preset_expression item))))]
       [node_of ''span'' [Words (preset_label item)], node_of ''span'' [Words (preset_description item)]]"

text \<open>\<open>dateTime\<close> prints an instant in the zone of the task.\<close>

definition run_item :: "(int \<Rightarrow> string) \<Rightarrow> nat \<times> int \<Rightarrow> 'a element" where
  "run_item dateTime = (\<lambda>(n, date). node_of ''li''
     [node_of ''span'' [Words (''Run '' @ nat_string (n + 1))], node_of ''span'' [Words (dateTime date)]])"

definition schedule_card ::
  "(string \<Rightarrow> string) \<Rightarrow> (string \<Rightarrow> string) \<Rightarrow> (int \<Rightarrow> string) \<Rightarrow> int list \<Rightarrow> TaskFormValues \<Rightarrow> view_event element" where
  "schedule_card uid err dateTime cronRuns v =
     Card
       [CardHeader [CardTitle [Words ''Independent schedule''],
          node_of ''p'' [Words (''Standard five-field cron syntax is evaluated in this task'' @ right_quote @ ''s IANA timezone.'')]],
        CardContent
          [node_of ''div'' (map preset_button schedulePresets),
           node_of ''div''
             [Field (uid ''cronExpression'') ''Advanced cron expression'' (describeCron (fv_cronExpression v)) (err ''cronExpression'') True
                (Element ''Input'' (register ''cronExpression'' @ [(''placeholder'', ''0 */6 * * *''), (''spellCheck'', ''false'')]) [] []),
              Field (uid ''timezone'') ''Timezone'' [] (err ''timezone'') True
                (Element ''NativeSelect'' (register ''timezone'') []
                   (shown (fv_timezone v \<notin> set commonTimezones) (option_of (fv_timezone v) (fv_timezone v)) @
                    map (\<lambda>zone. option_of zone zone) commonTimezones))],
           node_of ''div''
             [node_of ''p'' [Words ''Next five executions''],
              if cronRuns \<noteq> [] then node_of ''ol'' (map (run_item dateTime) (List.enumerate 0 cronRuns))
              else node_of ''p'' [Words ''A preview is unavailable until the expression and timezone are valid.'']]]]"

definition guard_card :: "(string \<Rightarrow> string) \<Rightarrow> (string \<Rightarrow> string) \<Rightarrow> TaskFormValues \<Rightarrow> view_event element" where
  "guard_card uid err v =
     Card
       [CardHeader [CardTitle [Words ''Execution guardrails''],
          node_of ''p'' [Words ''Bound run duration and avoid competing tests on the same path.'']],
        CardContent
          [node_of ''div''
             [Field (uid ''timeoutSeconds'') ''Timeout'' (''5'' @ en_dash @ ''3600 seconds'') (err ''timeoutSeconds'') False
                (Element ''Input'' ([(''type'', ''number''), (''min'', ''5''), (''max'', ''3600'')] @ register ''timeoutSeconds'') [] []),
              Field (uid ''randomJitterSeconds'') ''Random start jitter'' (''0'' @ en_dash @ ''3600 seconds'') (err ''randomJitterSeconds'') False
                (Element ''Input'' ([(''type'', ''number''), (''min'', ''0''), (''max'', ''3600'')] @ register ''randomJitterSeconds'') [] [])],
           node_of ''div''
             [CheckField (fv_preventOverlap v) (\<lambda>b. edit_form (v\<lparr>fv_preventOverlap := b\<rparr>)) ''Prevent task overlap''
                ''Skip a new execution while this task is active.'' False,
              Field (uid ''routeValidation'') ''Route-validation behavior'' [] (err ''routeValidation'') True
                (Element ''NativeSelect'' (register ''routeValidation'') []
                   [option_of ''required'' (''Full route validation'' @ dot_sep @ ''fail closed''),
                    option_of ''interface-only'' (''Interface and source binding'' @ dot_sep @ ''fail closed'')])]]]"

subsection \<open>Review\<close>

definition ReviewStep ::
  "(int \<Rightarrow> string) \<Rightarrow> provider option \<Rightarrow> route_option option \<Rightarrow> int list \<Rightarrow> bool \<Rightarrow> editor \<Rightarrow> view_event element" where
  "ReviewStep dateTime p route cronRuns routePending s =
     (let v = e_form s; passed = (case currentPreflight s of Some a \<Rightarrow> pa_success a | None \<Rightarrow> False); validating = (e_inflight s \<noteq> []) in
      Card
        [CardHeader [CardTitle [Words ''Review this independent path''],
           node_of ''p'' [Words ''Saving recalculates the persisted schedule immediately. Enabling it does not trigger an unscheduled speed test.'']],
         CardContent
           ([node_of ''div''
               [node_of ''div''
                  [node_of ''div'' [node_of ''h3'' [Words (or_else (fv_name v) ''Unnamed task'')], ProviderBadge (fv_provider v),
                     Badge [Words (if fv_enabled v then ''Enabled'' else ''Disabled'')]],
                   node_of ''p'' [Words (or_else (fv_description v) ''No description provided.'')]],
                Icon ''ListChecks''],
             node_of ''dl'' (map (\<lambda>(label, value, extra).
               node_of ''div'' ([node_of ''dt'' [Words label], node_of ''dd'' [Words value]] @
                 (case extra of Some x \<Rightarrow> shown (x \<noteq> []) (node_of ''dd'' [Words x]) | None \<Rightarrow> []))) (review_details v p route))] @
            shown (fv_provider v = Librespeed \<and> fv_skipTlsVerification v)
              (warning_box ''TLS certificate verification is disabled and will be recorded in result metadata.'') @
            [Element ''div'' [(''role'', if passed then ''status'' else ''alert'')] []
               [Icon (if passed then ''CheckCircle2'' else ''AlertTriangle''),
                node_of ''div'' [node_of ''p'' [Words (preflight_heading s)], node_of ''p'' [Words (preflight_text s)]]],
             node_of ''div''
               [Button False (disabled_prop validating) [(''onClick'', Wizard Validate)]
                  [if validating then Spinner else Icon ''RadioTower'', Words ''Validate current configuration''],
                Button False (disabled_prop (route = None \<or> routePending)) [(''onClick'', Check_Route)]
                  [if routePending then Spinner else Icon ''ShieldCheck'', Words ''Validate route profile only'']],
             node_of ''div'' [Words ''First scheduled execution: '',
               node_of ''strong'' [Words (case cronRuns of date # _ \<Rightarrow> dateTime date | [] \<Rightarrow> ''Unavailable'')]]])])"

subsection \<open>The page\<close>

record editor_data =
  ed_task :: "task query"
  ed_interfaces :: "listed_interface list query"
  ed_routes :: "route_option list query"
  ed_providers :: "provider list query"
  ed_settings :: "unit query"

text \<open>What the page keeps beside the editor: the errors that were last reported, the preview, the picker.\<close>

record editor_page =
  ep_editor :: editor
  ep_error :: "string \<Rightarrow> string"
  ep_showVirtual :: bool
  ep_cronRuns :: "int list"
  ep_search :: string
  ep_discovery :: discovery
  ep_routePending :: bool
  ep_savePending :: bool

definition editor_loading :: "editor_data \<Rightarrow> editor \<Rightarrow> bool" where
  "editor_loading d s \<longleftrightarrow> editing s \<and> qu_isLoading (ed_task d) \<or> qu_isLoading (ed_interfaces d) \<or> qu_isLoading (ed_routes d) \<or>
     qu_isLoading (ed_providers d) \<or> qu_isLoading (ed_settings d)"

definition editor_error :: "editor_data \<Rightarrow> failure option" where
  "editor_error d = first_some [qu_error (ed_task d), qu_error (ed_interfaces d), qu_error (ed_routes d), qu_error (ed_providers d),
     qu_error (ed_settings d)]"

definition step_item :: "nat \<Rightarrow> nat \<times> string \<times> string \<times> string \<Rightarrow> view_event element" where
  "step_item step = (\<lambda>(index, title, description, icon). node_of ''li''
     [Element ''button'' ([(''type'', ''button'')] @ (if step = index then [(''aria-current'', ''step'')] else []))
        [(''onClick'', Wizard (Goto index))]
        [node_of ''span'' [Icon (if index < step then ''Check'' else icon)],
         node_of ''span'' [node_of ''span'' [Words title], node_of ''span'' [Words description]]]])"

text \<open>The warning above an edited task whose path is gone.\<close>

definition path_warning :: "editor \<Rightarrow> 'a element list" where
  "path_warning s =
     (case e_existing s of
        Some x \<Rightarrow>
          shown (editing s \<and> t_networkPathValid x = Some False)
            (Element ''div'' [(''role'', ''alert'')] []
               [Icon ''AlertTriangle'',
                node_of ''div'' [node_of ''p'' [Words ''This task's network path is no longer valid''],
                  node_of ''p'' [Words (or_else (case t_networkPathMessage x of Some m \<Rightarrow> m | None \<Rightarrow> [])
                      ''The configured interface or source address is not available in the active Linux namespace.'' @
                    '' Select a current interface and concrete source address before saving or running this task.'')]]])
      | None \<Rightarrow> [])"

definition step_view ::
  "(failure \<Rightarrow> string) \<Rightarrow> (string \<Rightarrow> string) \<Rightarrow> (int \<Rightarrow> string) \<Rightarrow> (string \<Rightarrow> string) \<Rightarrow> view_event element \<Rightarrow> editor_data \<Rightarrow> editor_page \<Rightarrow>
   view_event element list" where
  "step_view runtime_message t dateTime uid terms d s =
     (let e = ep_editor s; v = e_form e; err = ep_error s; p = activeProvider (qu_data (ed_providers d)) v;
          routes = or_list (qu_data (ed_routes d))
      in shown (e_step e = 0)
           (IdentityStep uid err terms (case qu_data (ed_providers d) of Some ps \<Rightarrow> ps | None \<Rightarrow> fallbackProviders) p v) @
         shown (e_step e = 1)
           (node_of ''div'' [target_card runtime_message t uid err p (ep_discovery s) (ep_search s) v,
              binding_card uid err p (or_list (qu_data (ed_interfaces d))) routes (ep_showVirtual s) v]) @
         shown (e_step e = 2) (node_of ''div'' [schedule_card uid err dateTime (ep_cronRuns s) v, guard_card uid err v]) @
         shown (e_step e = 3)
           (ReviewStep dateTime p (find (\<lambda>r. ro_id r = fv_routeProfileId v) routes) (ep_cronRuns s) (ep_routePending s) e))"

definition step_buttons :: "zod_env \<Rightarrow> (string \<Rightarrow> string) \<Rightarrow> editor_page \<Rightarrow> view_event element" where
  "step_buttons env zod s =
     (let e = ep_editor s; step = e_step e in
      node_of ''div''
        [Button False (disabled_prop (step = 0 \<or> ep_savePending s)) [(''onClick'', Wizard Previous)] [Icon ''ArrowLeft'', Words ''Previous''],
         node_of ''div'' [Words (''Step '' @ nat_string (step + 1) @ '' of '' @ nat_string (length steps))],
         if step < length steps - 1
         then Button False [] [(''onClick'', Wizard (Continue (trigger env zod (e_form e) (stepFields step))))]
           [Words ''Continue'', Icon ''ArrowRight'']
         else Button False ([(''type'', ''submit'')] @ disabled_prop (ep_savePending s)) []
           [if ep_savePending s then Spinner else Icon ''Save'', Words (if editing e then ''Save changes'' else ''Create task'')]])"

definition TaskEditorPage ::
  "zod_env \<Rightarrow> (string \<Rightarrow> string) \<Rightarrow> (failure \<Rightarrow> string) \<Rightarrow> (string \<Rightarrow> string) \<Rightarrow> (int \<Rightarrow> string) \<Rightarrow> (string \<Rightarrow> string) \<Rightarrow> view_event element \<Rightarrow>
   editor_data \<Rightarrow> editor_page \<Rightarrow> view_event element" where
  "TaskEditorPage env zod runtime_message t dateTime uid terms d s =
     (let e = ep_editor s in
      if editor_loading d e then LoadingState t (''Loading provider and network capabilities'' @ ellipsis)
      else case editor_error d of
        Some err \<Rightarrow> ErrorState runtime_message t err (Some Retry_Queries) ''Unable to load data''
      | None \<Rightarrow>
          Element ''form'' [(''noValidate'', ''true'')] [(''onSubmit'', Wizard Submit)]
            ([PageHeader t
                (if editing e then ''Edit '' @ (case e_existing e of Some x \<Rightarrow> ti_name x | None \<Rightarrow> ''task'') else ''Create an independent speed test'')
                ''The selected interface and source address are mandatory. MultiSpeed never falls back to another WAN when binding or route validation fails.''
                [Button True [] [] [link_to ''/tasks'' [Icon ''ArrowLeft'', Words ''Back to tasks'']]]] @
             path_warning e @
             [node_of ''div''
                [Card [Element ''ol'' [(''aria-label'', ''Task editor steps'')] [] (map (step_item (e_step e)) (List.enumerate 0 steps))],
                 node_of ''div'' (step_view runtime_message t dateTime uid terms d s @ [step_buttons env zod s])]]))"

subsection \<open>Errors that are shown\<close>

text \<open>The fields for which a step has no place to show an error.\<close>

definition unshown :: "string list" where
  "unshown = [''provider'', ''serverSelectionMode'', ''preventOverlap'']"

definition hidden_fields :: "TaskFormValues \<Rightarrow> string list" where
  "hidden_fields v =
     unshown @
     (if fv_provider v = Cloudflare \<or> fv_serverSelectionMode v \<noteq> Fixed then [''serverId''] else []) @
     (if fv_provider v = Cloudflare \<or> fv_serverSelectionMode v \<noteq> Custom then custom_fields else [])"

lemma Field_error: "error \<noteq> [] \<Longrightarrow> Words error \<in> set (nodes (Field i label hint error isRequired child))"
  by (simp add: Field_def Let_def shown_def)

lemmas card_simps = Card_def CardHeader_def CardTitle_def CardContent_def shown_def

text \<open>What a part shows of the errors it is given: the message of each of its fields.\<close>

definition shows_errors :: "(string \<Rightarrow> string) \<Rightarrow> string list \<Rightarrow> 'a element \<Rightarrow> bool" where
  "shows_errors err ks x \<longleftrightarrow> list_all (\<lambda>k. err k \<noteq> [] \<longrightarrow> Words (err k) \<in> set (nodes x)) ks"

lemma shows_errorsD: "shows_errors err ks x \<Longrightarrow> k \<in> set ks \<Longrightarrow> err k \<noteq> [] \<Longrightarrow> Words (err k) \<in> set (nodes x)"
  by (auto simp: shows_errors_def list_all_iff)

lemma custom_target_errors: "shows_errors err custom_fields (custom_target uid err v)"
  by (simp add: shows_errors_def custom_fields_def custom_target_def custom_field_def Field_error shown_def)

lemma picker_errors: "shows_errors err [''serverId''] (ServerPicker runtime_message t uid err q search v)"
  by (simp add: shows_errors_def ServerPicker_def Let_def Field_error)

lemma binding_errors: "shows_errors err binding_fields (binding_card uid err p interfaces routes showVirtual v)"
  by (simp add: shows_errors_def binding_fields_def binding_card_def card_simps Let_def Field_error)

lemma schedule_errors:
  "shows_errors err (schedule_fields @ [''routeValidation'']) (node_of ''div'' [schedule_card uid err dateTime runs v, guard_card uid err v])"
  by (simp add: shows_errors_def schedule_fields_def schedule_card_def guard_card_def card_simps Field_error)

lemma identity_errors: "shows_errors err identity_fields (IdentityStep uid err terms ps p v)"
  by (simp add: shows_errors_def identity_fields_def IdentityStep_def card_simps Field_error)

lemma target_errors:
  assumes "k \<in> set (''serverId'' # custom_fields)" "k \<notin> set (hidden_fields v)" "err k \<noteq> []"
  shows "Words (err k) \<in> set (nodes (target_card runtime_message t uid err p q search v))"
proof (cases "k = ''serverId''")
  case True
  then have "fv_provider v \<noteq> Cloudflare" "fv_serverSelectionMode v = Fixed"
    using assms(2) by (auto simp: hidden_fields_def split: if_splits)
  then show ?thesis
    using shows_errorsD [OF picker_errors, of k err runtime_message t uid q search v] True assms(3)
    by (simp add: target_card_def card_simps)
next
  case False
  with assms have k: "k \<in> set custom_fields" by simp
  then have "fv_provider v \<noteq> Cloudflare" "fv_serverSelectionMode v = Custom"
    using assms(2) by (auto simp: hidden_fields_def split: if_splits)
  then show ?thesis
    using shows_errorsD [OF custom_target_errors, of k err uid v] k assms(3) by (simp add: target_card_def card_simps)
qed

lemma step_places:
  assumes "k \<in> set (stepFields n)"
  shows "k \<in> set (hidden_fields v) \<or> n = 0 \<and> k \<in> set identity_fields \<or>
    n = 1 \<and> (k \<in> set (''serverId'' # custom_fields) \<or> k \<in> set binding_fields) \<or>
    n = 2 \<and> k \<in> set (schedule_fields @ [''routeValidation''])"
proof -
  have "k \<in> set (hidden_fields v)" if "k \<in> set unshown"
    using that by (simp add: hidden_fields_def)
  moreover have "''provider'' \<in> set unshown" "''serverSelectionMode'' \<in> set unshown" "''preventOverlap'' \<in> set unshown"
    by (simp_all add: unshown_def)
  ultimately show ?thesis
    using assms unfolding stepFields_def by (simp only: set_append list.set split: if_splits) (elim UnE insertE emptyE; simp)+
qed

lemma errors_shown:
  assumes "k \<in> set (stepFields (e_step (ep_editor s)))" "k \<notin> set (hidden_fields (e_form (ep_editor s)))" "ep_error s k \<noteq> []"
  shows "\<exists>x \<in> set (step_view runtime_message t dateTime uid terms d s). Words (ep_error s k) \<in> set (nodes x)"
proof -
  note err = assms(3)
  consider (identity) "e_step (ep_editor s) = 0" "k \<in> set identity_fields"
    | (target) "e_step (ep_editor s) = 1" "k \<in> set (''serverId'' # custom_fields)"
    | (binding) "e_step (ep_editor s) = 1" "k \<in> set binding_fields"
    | (schedule) "e_step (ep_editor s) = 2" "k \<in> set (schedule_fields @ [''routeValidation''])"
    using step_places [OF assms(1), of "e_form (ep_editor s)"] assms(2) by (elim disjE conjE) simp_all
  then show ?thesis
  proof cases
    case identity
    with shows_errorsD [OF identity_errors, of k "ep_error s"] err show ?thesis by (simp add: step_view_def Let_def shown_def)
  next
    case target
    with target_errors [of k "e_form (ep_editor s)" "ep_error s"] assms(2) err show ?thesis by (simp add: step_view_def Let_def shown_def)
  next
    case binding
    with shows_errorsD [OF binding_errors, of k "ep_error s"] err show ?thesis by (simp add: step_view_def Let_def shown_def)
  next
    case schedule
    with shows_errorsD [OF schedule_errors, of k "ep_error s"] err show ?thesis by (simp add: step_view_def Let_def shown_def)
  qed
qed

subsection \<open>Errors that are not shown\<close>

lemma target_automatic:
  assumes "fv_serverSelectionMode v = Automatic"
  shows "target_card runtime_message t uid err p q search v = target_card runtime_message t uid err' p q search v"
  using assms by (simp add: target_card_def shown_def)

lemma binding_same:
  assumes "list_all (\<lambda>k. err k = err' k) binding_fields"
  shows "binding_card uid err p interfaces routes showVirtual v = binding_card uid err' p interfaces routes showVirtual v"
  using assms by (simp add: binding_fields_def binding_card_def Let_def)

lemma field_error_Nil: "k \<notin> fst ` set (form_issues env zod v) \<Longrightarrow> field_error env zod v k = []"
  by (simp add: field_error_def map_of_eq_None_iff [symmetric])

lemma binding_issues:
  assumes "trim (fv_interfaceName v) \<noteq> []" "trim (fv_sourceIp v) \<noteq> []" "k \<in> set binding_fields"
  shows "k \<notin> fst ` set (form_issues env zod v)"
proof -
  have "k \<notin> fst ` set (refinement_issues z_url w)" for z_url w
    using assms(3) by (auto simp: refinement_issues_def issue_def binding_fields_def split: option.splits)
  moreover have "fst ` set (field_issues env zod v) \<subseteq> - set binding_fields"
    unfolding field_issues_def set_append image_Un issue_keys endpoint_issues_keys
    by (intro Un_least) (use assms(1,2) in \<open>simp_all add: binding_fields_def Suc_le_eq\<close>)
  ultimately show ?thesis
    using assms(3) unfolding form_issues_def set_append image_Un by (auto split: if_splits)
qed


definition blocked_form :: TaskFormValues where
  "blocked_form = (picker_form ''eth0'')\<lparr>fv_customDownloadPath := ''/garbage.php''\<rparr>"

definition blocked_page :: editor_page where
  "blocked_page = \<lparr>ep_editor = (editor_init None blocked_form)\<lparr>e_step := 1\<rparr>, ep_error = \<lambda>_. [], ep_showVirtual = False,
     ep_cronRuns = [], ep_search = [],
     ep_discovery = \<lparr>dq_data = None, dq_error = None, dq_isFetching = False, dq_isFetched = False\<rparr>,
     ep_routePending = False, ep_savePending = False\<rparr>"

definition lenient :: zod_env where
  "lenient = \<lparr>zone_known = \<lambda>_. True, url_resolves = \<lambda>_. True, http_url = Some\<rparr>"

definition blocked_data :: editor_data where
  "blocked_data = \<lparr>ed_task = \<lparr>qu_isLoading = False, qu_error = None, qu_data = None\<rparr>,
     ed_interfaces = \<lparr>qu_isLoading = False, qu_error = None, qu_data = Some []\<rparr>,
     ed_routes = \<lparr>qu_isLoading = False, qu_error = None, qu_data = Some []\<rparr>,
     ed_providers = \<lparr>qu_isLoading = False, qu_error = None, qu_data = None\<rparr>,
     ed_settings = \<lparr>qu_isLoading = False, qu_error = None, qu_data = None\<rparr>\<rparr>"

lemma blocked_endpoint: "customEndpointSchema (url_resolves lenient) (fv_customDownloadPath blocked_form) = None"
proof -
  have "customEndpointSchema (\<lambda>_. True) ''/garbage.php'' = None" by code_simp
  then show ?thesis by (simp add: lenient_def blocked_form_def)
qed


theorem wizard_complete_witness:
  "\<not> (\<forall>n < last_step. e_step (nextStep lenient (\<lambda>_. ''Invalid input'') ((ep_editor blocked_page)\<lparr>e_step := n\<rparr>)) = n + 1)"
  unfolding wizard_complete using blocked_endpoint
  by (simp add: taskSchema_def fields_ok_def blocked_page_def editor_init_def)

subsection \<open>Labels\<close>

text \<open>Every label of a tree names a control in it, by the name of the component or of the element.\<close>

fun control :: "'a element \<Rightarrow> bool" where
  "control (Element tag ps hs cs) \<longleftrightarrow> tag \<in> {''Input'', ''Textarea'', ''NativeSelect''}"
| "control _ \<longleftrightarrow> False"

abbreviation label_targets :: "'a element \<Rightarrow> string list" where
  "label_targets \<equiv> gather (prop_values ''htmlFor'')"

definition labelled :: "'a element \<Rightarrow> bool" where
  "labelled x \<longleftrightarrow> (\<forall>i \<in> set (label_targets x). \<exists>c \<in> set (nodes x). control c \<and> get_prop ''id'' c = Some i)"

lemma labelled_leaf [simp]: "labelled (Words w)" "labelled (Icon i)"
  by (simp_all add: labelled_def)

lemma labelled_Element [simp]: "map_of ps ''htmlFor'' = None \<Longrightarrow> list_all labelled cs \<Longrightarrow> labelled (Element tag ps hs cs)"
  by (fastforce simp: labelled_def gather_Element list_all_iff)

lemma labelled_Field:
  assumes "control child" "map_of ps ''id'' = None" "map_of ps ''htmlFor'' = None" "child = Element tag ps hs cs"
    and "list_all (\<lambda>c. label_targets c = []) cs"
  shows "labelled (Field i label hint error isRequired child)"
proof -
  let ?c = "field_control i hint error isRequired child"
  have child: "get_prop k child = map_of ps k" for k using assms(4) by simp
  then have c: "control_id i child = i" using assms(2) by (simp add: control_id_def)
  have id: "get_prop ''id'' ?c = Some i"
    by (simp add: field_prop [OF assms(4)] accessibleProps_def c)
  have "control ?c" using assms(1,4) by (simp add: field_control_def)
  moreover have "get_prop ''htmlFor'' ?c = None"
    using assms(3) by (simp add: field_prop [OF assms(4)] accessibleProps_def child)
  then have "label_targets ?c = []"
    using assms(4,5) by (simp add: field_control_def gather_Element list_all_iff)
  ultimately show ?thesis
    using id by (cases ?c) (auto simp: labelled_def Field_def Label_def Let_def gather_Element concat_map_shown c)
qed

lemma labelled_control [simp]:
  "tag \<in> {''Input'', ''Textarea'', ''NativeSelect''} \<Longrightarrow> map_of ps ''id'' = None \<Longrightarrow> map_of ps ''htmlFor'' = None \<Longrightarrow>
   list_all (\<lambda>c. label_targets c = []) cs \<Longrightarrow> labelled (Field i label hint error isRequired (Element tag ps hs cs))"
  by (rule labelled_Field [OF _ _ _ refl]) simp_all

lemma labelled_rendered:
  assumes "labelled x" "i \<in> set (label_targets (render_controls x))"
  shows "\<exists>n \<in> set (nodes (render_controls x)). native_control n \<and> get_prop ''id'' n = Some i"
proof -
  obtain c where c: "c \<in> set (nodes x)" "control c" "get_prop ''id'' c = Some i"
    using assms by (auto simp: labelled_def rendered_props)
  have "\<exists>n \<in> set (nodes (render_controls c)). native_control n \<and> get_prop ''id'' n = Some i"
    using c(2,3) by (cases c) (auto simp: Let_def Input_def Textarea_def NativeSelect_def)
  then show ?thesis using rendered_nodes [OF c(1)] by blast
qed

lemma plain_options:
  "label_targets (option_of value label) = []" "label_targets (route_choice v r) = []"
  by (simp_all add: option_of_def route_choice_def gather_Element disabled_prop_def)

lemma labelled_parts [simp]:
  "labelled (CheckField checked onChange label description isDisabled)"
  "labelled (provider_button v p)" "labelled (ServerOption server selected)" "labelled (mode_button v mode)"
  "labelled (preset_button item)" "labelled (run_item dateTime x)" "labelled (warning_box message)"
  by (auto simp: CheckField_def Switch_def provider_button_def ServerOption_def mode_button_def preset_button_def
      run_item_def warning_box_def Badge_def StatusDot_def bool_prop_def disabled_prop_def shown_def split: prod.splits)

lemmas label_simps = card_simps register_def plain_options list_all_iff disabled_prop_def

lemma labelled_custom: "labelled (custom_field uid err k label hint example)" "labelled (custom_target uid err v)"
proof -
  show field: "labelled (custom_field uid err k label hint example)" for k label hint example
    by (simp add: custom_field_def register_def)
  show "labelled (custom_target uid err v)"
    unfolding custom_target_def by (simp add: field register_def shown_def)
qed

lemma labelled_cards:
  "labelled terms \<Longrightarrow> labelled (IdentityStep uid err terms ps p v)"
  "fv_provider v = Cloudflare \<or> fv_serverSelectionMode v \<noteq> Fixed \<Longrightarrow> labelled (target_card runtime_message t uid err p q search v)"
  "labelled (binding_card uid err p interfaces routes showVirtual v)"
  "labelled (schedule_card uid err dateTime runs v)"
  "labelled (guard_card uid err v)"
  subgoal by (simp add: IdentityStep_def label_simps split: option.split)
  subgoal by (cases "fv_provider v = Cloudflare") (simp_all add: target_card_def label_simps labelled_custom)
  subgoal by (simp add: binding_card_def label_simps Let_def)
  subgoal by (simp add: schedule_card_def label_simps)
  subgoal by (simp add: guard_card_def label_simps)
  done

text \<open>
  On the first three steps, every label leads to a control: the element it names is an input, a text area
  or a select of the rendered page. The server picker is the exception.
\<close>

theorem labels_reach_controls:
  assumes "x \<in> set (step_view runtime_message t dateTime uid terms d s)" "labelled terms"
    and "e_step (ep_editor s) < 3"
    and "fv_provider (e_form (ep_editor s)) = Cloudflare \<or> fv_serverSelectionMode (e_form (ep_editor s)) \<noteq> Fixed"
    and "i \<in> set (label_targets (render_controls x))"
  shows "\<exists>n \<in> set (nodes (render_controls x)). native_control n \<and> get_prop ''id'' n = Some i"
proof (rule labelled_rendered [OF _ assms(5)])
  show "labelled x"
    using assms(1,3) labelled_cards(1) [OF assms(2)] labelled_cards(2) [OF assms(4)] labelled_cards(3-5)
    by (auto simp: step_view_def Let_def shown_def split: if_splits)
qed

lemma native_ids_rendered:
  "gather (\<lambda>n. if native_control n then prop_values ''id'' n else []) (render_controls x) =
   gather (\<lambda>n. if control n \<or> native_control n then prop_values ''id'' n else []) x"
proof (induction x rule: nodes.induct)
  case (1 tag ps hs cs)
  then have "map (gather (\<lambda>n. if native_control n then prop_values ''id'' n else []) \<circ> render_controls) cs =
      map (gather (\<lambda>n. if control n \<or> native_control n then prop_values ''id'' n else [])) cs" by simp
  then show ?case
    by (simp add: gather_Element Let_def Input_def Textarea_def NativeSelect_def del: map_eq_conv)
qed simp_all

text \<open>
  The label of the server picker names the frame of its controls, not one of them: the identifier is
  given to a \<open>div\<close>, and no control of the picker has one.
\<close>

lemma picker_label_lost:
  "uid ''serverId'' \<in> set (label_targets (render_controls (ServerPicker runtime_message t uid err q search v))) \<and>
   gather (\<lambda>n. if native_control n then prop_values ''id'' n else [])
     (render_controls (ServerPicker runtime_message t uid err q search v)) = []"
proof
  show "uid ''serverId'' \<in> set (label_targets (render_controls (ServerPicker runtime_message t uid err q search v)))"
    by (simp add: rendered_props) (simp add: ServerPicker_def Field_def Label_def Let_def control_id_def gather_Element)
  let ?f = "\<lambda>n. if control n \<or> native_control n then prop_values ''id'' n else []"
  have rows: "gather ?f (ServerOption server selected) = []" for server selected
    by (simp add: ServerOption_def gather_Element bool_prop_def)
  have clone: "gather ?f (field_control i hint e r (node_of ''div'' cs)) = concat (map (gather ?f) cs)" for i hint e r cs
    by (simp add: field_control_def gather_Element)
  show "gather (\<lambda>n. if native_control n then prop_values ''id'' n else [])
      (render_controls (ServerPicker runtime_message t uid err q search v)) = []"
    unfolding native_ids_rendered
    by (cases "dq_error q") (simp_all add: ServerPicker_def Field_def Label_def Let_def clone rows view_simps shown_def
        disabled_prop_def comp_def)
qed

end
