(* ===== verification/Frame.thy ===== *)
theory Frame
  imports Shell Widgets
begin

text \<open>
  What \<open>components/layout/AppShell.tsx\<close> renders around every page, and its state: the theme and the language
  with their own machines, the state of the event stream, the address, and whether the menu of small
  screens is open. The en dash (code unit 8211) is outside the modelled range and stands as its name.
\<close>

datatype frame_event = Frame_Theme theme_mode | Frame_Language language | Frame_Menu bool | Frame_Path string
  | Frame_Stream StreamState | Frame_System_Scheme bool

record frame =
  fr_browser :: browser
  fr_i18n :: i18n
  fr_stream :: StreamState
  fr_mobileOpen :: bool
  fr_pathname :: string

fun frame_step :: "frame \<Rightarrow> frame_event \<Rightarrow> frame" where
  "frame_step s (Frame_Theme mode) = s\<lparr>fr_browser := theme_step (fr_browser s) (Set_Theme mode)\<rparr>"
| "frame_step s (Frame_Language l) = s\<lparr>fr_i18n := set_language l (fr_i18n s)\<rparr>"
| "frame_step s (Frame_Menu b) = s\<lparr>fr_mobileOpen := b\<rparr>"
| "frame_step s (Frame_Path p) = s\<lparr>fr_pathname := p\<rparr>"
| "frame_step s (Frame_Stream st) = s\<lparr>fr_stream := st\<rparr>"
| "frame_step s (Frame_System_Scheme dark) = s\<lparr>fr_browser := theme_step (fr_browser s) (System_Changed dark)\<rparr>"

definition frame_init :: "browser \<Rightarrow> string option \<Rightarrow> string \<Rightarrow> string \<Rightarrow> frame" where
  "frame_init b storedLanguage lang pathname =
     \<lparr>fr_browser = mount b, fr_i18n = i18n_mount storedLanguage lang, fr_stream = Connecting, fr_mobileOpen = False,
      fr_pathname = pathname\<rparr>"

subsection \<open>Parts\<close>

definition Brand :: "(string \<Rightarrow> string) \<Rightarrow> frame_event element" where
  "Brand t =
     Element ''NavLink'' [(''to'', ''/''), (''title'', t ''Dashboard'')] []
       [node_of ''span'' [Element ''span'' [(''aria-hidden'', ''true'')] [] (replicate 4 (node_of ''span'' []))],
        node_of ''span'' [node_of ''span'' [Words ''MultiSpeed''], node_of ''span'' [Words (t ''Path telemetry'')]]]"

definition navigation_icons :: "string list" where
  "navigation_icons = [''Gauge'', ''ListChecks'', ''Activity'', ''BarChart3'', ''Columns3'', ''Network'', ''Settings'', ''Info'']"

definition Navigation :: "(string \<Rightarrow> string) \<Rightarrow> frame_event option \<Rightarrow> frame_event element" where
  "Navigation t onNavigate =
     Element ''nav'' [(''aria-label'', t ''Navigation'')] []
       (map (\<lambda>(item, icon).
          Element ''NavLink'' [(''to'', nv_href item), (''end'', if nv_href item = ''/'' then ''true'' else ''false'')]
            (case onNavigate of Some e \<Rightarrow> [(''onClick'', e)] | None \<Rightarrow> [])
            [Icon icon, node_of ''span'' [node_of ''span'' [Words (t (nv_label item))], node_of ''span'' [Words (t (nv_subtitle item))]]])
        (zip navigation navigation_icons))"

definition pressed_prop :: "bool \<Rightarrow> string \<times> string" where
  "pressed_prop b = (''aria-pressed'', if b then ''true'' else ''false'')"

fun theme_icon :: "theme_mode \<Rightarrow> string" where
  "theme_icon Light = ''Sun''"
| "theme_icon Dark = ''Moon''"
| "theme_icon System = ''Activity''"

definition ThemeControl :: "(string \<Rightarrow> string) \<Rightarrow> theme_mode \<Rightarrow> frame_event element" where
  "ThemeControl t mode =
     Element ''div'' [(''aria-label'', t ''Color theme'')] []
       (map (\<lambda>(value, label).
          Element ''button'' [(''type'', ''button''), (''aria-label'', t label), pressed_prop (mode = value)]
            [(''onClick'', Frame_Theme value)] [Icon (theme_icon value)]) theme_options)"

definition ConnectionBadge :: "(string \<Rightarrow> string) \<Rightarrow> StreamState \<Rightarrow> frame_event element" where
  "ConnectionBadge t state =
     Element ''div'' [(''title'', t ''Server-sent events connection'')] []
       [node_of ''span'' (shown (state = Connected) (node_of ''span'' [])), Words (t (snd (connection_badge state)))]"

fun language_upper :: "language \<Rightarrow> string" where
  "language_upper En = ''EN''"
| "language_upper De = ''DE''"

definition LanguageControl :: "(string \<Rightarrow> string) \<Rightarrow> language \<Rightarrow> frame_event element" where
  "LanguageControl t current =
     Element ''div'' [(''aria-label'', t ''Language'')] []
       (map (\<lambda>value.
          Element ''button''
            [(''type'', ''button''),
             (''aria-label'', language_upper value @ '' '' @ en_dash @ '' '' @ (if value = En then t ''English'' else t ''German'')),
             pressed_prop (current = value)]
            [(''onClick'', Frame_Language value)] [Words (language_upper value)]) [En, De])"

subsection \<open>The frame\<close>

definition trademark_notice :: string where
  "trademark_notice =
     ''Cloudflare'' @ [CHR 0xAE] @ '' is a trademark of Cloudflare, Inc. Ookla'' @ [CHR 0xAE] @ '' and Speedtest'' @ [CHR 0xAE] @
     '' are registered trademarks of Ookla, LLC. MultiSpeed is an independent project and is not affiliated with, endorsed by, or sponsored by either company.''"

definition mobile_menu :: "(string \<Rightarrow> string) \<Rightarrow> frame \<Rightarrow> frame_event element" where
  "mobile_menu t s =
     Element ''DialogPrimitive.Root'' [(''open'', if fr_mobileOpen s then ''true'' else ''false'')]
       [(''onOpenChange'', Frame_Menu (\<not> fr_mobileOpen s))]
       [node_of ''DialogPrimitive.Trigger'' [Button False [(''aria-label'', t ''Open navigation'')] [] [Icon ''Menu'']],
        node_of ''DialogPrimitive.Portal''
          [node_of ''DialogPrimitive.Overlay'' [],
           node_of ''DialogPrimitive.Content''
             [node_of ''DialogPrimitive.Title'' [Words (t ''Navigation'')],
              node_of ''DialogPrimitive.Description'' [Words (t ''Navigate between MultiSpeed screens'')],
              node_of ''div'' [Brand t, node_of ''DialogPrimitive.Close''
                [Button False [(''aria-label'', t ''Close navigation'')] [] [Icon ''X'']]],
              node_of ''div'' [Navigation t (Some (Frame_Menu False))],
              node_of ''div'' [ConnectionBadge t (fr_stream s), ThemeControl t (br_theme (fr_browser s)),
                LanguageControl t (in_language (fr_i18n s))]]]]"

definition AppShell :: "frame \<Rightarrow> frame_event element list \<Rightarrow> frame_event element" where
  "AppShell s children =
     (let t = (\<lambda>english. translate (in_language (fr_i18n s)) english None); m = meta (fr_pathname s) in
      node_of ''div''
        [node_of ''aside''
           [Brand t, node_of ''div'' [Navigation t None],
            node_of ''div'' [ConnectionBadge t (fr_stream s), ThemeControl t (br_theme (fr_browser s)),
              LanguageControl t (in_language (fr_i18n s)),
              node_of ''p'' [Words (t ''No authentication. Keep this console on a trusted network.'')]]],
         node_of ''div''
           [node_of ''header''
              [node_of ''div''
                 [mobile_menu t s,
                  node_of ''div'' [node_of ''p'' [Words (t (pm_eyebrow m))], node_of ''h1'' [Words (t (pm_title m))]],
                  node_of ''div'' [ConnectionBadge t (fr_stream s)]]],
            node_of ''main'' [Element ''div'' [(''aria-hidden'', ''true'')] [] [], node_of ''div'' children],
            node_of ''footer'' [Words (t trademark_notice)]]])"

subsection \<open>Properties\<close>

definition frame_inv :: "frame \<Rightarrow> bool" where
  "frame_inv s \<longleftrightarrow> theme_inv (fr_browser s) \<and> i18n_inv (fr_i18n s)"

interpretation frame: machine frame_step frame_inv
proof
  show "frame_inv (frame_step s e)" if "frame_inv s" for s e
    using that theme.step_inv i18n.step_inv by (cases e) (auto simp: frame_inv_def simp del: theme_step.simps)
qed

lemma frame_inv_init: "frame_inv (frame_init (boot stored dark color) storedLanguage lang pathname)"
  using theme_inv_mount by (simp add: frame_inv_def frame_init_def i18n_mount_def i18n_inv_def set_language_def)

lemmas frame_parts = Brand_def ConnectionBadge_def mobile_menu_def gather_Element concat_map_shown Button_def

lemma pressed_theme: "gather pressed_of (ThemeControl t mode) = [Frame_Theme mode]"
  by (cases mode) (simp_all add: ThemeControl_def theme_options_def gather_Element pressed_prop_def)

lemma pressed_language: "gather pressed_of (LanguageControl t l) = [Frame_Language l]"
  by (cases l) (simp_all add: LanguageControl_def gather_Element pressed_prop_def)

lemma gather_navigation:
  "gather f (Navigation t onNavigate) = f (Navigation t onNavigate) @
     concat (map (gather f) (map (\<lambda>(item, icon).
          Element ''NavLink'' [(''to'', nv_href item), (''end'', if nv_href item = ''/'' then ''true'' else ''false'')]
            (case onNavigate of Some e \<Rightarrow> [(''onClick'', e)] | None \<Rightarrow> [])
            [Icon icon, node_of ''span'' [node_of ''span'' [Words (t (nv_label item))], node_of ''span'' [Words (t (nv_subtitle item))]]])
        (zip navigation navigation_icons)))"
  by (simp add: Navigation_def gather_Element)

lemma pressed_navigation: "gather pressed_of (Navigation t e) = []"
  by (auto simp: gather_navigation gather_Element) (simp add: Navigation_def)


text \<open>
  In the menu of small screens every entry of the navigation closes the menu when it is followed; the
  brand above it leads to the dashboard too, but has no handler and leaves the menu open.
\<close>

lemma menu_entries_close: "set (clicks (Navigation t (Some e))) = {e}"
  by (simp add: gather_navigation gather_Element navigation_def navigation_icons_def) (simp add: Navigation_def)

lemma brand_leaves_menu: "links (Brand t) = [''/''] \<and> clicks (Brand t) = []"
  by (simp add: Brand_def gather_Element)

end
