(* ===== verification/Dashboard.thy ===== *)
theory Dashboard
  imports Widgets Analytics Shell
begin

text \<open>
  The page of \<open>pages/DashboardPage.tsx\<close>: its state, the loading, error and content views, and every card
  and row of the content. The answers of the five queries are arguments. \<open>t\<close> translates, \<open>relative\<close> is
  \<open>formatRelative\<close>, whose distance in words is the date library's, \<open>dateTime\<close> is \<open>formatDateTime\<close> in the
  zone of the settings, \<open>collate\<close> is \<open>localeCompare\<close>.
\<close>

record result_summary =
  rs_id :: string
  rs_taskId :: string
  rs_status :: result_status
  rs_selectedInterface :: string
  rs_detectedPublicIp :: string
  rs_download :: "js_number option"
  rs_upload :: "js_number option"
  rs_latency :: "js_number option"
  rs_finishedAt :: "string option"
  rs_sanitizedError :: string

record dashboard_entry =
  de_taskId :: string
  de_taskName :: string
  de_interfaceName :: string
  de_sourceIp :: string
  de_latestResult :: "result_summary option"

record dashboard_summary =
  ds_activeRuns :: "result_summary list"
  ds_recentFailures :: "result_summary list"
  ds_failedTaskCount :: int
  ds_latestByTask :: "dashboard_entry list"

record path_interface =
  ni_name :: string
  ni_operational :: bool
  ni_operationalState :: string
  ni_addresses :: "(string \<times> bool) list"

record dashboard_data =
  dd_tasks :: "task list query"
  dd_summary :: "dashboard_summary query"
  dd_interfaces :: "path_interface list query"
  dd_chart :: "StatisticsSeries list option query"
  dd_settings :: "unit query"
  dd_displayUnits :: display_units
  dd_defaultChartRange :: string

record dashboard_page =
  db_rangeOverride :: "(string \<times> int) option"
  db_asOf :: int

text \<open>A click on a range also takes the time; retrying repeats the failed queries.\<close>

datatype dashboard_event = Choose_Range "string \<times> int" | Retry_All | Retry_Chart

fun dashboard_step :: "int \<Rightarrow> dashboard_page \<Rightarrow> dashboard_event \<Rightarrow> dashboard_page" where
  "dashboard_step now s (Choose_Range item) = s\<lparr>db_rangeOverride := Some item, db_asOf := now\<rparr>"
| "dashboard_step now s _ = s"

definition page_range :: "dashboard_data \<Rightarrow> dashboard_page \<Rightarrow> string \<times> int" where
  "page_range d s = dashboard_range (db_rangeOverride s) (dd_defaultChartRange d)"

definition dashboard_request :: "string \<Rightarrow> dashboard_data \<Rightarrow> dashboard_page \<Rightarrow> params" where
  "dashboard_request zone d s = chartParams zone (page_range d s) (db_asOf s)"

subsection \<open>Texts\<close>

definition plural :: "int \<Rightarrow> string" where
  "plural n = (if n = 1 then [] else ''s'')"

definition task_by_id :: "task list \<Rightarrow> string \<Rightarrow> task option" where
  "task_by_id tasks i = find (\<lambda>x. t_id x = i) tasks"

subsection \<open>Cards and rows\<close>

definition metric_cards ::
  "(string option \<Rightarrow> string) \<Rightarrow> display_units \<Rightarrow> task list \<Rightarrow> nat \<Rightarrow> int \<Rightarrow> (string \<times> string \<times> StatisticBucket) option \<Rightarrow>
   'a element list" where
  "metric_cards relative units tasks enabled failed latest =
     (let measured = Option.bind latest (\<lambda>(taskId, _). task_by_id tasks taskId);
          bucket = map_option (\<lambda>(_, _, b). b) latest;
          metric = (\<lambda>f. map_option Fin (average_of f bucket))
      in [MetricCard ''Latest download'' (formatBitrate (metric sb_download) False units)
            (case latest of
               Some (_, name, b) \<Rightarrow>
                 (case measured of Some x \<Rightarrow> ti_interfaceName x | None \<Rightarrow> name) @ dot_sep @ relative (Some (bucketKey b))
             | None \<Rightarrow> ''Waiting for a successful test'') ''ArrowDown'' None,
          MetricCard ''Latest upload'' (formatBitrate (metric sb_upload) False units)
            (case measured of Some x \<Rightarrow> ti_name x | None \<Rightarrow> ''No measurement available'') ''ArrowUp'' None,
          MetricCard ''Current latency'' (formatMilliseconds (metric sb_latency))
            (case measured of Some x \<Rightarrow> provider_name (ti_provider x) @ '' methodology'' | None \<Rightarrow> ''No measurement available'')
            ''Gauge'' None,
          MetricCard ''Task health'' (nat_string enabled @ '' enabled'')
            (if failed \<noteq> 0 then int_string failed @ '' task'' @ plural failed @ '' currently have a failed latest result''
             else ''No task has a failed latest result'')
            (if failed \<noteq> 0 then ''CircleAlert'' else ''Activity'') None])"

definition RunningStrip :: "result_summary list \<Rightarrow> 'a element" where
  "RunningStrip results =
     node_of ''div''
       [Element ''div'' [(''aria-hidden'', ''true'')] [] (replicate 4 (node_of ''span'' [])),
        node_of ''div''
          [node_of ''p'' [Words (nat_string (length results) @ '' test'' @ plural (int (length results)) @ '' active'')],
           node_of ''p'' [Words (join ''  /  '' (map (\<lambda>r.
             or_else (rs_selectedInterface r) ''pending interface'' @ dot_sep @ status_name (rs_status r)) results))]],
        Button True [] [] [link_to ''/results?status=running'' [Icon ''Radio'', Words ''Follow live'']]]"

definition LatestPathRow :: "display_units \<Rightarrow> dashboard_entry \<Rightarrow> task option \<Rightarrow> 'a element" where
  "LatestPathRow units entry task =
     (let result = de_latestResult entry;
          href = (case result of Some r \<Rightarrow> ''/results/'' @ rs_id r | None \<Rightarrow> ''/tasks/'' @ de_taskId entry @ ''/edit'');
          cell = (\<lambda>label value. [node_of ''p'' [Words label], node_of ''p'' [Words value]])
      in link_to href
        [node_of ''div''
           [node_of ''div'' ([Icon ''Router'', node_of ''p'' [Words (de_taskName entry)]] @
              (case task of Some x \<Rightarrow> [ProviderBadge (ti_provider x)] | None \<Rightarrow> [])),
            node_of ''p'' [Words (de_interfaceName entry @ dot_sep @ de_sourceIp entry @
              (case result of Some r \<Rightarrow> if rs_detectedPublicIp r \<noteq> [] then dot_sep @ rs_detectedPublicIp r else [] | None \<Rightarrow> []))]],
         node_of ''div'' (cell ''Download'' (formatBitrate (Option.bind result rs_download) False units)),
         node_of ''div'' (cell ''Upload'' (formatBitrate (Option.bind result rs_upload) False units)),
         node_of ''div''
           [node_of ''div'' (cell ''Latency'' (formatMilliseconds (Option.bind result rs_latency))),
            (case result of Some r \<Rightarrow> ResultStatusBadge (rs_status r) | None \<Rightarrow> Badge [Words ''Never run''])]])"

definition interface_row :: "path_interface \<Rightarrow> 'a element" where
  "interface_row item =
     node_of ''div''
       [node_of ''span'' [Icon ''Network''],
        node_of ''div''
          [node_of ''div''
             [node_of ''p'' [Words (ni_name item)],
              Badge [StatusDot, Words (or_else (ni_operationalState item) (if ni_operational item then ''Up'' else ''Down''))]],
           node_of ''p'' [Words (or_else (join dot_sep (map fst (filter (\<lambda>(_, linkLocal). \<not> linkLocal) (ni_addresses item))))
             ''No routable address'')]]]"

definition next_row :: "(string option \<Rightarrow> string) \<Rightarrow> task \<Rightarrow> 'a element" where
  "next_row dateTime x =
     link_to (''/tasks/'' @ t_id x @ ''/edit'')
       [Icon ''CalendarClock'',
        node_of ''div'' [node_of ''p'' [Words (ti_name x)],
          node_of ''p'' [Words (dateTime (t_nextScheduledAt x) @ dot_sep @ ti_timezone x)]],
        ProviderBadge (ti_provider x)]"

definition failure_row :: "(string option \<Rightarrow> string) \<Rightarrow> task list \<Rightarrow> result_summary \<Rightarrow> 'a element" where
  "failure_row relative tasks r =
     link_to (''/results/'' @ rs_id r)
       [node_of ''div'' [node_of ''p'' [Words (case task_by_id tasks (rs_taskId r) of Some x \<Rightarrow> ti_name x | None \<Rightarrow> ''Deleted task'')],
          node_of ''span'' [Words (relative (rs_finishedAt r))]],
        node_of ''p'' [Words (or_else (rs_sanitizedError r) ''The provider did not complete the measurement.'')]]"

definition range_button :: "string \<times> int \<Rightarrow> string \<times> int \<Rightarrow> dashboard_event element" where
  "range_button current item =
     Element ''button''
       [(''type'', ''button''), (''aria-pressed'', if fst current = fst item then ''true'' else ''false'')]
       [(''onClick'', Choose_Range item)] [Words (fst item)]"

subsection \<open>The page\<close>

definition chart_card ::
  "(failure \<Rightarrow> string) \<Rightarrow> (string \<Rightarrow> string) \<Rightarrow> dashboard_data \<Rightarrow> dashboard_page \<Rightarrow> dashboard_event element" where
  "chart_card runtime_message t d s =
     Card
       [CardHeader
          [node_of ''div'' [CardTitle [Words ''Throughput timeline''], node_of ''p'' [Words ''Successful measurements by provider and path'']],
           Element ''div'' [(''aria-label'', ''Chart range'')] [] (map (range_button (page_range d s)) ranges)],
        CardContent
          [case qu_error (dd_chart d) of
             Some e \<Rightarrow> ErrorState runtime_message t e (Some Retry_Chart) ''Throughput range is too large''
           | None \<Rightarrow>
               if (case Option.bind (qu_data (dd_chart d)) id of
                     Some series \<Rightarrow> list_ex (\<lambda>e. ss_buckets e \<noteq> []) series | None \<Rightarrow> False)
               then Element ''EChart'' [(''ariaLabel'', ''Download and upload throughput over '' @ fst (page_range d s))] [] []
               else EmptyState t None ''No throughput in this range''
                 ''Successful tests will appear here as soon as a task completes.'' []]]"

definition readiness_card :: "(string \<Rightarrow> string) \<Rightarrow> path_interface list \<Rightarrow> 'a element" where
  "readiness_card t interfaces =
     Card
       [CardHeader [CardTitle [Words ''Network readiness''], node_of ''p'' [Words ''Interfaces visible in the active Linux namespace'']],
        CardContent
          ((if interfaces = [] then [EmptyState t None ''No interfaces detected'' ''Refresh interface discovery from Network & routes.'' []]
            else map interface_row (take 6 interfaces)) @
           [Button True [] [] [link_to ''/network'' [Words ''Inspect network paths'']]])]"

definition latest_section :: "(string \<Rightarrow> string) \<Rightarrow> display_units \<Rightarrow> task list \<Rightarrow> dashboard_entry list \<Rightarrow> 'a element" where
  "latest_section t units tasks latestByTask =
     node_of ''section''
       [SectionHeader t ''Latest by task and WAN'' ''The newest state for every configured path, including tasks that have never run'' [],
        Card
          [if latestByTask = []
           then EmptyState t None ''No configured measurement paths''
             ''Create a task, validate its path, and run it to establish the first baseline.''
             [Button True [] [] [link_to ''/tasks/new'' [Words ''Create a task'']]]
           else node_of ''div'' (map (\<lambda>e. LatestPathRow units e (task_by_id tasks (de_taskId e))) latestByTask)]]"

definition next_section :: "(string \<Rightarrow> string) \<Rightarrow> (string option \<Rightarrow> string) \<Rightarrow> task list \<Rightarrow> 'a element" where
  "next_section t dateTime next =
     node_of ''section''
       [SectionHeader t ''Next scheduled'' ''Upcoming persisted schedules'' [],
        Card
          [if next = [] then EmptyState t None ''Nothing scheduled'' ''Enable a task to calculate its next run.'' []
           else node_of ''div'' (map (next_row dateTime) next)]]"

definition failures_section ::
  "(string \<Rightarrow> string) \<Rightarrow> (string option \<Rightarrow> string) \<Rightarrow> task list \<Rightarrow> result_summary list \<Rightarrow> 'a element" where
  "failures_section t relative tasks failures =
     node_of ''section''
       [SectionHeader t ''Recent failures'' ''Actionable path and provider errors'' [],
        Card
          [if failures = [] then EmptyState t None ''No recent failures'' ''All tests in this range completed without a hard failure.'' []
           else node_of ''div'' (map (failure_row relative tasks) (take 5 failures))]]"

definition first_error :: "dashboard_data \<Rightarrow> failure option" where
  "first_error d = first_some [qu_error (dd_tasks d), qu_error (dd_summary d), qu_error (dd_interfaces d), qu_error (dd_settings d)]"

definition dashboard_loading :: "dashboard_data \<Rightarrow> bool" where
  "dashboard_loading d \<longleftrightarrow>
     qu_isLoading (dd_tasks d) \<or> qu_isLoading (dd_summary d) \<or> qu_isLoading (dd_interfaces d) \<or> qu_isLoading (dd_chart d) \<or>
     qu_isLoading (dd_settings d)"

definition DashboardPage ::
  "(failure \<Rightarrow> string) \<Rightarrow> (string \<Rightarrow> string) \<Rightarrow> (string option \<Rightarrow> string) \<Rightarrow> (string option \<Rightarrow> string) \<Rightarrow> (string \<Rightarrow> string \<Rightarrow> int) \<Rightarrow>
   dashboard_data \<Rightarrow> dashboard_page \<Rightarrow> dashboard_event element list" where
  "DashboardPage runtime_message t relative dateTime collate d s =
     (if dashboard_loading d then [LoadingState t (''Assembling the live operations view'' @ ellipsis)]
      else case first_error d of
        Some e \<Rightarrow> [ErrorState runtime_message t e (Some Retry_All) ''Unable to load data'']
      | None \<Rightarrow>
          let tasks = or_list (qu_data (dd_tasks d)); summary = qu_data (dd_summary d);
              running = or_list (map_option ds_activeRuns summary); failures = or_list (map_option ds_recentFailures summary);
              failed = (case summary of Some x \<Rightarrow> ds_failedTaskCount x | None \<Rightarrow> 0);
              latestByTask = or_list (map_option ds_latestByTask summary);
              latest = latestSuccessfulMeasurement collate (Option.bind (qu_data (dd_chart d)) id)
          in [PageHeader t ''Every WAN, one operational picture.''
                ''Live throughput, route integrity, and scheduled measurements across every configured network path.''
                [Button True [] [] [link_to ''/tasks/new'' [Icon ''Plus'', Words ''New task'']]],
              node_of ''div'' (metric_cards relative (dd_displayUnits d) tasks (length (filter ti_enabled tasks)) failed latest)] @
             shown (running \<noteq> []) (RunningStrip running) @
             [node_of ''div'' [chart_card runtime_message t d s, readiness_card t (or_list (qu_data (dd_interfaces d)))],
              node_of ''div''
                [latest_section t (dd_displayUnits d) tasks latestByTask,
                 node_of ''div'' [next_section t dateTime (nextTasks collate tasks), failures_section t relative tasks failures]]])"

subsection \<open>Links and buttons\<close>

text \<open>What each part contributes; \<open>f\<close> collects addresses or pressed buttons.\<close>

lemma metric_cards_plain:
  "concat (map links (metric_cards relative units tasks enabled failed latest)) = []"
  "concat (map (gather pressed_of) (metric_cards relative units tasks enabled failed latest)) = []"
  by (simp_all add: metric_cards_def Let_def view_simps)

lemma row_links:
  "links (RunningStrip results) = [''/results?status=running'']"
  "links (LatestPathRow units entry x) =
     [case de_latestResult entry of Some r \<Rightarrow> ''/results/'' @ rs_id r | None \<Rightarrow> ''/tasks/'' @ de_taskId entry @ ''/edit'']"
  "links (interface_row item) = []"
  "links (next_row dateTime y) = [''/tasks/'' @ t_id y @ ''/edit'']"
  "links (failure_row relative tasks r) = [''/results/'' @ rs_id r]"
  by (auto simp: RunningStrip_def LatestPathRow_def interface_row_def next_row_def failure_row_def Let_def view_simps
      split: option.splits)

lemma row_pressed:
  "gather pressed_of (RunningStrip results) = []" "gather pressed_of (LatestPathRow units entry x) = []"
  "gather pressed_of (interface_row item) = []" "gather pressed_of (next_row dateTime y) = []"
  "gather pressed_of (failure_row relative tasks r) = []"
  by (auto simp: RunningStrip_def LatestPathRow_def interface_row_def next_row_def failure_row_def Let_def view_simps
      split: option.splits)

definition ids_ok :: "dashboard_data \<Rightarrow> bool" where
  "ids_ok d \<longleftrightarrow>
     list_all (\<lambda>x. segment_ok (t_id x)) (or_list (qu_data (dd_tasks d))) \<and>
     (case qu_data (dd_summary d) of
        Some x \<Rightarrow> list_all (\<lambda>r. segment_ok (rs_id r)) (ds_recentFailures x) \<and>
          list_all (\<lambda>e. segment_ok (de_taskId e) \<and> (\<forall>r. de_latestResult e = Some r \<longrightarrow> segment_ok (rs_id r))) (ds_latestByTask x)
      | None \<Rightarrow> True)"

lemma chart_card_links: "links (chart_card runtime_message t d s) = []"
  by (auto simp: chart_card_def range_button_def view_simps split: option.splits)

lemma concat_pressed_ranges:
  "item \<in> set ranges \<Longrightarrow> concat (map (gather pressed_of) (map (range_button item) ranges)) = [Choose_Range item]"
  by (auto simp: ranges_def range_button_def gather_Element)

lemma chart_card_pressed:
  "page_range d s \<in> set ranges \<Longrightarrow> gather pressed_of (chart_card runtime_message t d s) = [Choose_Range (page_range d s)]"
  using concat_pressed_ranges [of "page_range d s"]
  by (auto simp: chart_card_def view_simps comp_def split: option.splits)

lemma readiness_links: "links (readiness_card t interfaces) = [''/network'']"
  by (simp add: readiness_card_def view_simps row_links comp_def)

lemma latest_links:
  "links (latest_section t units tasks es) =
     (if es = [] then [''/tasks/new'']
      else map (\<lambda>e. case de_latestResult e of Some r \<Rightarrow> ''/results/'' @ rs_id r | None \<Rightarrow> ''/tasks/'' @ de_taskId e @ ''/edit'') es)"
proof -
  have "concat (map (\<lambda>x. [f x]) xs) = map f xs" for f :: "dashboard_entry \<Rightarrow> string" and xs by (induction xs) auto
  then show ?thesis by (simp add: latest_section_def view_simps row_links comp_def)
qed

lemma section_links:
  "set (links (next_section t dateTime xs)) = (\<lambda>x. ''/tasks/'' @ t_id x @ ''/edit'') ` set xs"
  "set (links (failures_section t relative tasks rs)) = (\<lambda>r. ''/results/'' @ rs_id r) ` set (take 5 rs)"
  by (auto simp: next_section_def failures_section_def view_simps row_links)

lemma section_pressed:
  "gather pressed_of (readiness_card t interfaces) = []" "gather pressed_of (latest_section t units tasks es) = []"
  "gather pressed_of (next_section t dateTime xs) = []" "gather pressed_of (failures_section t relative tasks rs) = []"
  by (auto simp: readiness_card_def latest_section_def next_section_def failures_section_def view_simps row_pressed)

subsection \<open>Properties\<close>

lemma set_nextTasks: "set (nextTasks collate xs) \<subseteq> set xs"
  unfolding nextTasks_def by (rule subset_trans [OF set_take_subset]) auto

lemma page_range_in: "db_rangeOverride s \<in> insert None (Some ` set ranges) \<Longrightarrow> page_range d s \<in> set ranges"
proof -
  assume h: "db_rangeOverride s \<in> insert None (Some ` set ranges)"
  have "r \<in> set ranges" if "find P ranges = Some r" for P r
    using that by (auto simp: find_Some_iff)
  moreover have "ranges ! 2 \<in> set ranges" by (simp add: ranges_def)
  ultimately show ?thesis
    using h by (auto simp: page_range_def dashboard_range_def split: option.splits)
qed

text \<open>
  C39. The dashboard leads somewhere and shows what it asks for: in every state of its queries each link it
  shows is the address of a page of the console, and when its content is shown exactly one chart range
  is marked, the one the chart was requested for. Hypotheses: identifiers are proper path segments, and
  the chosen range is one of those offered.
\<close>

theorem dashboard_view:
  fixes t :: "string \<Rightarrow> string"
  assumes "ids_ok d" "db_rangeOverride s \<in> insert None (Some ` set ranges)"
  shows "(\<forall>a \<in> set (concat (map links (DashboardPage runtime_message t relative dateTime collate d s))). leads_to_page a) \<and>
    (\<not> dashboard_loading d \<and> first_error d = None \<longrightarrow>
      (\<exists>r. concat (map (gather pressed_of) (DashboardPage runtime_message t relative dateTime collate d s)) = [Choose_Range r] \<and>
        dashboard_request zone d s = chartParams zone r (db_asOf s)))"
proof (cases "dashboard_loading d \<or> first_error d \<noteq> None")
  case True
  then show ?thesis by (auto simp: DashboardPage_def view_simps split: option.splits)
next
  case False
  let ?tasks = "or_list (qu_data (dd_tasks d))"
  have next_ok: "segment_ok (t_id x)" if "x \<in> set (nextTasks collate ?tasks)" for x
    using assms(1) that set_nextTasks [of collate ?tasks] by (auto simp: ids_ok_def list_all_iff)
  have failures: "segment_ok (rs_id r)" if "r \<in> set (take 5 (or_list (map_option ds_recentFailures (qu_data (dd_summary d)))))" for r
    using assms(1) that by (auto simp: ids_ok_def list_all_iff or_list_def split: option.splits dest: in_set_takeD)
  have latest: "segment_ok (de_taskId e) \<and> (\<forall>r. de_latestResult e = Some r \<longrightarrow> segment_ok (rs_id r))"
    if "e \<in> set (or_list (map_option ds_latestByTask (qu_data (dd_summary d))))" for e
    using assms(1) that by (auto simp: ids_ok_def list_all_iff or_list_def split: option.splits)
  let ?running = "or_list (map_option ds_activeRuns (qu_data (dd_summary d)))"
    and ?failures = "or_list (map_option ds_recentFailures (qu_data (dd_summary d)))"
    and ?latest = "or_list (map_option ds_latestByTask (qu_data (dd_summary d)))"
  have eq: "concat (map links (DashboardPage runtime_message t relative dateTime collate d s)) =
      [''/tasks/new''] @ (if ?running \<noteq> [] then [''/results?status=running''] else []) @ [''/network''] @
      links (latest_section t (dd_displayUnits d) ?tasks ?latest :: dashboard_event element) @
      links (next_section t dateTime (nextTasks collate ?tasks) :: dashboard_event element) @
      links (failures_section t relative ?tasks ?failures :: dashboard_event element)"
    using False by (simp add: DashboardPage_def Let_def view_simps metric_cards_plain chart_card_links readiness_links row_links
        del: concat_eq_Nil_conv)
  have "\<forall>a \<in> set (links (latest_section t (dd_displayUnits d) ?tasks ?latest :: dashboard_event element)). leads_to_page a"
    using latest leads_result leads_edit leads_fixed(1) by (auto simp only: latest_links set_map list.set insert_iff empty_iff split: if_splits option.splits)
  moreover have "\<forall>a \<in> set (links (next_section t dateTime (nextTasks collate ?tasks) :: dashboard_event element)). leads_to_page a"
    using next_ok leads_edit by (auto simp only: section_links)
  moreover have "\<forall>a \<in> set (links (failures_section t relative ?tasks ?failures :: dashboard_event element)). leads_to_page a"
    using failures leads_result by (auto simp only: section_links)
  ultimately have "\<forall>a \<in> set (concat (map links (DashboardPage runtime_message t relative dateTime collate d s))). leads_to_page a"
    unfolding eq using leads_fixed by (simp only: set_append ball_Un) auto
  moreover have "concat (map (gather pressed_of) (DashboardPage runtime_message t relative dateTime collate d s)) =
      [Choose_Range (page_range d s)]"
    using False chart_card_pressed [OF page_range_in [OF assms(2)]]
    by (simp add: DashboardPage_def Let_def view_simps metric_cards_plain row_pressed section_pressed)
  ultimately show ?thesis by (auto simp: dashboard_request_def)
qed

definition sample_dashboard :: dashboard_data where
  "sample_dashboard =
     \<lparr>dd_tasks = \<lparr>qu_isLoading = False, qu_error = None, qu_data = Some []\<rparr>,
      dd_summary = \<lparr>qu_isLoading = False, qu_error = None, qu_data = Some \<lparr>ds_activeRuns = [], ds_recentFailures = [],
        ds_failedTaskCount = 0, ds_latestByTask = [\<lparr>de_taskId = ''7'', de_taskName = ''Fibre'', de_interfaceName = ''eth0'',
          de_sourceIp = ''192.0.2.1'', de_latestResult = None\<rparr>]\<rparr>\<rparr>,
      dd_interfaces = \<lparr>qu_isLoading = False, qu_error = None, qu_data = Some []\<rparr>,
      dd_chart = \<lparr>qu_isLoading = False, qu_error = None, qu_data = Some None\<rparr>,
      dd_settings = \<lparr>qu_isLoading = False, qu_error = None, qu_data = Some ()\<rparr>,
      dd_displayUnits = Bits, dd_defaultChartRange = ''7d''\<rparr>"

definition sample_page :: dashboard_page where
  "sample_page = \<lparr>db_rangeOverride = Some (''24h'', 24), db_asOf = 0\<rparr>"

theorem dashboard_view_witness:
  "\<exists>r. concat (map (gather pressed_of)
       (DashboardPage (\<lambda>_. []) id (\<lambda>_. []) (\<lambda>_. []) compare_units sample_dashboard sample_page)) = [Choose_Range r] \<and>
     dashboard_request ''UTC'' sample_dashboard sample_page = chartParams ''UTC'' r 0"
proof -
  have "ids_ok sample_dashboard"
    by (simp add: ids_ok_def sample_dashboard_def or_list_def segment_ok_def)
  moreover have "db_rangeOverride sample_page \<in> insert None (Some ` set ranges)"
    by (simp add: sample_page_def ranges_def)
  moreover have "\<not> dashboard_loading sample_dashboard \<and> first_error sample_dashboard = None"
    by (simp add: dashboard_loading_def first_error_def first_some_def sample_dashboard_def)
  moreover have "db_asOf sample_page = 0" by (simp add: sample_page_def)
  ultimately show ?thesis
    using dashboard_view [of sample_dashboard sample_page "\<lambda>_. []" id "\<lambda>_. []" "\<lambda>_. []" compare_units "''UTC''"] by simp
qed

end
