(* ===== verification/Files.thy ===== *)
theory Files
  imports Prelude "HOL-Library.AList"
begin

text \<open>
  The file tree the build scripts work on, and the calls of \<open>node:fs/promises\<close> they make. A directory
  lists its entries by name; a path is the list of its names. A symbolic link is neither a directory nor
  a regular file to \<open>readdir\<close>; where it leads is not modelled, and the paths the scripts name themselves
  are taken to be free of links. Other kinds of entries do not occur.
\<close>

type_synonym path = "string list"

datatype node = File string | Dir "(string \<times> node) list" | Link

subsection \<open>Operations\<close>

primrec look :: "node \<Rightarrow> path \<Rightarrow> node option" where
  "look t [] = Some t"
| "look t (n # p) =
     (case t of
        Dir es \<Rightarrow> (case map_of es n of Some c \<Rightarrow> look c p | None \<Rightarrow> None)
      | _ \<Rightarrow> None)"

text \<open>\<open>stat(p)\<close> asked for a directory; a failing call counts as none.\<close>

definition is_directory :: "node option \<Rightarrow> bool" where
  "is_directory x = (case x of Some (Dir _) \<Rightarrow> True | _ \<Rightarrow> False)"

text \<open>\<open>rm(p, { recursive: true, force: true })\<close>: nothing happens when \<open>p\<close> does not exist.\<close>

fun remove :: "path \<Rightarrow> node \<Rightarrow> node" where
  "remove [n] (Dir es) = Dir (filter (\<lambda>e. fst e \<noteq> n) es)"
| "remove (n # p) (Dir es) = Dir (map (\<lambda>(m, c). (m, if m = n then remove p c else c)) es)"
| "remove p t = t"

text \<open>
  Applying \<open>f\<close> to what is at a path, after creating the missing directories above it; \<^const>\<open>None\<close> is the
  error of an ancestor that is not a directory, or of \<open>f\<close>.
\<close>

fun at_path :: "(node option \<Rightarrow> node option) \<Rightarrow> path \<Rightarrow> node option \<Rightarrow> node option" where
  "at_path f [] x = f x"
| "at_path f (n # p) None = map_option (\<lambda>c. Dir [(n, c)]) (at_path f p None)"
| "at_path f (n # p) (Some (Dir es)) =
     map_option (\<lambda>c. Dir (AList.update n c es)) (at_path f p (map_of es n))"
| "at_path f (n # p) (Some _) = None"

text \<open>\<open>mkdir(p, { recursive: true })\<close> keeps a directory that exists.\<close>

definition mkdir :: "path \<Rightarrow> node \<Rightarrow> node option" where
  "mkdir p t =
     at_path (\<lambda>x. case x of None \<Rightarrow> Some (Dir []) | Some (Dir es) \<Rightarrow> Some (Dir es) | Some _ \<Rightarrow> None) p (Some t)"

text \<open>Putting a copied tree or a written file at a path whose directory exists.\<close>

definition put :: "path \<Rightarrow> node \<Rightarrow> node \<Rightarrow> node option" where
  "put p x t = at_path (\<lambda>_. Some x) p (Some t)"

text \<open>The absolute path as text, \<open>path.join\<close> onto an absolute path, and \<open>path.resolve\<close>.\<close>

definition abs_path :: "path \<Rightarrow> string" where
  "abs_path p = ''/'' @ join ''/'' p"

definition path_step :: "path \<Rightarrow> string \<Rightarrow> path" where
  "path_step p n = (if n = [] \<or> n = ''.'' then p else if n = ''..'' then butlast p else p @ [n])"

definition path_join :: "path \<Rightarrow> string \<Rightarrow> path" where
  "path_join p s = foldl path_step p (split_char CHR ''/'' s)"

definition path_resolve :: "path \<Rightarrow> string \<Rightarrow> path" where
  "path_resolve cwd s = path_join (if prefix ''/'' s then [] else cwd) s"

text \<open>
  \<open>writeFile(p, c)\<close>, and \<open>copyFile\<close> of a file with the contents \<open>c\<close>: the directory has to exist, a file is
  overwritten, a directory is refused.
\<close>

definition write_file :: "path \<Rightarrow> string \<Rightarrow> node \<Rightarrow> node option" where
  "write_file p c t =
     (if is_directory (look t (butlast p))
      then at_path (\<lambda>x. case x of None \<Rightarrow> Some (File c) | Some (File _) \<Rightarrow> Some (File c) | Some _ \<Rightarrow> None) p (Some t)
      else None)"

text \<open>Names of a real directory are distinct, not empty and without a slash.\<close>

definition name_ok :: "string \<Rightarrow> bool" where
  "name_ok n \<longleftrightarrow> n \<noteq> [] \<and> CHR ''/'' \<notin> set n"

fun wf_entries :: "(string \<times> node) list \<Rightarrow> bool" where
  "wf_entries [] = True"
| "wf_entries ((n, t) # es) \<longleftrightarrow>
     name_ok n \<and> n \<notin> fst ` set es \<and> (case t of Dir ds \<Rightarrow> wf_entries ds | _ \<Rightarrow> True) \<and> wf_entries es"

fun wf_node :: "node \<Rightarrow> bool" where
  "wf_node (Dir es) = wf_entries es"
| "wf_node _ = True"

text \<open>The regular files below a directory, by path.\<close>

fun files :: "(string \<times> node) list \<Rightarrow> (path \<times> string) list" where
  "files [] = []"
| "files ((n, File c) # es) = ([n], c) # files es"
| "files ((n, Dir ds) # es) = map (\<lambda>(p, c). (n # p, c)) (files ds) @ files es"
| "files ((n, Link) # es) = files es"

definition has_file :: "node option \<Rightarrow> path \<Rightarrow> string \<Rightarrow> bool" where
  "has_file x p c \<longleftrightarrow> (case x of Some t \<Rightarrow> look t p = Some (File c) | None \<Rightarrow> False)"

subsection \<open>Laws\<close>

lemma join_Cons: "p \<noteq> [] \<Longrightarrow> join sep (n # p) = n @ sep @ join sep p"
  by (cases p) auto

lemma look_append: "look t (p @ q) = Option.bind (look t p) (\<lambda>s. look s q)"
  by (induction p arbitrary: t) (auto split: node.splits option.splits)

lemma look_entry:
  "look (Dir ((n, t) # es)) (m # q) = (if m = n then look t q else look (Dir es) (m # q))"
  by auto

lemma look_absent: "n \<notin> fst ` set es \<Longrightarrow> look (Dir es) (n # q) = None"
  by (simp add: map_of_eq_None_iff [THEN iffD2])

lemma look_leaf [simp]:
  "look (File b) q = Some (File c) \<longleftrightarrow> q = [] \<and> b = c"
  "look Link q \<noteq> Some (File c)"
  by (cases q; simp)+

lemma below_iff: "(p, c) \<in> set (map (\<lambda>(p, c). (n # p, c)) xs) \<longleftrightarrow> (\<exists>q. p = n # q \<and> (q, c) \<in> set xs)"
  by force

lemma files_look:
  "wf_entries es \<Longrightarrow> (p, c) \<in> set (files es) \<longleftrightarrow> look (Dir es) p = Some (File c)"
proof (induction es arbitrary: p rule: files.induct)
  case 1
  then show ?case by (cases p) auto
next
  case (2 n b es)
  then show ?case
    using look_absent [of n es] by (cases p) (auto simp: look_entry simp del: look.simps(2))
next
  case (3 n ds es)
  then show ?case
    using look_absent [of n es] by (cases p) (auto simp: look_entry below_iff simp del: look.simps(2) set_map)
next
  case (4 n es)
  then show ?case
    using look_absent [of n es] by (cases p) (auto simp: look_entry simp del: look.simps(2))
qed

lemma files_names: "wf_entries es \<Longrightarrow> (p, c) \<in> set (files es) \<Longrightarrow> p \<noteq> [] \<and> list_all name_ok p"
  by (induction es arbitrary: p rule: files.induct) auto

lemma join_inject:
  assumes "list_all name_ok p" "list_all name_ok q" "p \<noteq> []" "q \<noteq> []" "join ''/'' p = join ''/'' q"
  shows "p = q"
proof -
  have "list_all (\<lambda>w. CHR ''/'' \<notin> set w) p" "list_all (\<lambda>w. CHR ''/'' \<notin> set w) q"
    using assms(1,2) by (auto simp: list_all_iff name_ok_def)
  then have "split_char CHR ''/'' (join ''/'' p) = p" "split_char CHR ''/'' (join ''/'' q) = q"
    using assms(3,4) by (simp_all only: split_char_join not_False_eq_True)
  then show ?thesis
    using assms(5) by metis
qed

text \<open>A path is clear when no ancestor of it is a file or a link.\<close>

fun clear :: "path \<Rightarrow> node option \<Rightarrow> bool" where
  "clear [] x = True"
| "clear (n # p) None = True"
| "clear (n # p) (Some (Dir es)) = clear p (map_of es n)"
| "clear (n # p) (Some _) = False"

lemma clear_absent [simp]: "clear p None"
  by (cases p) auto

lemma at_path_result:
  "at_path f p x = Some t \<Longrightarrow> \<exists>y. f (Option.bind x (\<lambda>s. look s p)) = Some y \<and> look t p = Some y"
proof (induction f p x arbitrary: t rule: at_path.induct)
  case (3 f n p es)
  then show ?case by (cases "map_of es n") (auto simp: update_conv')
qed auto

lemma at_path_succeeds:
  "clear p x \<Longrightarrow> f (Option.bind x (\<lambda>s. look s p)) \<noteq> None \<Longrightarrow> at_path f p x \<noteq> None"
proof (induction f p x rule: at_path.induct)
  case (3 f n p es)
  then show ?case by (cases "map_of es n") auto
qed auto

lemma at_path_others:
  "at_path f p x = Some t \<Longrightarrow> \<not> prefix p q \<Longrightarrow> has_file (Some t) q c = has_file x q c"
proof (induction f p x arbitrary: t q rule: at_path.induct)
  case (2 f n p)
  then show ?case by (cases q) (auto simp: has_file_def split: option.splits if_splits)
next
  case (3 f n p es)
  then obtain d where d: "at_path f p (map_of es n) = Some d" "t = Dir (AList.update n d es)" by auto
  show ?case
  proof (cases q)
    case Nil
    then show ?thesis by (simp add: has_file_def d)
  next
    case (Cons m r)
    show ?thesis
    proof (cases "m = n")
      case True
      then have "has_file (Some d) r c = has_file (map_of es n) r c"
        using "3.IH" [OF d(1)] "3.prems"(2) Cons by simp
      then show ?thesis
        using True Cons by (auto simp: has_file_def d update_conv' split: option.splits)
    next
      case False
      then show ?thesis
        using Cons by (simp add: has_file_def d update_conv')
    qed
  qed
qed auto

lemma wf_entries_iff:
  "wf_entries es \<longleftrightarrow> distinct (map fst es) \<and> (\<forall>(n, t) \<in> set es. name_ok n \<and> wf_node t)"
proof (induction es)
  case (Cons e es)
  then show ?case by (cases e; cases "snd e") auto
qed simp

lemma at_path_wf:
  "at_path f p x = Some t \<Longrightarrow> list_all name_ok p \<Longrightarrow> (\<And>s. x = Some s \<Longrightarrow> wf_node s) \<Longrightarrow>
   (\<And>y s. f y = Some s \<Longrightarrow> (\<And>u. y = Some u \<Longrightarrow> wf_node u) \<Longrightarrow> wf_node s) \<Longrightarrow> wf_node t"
proof (induction f p x arbitrary: t rule: at_path.induct)
  case (1 f x)
  then show ?case by auto
next
  case (2 f n p)
  then show ?case by (auto simp: wf_entries_iff)
next
  case (3 f n p es)
  then obtain d where d: "at_path f p (map_of es n) = Some d" "t = Dir (AList.update n d es)" by auto
  have w: "wf_entries es" using "3.prems"(3) by simp
  then have "wf_node s" if "map_of es n = Some s" for s
    using that by (auto simp: wf_entries_iff dest!: map_of_SomeD)
  with "3.IH" [OF d(1)] "3.prems"(2,4) have "wf_node d" by simp
  moreover have "set (AList.update n d es) \<subseteq> insert (n, d) (set es)"
    by (induction es) auto
  ultimately show ?case
    using w "3.prems"(2) by (auto simp: d(2) wf_entries_iff distinct_update)
qed auto

lemma map_of_dropped: "map_of (filter (\<lambda>e. fst e \<noteq> n) es) m = (if m = n then None else map_of es m)"
  by (induction es) auto

lemma map_of_changed:
  "map_of (map (\<lambda>(m, c). (m, if m = n then g c else c)) es) m =
     (if m = n then map_option g (map_of es m) else map_of es m)"
  by (induction es) auto

lemma remove_Cons:
  "remove (n # p) (Dir es) =
     (if p = [] then Dir (filter (\<lambda>e. fst e \<noteq> n) es)
      else Dir (map (\<lambda>(m, c). (m, if m = n then remove p c else c)) es))"
  by (cases p) auto

lemma remove_leaf [simp]: "remove p (File c) = File c" "remove p Link = Link"
  by (cases p; simp)+

lemmas remove_simps = remove_Cons map_of_dropped map_of_changed

lemma remove_look: "p \<noteq> [] \<Longrightarrow> look (remove p t) p = None"
proof (induction p arbitrary: t)
  case (Cons n p)
  then show ?case by (cases t) (auto simp: remove_simps split: option.splits)
qed simp

lemma remove_others: "\<not> prefix p q \<Longrightarrow> look (remove p t) q = Some (File c) \<longleftrightarrow> look t q = Some (File c)"
proof (induction p arbitrary: t q)
  case (Cons n p)
  show ?case
  proof (cases t)
    case (Dir es)
    with Cons show ?thesis
      by (cases q) (auto simp: remove_simps split: option.splits)
  qed auto
qed simp

lemma remove_wf: "wf_node t \<Longrightarrow> wf_node (remove p t)"
proof (induction p arbitrary: t)
  case (Cons n p)
  show ?case
  proof (cases t)
    case (Dir es)
    have "map fst (map (\<lambda>(m, c). (m, if m = n then remove p c else c)) es) = map fst es"
      by (induction es) auto
    with Cons Dir show ?thesis
      by (auto simp: remove_simps wf_entries_iff distinct_map_filter simp del: map_map split: if_splits)
  qed auto
qed (cases t; simp)

lemma remove_clear: "clear p (Some t) \<Longrightarrow> clear p (Some (remove p t))"
proof (induction p arbitrary: t)
  case (Cons n p)
  show ?case
  proof (cases t)
    case (Dir es)
    with Cons show ?thesis
      by (cases "map_of es n") (auto simp: remove_simps)
  qed (use Cons in auto)
qed simp

text \<open>Beside the path, whole subtrees stay as they are.\<close>

lemma remove_beside: "p \<parallel> q \<Longrightarrow> look (remove p t) q = look t q"
proof (induction p arbitrary: t q)
  case (Cons n p)
  then obtain m r where q: "q = m # r" by (cases q) auto
  show ?case
  proof (cases t)
    case (Dir es)
    with Cons q show ?thesis
      by (cases "m = n"; cases "map_of es m") (auto simp: remove_simps parallel_def)
  qed auto
qed auto

lemma at_path_beside: "at_path f p x = Some t \<Longrightarrow> p \<parallel> q \<Longrightarrow> look t q = Option.bind x (\<lambda>s. look s q)"
proof (induction f p x arbitrary: t q rule: at_path.induct)
  case (2 f n p)
  then show ?case by (cases q) (auto simp: parallel_def)
next
  case (3 f n p es)
  then obtain m r where q: "q = m # r" by (cases q) auto
  with 3 show ?case
    by (cases "m = n"; cases "map_of es m") (auto simp: update_conv' parallel_def)
qed auto

lemma look_wf: "wf_node t \<Longrightarrow> look t p = Some s \<Longrightarrow> wf_node s"
proof (induction p arbitrary: t)
  case (Cons n p)
  then show ?case
    by (cases t) (auto simp: wf_entries_iff split: option.splits dest!: map_of_SomeD)
qed simp

text \<open>The laws for the two calls built on \<^const>\<open>at_path\<close>.\<close>

lemma clear_snoc:
  "clear (p @ [n]) x \<longleftrightarrow> clear p x \<and> (\<forall>s. Option.bind x (\<lambda>t. look t p) = Some s \<longrightarrow> is_directory (Some s))"
proof (induction p x rule: clear.induct)
  case (1 x)
  then show ?case by (cases x; cases "the x") (auto simp: is_directory_def)
next
  case (3 n p es)
  then show ?case by (cases "map_of es n") auto
qed auto

lemma mkdir_succeeds: "clear (p @ [n]) (Some t) \<Longrightarrow> mkdir p t \<noteq> None"
  unfolding mkdir_def
  by (rule at_path_succeeds) (auto simp: clear_snoc is_directory_def split: option.splits node.splits)

lemma mkdir_result:
  assumes "mkdir p t = Some u"
  obtains es where "look u p = Some (Dir es)" "look t p = Some (Dir es) \<or> look t p = None \<and> es = []"
proof -
  obtain y where "(case look t p of None \<Rightarrow> Some (Dir []) | Some (Dir es) \<Rightarrow> Some (Dir es) | Some _ \<Rightarrow> None) = Some y"
      "look u p = Some y"
    using at_path_result [OF assms [unfolded mkdir_def]] by auto
  then show ?thesis by (cases "look t p"; cases "the (look t p)") (auto intro: that)
qed

lemma look_clear: "look t p = Some s \<Longrightarrow> clear p (Some t)"
proof (induction p arbitrary: t)
  case (Cons n p)
  then show ?case by (cases t) (auto split: option.splits)
qed simp

lemma mkdir_clear: "mkdir p t = Some u \<Longrightarrow> clear (p @ [n]) (Some u)"
  by (erule mkdir_result) (auto simp: clear_snoc is_directory_def dest: look_clear)

lemma put_succeeds: "clear (p @ [n]) (Some t) \<Longrightarrow> put (p @ [n]) x t \<noteq> None"
  unfolding put_def by (rule at_path_succeeds) auto

lemma put_look: "put p x t = Some u \<Longrightarrow> look u p = Some x"
  unfolding put_def by (drule at_path_result) simp

lemma put_beside: "put p x t = Some u \<Longrightarrow> p \<parallel> q \<Longrightarrow> look u q = look t q"
  unfolding put_def by (drule (1) at_path_beside) simp

lemma mkdir_beside: "mkdir p t = Some u \<Longrightarrow> p \<parallel> q \<Longrightarrow> look u q = look t q"
  unfolding mkdir_def by (drule (1) at_path_beside) simp

lemma put_others: "put p x t = Some u \<Longrightarrow> \<not> prefix p q \<Longrightarrow> has_file (Some u) q c = has_file (Some t) q c"
  unfolding put_def by (rule at_path_others)

text \<open>Making directories neither adds nor changes a file anywhere.\<close>

lemma mkdir_others: "mkdir p t = Some u \<Longrightarrow> has_file (Some u) q c = has_file (Some t) q c"
proof (cases "prefix p q")
  case True
  assume m: "mkdir p t = Some u"
  from True obtain r where q: "q = p @ r" by (auto simp: prefix_def)
  obtain es where "look u p = Some (Dir es)" "look t p = Some (Dir es) \<or> look t p = None \<and> es = []"
    using m by (rule mkdir_result)
  then show ?thesis
    by (cases r) (auto simp: q has_file_def look_append)
next
  case False
  assume "mkdir p t = Some u"
  then show ?thesis unfolding mkdir_def by (rule at_path_others) (rule False)
qed

text \<open>Joining keeps the names of a path proper, and a plain name is appended.\<close>

lemma split_char_parts: "w \<in> set (split_char c s) \<Longrightarrow> c \<notin> set w"
  by (induction s arbitrary: w) (auto split: list.splits if_splits)

lemma path_step_ok: "list_all name_ok p \<Longrightarrow> CHR ''/'' \<notin> set n \<Longrightarrow> list_all name_ok (path_step p n)"
  by (auto simp: path_step_def name_ok_def list_all_iff dest: in_set_butlastD)

lemma path_steps_ok:
  "list_all name_ok p \<Longrightarrow> (\<And>n. n \<in> set ns \<Longrightarrow> CHR ''/'' \<notin> set n) \<Longrightarrow> list_all name_ok (foldl path_step p ns)"
  by (induction ns arbitrary: p) (auto simp: path_step_ok)

lemma path_join_ok [intro]: "list_all name_ok p \<Longrightarrow> list_all name_ok (path_join p s)"
  by (auto simp: path_join_def intro!: path_steps_ok dest: split_char_parts)

lemma path_join_name: "CHR ''/'' \<notin> set s \<Longrightarrow> s \<notin> {[], ''.'', ''..''} \<Longrightarrow> path_join p s = p @ [s]"
  using split_char_join [of "[s]" "CHR ''/''"] by (simp add: path_join_def path_step_def)

lemma path_resolve_ok [intro]: "list_all name_ok cwd \<Longrightarrow> list_all name_ok (path_resolve cwd s)"
  by (auto simp: path_resolve_def)

text \<open>Writing a file changes that file and no other.\<close>

lemma write_file_look: "write_file p c t = Some u \<Longrightarrow> look u p = Some (File c)"
  by (auto simp: write_file_def split: if_splits option.splits node.splits dest!: at_path_result)

lemma write_file_before: "write_file p c t = Some u \<Longrightarrow> look t p = None \<or> (\<exists>d. look t p = Some (File d))"
  by (auto simp: write_file_def split: if_splits option.splits node.splits dest!: at_path_result)

lemma write_file_others:
  assumes "write_file p c t = Some u" "q \<noteq> p"
  shows "has_file (Some u) q d = has_file (Some t) q d"
proof (cases "prefix p q")
  case True
  then obtain m r where q: "q = p @ m # r"
    using assms(2) by (metis append_Nil2 neq_Nil_conv prefix_def)
  show ?thesis
    using write_file_before [OF assms(1)] write_file_look [OF assms(1)] by (auto simp: q has_file_def look_append)
next
  case False
  then show ?thesis
    using assms(1) at_path_others [OF _ False]
    unfolding write_file_def by (cases "is_directory (look t (butlast p))") simp_all
qed

lemma write_file_wf: "write_file p c t = Some u \<Longrightarrow> list_all name_ok p \<Longrightarrow> wf_node t \<Longrightarrow> wf_node u"
  by (auto simp: write_file_def split: if_splits option.splits node.splits elim!: at_path_wf)

lemma mkdir_wf: "mkdir p t = Some u \<Longrightarrow> list_all name_ok p \<Longrightarrow> wf_node t \<Longrightarrow> wf_node u"
  by (auto simp: mkdir_def split: option.splits node.splits elim!: at_path_wf)

lemma write_file_beside: "write_file p c t = Some u \<Longrightarrow> p \<parallel> q \<Longrightarrow> look u q = look t q"
  unfolding write_file_def by (cases "is_directory (look t (butlast p))") (simp_all add: at_path_beside)

end
