(* ===== verification/Embed.thy ===== *)
theory Embed
  imports Files
begin

text \<open>
  The script that copies the built console into the daemon's source tree, and checks that the copy is
  up to date (\<open>web/scripts/sync-embedded-frontend.mjs\<close>). It works on the file tree of \<open>Files\<close>; \<open>hash\<close> is
  SHA-256 of the platform. The script's own location gives \<open>webRoot\<close>. Every outcome carries the tree the
  script leaves behind, also when it throws.
\<close>

subsection \<open>Hashes of a tree\<close>

definition posix_join :: "string \<Rightarrow> string \<Rightarrow> string" where
  "posix_join rel name = (if rel = [] then name else rel @ ''/'' @ name)"

fun visit :: "(string \<Rightarrow> string) \<Rightarrow> string \<Rightarrow> (string \<times> node) list \<Rightarrow> (string \<times> string) list \<Rightarrow> (string \<times> string) list" where
  "visit hash rel [] result = result"
| "visit hash rel ((name, File c) # es) result =
     visit hash rel es (AList.update (posix_join rel name) (hash c) result)"
| "visit hash rel ((name, Dir ds) # es) result =
     visit hash rel es (visit hash (posix_join rel name) ds result)"
| "visit hash rel ((name, Link) # es) result = visit hash rel es result"

definition treeHashes :: "(string \<Rightarrow> string) \<Rightarrow> node option \<Rightarrow> (string \<times> string) list" where
  "treeHashes hash root = (case root of Some (Dir es) \<Rightarrow> visit hash [] es [] | _ \<Rightarrow> [])"

definition difference :: "(string \<times> string) list \<Rightarrow> (string \<times> string) list \<Rightarrow> string \<Rightarrow> string" where
  "difference left right name =
     name @ '': '' @ (if map_of left name \<noteq> None then ''source changed'' else ''source missing'') @
     (if map_of right name \<noteq> None then [] else '', embedded file missing'')"

definition compareTrees :: "(string \<Rightarrow> string) \<Rightarrow> node option \<Rightarrow> node option \<Rightarrow> string list" where
  "compareTrees hash l r =
     (let left = treeHashes hash l; right = treeHashes hash r;
          names = sort_by compare_units (unique (map fst left @ map fst right))
      in concat (map (\<lambda>name. if map_of left name = map_of right name then [] else [difference left right name]) names))"

subsection \<open>The script\<close>

definition repositoryRoot :: "path \<Rightarrow> path" where
  "repositoryRoot webRoot = butlast webRoot"

definition source :: "path \<Rightarrow> path" where
  "source webRoot = webRoot @ [''dist'']"

definition destination :: "path \<Rightarrow> path" where
  "destination webRoot = repositoryRoot webRoot @ [''internal'', ''frontend'', ''dist'']"

definition expectedDestination :: "path \<Rightarrow> path" where
  "expectedDestination webRoot = repositoryRoot webRoot @ [''internal'', ''frontend'', ''dist'']"

definition relative_path :: "path \<Rightarrow> path \<Rightarrow> string" where
  "relative_path root p = join ''/'' (drop (length root) p)"

datatype sync_failure = Sync_Error string | File_System_Error

definition sync :: "(string \<Rightarrow> string) \<Rightarrow> string list \<Rightarrow> path \<Rightarrow> node \<Rightarrow> (sync_failure + string) \<times> node" where
  "sync hash argv webRoot t =
     (let root = repositoryRoot webRoot; src = source webRoot; dst = destination webRoot in
      if dst \<noteq> expectedDestination webRoot \<or> \<not> prefix (abs_path root @ ''/'') (abs_path dst)
      then (Inl (Sync_Error (''Refusing to synchronize an unexpected embedded frontend path: '' @ abs_path dst)), t)
      else if \<not> is_directory (look t src)
      then (Inl (Sync_Error (''Vite output is missing: '' @ abs_path src)), t)
      else if ''--check'' \<in> set argv
      then (let differences = compareTrees hash (look t src) (look t dst) in
            if differences \<noteq> []
            then (Inl (Sync_Error (''Embedded frontend is out of date:'' @ [CHR 0x0A] @ join [CHR 0x0A] differences)), t)
            else (Inr ''Embedded frontend matches web/dist.'', t))
      else
        let removed = remove dst t in
        case mkdir (butlast dst) removed of
          None \<Rightarrow> (Inl File_System_Error, removed)
        | Some made \<Rightarrow>
            (case Option.bind (look made src) (\<lambda>x. put dst x made) of
               None \<Rightarrow> (Inl File_System_Error, made)
             | Some done \<Rightarrow>
                 (Inr (''Synchronized '' @ relative_path root src @ '' -> '' @ relative_path root dst), done)))"

subsection \<open>Hashes by path\<close>

definition below :: "string \<Rightarrow> path \<Rightarrow> string" where
  "below rel p = (if rel = [] then join ''/'' p else rel @ ''/'' @ join ''/'' p)"

lemma below_step: "n \<noteq> [] \<Longrightarrow> p \<noteq> [] \<Longrightarrow> below (posix_join rel n) p = below rel (n # p)"
  by (simp add: below_def posix_join_def join_Cons)

text \<open>Visiting a tree sets one hash per regular file.\<close>

lemma visit_files:
  "wf_entries es \<Longrightarrow>
   visit hash rel es m = fold (\<lambda>(p, c). AList.update (below rel p) (hash c)) (files es) m"
proof (induction hash rel es m rule: visit.induct)
  case (2 hash rel name c es m)
  then show ?case by (simp add: below_def posix_join_def)
next
  case (3 hash rel name ds es m)
  have "name \<noteq> []" using "3.prems" by (simp add: name_ok_def)
  then have "fold (\<lambda>(p, c). AList.update (below (posix_join rel name) p) (hash c)) (files ds) m =
      fold (\<lambda>(p, c). AList.update (below rel (name # p)) (hash c)) (files ds) m"
    using "3.prems" files_names [of ds] by (intro fold_cong) (auto simp: below_step)
  with 3 show ?case by (simp add: fold_map comp_def case_prod_unfold)
qed auto

lemma map_of_updates:
  "map_of (fold (\<lambda>(p, c). AList.update (g p) (h c)) xs m) k = Some v \<Longrightarrow>
   map_of m k = Some v \<or> (\<exists>p c. (p, c) \<in> set xs \<and> k = g p \<and> v = h c)"
proof (induction xs arbitrary: m)
  case (Cons x xs)
  obtain p c where x: "x = (p, c)" by fastforce
  show ?case
    using Cons.IH [of "AList.update (g p) (h c) m"] Cons.prems
    by (auto simp: x update_conv' split: if_splits)
qed simp

lemma keys_of_updates:
  "fst ` set (fold (\<lambda>(p, c). AList.update (g p) (h c)) xs m) = fst ` set m \<union> g ` fst ` set xs"
proof (induction xs arbitrary: m)
  case (Cons x xs)
  then show ?case by (cases x) (auto simp: dom_update)
qed simp

lemma treeHashes_iff:
  assumes "\<And>s. x = Some s \<Longrightarrow> wf_node s"
  shows "map_of (treeHashes hash x) k = Some v \<longleftrightarrow>
    (\<exists>p c. is_directory x \<and> has_file x p c \<and> k = join ''/'' p \<and> v = hash c)"
    (is "?l = ?r")
proof (cases "\<exists>es. x = Some (Dir es)")
  case False
  then show ?thesis
    by (auto simp: treeHashes_def is_directory_def split: option.splits node.splits)
next
  case True
  then obtain es where x: "x = Some (Dir es)" and w: "wf_entries es" using assms by auto
  let ?m = "fold (\<lambda>(p, c). AList.update (join ''/'' p) (hash c)) (files es) []"
  have m: "treeHashes hash x = ?m"
    using w by (simp add: x treeHashes_def visit_files below_def)
  have r: "?r \<longleftrightarrow> (\<exists>p c. (p, c) \<in> set (files es) \<and> k = join ''/'' p \<and> v = hash c)"
    by (simp add: x is_directory_def has_file_def files_look [OF w] del: look.simps)
  show ?thesis
  proof
    assume ?l
    then show ?r unfolding m r by (auto dest: map_of_updates)
  next
    assume ?r
    then obtain p c where p: "(p, c) \<in> set (files es)" "k = join ''/'' p" "v = hash c" using r by blast
    then have "k \<in> fst ` set ?m" by (force simp: keys_of_updates)
    then obtain u where u: "map_of ?m k = Some u"
      by (metis map_of_eq_None_iff option.exhaust)
    then obtain q d where q: "(q, d) \<in> set (files es)" "k = join ''/'' q" "u = hash d"
      by (auto dest: map_of_updates)
    have "p = q" using files_names [OF w p(1)] files_names [OF w q(1)] p(2) q(2) by (metis join_inject)
    then have "c = d" using p(1) q(1) by (simp add: files_look [OF w])
    then show ?l using u p(3) q(3) by (simp add: m)
  qed
qed

lemma reported_Nil: "concat (map (\<lambda>n. if P n then [] else [f n]) ns) = [] \<longleftrightarrow> (\<forall>n \<in> set ns. P n)"
  by (induction ns) auto

lemma no_differences:
  "compareTrees hash l r = [] \<longleftrightarrow> (\<forall>k. map_of (treeHashes hash l) k = map_of (treeHashes hash r) k)"
proof -
  have "compareTrees hash l r = [] \<longleftrightarrow>
      (\<forall>k \<in> fst ` set (treeHashes hash l) \<union> fst ` set (treeHashes hash r).
         map_of (treeHashes hash l) k = map_of (treeHashes hash r) k)"
    by (simp add: compareTrees_def Let_def reported_Nil del: concat_eq_Nil_conv)
  also have "\<dots> \<longleftrightarrow> (\<forall>k. map_of (treeHashes hash l) k = map_of (treeHashes hash r) k)"
    by (metis UnCI map_of_eq_None_iff)
  finally show ?thesis .
qed

lemma compareTrees_files:
  assumes wf: "\<And>s. l = Some s \<Longrightarrow> wf_node s" "\<And>s. r = Some s \<Longrightarrow> wf_node s"
    and dir: "is_directory l" "r = None \<or> is_directory r"
    and inj: "inj_on hash {c. \<exists>p. has_file l p c \<or> has_file r p c}"
  shows "compareTrees hash l r = [] \<longleftrightarrow> (\<forall>p c. has_file l p c \<longleftrightarrow> has_file r p c)"
proof -
  have names: "list_all name_ok p \<and> p \<noteq> []" if "has_file x p c" "is_directory x" "x = l \<or> x = r" for x p c
    using that wf files_look files_names
    by (fastforce simp: has_file_def is_directory_def split: option.splits node.splits)
  have r: "has_file r p c \<Longrightarrow> is_directory r" for p c
    using dir(2) by (auto simp: has_file_def)
  have one: "has_file y p c"
    if same: "\<forall>k. map_of (treeHashes hash x) k = map_of (treeHashes hash y) k"
      and xy: "x = l \<and> y = r \<or> x = r \<and> y = l" and f: "has_file x p c" for x y p c
  proof -
    have dx: "is_directory x" using xy f dir(1) r by auto
    have w: "\<And>s. x = Some s \<Longrightarrow> wf_node s" "\<And>s. y = Some s \<Longrightarrow> wf_node s" using xy wf by auto
    have "map_of (treeHashes hash x) (join ''/'' p) = Some (hash c)"
      using treeHashes_iff [OF w(1)] dx f by blast
    then have "map_of (treeHashes hash y) (join ''/'' p) = Some (hash c)" using same by simp
    then obtain q d where q: "is_directory y" "has_file y q d" "join ''/'' p = join ''/'' q" "hash c = hash d"
      using treeHashes_iff [OF w(2)] by blast
    have "p = q" using names [OF f dx] names [OF q(2,1)] q(3) xy by (metis join_inject)
    moreover have "c = d" using inj q(4) f q(2) xy by (auto dest!: inj_onD)
    ultimately show ?thesis using q(2) by simp
  qed
  show ?thesis
  proof
    assume "compareTrees hash l r = []"
    then show "\<forall>p c. has_file l p c \<longleftrightarrow> has_file r p c"
      unfolding no_differences using one [of l r] one [of r l] by auto
  next
    assume same: "\<forall>p c. has_file l p c \<longleftrightarrow> has_file r p c"
    have f: "(is_directory l \<and> has_file l p c \<and> Q) = (is_directory r \<and> has_file r p c \<and> Q)" for p c Q
      using same [rule_format, of p c] dir(1) r [of p c] by blast
    have e: "map_of (treeHashes hash l) k = Some v \<longleftrightarrow> map_of (treeHashes hash r) k = Some v" for k v
      by (subst treeHashes_iff, erule wf, subst treeHashes_iff, erule wf, unfold f, rule refl)
    have "map_of (treeHashes hash l) k = map_of (treeHashes hash r) k" for k
      using e [of k] by (metis not_Some_eq)
    then show "compareTrees hash l r = []"
      unfolding no_differences by blast
  qed
qed

lemma compareTrees_refl: "compareTrees hash x x = []"
  by (simp add: no_differences)

subsection \<open>Properties\<close>

lemma abs_path_prefix: "root \<noteq> [] \<Longrightarrow> p \<noteq> [] \<Longrightarrow> prefix (abs_path root @ ''/'') (abs_path (root @ p))"
proof (induction root)
  case (Cons n root)
  then show ?case
    by (cases "root = []") (auto simp: abs_path_def join_Cons)
qed simp

lemma guard_passes: "repositoryRoot webRoot \<noteq> [] \<Longrightarrow>
  prefix (abs_path (repositoryRoot webRoot) @ ''/'') (abs_path (destination webRoot))"
  by (simp add: destination_def abs_path_prefix)

lemma expected_path [simp]: "expectedDestination webRoot = destination webRoot"
  by (simp add: expectedDestination_def destination_def)

text \<open>
  C27. The check is exact: it reports success if and only if the built console and the embedded copy
  have the same regular files with the same contents, and it never changes the tree. Hypotheses: the
  repository is not the root directory itself, the build output exists, what is at the place of the copy
  is a directory or nothing, and SHA-256 has no collision among the files compared.
\<close>

theorem check_exact:
  assumes "wf_node t" "repositoryRoot webRoot \<noteq> []" "''--check'' \<in> set argv"
    and "is_directory (look t (source webRoot))"
    and "look t (destination webRoot) = None \<or> is_directory (look t (destination webRoot))"
    and "inj_on hash {c. \<exists>p. has_file (look t (source webRoot)) p c \<or> has_file (look t (destination webRoot)) p c}"
  shows "((\<exists>message. fst (sync hash argv webRoot t) = Inr message) \<longleftrightarrow>
      (\<forall>p c. has_file (look t (source webRoot)) p c \<longleftrightarrow> has_file (look t (destination webRoot)) p c)) \<and>
    snd (sync hash argv webRoot t) = t"
proof -
  have "compareTrees hash (look t (source webRoot)) (look t (destination webRoot)) = [] \<longleftrightarrow>
      (\<forall>p c. has_file (look t (source webRoot)) p c \<longleftrightarrow> has_file (look t (destination webRoot)) p c)"
    by (rule compareTrees_files [OF _ _ assms(4-6)]) (use look_wf [OF assms(1)] in blast)+
  then show ?thesis
    using assms(3,4) guard_passes [OF assms(2)] by (simp add: sync_def Let_def)
qed


definition sample_tree :: node where
  "sample_tree = Dir [(''r'', Dir [(''web'', Dir [(''dist'', Dir [(''a'', File ''1''), (''b'', Dir [(''c'', File ''2'')])])]),
     (''internal'', Dir [(''frontend'', Dir [(''dist'', Dir [(''a'', File ''0'')])])])])]"

theorem check_exact_witness:
  "\<nexists>message. fst (sync (\<lambda>c. c) [''--check''] [''r'', ''web''] sample_tree) = Inr message"
proof -
  let ?w = "[''r'', ''web'']"
  have "wf_node sample_tree" by code_simp
  moreover have "repositoryRoot ?w \<noteq> []" "is_directory (look sample_tree (source ?w))"
    "is_directory (look sample_tree (destination ?w))"
    by code_simp+
  ultimately have "((\<exists>message. fst (sync (\<lambda>c. c) [''--check''] ?w sample_tree) = Inr message) \<longleftrightarrow>
      (\<forall>p c. has_file (look sample_tree (source ?w)) p c \<longleftrightarrow> has_file (look sample_tree (destination ?w)) p c)) \<and>
      snd (sync (\<lambda>c. c) [''--check''] ?w sample_tree) = sample_tree"
    by (intro check_exact) auto
  moreover have "has_file (look sample_tree (source ?w)) [''a''] ''1''"
    "\<not> has_file (look sample_tree (destination ?w)) [''a''] ''1''"
    by code_simp+
  ultimately show ?thesis by blast
qed


end
