(* ===== verification/License.thy ===== *)
theory License
  imports Embed ApiClient
begin

text \<open>
  The script that collects the licences of the packages the console is built from
  (\<open>scripts/generate-frontend-license-bundle.mjs\<close>): which packages of the lock file are included, where
  their notices are found, the copies it makes, the manifest with a hash per file, and the checks at the
  end. It works on the file tree of \<open>Files\<close>. \<open>hash\<close> is SHA-256 of the platform and \<open>collate\<close> is
  \<open>localeCompare\<close>. Every outcome carries the tree the script leaves behind, also when it throws. Text
  files are taken to be ASCII, so that a file's bytes are its text.
\<close>

subsection \<open>Names\<close>

text \<open>\<open>s.split(sep)\<close> for a separator that is not empty, and \<open>s.replaceAll(c, r)\<close> for one character.\<close>

fun split_text :: "string \<Rightarrow> string \<Rightarrow> string list" where
  "split_text sep [] = [[]]"
| "split_text sep (c # s) =
     (if prefix sep (c # s) then [] # split_text sep (drop (length sep - 1) s)
      else (case split_text sep s of [] \<Rightarrow> [[c]] | w # ws \<Rightarrow> (c # w) # ws))"

definition replace_all :: "char \<Rightarrow> string \<Rightarrow> string \<Rightarrow> string" where
  "replace_all c r s = concat (map (\<lambda>x. if x = c then r else [x]) s)"

definition packageNameFromLockPath :: "string \<Rightarrow> string" where
  "packageNameFromLockPath lockPath =
     (let parts = split_char CHR ''/'' (last (split_text ''node_modules/'' lockPath)) in
      if prefix ''@'' (hd parts)
      then hd parts @ ''/'' @ (if 1 < length parts then parts ! 1 else ''undefined'')
      else hd parts)"

definition safeName :: "string \<Rightarrow> string" where
  "safeName value =
     replace_all (CHR 0x5C) ''__'' (replace_all (CHR ''/'') ''__'' (if prefix ''@'' value then tl value else value))"

text \<open>\<open>/^(?:(?:licen[cs]e|copying|notice|copyright)(?:[._-].*)?|third[._-]party[._-]licen[cs]es?)$/i\<close>\<close>

definition any_case :: "string \<Rightarrow> rx" where
  "any_case cs = RCls (\<lambda>x. lower_char x \<in> set cs)"

fun word_rx :: "string \<Rightarrow> rx" where
  "word_rx [] = REps"
| "word_rx (c # cs) = RSeq (any_case [c]) (word_rx cs)"

definition licence_rx :: rx where
  "licence_rx = RSeq (word_rx ''licen'') (RSeq (any_case ''cs'') (any_case ''e''))"

definition separator_rx :: rx where
  "separator_rx = RCls (\<lambda>x. x \<in> set ''._-'')"

definition licenseName :: "string \<Rightarrow> bool" where
  "licenseName s =
     rx_match
       (RAlt
         (RSeq (RAlt licence_rx (RAlt (word_rx ''copying'') (RAlt (word_rx ''notice'') (word_rx ''copyright''))))
           (ROpt (RSeq separator_rx (RStar (RCls (\<lambda>x. x \<notin> {CHR 0x0A, CHR 0x0D}))))))
         (RSeq (word_rx ''third'') (RSeq separator_rx (RSeq (word_rx ''party'') (RSeq separator_rx
           (RSeq licence_rx (ROpt (any_case ''s''))))))))
       s"

text \<open>\<open>/^third[._-]party[._-]license$/i\<close>\<close>

definition thirdPartyLicense :: "string \<Rightarrow> bool" where
  "thirdPartyLicense s =
     rx_match (RSeq (word_rx ''third'') (RSeq separator_rx (RSeq (word_rx ''party'') (RSeq separator_rx
       (word_rx ''license''))))) s"

subsection \<open>The packages of the lock file\<close>

datatype bundle_error = Bundle_Error string | File_Error | Script_Error failure

fun thrown :: "failure + 'a \<Rightarrow> bundle_error + 'a" where
  "thrown (Inl e) = Inl (Script_Error e)"
| "thrown (Inr x) = Inr x"

definition outputContributingBuildTools :: "string list" where
  "outputContributingBuildTools = [''rolldown'', ''tailwindcss'', ''vite'']"

definition included :: "string \<times> json \<Rightarrow> failure + bool" where
  "included e =
     (let (key, value) = e in
      if \<not> prefix ''node_modules/'' key then Inr False
      else sum_bind (js_prop value ''name'') (\<lambda>n.
           sum_bind (js_prop value ''dev'') (\<lambda>dev.
             Inr (dev \<noteq> Some (JBool True) \<or>
                  nullish n (JStr (packageNameFromLockPath key)) \<in> JStr ` set outputContributingBuildTools))))"

fun sum_filter :: "('a \<Rightarrow> 'e + bool) \<Rightarrow> 'a list \<Rightarrow> 'e + 'a list" where
  "sum_filter p [] = Inr []"
| "sum_filter p (x # xs) =
     sum_bind (p x) (\<lambda>b. sum_bind (sum_filter p xs) (\<lambda>ys. Inr (if b then x # ys else ys)))"

text \<open>
  \<open>Object.entries\<close> of anything but an object gives entries with an index as their key, or none; the
  filter drops them.
\<close>

definition packageEntries :: "(string \<Rightarrow> string \<Rightarrow> int) \<Rightarrow> json \<Rightarrow> failure + (string \<times> json) list" where
  "packageEntries collate lockfile =
     sum_bind (js_prop lockfile ''packages'') (\<lambda>packages.
     sum_bind (sum_filter included (case packages of Some (JObj kvs) \<Rightarrow> kvs | _ \<Rightarrow> [])) (\<lambda>es.
       Inr (sort_by (\<lambda>l r. collate (fst l) (fst r)) es)))"

subsection \<open>Finding notices\<close>

definition exists_dir :: "node \<Rightarrow> path \<Rightarrow> bundle_error + bool" where
  "exists_dir t target =
     (if clear target (Some t) then Inr (is_directory (look t target)) else Inl File_Error)"

lemma entry_smaller: "(name, Dir es) \<in> set entries \<Longrightarrow> size_list (size_prod (\<lambda>_. 0) size) es < size_list (size_prod (\<lambda>_. 0) size) entries"
  by (induction entries) auto

function (sequential) walk :: "(string \<Rightarrow> string \<Rightarrow> int) \<Rightarrow> path \<Rightarrow> (string \<times> node) list \<Rightarrow> path list" where
  "walk collate current entries =
     concat (map (\<lambda>(name, x).
       if name = ''node_modules'' \<or> name = ''.git'' then []
       else case x of
         Dir es \<Rightarrow> walk collate (current @ [name]) es
       | File _ \<Rightarrow> if licenseName name then [current @ [name]] else []
       | Link \<Rightarrow> [])
       (sort_by (\<lambda>l r. collate (fst l) (fst r)) entries))"
  by pat_completeness auto

termination
  by (relation "measure (\<lambda>(_, _, es). size_list (size_prod (\<lambda>_. 0) size) es)") (auto simp: entry_smaller)

declare walk.simps [simp del]

definition findLicenseFiles :: "(string \<Rightarrow> string \<Rightarrow> int) \<Rightarrow> node \<Rightarrow> path \<Rightarrow> bundle_error + path list" where
  "findLicenseFiles collate t dir =
     (case look t dir of
        Some (Dir es) \<Rightarrow> Inr (sort_by (\<lambda>l r. collate (abs_path l) (abs_path r)) (walk collate dir es))
      | _ \<Rightarrow> Inl File_Error)"

text \<open>The notices of a package: its own, else those of the tracked override for its name and version.\<close>

definition notices ::
  "(string \<Rightarrow> string \<Rightarrow> int) \<Rightarrow> node \<Rightarrow> path option \<Rightarrow> path \<Rightarrow> string \<Rightarrow> bundle_error + path \<times> string \<times> path list" where
  "notices collate t overridesPath installedPath destinationName =
     sum_bind (findLicenseFiles collate t installedPath) (\<lambda>sourceFiles.
       case overridesPath of
         Some overrides \<Rightarrow>
           if sourceFiles = []
           then (let overrideRoot = path_join overrides destinationName in
                 sum_bind (exists_dir t overrideRoot) (\<lambda>found.
                   if found
                   then sum_bind (findLicenseFiles collate t overrideRoot) (\<lambda>fs.
                          Inr (overrideRoot, ''tracked-override'', fs))
                   else Inr (installedPath, ''package'', sourceFiles)))
           else Inr (installedPath, ''package'', sourceFiles)
       | None \<Rightarrow> Inr (installedPath, ''package'', sourceFiles))"

subsection \<open>One package\<close>

record component =
  cp_name :: string
  cp_version :: "json option"
  cp_license :: json
  cp_source :: string
  cp_root :: path
  cp_files :: "path list"

definition read_json :: "node \<Rightarrow> path \<Rightarrow> bundle_error + json" where
  "read_json t p =
     (case look t p of
        Some (File c) \<Rightarrow> (case json_parse c of Some v \<Rightarrow> Inr v | None \<Rightarrow> Inl (Script_Error Syntax_Error))
      | _ \<Rightarrow> Inl File_Error)"

text \<open>\<open>v ?? w\<close> where \<open>w\<close> may be undefined too, and \<open>`${v}`\<close>\<close>

definition coalesce :: "json option \<Rightarrow> json option \<Rightarrow> json option" where
  "coalesce v w = (if v = None \<or> v = Some JNull then w else v)"

definition version_text :: "json option \<Rightarrow> string" where
  "version_text v = (case v of None \<Rightarrow> ''undefined'' | Some w \<Rightarrow> js_string w)"

definition destinationName :: "string \<Rightarrow> json option \<Rightarrow> string" where
  "destinationName packageName version = safeName packageName @ ''@'' @ version_text version"

text \<open>Name, version and declared licence; \<open>safeName\<close> throws on a name that is not a string.\<close>

definition package_fields :: "string \<Rightarrow> json \<Rightarrow> json \<Rightarrow> failure + string \<times> json option \<times> json" where
  "package_fields lockPath metadata packageMetadata =
     sum_bind (js_prop packageMetadata ''name'') (\<lambda>n.
     sum_bind (js_prop packageMetadata ''version'') (\<lambda>v.
     sum_bind (js_prop metadata ''version'') (\<lambda>v'.
     sum_bind (js_prop packageMetadata ''license'') (\<lambda>l.
     sum_bind (js_prop metadata ''license'') (\<lambda>l'.
       case nullish n (JStr (packageNameFromLockPath lockPath)) of
         JStr packageName \<Rightarrow> Inr (packageName, coalesce v v', nullish l (nullish l' (JStr ''UNKNOWN'')))
       | _ \<Rightarrow> Inl Type_Error)))))"

definition component_of ::
  "(string \<Rightarrow> string \<Rightarrow> int) \<Rightarrow> path \<Rightarrow> path option \<Rightarrow> node \<Rightarrow> string \<times> json \<Rightarrow> bundle_error + component option" where
  "component_of collate modulesPath overridesPath t e =
     (let (lockPath, metadata) = e;
          relativeModulePath = drop (length ''node_modules/'') lockPath;
          installedPath = path_join modulesPath relativeModulePath
      in sum_bind (exists_dir t installedPath) (\<lambda>found.
         if \<not> found then
           sum_bind (thrown (js_prop metadata ''optional'')) (\<lambda>optional.
             if optional = Some (JBool True) then Inr None
             else Inl (Bundle_Error (''included frontend component is not installed: '' @ relativeModulePath)))
         else
           sum_bind (read_json t (installedPath @ [''package.json''])) (\<lambda>packageMetadata.
           sum_bind (thrown (package_fields lockPath metadata packageMetadata)) (\<lambda>(packageName, version, declaredLicense).
           sum_bind (notices collate t overridesPath installedPath (destinationName packageName version))
             (\<lambda>(sourceRoot, noticeSource, sourceFiles).
               if sourceFiles = []
               then Inl (Bundle_Error (''production dependency has no distributable license or notice file: '' @
                      packageName @ ''@'' @ version_text version))
               else Inr (Some \<lparr>cp_name = packageName, cp_version = version, cp_license = declaredLicense,
                      cp_source = noticeSource, cp_root = sourceRoot, cp_files = sourceFiles\<rparr>))))))"

text \<open>Copying the notices: the list of what the manifest says of every file, by path and hash.\<close>

fun copy_notices ::
  "(string \<Rightarrow> string) \<Rightarrow> path \<Rightarrow> path \<Rightarrow> path list \<Rightarrow> node \<Rightarrow> (bundle_error + (string \<times> string) list) \<times> node" where
  "copy_notices hash sourceRoot destinationRoot [] t = (Inr [], t)"
| "copy_notices hash sourceRoot destinationRoot (sourceFile # rest) t =
     (let relativePath = drop (length sourceRoot) sourceFile; destination = destinationRoot @ relativePath in
      case look t sourceFile of
        Some (File data) \<Rightarrow>
          (case mkdir (butlast destination) t of
             None \<Rightarrow> (Inl File_Error, t)
           | Some made \<Rightarrow>
               (case write_file destination data made of
                  None \<Rightarrow> (Inl File_Error, made)
                | Some copied \<Rightarrow>
                    (case copy_notices hash sourceRoot destinationRoot rest copied of
                       (Inl e, t') \<Rightarrow> (Inl e, t')
                     | (Inr fs, t') \<Rightarrow>
                         (Inr ((replace_all (CHR 0x5C) ''/'' (join ''/'' relativePath), hash data) # fs), t'))))
      | _ \<Rightarrow> (Inl File_Error, t))"

record manifest_entry =
  me_name :: string
  me_version :: "json option"
  me_declaredLicense :: json
  me_noticeSource :: string
  me_files :: "(string \<times> string) list"

definition package_data :: "component \<Rightarrow> string" where
  "package_data c =
     json_pretty 0 (obj_literal [(''name'', Some (JStr (cp_name c))), (''version'', cp_version c),
       (''license'', Some (cp_license c))]) @ [CHR 0x0A]"

definition bundle_component ::
  "(string \<Rightarrow> string) \<Rightarrow> path \<Rightarrow> component \<Rightarrow> node \<Rightarrow> (bundle_error + manifest_entry) \<times> node" where
  "bundle_component hash outputPath c t =
     (let destinationRoot = path_join outputPath (destinationName (cp_name c) (cp_version c)) in
      case copy_notices hash (cp_root c) destinationRoot (cp_files c) t of
        (Inl e, t') \<Rightarrow> (Inl e, t')
      | (Inr fs, t') \<Rightarrow>
          (case write_file (destinationRoot @ [''package.json'']) (package_data c) t' of
             None \<Rightarrow> (Inl File_Error, t')
           | Some t'' \<Rightarrow>
               (Inr \<lparr>me_name = cp_name c, me_version = cp_version c, me_declaredLicense = cp_license c,
                     me_noticeSource = cp_source c,
                     me_files = fs @ [(''package.json'', hash (package_data c))]\<rparr>, t'')))"

subsection \<open>The script\<close>

fun bundle_packages ::
  "(string \<Rightarrow> string) \<Rightarrow> (string \<Rightarrow> string \<Rightarrow> int) \<Rightarrow> path \<Rightarrow> path \<Rightarrow> path option \<Rightarrow> (string \<times> json) list \<Rightarrow> node \<Rightarrow>
   (bundle_error + manifest_entry list) \<times> node" where
  "bundle_packages hash collate modulesPath outputPath overridesPath [] t = (Inr [], t)"
| "bundle_packages hash collate modulesPath outputPath overridesPath (e # es) t =
     (case component_of collate modulesPath overridesPath t e of
        Inl err \<Rightarrow> (Inl err, t)
      | Inr None \<Rightarrow> bundle_packages hash collate modulesPath outputPath overridesPath es t
      | Inr (Some c) \<Rightarrow>
          (case bundle_component hash outputPath c t of
             (Inl err, t') \<Rightarrow> (Inl err, t')
           | (Inr m, t') \<Rightarrow>
               (case bundle_packages hash collate modulesPath outputPath overridesPath es t' of
                  (Inl err, t'') \<Rightarrow> (Inl err, t'')
                | (Inr ms, t'') \<Rightarrow> (Inr (m # ms), t''))))"

definition entry_json :: "manifest_entry \<Rightarrow> json" where
  "entry_json m =
     obj_literal [(''name'', Some (JStr (me_name m))), (''version'', me_version m),
       (''declaredLicense'', Some (me_declaredLicense m)), (''noticeSource'', Some (JStr (me_noticeSource m))),
       (''files'', Some (JArr (map (\<lambda>(p, h). JObj [(''path'', JStr p), (''sha256'', JStr h)]) (me_files m))))]"

definition manifest_json :: "manifest_entry list \<Rightarrow> json" where
  "manifest_json ms =
     JObj [(''format'', JStr ''multispeed-npm-license-bundle-v1''), (''packages'', JArr (map entry_json ms))]"

definition basename :: "string \<Rightarrow> string" where
  "basename p = last (split_char CHR ''/'' p)"

definition final_checks :: "manifest_entry list \<Rightarrow> bundle_error + unit" where
  "final_checks ms =
     (case filter (\<lambda>n. \<not> list_ex (\<lambda>m. me_name m = n) ms) outputContributingBuildTools of
        n # _ \<Rightarrow> Inl (Bundle_Error (''output-contributing build tool is missing from the license manifest: '' @ n))
      | [] \<Rightarrow>
          (case find (\<lambda>m. me_name m = ''rolldown'') ms of
             None \<Rightarrow> Inl (Script_Error Type_Error)
           | Some m \<Rightarrow>
               if list_ex (\<lambda>(p, h). thirdPartyLicense (basename p)) (me_files m) then Inr ()
               else Inl (Bundle_Error ''Rolldown THIRD-PARTY-LICENSE is missing from the license bundle'')))"

text \<open>What runs once the lock file is read.\<close>

definition write_bundle ::
  "(string \<Rightarrow> string) \<Rightarrow> (string \<Rightarrow> string \<Rightarrow> int) \<Rightarrow> path \<Rightarrow> path \<Rightarrow> path option \<Rightarrow> (string \<times> json) list \<Rightarrow> node \<Rightarrow>
   (bundle_error + manifest_entry list) \<times> node" where
  "write_bundle hash collate modulesPath outputPath overridesPath es t =
     (case bundle_packages hash collate modulesPath outputPath overridesPath es t of
        (Inl err, t') \<Rightarrow> (Inl err, t')
      | (Inr ms, t') \<Rightarrow>
          (case mkdir outputPath t' of
             None \<Rightarrow> (Inl File_Error, t')
           | Some made \<Rightarrow>
               (case write_file (outputPath @ [''manifest.json'']) (json_pretty 0 (manifest_json ms) @ [CHR 0x0A]) made of
                  None \<Rightarrow> (Inl File_Error, made)
                | Some t'' \<Rightarrow> (case final_checks ms of Inl err \<Rightarrow> (Inl err, t'') | Inr _ \<Rightarrow> (Inr ms, t'')))))"

definition argument :: "string list \<Rightarrow> nat \<Rightarrow> string" where
  "argument argv i = (if i < length argv then argv ! i else [])"

definition generate ::
  "(string \<Rightarrow> string) \<Rightarrow> (string \<Rightarrow> string \<Rightarrow> int) \<Rightarrow> path \<Rightarrow> string list \<Rightarrow> node \<Rightarrow>
   (bundle_error + manifest_entry list) \<times> node" where
  "generate hash collate cwd argv t =
     (if argument argv 0 = [] \<or> argument argv 1 = [] \<or> argument argv 2 = []
      then (Inl (Bundle_Error ''usage: generate-frontend-license-bundle.mjs <package-lock.json> <node_modules> <output> [license-overrides]''), t)
      else
        let overridesPath = (if argument argv 3 = [] then None else Some (path_resolve cwd (argument argv 3))) in
        case sum_bind (read_json t (path_resolve cwd (argument argv 0))) (\<lambda>lockfile. thrown (packageEntries collate lockfile)) of
          Inl err \<Rightarrow> (Inl err, t)
        | Inr es \<Rightarrow> write_bundle hash collate (path_resolve cwd (argument argv 1)) (path_resolve cwd (argument argv 2)) overridesPath es t)"

subsection \<open>What the walk finds\<close>

lemma sum_bind_Inr: "sum_bind x f = Inr y \<longleftrightarrow> (\<exists>z. x = Inr z \<and> f z = Inr y)"
  by (cases x) auto

lemma thrown_Inr [simp]: "thrown x = Inr y \<longleftrightarrow> x = Inr y"
  by (cases x) auto

lemma files_iff:
  "(p, c) \<in> set (files es) \<longleftrightarrow>
     (\<exists>n. (n, File c) \<in> set es \<and> p = [n]) \<or> (\<exists>n ds q. (n, Dir ds) \<in> set es \<and> p = n # q \<and> (q, c) \<in> set (files ds))"
proof (induction es)
  case (Cons e es)
  obtain n x where e: "e = (n, x)" by fastforce
  show ?case
    by (cases x) (auto simp: e Cons.IH below_iff simp del: set_map)
qed simp

lemma files_nonempty: "(p, c) \<in> set (files es) \<Longrightarrow> p \<noteq> []"
  by (subst (asm) files_iff) auto

definition plain_path :: "path \<Rightarrow> bool" where
  "plain_path p \<longleftrightarrow> ''node_modules'' \<notin> set p \<and> ''.git'' \<notin> set p"

lemma walk_in:
  assumes "(n, x) \<in> set es" "n \<noteq> ''node_modules''" "n \<noteq> ''.git''"
    and "q \<in> set (case x of Dir ds \<Rightarrow> walk collate (current @ [n]) ds
      | File _ \<Rightarrow> if licenseName n then [current @ [n]] else [] | Link \<Rightarrow> [])"
  shows "q \<in> set (walk collate current es)"
  by (subst walk.simps, unfold set_concat set_map set_sort_by, rule UN_I [OF imageI [OF assms(1)]])
    (use assms(2-4) in simp)

lemma walk_iff:
  "q \<in> set (walk collate current es) \<longleftrightarrow>
     (\<exists>p c. q = current @ p \<and> (p, c) \<in> set (files es) \<and> licenseName (last p) \<and> plain_path p)"
proof (induction collate current es arbitrary: q rule: walk.induct)
  case (1 collate current es)
  have IH: "q \<in> set (walk collate (current @ [n]) ds) \<longleftrightarrow>
      (\<exists>p c. q = current @ n # p \<and> (p, c) \<in> set (files ds) \<and> licenseName (last (n # p)) \<and> plain_path p)"
    if "(n, Dir ds) \<in> set es" "n \<noteq> ''node_modules''" "n \<noteq> ''.git''" for n ds q
  proof -
    have "q \<in> set (walk collate (current @ [n]) ds) \<longleftrightarrow>
        (\<exists>p c. q = (current @ [n]) @ p \<and> (p, c) \<in> set (files ds) \<and> licenseName (last p) \<and> plain_path p)"
      by (rule 1 [of "(n, Dir ds)" n "Dir ds"]) (use that in simp_all)
    also have "\<dots> \<longleftrightarrow> (\<exists>p c. q = current @ n # p \<and> (p, c) \<in> set (files ds) \<and> licenseName (last (n # p)) \<and> plain_path p)"
      by (intro ex_cong1 conj_cong) (auto dest: files_nonempty)
    finally show ?thesis .
  qed
  show ?case (is "?l \<longleftrightarrow> ?r")
  proof
    assume ?l
    then obtain n x where e: "(n, x) \<in> set es" "n \<noteq> ''node_modules''" "n \<noteq> ''.git''"
      and q: "q \<in> set (case x of Dir ds \<Rightarrow> walk collate (current @ [n]) ds
        | File _ \<Rightarrow> if licenseName n then [current @ [n]] else [] | Link \<Rightarrow> [])"
      by (subst (asm) walk.simps) (auto split: if_splits)
    show ?r
    proof (cases x)
      case (File c)
      with q e have "q = current @ [n]" "licenseName n" "plain_path [n]"
        by (auto simp: plain_path_def split: if_splits)
      moreover have "([n], c) \<in> set (files es)"
        using e(1) File by (subst files_iff) simp
      ultimately show ?thesis by force
    next
      case (Dir ds)
      with q IH [OF e(1) [unfolded Dir] e(2,3)] obtain p c
        where p: "q = current @ n # p" "(p, c) \<in> set (files ds)" "licenseName (last (n # p))" "plain_path p" by auto
      moreover have "(n # p, c) \<in> set (files es)"
        using e(1) Dir p(2) by (subst files_iff) blast
      moreover have "plain_path (n # p)"
        using p(4) e(2,3) by (auto simp: plain_path_def)
      ultimately show ?thesis by blast
    qed (use q in simp)
  next
    assume ?r
    then obtain p c where q: "q = current @ p" "licenseName (last p)" "plain_path p" and p: "(p, c) \<in> set (files es)" by blast
    from p consider n where "(n, File c) \<in> set es" "p = [n]"
      | n ds r where "(n, Dir ds) \<in> set es" "p = n # r" "(r, c) \<in> set (files ds)"
      by (subst (asm) files_iff) blast
    then show ?l
    proof cases
      case 1
      with q show ?thesis by (intro walk_in [OF 1(1)]) (auto simp: plain_path_def)
    next
      case 2
      then have n: "n \<noteq> ''node_modules''" "n \<noteq> ''.git''" "plain_path r"
        using q(3) by (auto simp: plain_path_def)
      then have "q \<in> set (walk collate (current @ [n]) ds)"
        using IH [OF 2(1) n(1,2)] 2 q by blast
      with n show ?thesis by (intro walk_in [OF 2(1)]) auto
    qed
  qed
qed

lemma distinct_concat_named:
  "distinct (map fst xs) \<Longrightarrow> (\<And>n x. (n, x) \<in> set xs \<Longrightarrow> distinct (f (n, x)) \<and> (\<forall>q \<in> set (f (n, x)). \<exists>r. q = current @ n # r)) \<Longrightarrow>
   distinct (concat (map f xs))"
proof (induction xs)
  case (Cons a xs)
  obtain n x where a: "a = (n, x)" by fastforce
  have "set (f a) \<inter> set (concat (map f xs)) = {}"
  proof (rule ccontr)
    assume "\<not> ?thesis"
    then obtain q m y where q: "q \<in> set (f (n, x))" "(m, y) \<in> set xs" "q \<in> set (f (m, y))" using a by auto
    moreover obtain r where "q = current @ n # r" using Cons.prems(2) [of n x] q(1) a by auto
    moreover obtain s where "q = current @ m # s" using Cons.prems(2) [of m y] q(2,3) by auto
    ultimately show False using Cons.prems(1) a by force
  qed
  moreover have "distinct (concat (map f xs))"
    by (rule Cons.IH) (use Cons.prems in auto)
  moreover have "distinct (f a)"
    using Cons.prems(2) [of n x] a by simp
  ultimately show ?case by simp
qed simp

lemma walk_distinct: "wf_entries es \<Longrightarrow> distinct (walk collate current es)"
proof (induction collate current es rule: walk.induct)
  case (1 collate current es)
  let ?xs = "sort_by (\<lambda>l r. collate (fst l) (fst r)) es"
  have "mset (map fst ?xs) = mset (map fst es)" by simp
  then have d: "distinct (map fst ?xs)"
    using "1.prems" mset_eq_imp_distinct_iff wf_entries_iff by blast
  have w: "distinct (walk collate (current @ [n]) ds)" if "(n, Dir ds) \<in> set es" "n \<noteq> ''node_modules''" "n \<noteq> ''.git''" for n ds
  proof (rule "1.IH" [of "(n, Dir ds)" n "Dir ds"])
    show "wf_entries ds" using "1.prems" that(1) by (fastforce simp: wf_entries_iff)
  qed (use that in simp_all)
  have b: "\<exists>r. q = current @ n # r" if "q \<in> set (walk collate (current @ [n]) ds)" for q n ds
    using that by (auto simp: walk_iff)
  show ?case
  proof (subst walk.simps, rule distinct_concat_named [OF d, where current = current])
    fix n x assume "(n, x) \<in> set ?xs"
    then show "distinct (case (n, x) of (name, x) \<Rightarrow> if name = ''node_modules'' \<or> name = ''.git'' then []
        else case x of File _ \<Rightarrow> if licenseName name then [current @ [name]] else []
          | Dir es \<Rightarrow> walk collate (current @ [name]) es | Link \<Rightarrow> []) \<and>
      (\<forall>q \<in> set (case (n, x) of (name, x) \<Rightarrow> if name = ''node_modules'' \<or> name = ''.git'' then []
        else case x of File _ \<Rightarrow> if licenseName name then [current @ [name]] else []
          | Dir es \<Rightarrow> walk collate (current @ [name]) es | Link \<Rightarrow> []). \<exists>r. q = current @ n # r)"
      using w [of n] b [of _ n] by (cases x) simp_all
  qed
qed

lemma findLicenseFiles_iff:
  assumes "wf_node t" "findLicenseFiles collate t dir = Inr fs"
  shows "q \<in> set fs \<longleftrightarrow> (\<exists>p c. q = dir @ p \<and> has_file (look t dir) p c \<and> licenseName (last p) \<and> plain_path p)"
    and "distinct fs"
proof -
  obtain es where es: "look t dir = Some (Dir es)"
      "fs = sort_by (\<lambda>l r. collate (abs_path l) (abs_path r)) (walk collate dir es)"
    using assms(2) by (auto simp: findLicenseFiles_def split: option.splits node.splits)
  have w: "wf_entries es" using look_wf [OF assms(1) es(1)] by simp
  show "distinct fs" using walk_distinct [OF w] by (simp add: es(2))
  show "q \<in> set fs \<longleftrightarrow> (\<exists>p c. q = dir @ p \<and> has_file (look t dir) p c \<and> licenseName (last p) \<and> plain_path p)"
    by (simp add: es walk_iff files_look [OF w] has_file_def)
qed

subsection \<open>What the copies leave\<close>

definition slashed :: "path \<Rightarrow> string" where
  "slashed p = replace_all (CHR 0x5C) ''/'' (join ''/'' p)"

lemma copy_step:
  assumes "copy_notices hash src dst (f # fs) t = (Inr ps, t')"
  obtains data made copied qs where "look t f = Some (File data)" "mkdir (butlast (dst @ drop (length src) f)) t = Some made"
    "write_file (dst @ drop (length src) f) data made = Some copied" "copy_notices hash src dst fs copied = (Inr qs, t')"
    "ps = (slashed (drop (length src) f), hash data) # qs"
  using assms by (auto simp: slashed_def Let_def split: option.splits node.splits prod.splits sum.splits)

text \<open>Files at other places stay, and so do whole trees beside the destination.\<close>

lemma copy_notices_others:
  "copy_notices hash src dst fs t = (Inr ps, t') \<Longrightarrow> (\<And>f. f \<in> set fs \<Longrightarrow> q \<noteq> dst @ drop (length src) f) \<Longrightarrow>
   has_file (Some t') q c = has_file (Some t) q c"
proof (induction fs arbitrary: t ps)
  case (Cons f fs)
  from Cons.prems(1) obtain data made copied qs where s: "mkdir (butlast (dst @ drop (length src) f)) t = Some made"
    "write_file (dst @ drop (length src) f) data made = Some copied" "copy_notices hash src dst fs copied = (Inr qs, t')"
    by (rule copy_step)
  have "has_file (Some t') q c = has_file (Some copied) q c"
    using Cons.IH [OF s(3)] Cons.prems(2) by simp
  then show ?case
    using write_file_others [OF s(2)] mkdir_others [OF s(1)] Cons.prems(2) [of f] by simp
qed simp

lemma copy_notices_beside:
  assumes "copy_notices hash src dst fs t = (Inr ps, t')" "dst \<parallel> q" "\<And>f. f \<in> set fs \<Longrightarrow> length src < length f"
  shows "look t' q = look t q"
  using assms
proof (induction fs arbitrary: t ps)
  case (Cons f fs)
  from Cons.prems(1) obtain data made copied qs where s: "mkdir (butlast (dst @ drop (length src) f)) t = Some made"
    "write_file (dst @ drop (length src) f) data made = Some copied" "copy_notices hash src dst fs copied = (Inr qs, t')"
    by (rule copy_step)
  have d: "drop (length src) f \<noteq> []" using Cons.prems(3) [of f] by simp
  have "(dst @ drop (length src) f) \<parallel> q" "butlast (dst @ drop (length src) f) \<parallel> q"
    using parallel_append [OF Cons.prems(2), of _ "[]"] d by (simp_all add: butlast_append)
  then show ?case
    using Cons.IH [OF s(3)] Cons.prems(2,3) write_file_beside [OF s(2)] mkdir_beside [OF s(1)] by simp
qed simp

lemma copy_notices_wf:
  "copy_notices hash src dst fs t = (Inr ps, t') \<Longrightarrow> list_all name_ok dst \<Longrightarrow>
   (\<And>f. f \<in> set fs \<Longrightarrow> list_all name_ok (drop (length src) f)) \<Longrightarrow> wf_node t \<Longrightarrow> wf_node t'"
proof (induction fs arbitrary: t ps)
  case (Cons f fs)
  from Cons.prems(1) obtain data made copied qs where s: "mkdir (butlast (dst @ drop (length src) f)) t = Some made"
    "write_file (dst @ drop (length src) f) data made = Some copied" "copy_notices hash src dst fs copied = (Inr qs, t')"
    by (rule copy_step)
  have n: "list_all name_ok (dst @ drop (length src) f)" using Cons.prems(2,3) by simp
  then have "list_all name_ok (butlast (dst @ drop (length src) f))"
    by (auto simp: list_all_iff dest: in_set_butlastD)
  then have "wf_node copied"
    using mkdir_wf [OF s(1)] write_file_wf [OF s(2) n] Cons.prems(4) by simp
  then show ?case using Cons.IH [OF s(3)] Cons.prems(2,3) by simp
qed simp

text \<open>Every file of the list is in the tree, with the hash listed.\<close>

definition listed :: "(string \<Rightarrow> string) \<Rightarrow> node \<Rightarrow> path \<Rightarrow> path \<Rightarrow> string \<times> string \<Rightarrow> bool" where
  "listed hash t dst rel e \<longleftrightarrow> (\<exists>c. e = (slashed rel, hash c) \<and> has_file (Some t) (dst @ rel) c)"

lemma copy_notices_listed:
  "copy_notices hash src dst fs t = (Inr ps, t') \<Longrightarrow> distinct (map (drop (length src)) fs) \<Longrightarrow>
   list_all2 (\<lambda>f. listed hash t' dst (drop (length src) f)) fs ps"
proof (induction fs arbitrary: t ps)
  case (Cons f fs)
  from Cons.prems(1) obtain data made copied qs where s: "look t f = Some (File data)"
    "write_file (dst @ drop (length src) f) data made = Some copied" "copy_notices hash src dst fs copied = (Inr qs, t')"
    "ps = (slashed (drop (length src) f), hash data) # qs"
    by (rule copy_step)
  have "has_file (Some copied) (dst @ drop (length src) f) data"
    using write_file_look [OF s(2)] by (simp add: has_file_def)
  moreover have "has_file (Some t') (dst @ drop (length src) f) data = has_file (Some copied) (dst @ drop (length src) f) data"
    by (rule copy_notices_others [OF s(3)]) (use Cons.prems(2) in auto)
  ultimately have "listed hash t' dst (drop (length src) f) (slashed (drop (length src) f), hash data)"
    by (auto simp: listed_def)
  then show ?case using Cons.IH [OF s(3)] Cons.prems(2) s(4) by simp
qed simp

subsection \<open>One package at a time\<close>

definition component_ok :: "component \<Rightarrow> bool" where
  "component_ok c \<longleftrightarrow> cp_files c \<noteq> [] \<and> distinct (cp_files c) \<and>
     (\<forall>f \<in> set (cp_files c). \<exists>p. f = cp_root c @ p \<and> p \<noteq> [] \<and> list_all name_ok p \<and> licenseName (last p))"

lemma findLicenseFiles_ok:
  assumes "wf_node t" "findLicenseFiles collate t dir = Inr fs" "f \<in> set fs"
  shows "\<exists>p. f = dir @ p \<and> p \<noteq> [] \<and> list_all name_ok p \<and> licenseName (last p)"
proof -
  obtain p c where p: "f = dir @ p" "has_file (look t dir) p c" "licenseName (last p)"
    using findLicenseFiles_iff(1) [OF assms(1,2)] assms(3) by blast
  obtain es where es: "look t dir = Some (Dir es)"
    using assms(2) by (auto simp: findLicenseFiles_def split: option.splits node.splits)
  then have "(p, c) \<in> set (files es)" "wf_entries es"
    using p(2) look_wf [OF assms(1) es] by (simp_all add: has_file_def files_look)
  then show ?thesis using files_names p by blast
qed

lemma component_of_ok:
  assumes "wf_node t" "component_of collate modules overrides t e = Inr (Some c)"
  shows "component_ok c"
proof -
  obtain dir where "findLicenseFiles collate t dir = Inr (cp_files c)" "cp_root c = dir" "cp_files c \<noteq> []"
    using assms(2)
    by (auto simp: component_of_def notices_def Let_def sum_bind_Inr split: if_splits option.splits prod.splits)
  then show ?thesis
    using findLicenseFiles_ok [OF assms(1)] findLicenseFiles_iff(2) [OF assms(1)] by (auto simp: component_ok_def)
qed

definition installed :: "path \<Rightarrow> string \<Rightarrow> path" where
  "installed modules lockPath = path_join modules (drop (length ''node_modules/'') lockPath)"

lemma component_of_None:
  "component_of collate modules overrides t (k, v) = Inr None \<Longrightarrow>
   \<not> is_directory (look t (installed modules k)) \<and> js_prop v ''optional'' = Inr (Some (JBool True))"
  by (auto simp: component_of_def installed_def exists_dir_def Let_def sum_bind_Inr split: if_splits prod.splits)

lemma component_of_Some:
  "component_of collate modules overrides t (k, v) = Inr (Some c) \<Longrightarrow>
   \<exists>pm. read_json t (installed modules k @ [''package.json'']) = Inr pm \<and>
     package_fields k v pm = Inr (cp_name c, cp_version c, cp_license c)"
  by (auto simp: component_of_def installed_def exists_dir_def Let_def sum_bind_Inr split: if_splits prod.splits)

abbreviation entry_root :: "path \<Rightarrow> manifest_entry \<Rightarrow> path" where
  "entry_root out m \<equiv> path_join out (destinationName (me_name m) (me_version m))"

text \<open>What a manifest entry says is true of the tree, and it lists a licence.\<close>

definition entry_true :: "(string \<Rightarrow> string) \<Rightarrow> path \<Rightarrow> node \<Rightarrow> manifest_entry \<Rightarrow> bool" where
  "entry_true hash out t m \<longleftrightarrow> (\<forall>e \<in> set (me_files m). \<exists>rel. rel \<noteq> [] \<and> listed hash t (entry_root out m) rel e)"

definition has_licence :: "manifest_entry \<Rightarrow> bool" where
  "has_licence m \<longleftrightarrow> (\<exists>(p, h) \<in> set (me_files m). \<exists>rel. p = slashed rel \<and> licenseName (last rel))"

lemma list_all2_right: "list_all2 P xs ys \<Longrightarrow> y \<in> set ys \<Longrightarrow> \<exists>x \<in> set xs. P x y"
  by (induction xs ys rule: list_all2_induct) auto

lemma package_json_no_licence: "\<not> licenseName ''package.json''"
  by code_simp

lemma component_distinct:
  assumes "component_ok c"
  shows "distinct (map (drop (length (cp_root c))) (cp_files c))"
proof -
  have "f = cp_root c @ drop (length (cp_root c)) f" if "f \<in> set (cp_files c)" for f
    using assms that by (auto simp: component_ok_def)
  then have "inj_on (drop (length (cp_root c))) (set (cp_files c))"
    by (metis inj_onI)
  then show ?thesis using assms by (simp add: distinct_map component_ok_def)
qed

lemma component_file:
  assumes "component_ok c" "f \<in> set (cp_files c)"
  shows "length (cp_root c) < length f" "list_all name_ok (drop (length (cp_root c)) f)"
    and "licenseName (last (drop (length (cp_root c)) f))" "drop (length (cp_root c)) f \<noteq> []"
    and "drop (length (cp_root c)) f \<noteq> [''package.json'']"
proof -
  obtain p where p: "f = cp_root c @ p" "p \<noteq> []" "list_all name_ok p" "licenseName (last p)"
    using assms by (auto simp: component_ok_def)
  then show "length (cp_root c) < length f" "list_all name_ok (drop (length (cp_root c)) f)"
    "licenseName (last (drop (length (cp_root c)) f))" "drop (length (cp_root c)) f \<noteq> []"
    "drop (length (cp_root c)) f \<noteq> [''package.json'']"
    using package_json_no_licence by auto
qed

lemma bundle_step:
  assumes "bundle_component hash out c t = (Inr m, t')"
  obtains fs u where
    "copy_notices hash (cp_root c) (entry_root out m) (cp_files c) t = (Inr fs, u)"
    "write_file (entry_root out m @ [''package.json'']) (package_data c) u = Some t'"
    "me_files m = fs @ [(''package.json'', hash (package_data c))]"
    "me_name m = cp_name c" "me_version m = cp_version c" "me_declaredLicense m = cp_license c"
  using assms by (auto simp: bundle_component_def Let_def split: option.splits prod.splits sum.splits)

lemma slashed_package_json: "slashed [''package.json''] = ''package.json''"
  by code_simp

lemma bundle_component_true:
  assumes "bundle_component hash out c t = (Inr m, t')" "component_ok c"
  shows "entry_true hash out t' m" "has_licence m"
proof -
  from assms(1) obtain fs u where
    s: "copy_notices hash (cp_root c) (entry_root out m) (cp_files c) t = (Inr fs, u)"
      "write_file (entry_root out m @ [''package.json'']) (package_data c) u = Some t'"
      "me_files m = fs @ [(''package.json'', hash (package_data c))]"
    by (rule bundle_step)
  let ?rel = "drop (length (cp_root c))"
  have l: "list_all2 (\<lambda>f. listed hash u (entry_root out m) (?rel f)) (cp_files c) fs"
    by (rule copy_notices_listed [OF s(1) component_distinct [OF assms(2)]])
  have k: "listed hash t' (entry_root out m) (?rel f) e"
    if "f \<in> set (cp_files c)" "listed hash u (entry_root out m) (?rel f) e" for f e
    using that write_file_others [OF s(2)] component_file(5) [OF assms(2)] by (auto simp: listed_def)
  have "listed hash t' (entry_root out m) [''package.json''] (''package.json'', hash (package_data c))"
    using write_file_look [OF s(2)] by (auto simp: listed_def has_file_def slashed_package_json)
  moreover have "\<exists>rel. rel \<noteq> [] \<and> listed hash t' (entry_root out m) rel e" if h: "e \<in> set fs" for e
  proof -
    obtain f where f: "f \<in> set (cp_files c)" "listed hash u (entry_root out m) (?rel f) e"
      using list_all2_right [OF l h] by blast
    then show ?thesis using k [OF f] component_file(4) [OF assms(2) f(1)] by blast
  qed
  ultimately show "entry_true hash out t' m" by (auto simp: entry_true_def s(3))
  obtain f fr where f: "cp_files c = f # fr" using assms(2) by (cases "cp_files c") (auto simp: component_ok_def)
  then obtain e es where "fs = e # es" "listed hash u (entry_root out m) (?rel f) e" using l by (auto simp: list_all2_Cons1)
  then show "has_licence m"
    using component_file(3) [OF assms(2), of f] f by (auto simp: has_licence_def listed_def s(3))
qed

lemma bundle_component_wf:
  assumes "bundle_component hash out c t = (Inr m, t')" "component_ok c" "wf_node t" "list_all name_ok out"
  shows "wf_node t'"
proof -
  from assms(1) obtain fs u where
    s: "copy_notices hash (cp_root c) (entry_root out m) (cp_files c) t = (Inr fs, u)"
      "write_file (entry_root out m @ [''package.json'']) (package_data c) u = Some t'"
    by (rule bundle_step)
  have n: "list_all name_ok (entry_root out m)" using assms(4) by blast
  have "wf_node u" by (rule copy_notices_wf [OF s(1) n]) (use component_file(2) [OF assms(2)] assms(3) in auto)
  moreover have "name_ok ''package.json''" by code_simp
  ultimately show ?thesis using write_file_wf [OF s(2)] n by simp
qed

lemma bundle_component_others:
  assumes "bundle_component hash out c t = (Inr m, t')" "\<not> prefix (entry_root out m) q"
  shows "has_file (Some t') q d = has_file (Some t) q d"
proof -
  from assms(1) obtain fs u where
    s: "copy_notices hash (cp_root c) (entry_root out m) (cp_files c) t = (Inr fs, u)"
      "write_file (entry_root out m @ [''package.json'']) (package_data c) u = Some t'"
    by (rule bundle_step)
  have "has_file (Some t') q d = has_file (Some u) q d"
    by (rule write_file_others [OF s(2)]) (use assms(2) in auto)
  also have "\<dots> = has_file (Some t) q d"
    by (rule copy_notices_others [OF s(1)]) (use assms(2) in auto)
  finally show ?thesis .
qed

lemma bundle_component_beside:
  assumes "bundle_component hash out c t = (Inr m, t')" "component_ok c" "entry_root out m \<parallel> q"
  shows "look t' q = look t q"
proof -
  from assms(1) obtain fs u where
    s: "copy_notices hash (cp_root c) (entry_root out m) (cp_files c) t = (Inr fs, u)"
      "write_file (entry_root out m @ [''package.json'']) (package_data c) u = Some t'"
    by (rule bundle_step)
  have "look u q = look t q"
    by (rule copy_notices_beside [OF s(1) assms(3)]) (rule component_file(1) [OF assms(2)])
  moreover have "(entry_root out m @ [''package.json'']) \<parallel> q"
    using parallel_append [OF assms(3), of _ "[]"] by simp
  ultimately show ?thesis using write_file_beside [OF s(2)] by simp
qed

subsection \<open>All packages\<close>

lemma replace_all_gone: "c \<notin> set r \<Longrightarrow> c \<notin> set (replace_all c r s)"
  by (induction s) (auto simp: replace_all_def)

lemma set_replace_all: "set (replace_all c r s) \<subseteq> set s \<union> set r"
  by (induction s) (auto simp: replace_all_def)

lemma safeName_plain: "CHR ''/'' \<notin> set (safeName s)"
proof -
  have "CHR ''/'' \<notin> set (replace_all (CHR ''/'') ''__'' w)" for w
    by (rule replace_all_gone) simp
  then show ?thesis
    using set_replace_all [of "CHR 0x5C" "''__''"] by (fastforce simp: safeName_def)
qed

definition plain_version :: "manifest_entry \<Rightarrow> bool" where
  "plain_version m \<longleftrightarrow> CHR ''/'' \<notin> set (version_text (me_version m))"

lemma entry_root_plain: "plain_version m \<Longrightarrow> entry_root out m = out @ [destinationName (me_name m) (me_version m)]"
proof (rule path_join_name)
  assume "plain_version m"
  then show "CHR ''/'' \<notin> set (destinationName (me_name m) (me_version m))"
    using safeName_plain by (simp add: destinationName_def plain_version_def)
  have "CHR ''@'' \<in> set (destinationName (me_name m) (me_version m))"
    by (simp add: destinationName_def)
  then show "destinationName (me_name m) (me_version m) \<notin> {[], ''.'', ''..''}" by force
qed

lemma packages_step:
  assumes "bundle_packages hash collate modules out overrides (e # es) t = (Inr ms, t')"
  obtains
    (skip) "component_of collate modules overrides t e = Inr None"
      "bundle_packages hash collate modules out overrides es t = (Inr ms, t')"
  | (take) c m u ns where "component_of collate modules overrides t e = Inr (Some c)"
      "bundle_component hash out c t = (Inr m, u)" "bundle_packages hash collate modules out overrides es u = (Inr ns, t')"
      "ms = m # ns"
  using assms by (auto split: sum.splits option.splits prod.splits)

lemma packages_others:
  "bundle_packages hash collate modules out overrides es t = (Inr ms, t') \<Longrightarrow>
   (\<And>m. m \<in> set ms \<Longrightarrow> \<not> prefix (entry_root out m) q) \<Longrightarrow> has_file (Some t') q d = has_file (Some t) q d"
proof (induction es arbitrary: t ms)
  case (Cons e es)
  from Cons.prems(1) show ?case
  proof (cases rule: packages_step)
    case skip
    then show ?thesis using Cons by blast
  next
    case (take c m u ns)
    have "has_file (Some t') q d = has_file (Some u) q d"
      by (rule Cons.IH [OF take(3)]) (use Cons.prems(2) take(4) in auto)
    then show ?thesis using bundle_component_others [OF take(2)] Cons.prems(2) take(4) by simp
  qed
qed simp

lemma packages_wf:
  "bundle_packages hash collate modules out overrides es t = (Inr ms, t') \<Longrightarrow> wf_node t \<Longrightarrow> list_all name_ok out \<Longrightarrow> wf_node t'"
proof (induction es arbitrary: t ms)
  case (Cons e es)
  from Cons.prems(1) show ?case
  proof (cases rule: packages_step)
    case skip
    then show ?thesis using Cons by blast
  next
    case (take c m u ns)
    then show ?thesis
      using Cons.IH [OF take(3)] bundle_component_wf [OF take(2)] component_of_ok [OF _ take(1)] Cons.prems(2,3) by blast
  qed
qed simp

lemma entry_true_kept:
  assumes "entry_true hash out t m" "\<And>rel c. rel \<noteq> [] \<Longrightarrow> has_file (Some t') (entry_root out m @ rel) c = has_file (Some t) (entry_root out m @ rel) c"
  shows "entry_true hash out t' m"
  using assms unfolding entry_true_def listed_def by blast

lemma entry_trueD:
  assumes "entry_true hash out t m" "(p, h) \<in> set (me_files m)"
  shows "\<exists>rel c. p = slashed rel \<and> h = hash c \<and> has_file (Some t) (entry_root out m @ rel) c"
  using bspec [OF assms(1) [unfolded entry_true_def] assms(2)] by (auto simp: listed_def)

lemma packages_true:
  "bundle_packages hash collate modules out overrides es t = (Inr ms, t') \<Longrightarrow> wf_node t \<Longrightarrow> list_all name_ok out \<Longrightarrow>
   list_all plain_version ms \<Longrightarrow> distinct (map (\<lambda>m. destinationName (me_name m) (me_version m)) ms) \<Longrightarrow>
   list_all (entry_true hash out t') ms"
proof (induction es arbitrary: t ms)
  case (Cons e es)
  from Cons.prems(1) show ?case
  proof (cases rule: packages_step)
    case skip
    then show ?thesis using Cons by blast
  next
    case (take c m u ns)
    have ok: "component_ok c" by (rule component_of_ok [OF Cons.prems(2) take(1)])
    have other: "\<not> prefix (entry_root out n) (entry_root out m @ rel)" if "n \<in> set ns" for n rel
    proof -
      have "destinationName (me_name n) (me_version n) \<noteq> destinationName (me_name m) (me_version m)"
        using Cons.prems(5) take(4) imageI [OF that, of "\<lambda>m. destinationName (me_name m) (me_version m)"] by auto
      then show ?thesis
        using Cons.prems(4) take(4) that by (simp add: entry_root_plain list_all_iff)
    qed
    have "wf_node u" by (rule bundle_component_wf [OF take(2) ok Cons.prems(2,3)])
    then have "list_all (entry_true hash out t') ns"
      using Cons.IH [OF take(3)] Cons.prems(3-5) take(4) by simp
    moreover have "entry_true hash out t' m"
    proof (rule entry_true_kept [OF bundle_component_true(1) [OF take(2) ok]])
      show "has_file (Some t') (entry_root out m @ rel) d = has_file (Some u) (entry_root out m @ rel) d" for rel d
        by (rule packages_others [OF take(3) other])
    qed
    ultimately show ?thesis using take(4) by simp
  qed
qed simp

definition accounted :: "path \<Rightarrow> node \<Rightarrow> manifest_entry list \<Rightarrow> string \<times> json \<Rightarrow> bool" where
  "accounted modules t ms e \<longleftrightarrow>
     \<not> is_directory (look t (installed modules (fst e))) \<and> js_prop (snd e) ''optional'' = Inr (Some (JBool True)) \<or>
     (\<exists>m \<in> set ms. \<exists>pm. has_licence m \<and> read_json t (installed modules (fst e) @ [''package.json'']) = Inr pm \<and>
        package_fields (fst e) (snd e) pm = Inr (me_name m, me_version m, me_declaredLicense m))"

lemma accounted_cong:
  assumes "\<And>q. prefix (installed modules (fst e)) q \<Longrightarrow> look u q = look t q" "accounted modules u ms e" "set ms \<subseteq> set ns"
  shows "accounted modules t ns e"
  using assms(2,3) assms(1) [of "installed modules (fst e)"] assms(1) [of "installed modules (fst e) @ [''package.json'']"]
  by (auto simp: accounted_def read_json_def)

lemma packages_accounted:
  "bundle_packages hash collate modules out overrides es t = (Inr ms, t') \<Longrightarrow> wf_node t \<Longrightarrow> list_all name_ok out \<Longrightarrow>
   list_all plain_version ms \<Longrightarrow> list_all (\<lambda>e. out \<parallel> installed modules (fst e)) es \<Longrightarrow> list_all (accounted modules t ms) es"
proof (induction es arbitrary: t ms)
  case (Cons e es)
  obtain k v where e: "e = (k, v)" by fastforce
  from Cons.prems(1) show ?case
  proof (cases rule: packages_step)
    case skip
    then have "accounted modules t ms e"
      using component_of_None [of collate modules overrides t k v] by (simp add: accounted_def e)
    then show ?thesis using Cons.IH [OF skip(2)] Cons.prems(2-5) by simp
  next
    case (take c m u ns)
    have ok: "component_ok c" by (rule component_of_ok [OF Cons.prems(2) take(1)])
    have w: "wf_node u" by (rule bundle_component_wf [OF take(2) ok Cons.prems(2,3)])
    have "entry_root out m = out @ [destinationName (me_name m) (me_version m)]"
      by (rule entry_root_plain) (use Cons.prems(4) take(4) in simp)
    then have same: "look u q = look t q" if "out \<parallel> p" "prefix p q" for p q
      using bundle_component_beside [OF take(2) ok, of q] that parallel_append [OF that(1)] by (auto simp: prefix_def)
    have "list_all (accounted modules u ns) es"
      using Cons.IH [OF take(3) w Cons.prems(3)] Cons.prems(4,5) take(4) by simp
    then have "list_all (accounted modules t ms) es"
      using Cons.prems(5) take(4) same unfolding list_all_iff
      by (metis accounted_cong list.set_intros(2) set_subset_Cons)
    moreover have "accounted modules t ms e"
      using component_of_Some [OF take(1) [unfolded e]] bundle_component_true(2) [OF take(2) ok] take(4) bundle_step [OF take(2)]
      unfolding accounted_def e by (metis fst_conv list.set_intros(1) snd_conv)
    ultimately show ?thesis by simp
  qed
qed simp

lemma write_bundle_step:
  assumes "write_bundle hash collate modules out overrides es t = (Inr ms, t')"
  obtains u made where "bundle_packages hash collate modules out overrides es t = (Inr ms, u)"
    "mkdir out u = Some made"
    "write_file (out @ [''manifest.json'']) (json_pretty 0 (manifest_json ms) @ [CHR 0x0A]) made = Some t'"
    "final_checks ms = Inr ()"
  using assms by (auto simp: write_bundle_def split: option.splits prod.splits sum.splits)

lemma generate_step:
  assumes "generate hash collate cwd argv t = (Inr ms, t')"
  obtains lockfile es overrides where "read_json t (path_resolve cwd (argument argv 0)) = Inr lockfile"
    "packageEntries collate lockfile = Inr es"
    "write_bundle hash collate (path_resolve cwd (argument argv 1)) (path_resolve cwd (argument argv 2)) overrides es t = (Inr ms, t')"
  using assms by (auto simp: generate_def Let_def sum_bind_Inr split: if_splits sum.splits)

lemma final_checks_Inr:
  assumes "final_checks ms = Inr ()"
  shows "\<forall>n \<in> set outputContributingBuildTools. \<exists>m \<in> set ms. me_name m = n"
    and "\<exists>m \<in> set ms. me_name m = ''rolldown'' \<and> (\<exists>(p, h) \<in> set (me_files m). thirdPartyLicense (basename p))"
proof -
  let ?missing = "filter (\<lambda>n. \<not> list_ex (\<lambda>m. me_name m = n) ms) outputContributingBuildTools"
  have none: "?missing = []" using assms by (cases ?missing) (simp_all add: final_checks_def)
  then show "\<forall>n \<in> set outputContributingBuildTools. \<exists>m \<in> set ms. me_name m = n"
    by (auto simp: list_ex_iff filter_empty_conv)
  obtain m where m: "find (\<lambda>m. me_name m = ''rolldown'') ms = Some m"
      "list_ex (\<lambda>(p, h). thirdPartyLicense (basename p)) (me_files m)"
    using assms by (auto simp: final_checks_def none split: option.splits if_splits)
  then have "m \<in> set ms" "me_name m = ''rolldown''" by (auto simp: find_Some_iff)
  with m(2) show "\<exists>m \<in> set ms. me_name m = ''rolldown'' \<and> (\<exists>(p, h) \<in> set (me_files m). thirdPartyLicense (basename p))"
    by (auto simp: list_ex_iff)
qed

subsection \<open>Names from lock paths\<close>

lemma split_text_nonempty: "split_text sep s \<noteq> []"
  by (induction sep s rule: split_text.induct) (auto split: list.splits)

lemma split_text_none: "\<not> sublist sep s \<Longrightarrow> split_text sep s = [s]"
proof (induction sep s rule: split_text.induct)
  case (2 sep c s)
  then have "\<not> prefix sep (c # s)" "\<not> sublist sep s" by (auto simp: sublist_Cons_right)
  with 2 show ?case by simp
qed simp

text \<open>A separator that no proper end of it starts again, so that its occurrences do not overlap.\<close>

definition no_border :: "string \<Rightarrow> bool" where
  "no_border sep \<longleftrightarrow> sep \<noteq> [] \<and> list_all (\<lambda>i. \<not> prefix (drop i sep) sep) [1..<length sep]"

lemma no_border_apart:
  assumes "no_border sep" "prefix sep (p @ sep @ s)" "p \<noteq> []"
  shows "length sep \<le> length p"
proof (rule ccontr)
  assume "\<not> length sep \<le> length p"
  then have k: "length p \<in> {1..<length sep}" using assms(3) by (cases p) auto
  obtain r where r: "p @ sep @ s = sep @ r" using assms(2) by (auto simp: prefix_def)
  have "drop (length p) (p @ sep @ s) = drop (length p) sep @ r"
    using k by (subst r) simp
  then have "prefix (drop (length p) sep) (sep @ s)" by (auto simp: prefix_def)
  then have "prefix (drop (length p) sep) sep"
    by (rule prefix_length_prefix) auto
  then show False using k assms(1) by (auto simp: list_all_iff no_border_def)
qed

lemma split_text_last:
  assumes "no_border sep" "\<not> sublist sep n"
  shows "\<exists>w ws. split_text sep (p @ sep @ n) = w # ws \<and> ws \<noteq> [] \<and> last ws = n"
proof (induction p rule: length_induct)
  case (1 p)
  have s: "prefix sep (c # t) \<Longrightarrow> split_text sep (c # t) = [] # split_text sep (drop (length sep - 1) t)" for c t
    by simp
  show ?case
  proof (cases p)
    case Nil
    obtain c t where "sep = c # t" using assms(1) by (cases sep) (auto simp: no_border_def)
    then have "split_text sep (sep @ n) = [] # split_text sep n" by simp
    then show ?thesis using Nil assms(2) split_text_none by simp
  next
    case (Cons c q)
    show ?thesis
    proof (cases "prefix sep (p @ sep @ n)")
      case True
      then have l: "length sep \<le> length p" using no_border_apart assms(1) Cons by blast
      then have "drop (length sep - 1) (q @ sep @ n) = drop (length sep - 1) q @ sep @ n" using Cons by simp
      then have "split_text sep (p @ sep @ n) = [] # split_text sep (drop (length sep - 1) q @ sep @ n)"
        using True Cons by simp
      moreover have "length (drop (length sep - 1) q) < length p" using Cons by simp
      ultimately show ?thesis using 1 by fastforce
    next
      case False
      have "\<exists>w ws. split_text sep (q @ sep @ n) = w # ws \<and> ws \<noteq> [] \<and> last ws = n" using 1 Cons by simp
      with False Cons show ?thesis by auto
    qed
  qed
qed

lemma last_part: "\<not> sublist ''node_modules/'' n \<Longrightarrow> last (split_text ''node_modules/'' (p @ ''node_modules/'' @ n)) = n"
proof -
  assume n: "\<not> sublist ''node_modules/'' n"
  have "no_border ''node_modules/''" by code_simp
  from split_text_last [OF this n, of p] show ?thesis by (metis last_ConsR)
qed

subsection \<open>Properties\<close>

text \<open>
  The search for notices is exact: below a directory it returns every regular file whose own name is
  that of a licence or notice and whose path does not lead through \<open>node_modules\<close> or \<open>.git\<close>, nothing
  else, and nothing twice. The walk ends on every tree.
\<close>

theorem findLicenseFiles_exact:
  assumes "wf_node t" "is_directory (look t dir)"
  shows "\<exists>fs. findLicenseFiles collate t dir = Inr fs \<and> distinct fs \<and>
    (\<forall>q. q \<in> set fs \<longleftrightarrow> (\<exists>p c. q = dir @ p \<and> has_file (look t dir) p c \<and> licenseName (last p) \<and>
       ''node_modules'' \<notin> set p \<and> ''.git'' \<notin> set p))"
proof -
  obtain fs where fs: "findLicenseFiles collate t dir = Inr fs"
    using assms(2) by (auto simp: findLicenseFiles_def is_directory_def split: option.splits node.splits)
  then show ?thesis
    using findLicenseFiles_iff [OF assms(1) fs] by (simp add: plain_path_def)
qed


text \<open>
  C33. A bundle is truthful when the script succeeds: every file its manifest lists is in the output with
  the hash listed, the manifest itself is there, and no file outside the output directory is changed.
  Hypotheses: no version has a slash, and no two packages share the directory name made of their safe
  name and version; the second can fail, since \<open>@a/b\<close> and \<open>a__b\<close> have the same safe name.
\<close>

theorem bundle_truthful:
  assumes "generate hash collate cwd argv t = (Inr ms, t')" "wf_node t" "list_all name_ok cwd"
    and "list_all plain_version ms" "distinct (map (\<lambda>m. destinationName (me_name m) (me_version m)) ms)"
  shows "(\<forall>m \<in> set ms. \<forall>(p, h) \<in> set (me_files m). \<exists>rel c. p = slashed rel \<and> h = hash c \<and>
      has_file (Some t') (path_resolve cwd (argument argv 2) @ destinationName (me_name m) (me_version m) # rel) c) \<and>
    has_file (Some t') (path_resolve cwd (argument argv 2) @ [''manifest.json'']) (json_pretty 0 (manifest_json ms) @ [CHR 0x0A]) \<and>
    (\<forall>q c. \<not> prefix (path_resolve cwd (argument argv 2)) q \<longrightarrow> has_file (Some t') q c = has_file (Some t) q c)"
proof -
  let ?out = "path_resolve cwd (argument argv 2)"
  from assms(1) obtain es overrides where
    "write_bundle hash collate (path_resolve cwd (argument argv 1)) ?out overrides es t = (Inr ms, t')"
    by (rule generate_step)
  then obtain u made where p: "bundle_packages hash collate (path_resolve cwd (argument argv 1)) ?out overrides es t = (Inr ms, u)"
    and m: "mkdir ?out u = Some made"
    and w: "write_file (?out @ [''manifest.json'']) (json_pretty 0 (manifest_json ms) @ [CHR 0x0A]) made = Some t'"
    by (rule write_bundle_step)
  have kept: "has_file (Some t') q c = has_file (Some u) q c" if "q \<noteq> ?out @ [''manifest.json'']" for q c
    using write_file_others [OF w that] mkdir_others [OF m] by simp
  have rt: "entry_root ?out m = ?out @ [destinationName (me_name m) (me_version m)]" if "m \<in> set ms" for m
    using assms(4) that by (intro entry_root_plain) (simp add: list_all_iff)
  have "entry_true hash ?out t' m" if "m \<in> set ms" for m
  proof (rule entry_true_kept [of hash ?out u])
    show "entry_true hash ?out u m"
      using packages_true [OF p assms(2) path_resolve_ok [OF assms(3)] assms(4,5)] that by (simp add: list_all_iff)
    show "has_file (Some t') (entry_root ?out m @ rel) c = has_file (Some u) (entry_root ?out m @ rel) c" if "rel \<noteq> []" for rel c
      by (rule kept) (use rt [OF \<open>m \<in> set ms\<close>] that in simp)
  qed
  then have "\<exists>rel c. p = slashed rel \<and> h = hash c \<and> has_file (Some t') (?out @ destinationName (me_name m) (me_version m) # rel) c"
    if "m \<in> set ms" "(p, h) \<in> set (me_files m)" for m p h
    using entry_trueD [of hash ?out t' m p h] that rt [of m] by simp
  moreover have "has_file (Some t') (?out @ [''manifest.json'']) (json_pretty 0 (manifest_json ms) @ [CHR 0x0A])"
    using write_file_look [OF w] by (simp add: has_file_def)
  moreover have "has_file (Some t') q c = has_file (Some t) q c" if "\<not> prefix ?out q" for q c
  proof -
    have "has_file (Some u) q c = has_file (Some t) q c"
      by (rule packages_others [OF p]) (use that rt in \<open>auto dest: append_prefixD\<close>)
    moreover have "q \<noteq> ?out @ [''manifest.json'']" using that by auto
    ultimately show ?thesis using kept by simp
  qed
  ultimately show ?thesis by auto
qed

text \<open>
  The name of a package is recovered from any path npm installs it under, however deep, for plain
  names and for names with a scope.
\<close>

theorem lock_path_name:
  assumes "\<not> sublist ''node_modules/'' name"
    and "CHR ''/'' \<notin> set name \<and> \<not> prefix ''@'' name \<or>
      (\<exists>scope n. name = ''@'' @ scope @ ''/'' @ n \<and> CHR ''/'' \<notin> set scope \<and> CHR ''/'' \<notin> set n)"
  shows "packageNameFromLockPath (parent @ ''node_modules/'' @ name) = name"
proof -
  have l: "last (split_text ''node_modules/'' (parent @ ''node_modules/'' @ name)) = name"
    by (rule last_part [OF assms(1)])
  from assms(2) show ?thesis
  proof
    assume h: "CHR ''/'' \<notin> set name \<and> \<not> prefix ''@'' name"
    then have "split_char CHR ''/'' name = [name]" using split_char_join [of "[name]" "CHR ''/''"] by simp
    with h show ?thesis unfolding packageNameFromLockPath_def l by simp
  next
    assume "\<exists>scope n. name = ''@'' @ scope @ ''/'' @ n \<and> CHR ''/'' \<notin> set scope \<and> CHR ''/'' \<notin> set n"
    then obtain scope n where h: "name = ''@'' @ scope @ ''/'' @ n" "CHR ''/'' \<notin> set scope" "CHR ''/'' \<notin> set n" by blast
    then have "split_char CHR ''/'' name = [''@'' @ scope, n]"
      using split_char_join [of "[''@'' @ scope, n]" "CHR ''/''"] by simp
    with h(1) show ?thesis unfolding packageNameFromLockPath_def l by simp
  qed
qed

theorem lock_path_name_witness:
  "packageNameFromLockPath ''node_modules/a/node_modules/@s/b'' = ''@s/b''"
proof -
  have "\<not> sublist ''node_modules/'' ''@s/b''" by code_simp
  moreover have "''@s/b'' = ''@'' @ ''s'' @ ''/'' @ ''b'' \<and> CHR ''/'' \<notin> set ''s'' \<and> CHR ''/'' \<notin> set ''b''" by simp
  ultimately have "packageNameFromLockPath (''node_modules/a/'' @ ''node_modules/'' @ ''@s/b'') = ''@s/b''"
    by (intro lock_path_name) blast+
  then show ?thesis by simp
qed

lemma safeName_collision: "safeName ''@a/b'' = safeName ''a__b''"
  by code_simp

subsection \<open>A small bundle\<close>

definition sample_lock :: json where
  "sample_lock = JObj [(''packages'', JObj [(''node_modules/vite'', JObj []), (''node_modules/rolldown'', JObj []),
     (''node_modules/tailwindcss'', JObj [])])]"

definition sample_package :: "string \<Rightarrow> node" where
  "sample_package licence =
     Dir [(''package.json'', File (json_string (JObj [(''version'', JStr ''1'')]))), (licence, File ''text'')]"

definition sample_modules :: node where
  "sample_modules = Dir [(''lock'', File (json_string sample_lock)),
     (''m'', Dir [(''rolldown'', sample_package ''THIRD-PARTY-LICENSE''), (''tailwindcss'', sample_package ''LICENSE''),
       (''vite'', sample_package ''LICENSE.md'')])]"

abbreviation sample_argv :: "string list" where
  "sample_argv \<equiv> [''lock'', ''m'', ''out'']"

definition sample_entry :: "string \<Rightarrow> string \<Rightarrow> manifest_entry" where
  "sample_entry name licence = \<lparr>me_name = name, me_version = Some (JStr ''1''), me_declaredLicense = JStr ''UNKNOWN'',
     me_noticeSource = ''package'', me_files = [(licence, ''h''), (''package.json'', ''h'')]\<rparr>"

definition sample_manifest :: "manifest_entry list" where
  "sample_manifest = [sample_entry ''rolldown'' ''THIRD-PARTY-LICENSE'', sample_entry ''tailwindcss'' ''LICENSE'',
     sample_entry ''vite'' ''LICENSE.md'']"

lemma sample_generate: "fst (generate (\<lambda>c. ''h'') compare_units [] sample_argv sample_modules) = Inr sample_manifest"
  by code_simp

lemma sample_run: "\<exists>t'. generate (\<lambda>c. ''h'') compare_units [] sample_argv sample_modules = (Inr sample_manifest, t')"
  using sample_generate by (metis prod.collapse)

lemma sample_tree_wf: "wf_node sample_modules"
  by code_simp

lemma sample_plain: "list_all plain_version sample_manifest"
  by code_simp

theorem findLicenseFiles_exact_witness:
  "\<exists>fs. findLicenseFiles compare_units sample_modules [''m'', ''vite''] = Inr fs \<and> [''m'', ''vite'', ''LICENSE.md''] \<in> set fs"
proof -
  have "is_directory (look sample_modules [''m'', ''vite''])" by code_simp
  from findLicenseFiles_exact [OF sample_tree_wf this, of compare_units] obtain fs
    where fs: "findLicenseFiles compare_units sample_modules [''m'', ''vite''] = Inr fs"
      "\<And>q. q \<in> set fs \<longleftrightarrow> (\<exists>p c. q = [''m'', ''vite''] @ p \<and> has_file (look sample_modules [''m'', ''vite'']) p c \<and>
        licenseName (last p) \<and> ''node_modules'' \<notin> set p \<and> ''.git'' \<notin> set p)"
    by blast
  have "has_file (look sample_modules [''m'', ''vite'']) [''LICENSE.md''] ''text''" "licenseName ''LICENSE.md''"
    by code_simp+
  then have "[''m'', ''vite'', ''LICENSE.md''] \<in> set fs"
    unfolding fs(2) by (intro exI [of _ "[''LICENSE.md'']"] exI [of _ "''text''"]) simp
  with fs(1) show ?thesis by blast
qed


theorem bundle_truthful_witness:
  "\<exists>t' rel c. generate (\<lambda>c. ''h'') compare_units [] sample_argv sample_modules = (Inr sample_manifest, t') \<and>
     ''LICENSE.md'' = slashed rel \<and> has_file (Some t') ([''out''] @ ''vite@1'' # rel) c"
proof -
  obtain t' where run: "generate (\<lambda>c. ''h'') compare_units [] sample_argv sample_modules = (Inr sample_manifest, t')"
    using sample_run by blast
  have out: "path_resolve [] (argument sample_argv 2) = [''out'']" by code_simp
  have d: "distinct (map (\<lambda>m. destinationName (me_name m) (me_version m)) sample_manifest)" by code_simp
  have e: "sample_entry ''vite'' ''LICENSE.md'' \<in> set sample_manifest"
    "(''LICENSE.md'', ''h'') \<in> set (me_files (sample_entry ''vite'' ''LICENSE.md''))"
    by (simp_all add: sample_manifest_def sample_entry_def)
  have n: "destinationName (me_name (sample_entry ''vite'' ''LICENSE.md'')) (me_version (sample_entry ''vite'' ''LICENSE.md'')) = ''vite@1''"
    by code_simp
  from bundle_truthful [OF run sample_tree_wf _ sample_plain d] e
  have "\<exists>rel c. ''LICENSE.md'' = slashed rel \<and> has_file (Some t') ([''out''] @ ''vite@1'' # rel) c"
    unfolding out by (fastforce simp: n)
  with run show ?thesis by blast
qed

end
