(* ===== verification/Canvas.thy ===== *)
theory Canvas
  imports Widgets
begin

text \<open>
  The chart of \<open>components/charts/EChart.tsx\<close>: its element, the colours it takes from the style of the page, and
  the effect that makes a chart of the library for every new option and disposes of the one before. The
  library is seen through the calls it receives; \<open>'o\<close> is the identity of an option object, which is what
  the dependency list of the effect compares.
\<close>

definition EChart :: "string \<Rightarrow> 'a element" where
  "EChart ariaLabel = Element ''div'' [(''role'', ''img''), (''aria-label'', ariaLabel)] [] []"

text \<open>\<open>style\<close> is \<open>getComputedStyle(document.documentElement).getPropertyValue\<close>.\<close>

definition chartTextColor :: "(string \<Rightarrow> string) \<Rightarrow> string" where
  "chartTextColor style = or_else (trim (style ''--chart-text'')) ''#94a3b8''"

definition chartGridColor :: "(string \<Rightarrow> string) \<Rightarrow> string" where
  "chartGridColor style = or_else (trim (style ''--chart-grid'')) ''rgba(148,163,184,.12)''"

subsection \<open>The effect\<close>

text \<open>A chart of the library has a number; the observer of its container is disconnected with it.\<close>

datatype 'o chart_call = Init nat | Set_Option nat 'o | Observe nat | Resize nat | Disconnect nat | Dispose nat

text \<open>\<open>cv_option\<close> is the option of the last effect; without a container the effect makes no chart.\<close>

record 'o canvas =
  cv_next :: nat
  cv_option :: "'o option"
  cv_live :: "(nat \<times> 'o) option"

definition canvas_init :: "'o canvas" where
  "canvas_init = \<lparr>cv_next = 0, cv_option = None, cv_live = None\<rparr>"

text \<open>A render with an option, in a container or without one; a change of size; the removal.\<close>

datatype 'o canvas_event = Rendered bool 'o | Resized | Removed

definition effect_runs :: "'o canvas \<Rightarrow> 'o \<Rightarrow> bool" where
  "effect_runs s option \<longleftrightarrow> cv_option s \<noteq> Some option"

definition cleanup :: "'o canvas \<Rightarrow> 'o chart_call list" where
  "cleanup s = (case cv_live s of Some (i, _) \<Rightarrow> [Disconnect i, Dispose i] | None \<Rightarrow> [])"

fun canvas_step :: "'o canvas \<Rightarrow> 'o canvas_event \<Rightarrow> 'o canvas" where
  "canvas_step s (Rendered container option) =
     (if \<not> effect_runs s option then s
      else if container then s\<lparr>cv_next := Suc (cv_next s), cv_option := Some option, cv_live := Some (cv_next s, option)\<rparr>
      else s\<lparr>cv_option := Some option, cv_live := None\<rparr>)"
| "canvas_step s Resized = s"
| "canvas_step s Removed = s\<lparr>cv_option := None, cv_live := None\<rparr>"

fun canvas_calls :: "'o canvas \<Rightarrow> 'o canvas_event \<Rightarrow> 'o chart_call list" where
  "canvas_calls s (Rendered container option) =
     (if \<not> effect_runs s option then []
      else cleanup s @ (if container then [Init (cv_next s), Set_Option (cv_next s) option, Observe (cv_next s)] else []))"
| "canvas_calls s Resized = (case cv_live s of Some (i, _) \<Rightarrow> [Resize i] | None \<Rightarrow> [])"
| "canvas_calls s Removed = cleanup s"

fun canvas_trace :: "'o canvas \<Rightarrow> 'o canvas_event list \<Rightarrow> 'o chart_call list" where
  "canvas_trace s [] = []"
| "canvas_trace s (e # es) = canvas_calls s e @ canvas_trace (canvas_step s e) es"

subsection \<open>What the library holds\<close>

text \<open>
  The charts alive with what they show. A call for a chart that is not alive, or a second chart of the
  same number, has no result.
\<close>

fun library_call :: "(nat \<rightharpoonup> 'o option) \<Rightarrow> 'o chart_call \<Rightarrow> (nat \<rightharpoonup> 'o option) option" where
  "library_call m (Init i) = (if m i = None then Some (m(i \<mapsto> None)) else None)"
| "library_call m (Set_Option i option) = (if m i = None then None else Some (m(i \<mapsto> Some option)))"
| "library_call m (Observe i) = (if m i = None then None else Some m)"
| "library_call m (Resize i) = (if m i = None then None else Some m)"
| "library_call m (Disconnect i) = (if m i = None then None else Some m)"
| "library_call m (Dispose i) = (if m i = None then None else Some (m(i := None)))"

fun library_run :: "(nat \<rightharpoonup> 'o option) \<Rightarrow> 'o chart_call list \<Rightarrow> (nat \<rightharpoonup> 'o option) option" where
  "library_run m [] = Some m"
| "library_run m (c # cs) = Option.bind (library_call m c) (\<lambda>m'. library_run m' cs)"

definition charts_of :: "'o canvas \<Rightarrow> (nat \<rightharpoonup> 'o option)" where
  "charts_of s = (case cv_live s of Some (i, option) \<Rightarrow> [i \<mapsto> Some option] | None \<Rightarrow> Map.empty)"

lemma library_run_append: "library_run m (xs @ ys) = Option.bind (library_run m xs) (\<lambda>m'. library_run m' ys)"
  by (induction xs arbitrary: m) (auto split: Option.bind_splits)

lemma step_charts: "library_run (charts_of s) (canvas_calls s e) = Some (charts_of (canvas_step s e))"
  by (cases e) (auto simp: charts_of_def cleanup_def split: option.splits)

lemma trace_charts: "library_run (charts_of s) (canvas_trace s es) = Some (charts_of (foldl canvas_step s es))"
  by (induction es arbitrary: s) (simp_all add: library_run_append step_charts)

lemma live_option:
  "cv_live (foldl canvas_step canvas_init es) \<in> insert None (range (\<lambda>i. map_option (Pair i) (cv_option (foldl canvas_step canvas_init es))))"
proof (induction es rule: rev_induct)
  case Nil
  then show ?case by (simp add: canvas_init_def)
next
  case (snoc e es)
  then show ?case by (cases e) auto
qed

text \<open>
  The effect implements a canvas that shows one option: whatever is rendered, resized or removed, no call
  goes to a chart that is not alive, no chart is left behind, and the only chart alive shows the option
  rendered last.
\<close>

theorem canvas_refines:
  "let s = foldl canvas_step canvas_init es in
   library_run Map.empty (canvas_trace canvas_init es) = Some (charts_of s) \<and>
   (charts_of s = Map.empty \<or> (\<exists>i option. cv_option s = Some option \<and> charts_of s = [i \<mapsto> Some option]))"
proof -
  have "charts_of (canvas_init :: 'a canvas) = Map.empty" by (simp add: charts_of_def canvas_init_def)
  then show ?thesis
    using trace_charts [of canvas_init es] live_option [of es]
    by (cases "cv_option (foldl canvas_step canvas_init es)") (auto simp: charts_of_def Let_def)
qed

text \<open>With its container, which the element always is, a canvas that has an option shows it.\<close>

fun attached :: "'o canvas_event \<Rightarrow> bool" where
  "attached (Rendered container option) \<longleftrightarrow> container"
| "attached _ \<longleftrightarrow> True"

lemma canvas_shows:
  "list_all attached es \<Longrightarrow>
   map_option snd (cv_live (foldl canvas_step canvas_init es)) = cv_option (foldl canvas_step canvas_init es)"
proof (induction es rule: rev_induct)
  case (snoc e es)
  then show ?case by (cases e) auto
qed (simp add: canvas_init_def)

end
