(* ===== verification/Application.thy ===== *)
theory Application
  imports SettingsPage Format Widgets Theme
begin

text \<open>
  What every page gets from its surroundings: the settings with their fallback and the formatters made
  from them (\<open>hooks/useAppSettings.ts\<close>), the formats of dates and the downloads of \<open>lib/utils.ts\<close>, and the entry of
  the program (\<open>main.tsx\<close>). The date library and \<open>Intl\<close> are parameters.
\<close>

subsection \<open>Dates\<close>

text \<open>
  \<open>dl_parseISO\<close> gives no date for a text it reads as an invalid one; \<open>dl_intl\<close> formats with or without seconds in
  a time zone, and throws for a zone it does not know.
\<close>

record 'd date_library =
  dl_parseISO :: "string \<Rightarrow> 'd option"
  dl_format :: "string \<Rightarrow> 'd \<Rightarrow> string"
  dl_intl :: "bool \<Rightarrow> string \<Rightarrow> 'd \<Rightarrow> string option"
  dl_distance :: "'d \<Rightarrow> string"

definition parsed :: "'d date_library \<Rightarrow> string option \<Rightarrow> 'd option" where
  "parsed L value = (case value of Some v \<Rightarrow> if v = [] then None else dl_parseISO L v | None \<Rightarrow> None)"

text \<open>\<^const>\<open>None\<close> is the error of a time zone; an empty zone counts as none given.\<close>

definition formatDateTime :: "'d date_library \<Rightarrow> string option \<Rightarrow> bool \<Rightarrow> string \<Rightarrow> string option" where
  "formatDateTime L value withSeconds timeZone =
     (case parsed L value of
        None \<Rightarrow> Some em_dash
      | Some date \<Rightarrow>
          if timeZone = [] then Some (dl_format L (if withSeconds then ''dd MMM yyyy, HH:mm:ss'' else ''dd MMM yyyy, HH:mm'') date)
          else dl_intl L withSeconds timeZone date)"

definition formatRelative :: "'d date_library \<Rightarrow> string option \<Rightarrow> string" where
  "formatRelative L value =
     (case value of
        None \<Rightarrow> ''Not scheduled''
      | Some v \<Rightarrow> if v = [] then ''Not scheduled'' else (case dl_parseISO L v of None \<Rightarrow> ''Unknown'' | Some date \<Rightarrow> dl_distance L date))"

subsection \<open>Settings and formatters\<close>

definition useAppSettings :: "SettingsValues option \<Rightarrow> SettingsValues" where
  "useAppSettings answer = (case answer of Some v \<Rightarrow> v | None \<Rightarrow> fallbackSettings)"

definition units_of :: "string \<Rightarrow> display_units" where
  "units_of u = (if u = ''bytes'' then Bytes else Bits)"

record formatters =
  fm_bitrate :: "js_number option \<Rightarrow> bool \<Rightarrow> string"
  fm_dateTime :: "string option \<Rightarrow> bool \<Rightarrow> string option"

definition useFormatters :: "'d date_library \<Rightarrow> SettingsValues option \<Rightarrow> formatters" where
  "useFormatters L answer =
     (let settings = useAppSettings answer in
      \<lparr>fm_bitrate = (\<lambda>value small. formatBitrate value small (units_of (sv_displayUnits settings))),
       fm_dateTime = (\<lambda>value withSeconds. formatDateTime L value withSeconds (sv_defaultTimezone settings))\<rparr>)"

text \<open>
  The formatters are kept until the zone or the units change (\<open>useMemo\<close>), so it matters that they
  depend on nothing else.
\<close>

lemma formatters_memo:
  "sv_defaultTimezone (useAppSettings a) = sv_defaultTimezone (useAppSettings b) \<Longrightarrow>
   sv_displayUnits (useAppSettings a) = sv_displayUnits (useAppSettings b) \<Longrightarrow> useFormatters L a = useFormatters L b"
  by (simp add: useFormatters_def Let_def)

text \<open>
  Before the settings are known and with every zone the platform knows, no date throws: it is
  printed, or the dash stands for a missing or malformed one.
\<close>

theorem dates_printed:
  assumes "\<And>b d. dl_intl L b (sv_defaultTimezone (useAppSettings answer)) d \<noteq> None"
  shows "fm_dateTime (useFormatters L answer) value withSeconds \<noteq> None \<and>
    (parsed L value = None \<longrightarrow> fm_dateTime (useFormatters L answer) value withSeconds = Some em_dash)"
  using assms by (auto simp: useFormatters_def formatDateTime_def Let_def split: option.splits)

subsection \<open>Downloads\<close>

record anchor =
  an_href :: string
  an_download :: string
  an_rel :: string

text \<open>The end of the body of the document, and the downloads the browser was asked for.\<close>

record page_body =
  pb_appended :: "anchor list"
  pb_downloads :: "(string \<times> string) list"

definition append_anchor :: "anchor \<Rightarrow> page_body \<Rightarrow> page_body" where
  "append_anchor a p = p\<lparr>pb_appended := pb_appended p @ [a]\<rparr>"

definition click_anchor :: "anchor \<Rightarrow> page_body \<Rightarrow> page_body" where
  "click_anchor a p = p\<lparr>pb_downloads := pb_downloads p @ [(an_href a, an_download a)]\<rparr>"

definition remove_last :: "page_body \<Rightarrow> page_body" where
  "remove_last p = p\<lparr>pb_appended := butlast (pb_appended p)\<rparr>"

definition downloadFromUrl :: "string \<Rightarrow> string \<Rightarrow> page_body \<Rightarrow> page_body" where
  "downloadFromUrl url filename p =
     (let a = \<lparr>an_href = url, an_download = filename, an_rel = ''noopener''\<rparr>
      in remove_last (click_anchor a (append_anchor a p)))"

lemma download_once:
  "downloadFromUrl url filename p = p\<lparr>pb_downloads := pb_downloads p @ [(url, filename)]\<rparr>"
  by (simp add: downloadFromUrl_def remove_last_def click_anchor_def append_anchor_def Let_def)

subsection \<open>The entry\<close>

text \<open>The tree of providers around the application, which needs the root element of the page.\<close>

definition providers :: "'a element" where
  "providers =
     node_of ''StrictMode''
       [node_of ''QueryClientProvider''
          [node_of ''BrowserRouter'' [node_of ''I18nProvider'' [node_of ''ToastProvider'' [node_of ''App'' []]]]]]"

definition main :: "bool \<Rightarrow> string + 'a element" where
  "main rootFound = (if \<not> rootFound then Inl ''Application root is missing'' else Inr providers)"

end
