(* ===== verification/Harness.thy ===== *)
theory Harness
  imports Files JsRegex Json
begin

text \<open>
  The script that starts the daemon for the end-to-end tests (\<open>web/e2e/start-backend.mjs\<close>): it makes a data
  directory, checks its port, starts the backend by a command, with Go or in a Docker container, waits for it
  and cleans up. What the script does to the system is a log of actions; what the system answers, and which
  signals arrive while a child runs, is a function of the log before, so it may depend on all that was done.
  Handlers of signals run while the script waits and at no other time.
\<close>

subsection \<open>Numbers and proxies\<close>

text \<open>\<open>Number(s)\<close> of a string.\<close>

definition radix_value :: "nat \<Rightarrow> string \<Rightarrow> js_number" where
  "radix_value b ds =
     (let value = (\<lambda>c. if is_digit c then digit_value c
            else if is_alpha c then of_char (lower_char c) - 87 else 36)
      in if ds \<noteq> [] \<and> list_all (\<lambda>c. value c < b) ds then to_number (of_nat (foldl (\<lambda>n c. b * n + value c) 0 ds)) else NaN)"

definition decimal_literal :: "string \<Rightarrow> rat option" where
  "decimal_literal s =
     (let ds = takeWhile is_digit s; r = dropWhile is_digit s;
          dot = (r \<noteq> [] \<and> hd r = CHR ''.''); fs = (if dot then takeWhile is_digit (tl r) else []);
          r' = (if dot then dropWhile is_digit (tl r) else r)
      in if ds @ fs = [] then None
         else case parse_exponent r' of
           Some (e, []) \<Rightarrow> Some (of_nat (digits_value (ds @ fs)) * 10 powi (e - int (length fs)))
         | _ \<Rightarrow> None)"

definition js_Number :: "string \<Rightarrow> js_number" where
  "js_Number text =
     (let s = trim text; sign = (s \<noteq> [] \<and> hd s \<in> {CHR ''-'', CHR ''+''}); negative = (s \<noteq> [] \<and> hd s = CHR ''-'');
          r = (if sign then tl s else s); tag = to_lower (take 2 s)
      in if s = [] then Fin 0
         else if tag = ''0x'' then radix_value 16 (drop 2 s)
         else if tag = ''0o'' then radix_value 8 (drop 2 s)
         else if tag = ''0b'' then radix_value 2 (drop 2 s)
         else if r = ''Infinity'' then (if negative then NInf else Inf)
         else case decimal_literal r of Some x \<Rightarrow> to_number (if negative then - x else x) | None \<Rightarrow> NaN)"

definition port_of :: "string \<Rightarrow> nat option" where
  "port_of requested =
     (case js_Number requested of
        Fin x \<Rightarrow> if x = of_int \<lfloor>x\<rfloor> \<and> 1024 \<le> x \<and> x \<le> 65535 then Some (nat \<lfloor>x\<rfloor>) else None
      | _ \<Rightarrow> None)"

definition appendNoProxy :: "string option \<Rightarrow> string" where
  "appendNoProxy current =
     (let entries = unique (filter (\<lambda>v. v \<noteq> []) (map trim (split_char CHR '','' (case current of Some c \<Rightarrow> c | None \<Rightarrow> []))))
      in join '','' (set_add ''localhost'' (set_add ''127.0.0.1'' entries)))"

subsection \<open>Actions and answers\<close>

datatype environment = Own_Environment | Backend_Environment

datatype action =
    Make_Temp path
  | Chmod path
  | Make_Dir path
  | Remove_Tree path
  | Ask string "string list"
  | Spawn string "string list" environment
  | Spawn_Shell string
  | Kill_Child string
  | Say string

text \<open>An exit code and a signal.\<close>

type_synonym child_exit = "int option \<times> string option"

record world =
  w_env :: "string \<rightharpoonup> string"
  w_platform :: string
  w_tmpdir :: path
  w_suffix :: string
  w_script :: path
  w_ok :: "action list \<Rightarrow> bool"
  w_ask :: "action list \<Rightarrow> (nat \<times> string) option"
  w_wait :: "action list \<Rightarrow> string list \<times> child_exit option"

record harness =
  h_log :: "action list"
  h_container :: string
  h_docker :: string
  h_shutdown :: bool

datatype harness_error = Thrown string | System_Error

type_synonym 'x script = "harness \<Rightarrow> (harness_error + 'x) \<times> harness"

definition harness_init :: harness where
  "harness_init = \<lparr>h_log = [], h_container = [], h_docker = [], h_shutdown = False\<rparr>"

definition act :: "action \<Rightarrow> harness \<Rightarrow> harness" where
  "act a s = s\<lparr>h_log := h_log s @ [a]\<rparr>"

definition and_then :: "'x script \<Rightarrow> ('x \<Rightarrow> 'y script) \<Rightarrow> 'y script" where
  "and_then f g s = (case f s of (Inl e, s') \<Rightarrow> (Inl e, s') | (Inr x, s') \<Rightarrow> g x s')"

definition effect :: "(harness \<Rightarrow> harness) \<Rightarrow> unit script" where
  "effect f s = (Inr (), f s)"

definition throw :: "string \<Rightarrow> 'x script" where
  "throw m s = (Inl (Thrown m), s)"

text \<open>A call of the file system, which may fail.\<close>

definition call :: "world \<Rightarrow> action \<Rightarrow> unit script" where
  "call w a s = (let s' = act a s in (if w_ok w (h_log s') then Inr () else Inl System_Error, s'))"

subsection \<open>Commands\<close>

definition commandSucceeds :: "world \<Rightarrow> string \<Rightarrow> string list \<Rightarrow> bool script" where
  "commandSucceeds w command args s =
     (let s' = act (Ask command args) s
      in (Inr (case w_ask w (h_log s') of Some (status, _) \<Rightarrow> status = 0 | None \<Rightarrow> False), s'))"

definition inspect_args :: "string \<Rightarrow> string list" where
  "inspect_args container = [''inspect'', ''--format'', ''{{index .Config.Labels '' @ [CHR 0x22] @ ''io.multispeed.e2e'' @ [CHR 0x22] @ ''}}'', container]"

definition remove_args :: "string \<Rightarrow> string list" where
  "remove_args container = [''rm'', ''--force'', container]"

definition label_shown :: "world \<Rightarrow> action list \<Rightarrow> bool" where
  "label_shown w l = (case w_ask w l of Some (status, out) \<Rightarrow> status = 0 \<and> trim out = ''true'' | None \<Rightarrow> False)"

definition removeDockerContainer :: "world \<Rightarrow> harness \<Rightarrow> harness" where
  "removeDockerContainer w s =
     (if h_container s = [] \<or> h_docker s = [] then s
      else let s' = act (Ask (h_docker s) (inspect_args (h_container s))) s;
               s'' = (if label_shown w (h_log s') then act (Ask (h_docker s) (remove_args (h_container s))) s' else s')
           in s''\<lparr>h_container := []\<rparr>)"

definition on_signal :: "world \<Rightarrow> string \<Rightarrow> harness \<Rightarrow> harness" where
  "on_signal w signal s = removeDockerContainer w (act (Kill_Child signal) (s\<lparr>h_shutdown := True\<rparr>))"

definition childExit :: "world \<Rightarrow> child_exit script" where
  "childExit w s =
     (let (signals, e) = w_wait w (h_log s); s' = fold (on_signal w) signals s
      in case e of Some x \<Rightarrow> (Inr x, s') | None \<Rightarrow> (Inl System_Error, s'))"

definition describeExit :: "child_exit \<Rightarrow> string" where
  "describeExit e =
     (case e of
        (code, Some signal) \<Rightarrow> if signal \<noteq> [] then ''signal '' @ signal else ''exit code '' @ (case code of Some c \<Rightarrow> int_string c | None \<Rightarrow> ''unknown'')
      | (code, None) \<Rightarrow> ''exit code '' @ (case code of Some c \<Rightarrow> int_string c | None \<Rightarrow> ''unknown''))"

definition runToCompletion :: "world \<Rightarrow> string \<Rightarrow> string list \<Rightarrow> environment \<Rightarrow> unit script" where
  "runToCompletion w command args env =
     and_then (effect (act (Spawn command args env))) (\<lambda>_. and_then (childExit w) (\<lambda>e.
       if fst e \<noteq> Some 0
       then throw (command @ '' '' @ (case args of a # _ \<Rightarrow> a | [] \<Rightarrow> []) @ '' failed ('' @ describeExit e @ '')'')
       else effect id))"

subsection \<open>The script\<close>

definition dataDirectory :: "world \<Rightarrow> path" where
  "dataDirectory w = w_tmpdir w @ [''multispeed-e2e-'' @ w_suffix w]"

definition fixtureDirectory :: "world \<Rightarrow> path" where
  "fixtureDirectory w = w_script w @ [''fixtures'']"

text \<open>\<open>process.env.NAME?.trim()\<close>; an absent variable and an empty one are both falsy.\<close>

definition setting :: "world \<Rightarrow> string \<Rightarrow> string" where
  "setting w name = (case w_env w name of Some v \<Rightarrow> trim v | None \<Rightarrow> [])"

definition or_default :: "string \<Rightarrow> string \<Rightarrow> string" where
  "or_default v d = (if v = [] then d else v)"

definition announce :: "string \<Rightarrow> unit script" where
  "announce m = effect (act (Say (''[multispeed-e2e] '' @ m @ [CHR 0x0A])))"

definition backendEnvironment :: "world \<Rightarrow> nat \<Rightarrow> string \<rightharpoonup> string" where
  "backendEnvironment w port =
     (w_env w)(''APP_LISTEN_ADDR'' \<mapsto> ''127.0.0.1:'' @ nat_string port, ''APP_DATA_DIR'' \<mapsto> abs_path (dataDirectory w),
       ''APP_LOG_LEVEL'' \<mapsto> ''INFO'', ''APP_SHUTDOWN_TIMEOUT'' \<mapsto> ''5s'',
       ''OOKLA_BINARY'' \<mapsto> abs_path (fixtureDirectory w @ [''ookla-speedtest'']),
       ''LIBRESPEED_BINARY'' \<mapsto> abs_path (fixtureDirectory w @ [''librespeed-cli'']), ''ACCEPT_OOKLA_EULA'' \<mapsto> ''false'',
       ''NO_PROXY'' \<mapsto> appendNoProxy (w_env w ''NO_PROXY''), ''no_proxy'' \<mapsto> appendNoProxy (w_env w ''no_proxy''))"

definition chmod_fixtures :: "world \<Rightarrow> unit script" where
  "chmod_fixtures w =
     (let one = (\<lambda>name s. case call w (Chmod (fixtureDirectory w @ [name])) s of
            (Inl e, s') \<Rightarrow> (if w_platform w \<noteq> ''win32'' then Inl e else Inr (), s') | r \<Rightarrow> r)
      in and_then (one ''ookla-speedtest'') (\<lambda>_. one ''librespeed-cli''))"

definition is_name_char :: "char \<Rightarrow> bool" where
  "is_name_char c \<longleftrightarrow> is_alpha c \<or> is_digit c \<or> c = CHR ''_'' \<or> c = CHR ''.'' \<or> c = CHR ''-''"

definition container_ok :: "string \<Rightarrow> bool" where
  "container_ok name \<longleftrightarrow> prefix ''multispeed-e2e-'' name \<and> drop 15 name \<noteq> [] \<and> list_all is_name_char (drop 15 name)"

definition container_name :: "world \<Rightarrow> string" where
  "container_name w = or_default (setting w ''MULTISPEED_E2E_CONTAINER_NAME'') ''multispeed-e2e-playwright''"

definition run_args :: "string \<Rightarrow> nat \<Rightarrow> string \<Rightarrow> string list" where
  "run_args container port imageName =
     (let p = nat_string port in
      [''run'', ''--rm'', ''--name'', container, ''--label'', ''io.multispeed.e2e=true'',
       ''--publish'', ''127.0.0.1:'' @ p @ '':'' @ p, ''--env'', ''APP_LISTEN_ADDR=0.0.0.0:'' @ p, ''--env'', ''APP_DATA_DIR=/data'', imageName])"

definition start_docker :: "world \<Rightarrow> nat \<Rightarrow> unit script" where
  "start_docker w port =
     (let docker = or_default (setting w ''MULTISPEED_E2E_DOCKER_COMMAND'') ''docker'';
          configuredImage = setting w ''MULTISPEED_E2E_DOCKER_IMAGE''; imageName = or_default configuredImage ''multispeed-e2e:local''
      in and_then (effect (h_docker_update (\<lambda>_. docker))) (\<lambda>_.
         and_then (commandSucceeds w docker [''version'', ''--format'', ''{{.Server.Version}}'']) (\<lambda>found.
         if \<not> found
         then throw ''A Linux Go toolchain or a running Docker daemon is required. Set MULTISPEED_E2E_BACKEND_COMMAND or MULTISPEED_E2E_GO_COMMAND to override discovery.''
         else and_then
           (if configuredImage \<noteq> [] then effect id
            else and_then (announce ''no Linux Go toolchain found; building the Docker test backend'') (\<lambda>_.
              runToCompletion w docker [''build'', ''--file'', ''web/e2e/Dockerfile'', ''--tag'', imageName, ''.''] Own_Environment)) (\<lambda>_.
         and_then (effect (h_container_update (\<lambda>_. container_name w))) (\<lambda>_.
         if \<not> container_ok (container_name w)
         then throw ''MULTISPEED_E2E_CONTAINER_NAME must start with multispeed-e2e- and contain only safe name characters.''
         else and_then (effect (removeDockerContainer w)) (\<lambda>_.
           and_then (effect (h_container_update (\<lambda>_. container_name w))) (\<lambda>_.
             effect (act (Spawn docker (run_args (container_name w) port imageName) Own_Environment)))))))))"

definition start_go :: "world \<Rightarrow> string \<Rightarrow> unit script" where
  "start_go w go =
     (let binaryDirectory = dataDirectory w @ [''bin'']; binaryPath = abs_path (binaryDirectory @ [''multispeed-e2e'']) in
      and_then (call w (Make_Dir binaryDirectory)) (\<lambda>_.
      and_then (announce (''building backend with '' @ go)) (\<lambda>_.
      and_then (runToCompletion w go [''build'', ''-trimpath'', ''-o'', binaryPath, ''./web/e2e/backend''] Backend_Environment) (\<lambda>_.
        effect (act (Spawn binaryPath [] Backend_Environment))))))"

definition start_backend :: "world \<Rightarrow> nat \<Rightarrow> unit script" where
  "start_backend w port =
     (let customCommand = setting w ''MULTISPEED_E2E_BACKEND_COMMAND''; go = or_default (setting w ''MULTISPEED_E2E_GO_COMMAND'') ''go'' in
      if customCommand \<noteq> []
      then and_then (announce (''starting backend override: '' @ customCommand)) (\<lambda>_. effect (act (Spawn_Shell customCommand)))
      else and_then (if w_platform w = ''linux'' then commandSucceeds w go [''version''] else (\<lambda>s. (Inr False, s))) (\<lambda>found.
        if found then start_go w go else start_docker w port))"

definition wait_backend :: "world \<Rightarrow> unit script" where
  "wait_backend w =
     and_then (childExit w) (\<lambda>e s.
       let removedByPlaywrightTeardown = (h_docker s \<noteq> [] \<and> fst e = Some 137)
       in if \<not> h_shutdown s \<and> \<not> removedByPlaywrightTeardown \<and> fst e \<noteq> Some 0
          then throw (''e2e backend exited unexpectedly ('' @ describeExit e @ '')'') s else effect id s)"

definition clean_up :: "world \<Rightarrow> unit script" where
  "clean_up w =
     and_then (effect (removeDockerContainer w)) (\<lambda>_.
       if butlast (dataDirectory w) = w_tmpdir w \<and> prefix ''multispeed-e2e-'' (last (dataDirectory w))
       then call w (Remove_Tree (dataDirectory w)) else effect id)"

text \<open>\<open>try { f } finally { g }\<close>.\<close>

definition finally_do :: "unit script \<Rightarrow> unit script \<Rightarrow> unit script" where
  "finally_do f g s = (case f s of (r, s') \<Rightarrow> (case g s' of (Inl e, s'') \<Rightarrow> (Inl e, s'') | (Inr _, s'') \<Rightarrow> (r, s'')))"

definition requested_port :: "world \<Rightarrow> string" where
  "requested_port w = (case w_env w ''MULTISPEED_E2E_BACKEND_PORT'' of Some p \<Rightarrow> p | None \<Rightarrow> ''18787'')"

definition harness_main :: "world \<Rightarrow> unit script" where
  "harness_main w =
     and_then (call w (Make_Temp (dataDirectory w))) (\<lambda>_.
       case port_of (requested_port w) of
         None \<Rightarrow> throw (''MULTISPEED_E2E_BACKEND_PORT must be an integer from 1024 to 65535; received '' @ requested_port w)
       | Some port \<Rightarrow>
           and_then (chmod_fixtures w) (\<lambda>_.
             finally_do (and_then (start_backend w port) (\<lambda>_. wait_backend w)) (clean_up w)))"

subsection \<open>What the script may do\<close>

text \<open>
  A container is removed only right after the daemon said that it carries the label of the tests; only the
  data directory is deleted; a container is started only under a checked name and on a checked port.
\<close>

definition allowed :: "world \<Rightarrow> action list \<Rightarrow> action \<Rightarrow> bool" where
  "allowed w l a =
     (case a of
        Remove_Tree p \<Rightarrow> p = dataDirectory w
      | Ask d args \<Rightarrow> (\<forall>n. args = remove_args n \<longrightarrow> l \<noteq> [] \<and> last l = Ask d (inspect_args n) \<and> label_shown w l)
      | Spawn d args e \<Rightarrow> (\<forall>n p i. args = run_args n p i \<longrightarrow> container_ok n \<and> 1024 \<le> p \<and> p \<le> 65535)
      | _ \<Rightarrow> True)"

definition log_ok :: "world \<Rightarrow> action list \<Rightarrow> bool" where
  "log_ok w l \<longleftrightarrow> (\<forall>i < length l. allowed w (take i l) (l ! i))"

lemma log_ok_snoc: "log_ok w (l @ [a]) \<longleftrightarrow> log_ok w l \<and> allowed w l a"
  by (auto simp: log_ok_def nth_append less_Suc_eq)

definition keeps :: "world \<Rightarrow> 'x script \<Rightarrow> bool" where
  "keeps w f \<longleftrightarrow> (\<forall>s. log_ok w (h_log s) \<longrightarrow> log_ok w (h_log (snd (f s))))"

named_theorems keeps_intros

lemma keeps_and_then [keeps_intros]: "keeps w f \<Longrightarrow> (\<And>x. keeps w (g x)) \<Longrightarrow> keeps w (and_then f g)"
  unfolding keeps_def
proof (intro allI impI)
  fix s :: harness
  assume h: "\<forall>s :: harness. log_ok w (h_log s) \<longrightarrow> log_ok w (h_log (snd (f s)))"
    "\<And>x. \<forall>s :: harness. log_ok w (h_log s) \<longrightarrow> log_ok w (h_log (snd (g x s)))" "log_ok w (h_log s)"
  obtain r s' where f: "f s = (r, s')" by fastforce
  with h(1,3) have "log_ok w (h_log s')" by (metis snd_conv)
  with f h(2) show "log_ok w (h_log (snd (and_then f g s)))" by (cases r) (simp_all add: and_then_def)
qed

lemma keeps_finally [keeps_intros]: "keeps w f \<Longrightarrow> keeps w g \<Longrightarrow> keeps w (finally_do f g)"
  unfolding keeps_def
proof (intro allI impI)
  fix s :: harness
  assume h: "\<forall>s :: harness. log_ok w (h_log s) \<longrightarrow> log_ok w (h_log (snd (f s)))"
    "\<forall>s :: harness. log_ok w (h_log s) \<longrightarrow> log_ok w (h_log (snd (g s)))" "log_ok w (h_log s)"
  obtain r s' r' s'' where f: "f s = (r, s')" "g s' = (r', s'')" by fastforce
  with h have "log_ok w (h_log s'')" by (metis snd_conv)
  with f show "log_ok w (h_log (snd (finally_do f g s)))" by (cases r') (simp_all add: finally_do_def)
qed

lemma keeps_simple [keeps_intros]:
  "keeps w (throw m)" "keeps w (effect id)" "keeps w (effect (h_docker_update f))" "keeps w (effect (h_container_update f))"
  "keeps w (\<lambda>s. (Inr x, s))"
  by (simp_all add: keeps_def throw_def effect_def)

lemma keeps_if [keeps_intros]: "(b \<Longrightarrow> keeps w f) \<Longrightarrow> (\<not> b \<Longrightarrow> keeps w g) \<Longrightarrow> keeps w (if b then f else g)"
  by simp

lemma keeps_act: "(\<And>l. allowed w l a) \<Longrightarrow> keeps w (effect (act a))"
  by (simp add: keeps_def effect_def act_def log_ok_snoc)

lemma keeps_call: "(\<And>l. allowed w l a) \<Longrightarrow> keeps w (call w a)"
  by (simp add: keeps_def call_def act_def log_ok_snoc Let_def)

lemma args_differ:
  "inspect_args m \<noteq> remove_args n" "[''version''] \<noteq> remove_args n" "[''version'', f, v] \<noteq> remove_args n"
  "''build'' # r \<noteq> run_args n p i" "[] \<noteq> run_args n p i"
  by (simp_all add: inspect_args_def remove_args_def run_args_def Let_def)

lemma run_args_inject: "run_args n p i = run_args n' p' i' \<Longrightarrow> n = n' \<and> p = p'"
  by (auto simp: run_args_def Let_def dest!: arg_cong [where f = digits_value])

lemma keeps_probe: "(\<And>n. args \<noteq> remove_args n) \<Longrightarrow> keeps w (commandSucceeds w c args)"
  by (simp add: keeps_def commandSucceeds_def act_def log_ok_snoc allowed_def Let_def)

lemma log_ok_pair: "log_ok w (l @ [a, b]) \<longleftrightarrow> log_ok w l \<and> allowed w l a \<and> allowed w (l @ [a]) b"
  using log_ok_snoc [of w "l @ [a]" b] by (simp add: log_ok_snoc)

lemma remove_inject: "remove_args m = remove_args n \<longleftrightarrow> m = n"
  by (auto simp: remove_args_def)

lemma remove_keeps: "log_ok w (h_log s) \<Longrightarrow> log_ok w (h_log (removeDockerContainer w s))"
  by (simp add: removeDockerContainer_def act_def log_ok_snoc log_ok_pair allowed_def args_differ remove_inject Let_def)

lemma keeps_remove [keeps_intros]: "keeps w (effect (removeDockerContainer w))"
  by (simp add: keeps_def effect_def remove_keeps)

lemma signals_keep: "log_ok w (h_log s) \<Longrightarrow> log_ok w (h_log (fold (on_signal w) signals s))"
  by (induction signals arbitrary: s) (simp_all add: on_signal_def remove_keeps act_def log_ok_snoc allowed_def)

lemma keeps_childExit [keeps_intros]: "keeps w (childExit w)"
  by (auto simp: keeps_def childExit_def signals_keep Let_def split: prod.splits option.splits)

lemma keeps_announce [keeps_intros]: "keeps w (announce m)"
  unfolding announce_def by (rule keeps_act) (simp add: allowed_def)

lemma keeps_run [keeps_intros]: "keeps w (runToCompletion w c (''build'' # r) e)"
  unfolding runToCompletion_def by (intro keeps_intros keeps_act) (simp add: allowed_def args_differ)

lemma keeps_docker [keeps_intros]: "1024 \<le> port \<Longrightarrow> port \<le> 65535 \<Longrightarrow> keeps w (start_docker w port)"
  unfolding start_docker_def Let_def
  by (intro keeps_intros keeps_probe keeps_act args_differ) (auto simp: allowed_def dest: run_args_inject)

lemma keeps_go [keeps_intros]: "keeps w (start_go w go)"
  unfolding start_go_def Let_def by (intro keeps_intros keeps_call keeps_act) (simp_all add: allowed_def args_differ)

lemma keeps_backend [keeps_intros]: "1024 \<le> port \<Longrightarrow> port \<le> 65535 \<Longrightarrow> keeps w (start_backend w port)"
  unfolding start_backend_def Let_def
  by (intro keeps_intros keeps_probe keeps_act args_differ) (simp_all add: allowed_def)

lemma keeps_wait [keeps_intros]: "keeps w (wait_backend w)"
proof -
  have "keeps w (\<lambda>s. let b = c s in if d s b then throw m s else effect id s)" for c :: "harness \<Rightarrow> bool" and d m
    by (simp add: keeps_def throw_def effect_def Let_def)
  then show ?thesis unfolding wait_backend_def by (intro keeps_and_then keeps_childExit)
qed

lemma keeps_clean [keeps_intros]: "keeps w (clean_up w)"
  unfolding clean_up_def by (intro keeps_intros keeps_call) (simp add: allowed_def)

lemma keeps_chmod [keeps_intros]: "keeps w (chmod_fixtures w)"
proof -
  have "keeps w (\<lambda>s. case call w (Chmod p) s of (Inl e, s') \<Rightarrow> (if c then Inl e else Inr (), s') | r \<Rightarrow> r)" for c p
    using keeps_call [of w "Chmod p"] by (auto simp: keeps_def allowed_def split: prod.splits sum.splits; metis snd_conv)
  then show ?thesis unfolding chmod_fixtures_def Let_def by (intro keeps_and_then)
qed

lemma port_range: "port_of r = Some p \<Longrightarrow> 1024 \<le> p \<and> p \<le> 65535"
  by (auto simp: port_of_def split: js_number.splits if_splits; linarith)

text \<open>
  Whatever the system answers and whenever signals arrive, the script stays within bounds: it removes a
  container only right after Docker reported for that name that it carries the label of the tests, it deletes
  no directory but its own data directory, and it starts a container only under a name that passed the
  check and on a port from 1024 to 65535.
\<close>

theorem harness_contained: "log_ok w (h_log (snd (harness_main w harness_init)))"
proof -
  have "keeps w (harness_main w)"
    unfolding harness_main_def
    by (intro keeps_and_then keeps_call) (auto simp: allowed_def intro!: keeps_intros dest: port_range split: option.split)
  then show ?thesis by (simp add: keeps_def harness_init_def log_ok_def)
qed

subsection \<open>Ports\<close>

lemma digits_plain:
  assumes "all_digits s"
  shows "takeWhile is_digit s = s" "dropWhile is_digit s = []" "trim s = s"
proof -
  have d: "\<forall>c \<in> set s. is_digit c" using assms by (simp add: all_digits_def list_all_iff)
  then show "takeWhile is_digit s = s" "dropWhile is_digit s = []" by simp_all
  show "trim s = s" using d by (intro trim_no_space) (simp add: list_all_iff)
qed

lemma js_Number_digits:
  assumes "all_digits s"
  shows "js_Number s = to_number (of_nat (digits_value s))"
proof -
  have d: "is_digit c" if "c \<in> set s" for c using assms that by (simp add: all_digits_def list_all_iff)
  have s: "s \<noteq> []" using assms by (simp add: all_digits_def)
  then have h: "is_digit (hd s)" using d by simp
  then have sign: "hd s \<noteq> CHR ''-''" "hd s \<noteq> CHR ''+''" "s \<noteq> ''Infinity''" by (auto simp: is_digit_def)
  have lower: "to_lower (take 2 s) = take 2 s"
    unfolding to_lower_def by (rule map_idI) (auto dest!: in_set_takeD d simp: lower_char_def is_digit_def)
  have tag: "to_lower (take 2 s) \<notin> {''0x'', ''0o'', ''0b''}"
  proof
    assume "to_lower (take 2 s) \<in> {''0x'', ''0o'', ''0b''}"
    then have "take 2 s = ''0x'' \<or> take 2 s = ''0o'' \<or> take 2 s = ''0b''" unfolding lower by simp
    then have "CHR ''x'' \<in> set (take 2 s) \<or> CHR ''o'' \<in> set (take 2 s) \<or> CHR ''b'' \<in> set (take 2 s)" by (elim disjE) simp_all
    then have "is_digit CHR ''x'' \<or> is_digit CHR ''o'' \<or> is_digit CHR ''b''" using d in_set_takeD by metis
    then show False by (simp add: is_digit_def)
  qed
  show ?thesis
    using s sign tag by (simp add: js_Number_def Let_def digits_plain [OF assms] decimal_literal_def parse_exponent_def)
qed

lemma port_of_digits:
  "all_digits s \<Longrightarrow> 1024 \<le> digits_value s \<Longrightarrow> digits_value s \<le> 65535 \<Longrightarrow> port_of s = Some (digits_value s)"
  using to_number_int [of "int (digits_value s)"] by (simp add: port_of_def js_Number_digits)

subsection \<open>What is left behind\<close>

lemma removed_container: "h_container (removeDockerContainer w s) = [] \<or> h_docker (removeDockerContainer w s) = []"
  by (simp add: removeDockerContainer_def act_def Let_def)

lemma clean_up_ends:
  "let s' = snd (clean_up w s) in
   last (h_log s') = Remove_Tree (dataDirectory w) \<and> (h_container s' = [] \<or> h_docker s' = [])"
  using removed_container [of w s]
  by (simp add: clean_up_def and_then_def effect_def call_def act_def Let_def dataDirectory_def)

lemma finally_ends: "snd (finally_do f g s) = snd (g (snd (f s)))"
  by (auto simp: finally_do_def split: prod.splits sum.splits)

lemma chmod_succeeds: "(\<And>l. w_ok w l) \<Longrightarrow> \<exists>s'. chmod_fixtures w s = (Inr (), s')"
  by (simp add: chmod_fixtures_def and_then_def call_def Let_def)

text \<open>
  The script ends by deleting its data directory and knows of no container it could still remove,
  whatever happened to the backend, exactly when the port it was given is one it accepts: the directory is made
  before the port is checked, so a refused port leaves it behind. Hypothesis: the calls of the file
  system succeed.
\<close>

theorem harness_cleans_up:
  assumes "\<And>l. w_ok w l"
  shows "let s = snd (harness_main w harness_init) in
    last (h_log s) = Remove_Tree (dataDirectory w) \<and> (h_container s = [] \<or> h_docker s = []) \<longleftrightarrow> port_of (requested_port w) \<noteq> None"
proof (cases "port_of (requested_port w)")
  case None
  then show ?thesis
    using assms by (simp add: harness_main_def and_then_def call_def act_def throw_def Let_def harness_init_def)
next
  case (Some port)
  let ?s = "act (Make_Temp (dataDirectory w)) harness_init"
  obtain s' where "chmod_fixtures w ?s = (Inr (), s')" using chmod_succeeds assms by blast
  with Some assms have "harness_main w harness_init =
      finally_do (and_then (start_backend w port) (\<lambda>_. wait_backend w)) (clean_up w) s'"
    by (simp add: harness_main_def and_then_def call_def Let_def)
  then show ?thesis
    using Some clean_up_ends by (simp add: finally_ends Let_def)
qed

text \<open>A machine without Go, with Docker, where every question is answered by success and the text true.\<close>

definition sample_world :: "string \<Rightarrow> world" where
  "sample_world name =
     \<lparr>w_env = [''MULTISPEED_E2E_DOCKER_IMAGE'' \<mapsto> ''backend'', ''MULTISPEED_E2E_CONTAINER_NAME'' \<mapsto> name], w_platform = ''darwin'',
      w_tmpdir = [''tmp''], w_suffix = ''a1b2c3'', w_script = [''repo'', ''web'', ''e2e''], w_ok = (\<lambda>_. True),
      w_ask = (\<lambda>_. Some (0, ''true'')), w_wait = (\<lambda>_. ([], Some (Some 0, None)))\<rparr>"

theorem harness_cleans_up_witness:
  "last (h_log (snd (harness_main (sample_world ''multispeed-e2e-1'') harness_init))) = Remove_Tree [''tmp'', ''multispeed-e2e-a1b2c3'']"
proof -
  have w: "requested_port (sample_world n) = ''18787''" "dataDirectory (sample_world n) = [''tmp'', ''multispeed-e2e-a1b2c3'']"
    "w_ok (sample_world n) l" for n l
    by (simp_all add: requested_port_def sample_world_def dataDirectory_def)
  have "all_digits ''18787''" "digits_value ''18787'' = 18787"
    by (simp_all add: all_digits_def is_digit_def digits_value_def digit_value_def)
  then have "port_of ''18787'' \<noteq> None" using port_of_digits [of "''18787''"] by simp
  then show ?thesis
    using harness_cleans_up [of "sample_world ''multispeed-e2e-1''", OF w(3)] unfolding w(1,2) Let_def by blast
qed

text \<open>
  The name of a container is kept before it is checked, so the script refuses to start under a name that
  fails the check and still asks Docker about that name and removes the container when it has the label.
\<close>

lemma refused_name_removed:
  assumes "setting w ''MULTISPEED_E2E_DOCKER_IMAGE'' \<noteq> []" "\<not> container_ok (container_name w)" "\<And>l. label_shown w l"
  shows "let (r, s') = finally_do (and_then (start_docker w port) k) (clean_up w) s in
    (\<exists>e. r = Inl e) \<and>
    Ask (or_default (setting w ''MULTISPEED_E2E_DOCKER_COMMAND'') ''docker'') (remove_args (container_name w)) \<in> set (h_log s')"
proof -
  let ?d = "or_default (setting w ''MULTISPEED_E2E_DOCKER_COMMAND'') ''docker''"
  have found: "w_ask w l = Some (status, out) \<Longrightarrow> status = 0" "w_ask w l \<noteq> None" for l status out
    using assms(3) [of l] by (auto simp: label_shown_def split: option.splits prod.splits)
  have names: "?d \<noteq> []" "container_name w \<noteq> []" by (simp_all add: or_default_def container_name_def)
  let ?s = "(act (Ask ?d [''version'', ''--format'', ''{{.Server.Version}}'']) (s\<lparr>h_docker := ?d\<rparr>))\<lparr>h_container := container_name w\<rparr>"
  have "start_docker w port s = (Inl (Thrown ''MULTISPEED_E2E_CONTAINER_NAME must start with multispeed-e2e- and contain only safe name characters.''), ?s)"
    using assms(1,2) found
    by (auto simp: start_docker_def and_then_def effect_def throw_def commandSucceeds_def Let_def act_def split: option.split)
  moreover have "Ask ?d (remove_args (container_name w)) \<in> set (h_log (snd (clean_up w ?s)))"
    using names assms(3)
    by (simp add: clean_up_def and_then_def effect_def call_def removeDockerContainer_def act_def Let_def)
  ultimately show ?thesis
    by (cases "clean_up w ?s") (auto simp: finally_do_def and_then_def split: sum.split)
qed

subsection \<open>Proxies\<close>

lemma split_char_free: "x \<in> set (split_char c s) \<Longrightarrow> c \<notin> set x"
  by (induction s arbitrary: x) (auto split: list.splits if_splits)

lemma set_add_simps: "set (set_add x xs) = insert x (set xs)" "distinct xs \<Longrightarrow> distinct (set_add x xs)"
  "x \<in> set xs \<Longrightarrow> set_add x xs = xs"
  by (auto simp: set_add_def)

lemma list_of_entries:
  assumes "xs \<noteq> []" "distinct xs" "\<And>v. v \<in> set xs \<Longrightarrow> CHR '','' \<notin> set v \<and> v \<noteq> [] \<and> trim v = v"
  shows "unique (filter (\<lambda>v. v \<noteq> []) (map trim (split_char CHR '','' (join '','' xs)))) = xs"
proof -
  have "split_char CHR '','' (join '','' xs) = xs"
    using assms by (intro split_char_join) (auto simp: list_all_iff)
  moreover have "map trim xs = xs" using assms(3) by (intro map_idI) blast
  moreover have "filter (\<lambda>v. v \<noteq> []) xs = xs" using assms(3) by (simp add: filter_id_conv)
  ultimately show ?thesis using assms(2) by simp
qed

definition proxy_entries :: "string option \<Rightarrow> string list" where
  "proxy_entries current =
     unique (filter (\<lambda>v. v \<noteq> []) (map trim (split_char CHR '','' (case current of Some c \<Rightarrow> c | None \<Rightarrow> []))))"

text \<open>
  The variable for proxies keeps its entries, each once and in their order, gains the two local names,
  and is stable: treating the result again changes nothing.
\<close>

theorem no_proxy_stable:
  "proxy_entries (Some (appendNoProxy current)) = set_add ''localhost'' (set_add ''127.0.0.1'' (proxy_entries current)) \<and>
   appendNoProxy (Some (appendNoProxy current)) = appendNoProxy current"
proof -
  let ?l = "set_add ''localhost'' (set_add ''127.0.0.1'' (proxy_entries current))"
  have entry: "CHR '','' \<notin> set v \<and> v \<noteq> [] \<and> trim v = v" if "v \<in> set (proxy_entries current)" for v
    using that set_trim_subset by (fastforce simp: proxy_entries_def dest: split_char_free)
  have locals: "trim ''127.0.0.1'' = ''127.0.0.1''" "trim ''localhost'' = ''localhost''"
    by (simp_all add: trim_no_space is_space_def)
  have l: "CHR '','' \<notin> set v \<and> v \<noteq> [] \<and> trim v = v" if "v \<in> set ?l" for v
    using that entry locals by (auto simp: set_add_simps)
  have d: "distinct ?l" by (simp add: set_add_simps proxy_entries_def)
  have ne: "?l \<noteq> []" by (auto simp: set_add_def)
  have a: "appendNoProxy current = join '','' ?l" by (simp add: appendNoProxy_def proxy_entries_def Let_def)
  have e: "proxy_entries (Some (appendNoProxy current)) = ?l"
    unfolding proxy_entries_def [of "Some _"] option.case a by (rule list_of_entries [OF ne d l])
  have "appendNoProxy (Some (appendNoProxy current)) =
      join '','' (set_add ''localhost'' (set_add ''127.0.0.1'' (proxy_entries (Some (appendNoProxy current)))))"
    by (simp add: appendNoProxy_def [of "Some _"] proxy_entries_def Let_def)
  also have "\<dots> = join '','' ?l" unfolding e by (simp add: set_add_simps)
  finally show ?thesis using e a by simp
qed

end
