(* ===== verification/Spec2Isabelle.thy ===== *)
theory Spec2Isabelle
  imports Cron TaskEditor Reporting Format EventStream Toast Theme ResultsView Charts NetworkView
    SettingsView OoklaView TasksView Details AnalyticsView EditorView Frame Dashboard Inspect License
    Canvas Application Harness
begin

text \<open>
  Verification of the MultiSpeed web console.

  MultiSpeed schedules internet speed tests over several WAN links. A daemon (Go) runs the tests and
  stores tasks, results, route profiles and settings behind a REST interface; the console under
  \<open>web/src\<close>, written in TypeScript with React, is the program modelled here. It has a REST client
  (\<open>lib/api.ts\<close>) over types generated from the daemon's OpenAPI document (\<open>lib/openapi/types.gen.ts\<close>), a
  query cache whose entries a stream of daemon events invalidates (\<open>lib/query.ts\<close>,
  \<open>hooks/useEventStream.ts\<close>), library functions (\<open>lib/cron.ts\<close>, \<open>lib/tasks.ts\<close>, \<open>lib/utils.ts\<close>), and one page
  per task: dashboard, task list, task editor, results, statistics, comparison, network, settings, system.

  \<^bold>\<open>Foundations.\<close>
  \<^item> \<open>Prelude\<close>: strings, sorting, sets and maps of the JavaScript library, and the interfaces of the
    development as locales: \<open>comparator\<close> (a consistent comparison; sorting with it gives an ordered
    permutation), \<open>codec\<close> and \<open>prefix_codec\<close> (a decoder that undoes an encoder; the encoder is injective),
    \<open>machine\<close> and \<open>emitting_machine\<close> (an invariant kept by every step holds after every run, and every
    output is allowed in the state that emits it).
  \<^item> \<open>JsNumber\<close>: binary64 numbers as rationals with the rounding function \<open>rnd\<close>, and number printing.
  \<^item> \<open>JsRegex\<close>: the anchored regular expressions of the source, with a matcher proved to agree with
    their declarative meaning.
  \<^item> \<open>Json\<close>: JSON values, ordered objects (locale \<open>js_object\<close>), \<open>JSON.stringify\<close> and \<open>JSON.parse\<close>; the
    printed form of a value parses back, also when it is indented. The parser has fuel, twice the length of its text plus one,
    which is proved to be enough.
  \<^item> \<open>UrlEncoding\<close>: \<open>encodeURIComponent\<close> and \<open>URLSearchParams\<close>, both interpreted as codecs.

  \<^bold>\<open>Contract and client.\<close>
  \<^item> \<open>TsTypes\<close>, \<open>ApiContract\<close>, \<open>Types\<close>: TypeScript types as data with an executable membership test; every
    document and all endpoints of \<open>types.gen.ts\<close>; the view types of \<open>lib/types.ts\<close>.
  \<^item> \<open>ApiClient\<close>, \<open>Api\<close>: \<open>lib/api.ts\<close>. Each method is a constructor of \<open>api_call\<close> with the request it sends
    and the interpretation of the response; \<open>fetch\<close> is a parameter. Shown: requests route to the documented
    endpoint with exactly their arguments, use declared query parameters only, carry a body of the
    declared type; error envelopes reach the caller; the normalised documents have the view types.
  \<^item> \<open>Query\<close>, \<open>EventStream\<close>: retry policy and cache keys; the event stream as a machine whose outputs are
    invalidations. Shown: at most three attempts and none after a client error, a reconnection refreshes
    every query, an event refreshes exactly what its type asks for, and which daemon events have no listener.

  \<^bold>\<open>Library functions.\<close>
  \<^item> \<open>Cron\<close>: validation of cron expressions is equivalent to a grammar with a printer; descriptions,
    time zone list and run preview. The third-party cron iterator and the zone database are parameters.
  \<^item> \<open>Reporting\<close>: calendar dates to instants. The fixed-point iteration of \<open>zonedMidnight\<close> finds local
    midnight whenever it exists; for a skipped midnight west of Greenwich it does not find the day.
  \<^item> \<open>Format\<close>, \<open>Details\<close>: rates, sizes, uptime with every division rounded; labels; the filter for links.
  \<^item> \<open>Application\<close>: the settings with their fallback, the formatters and date formats made from them, downloads
    and the entry of the program. With a zone the platform knows no date throws.
  \<^item> \<open>I18n\<close>: the German dictionary and interpolation.
  \<^item> \<open>Toast\<close>, \<open>Theme\<close>: notifications with explicit time, refining an abstract board of expiring notes;
    light and dark mode over the browser's storage.

  \<^bold>\<open>Pages.\<close> Each page with state is a record, a step function over its events (user actions and answers of
  the daemon, in any order) and an output function (REST calls, invalidations, toasts, navigation).
  \<^item> \<open>Tasks\<close>, \<open>TaskForm\<close>, \<open>TaskEditor\<close>, \<open>EditorSteps\<close>: \<open>lib/tasks.ts\<close> and \<open>pages/TaskEditorPage.tsx\<close>. Shown: an enabled task is
    saved only after a successful preflight of the same input; unchanged tasks are saved unchanged;
    properties the form does not know are kept; custom endpoints stay below their backend. The preview of
    runs settles on the schedule shown; a discovery of servers is bound to the path it was asked for.
  \<^item> \<open>TasksPage\<close>: the list never enables a task. \<open>OoklaTerms\<close>: consent and authorised upload.
  \<^item> \<open>SettingsPage\<close>: only valid, changed settings are saved; only a previewed document is imported.
  \<^item> \<open>NetworkPage\<close>: the page with its dialogs; what the route dialog saves; the copied shell commands have
    the intended words.
  \<^item> \<open>ResultsPage\<close>: its requests are within the contract and a deletion names exactly the selection.
  \<^item> \<open>Charts\<close>: alignment of sparse series, ranking of WAN paths, latest measurement (\<open>StatisticsPage\<close>,
    \<open>ComparisonPage\<close>, \<open>DashboardPage\<close>). \<open>Analytics\<close>: the controls of these pages; their requests have the
    declared types; what happens to a cleared date and which default dates miss the present. \<open>Shell\<close>: routes, navigation and headings with their translations.

  \<^bold>\<open>Views.\<close> What a page shows is an element tree: tags with the properties that mean something (identifiers,
  addresses, disabled, pressed, checked, open), event handlers and children; styles are left out. A handler
  whose event carries what the user typed stays with the events of the page. \<open>offered\<close> reads from a tree what a user
  can raise on it: the handlers of elements that are not disabled and not in a closed dialog.
  \<^item> \<open>Widgets\<close>: the components under \<open>components/ui\<close> and \<open>components/common\<close>. A field is wired for assistive technology.
  \<^item> \<open>Shell\<close>, \<open>Frame\<close>, \<open>Dashboard\<close>: the frame shows what is in force, and every link leads to a page.
  \<^item> \<open>EditorView\<close>: the four steps of the task editor with the issues of the form by field. Shown: going on is
    possible exactly when the fields of the step have no issue, so a task past the last step is valid; which
    errors have no place to be shown; every label reaches its control, with one exception.
  \<^item> \<open>TasksView\<close>, \<open>ResultsView\<close>, \<open>SettingsView\<close>, \<open>NetworkView\<close>, \<open>OoklaView\<close>: what a page offers agrees with the guards of its
    operations, so no button is dead and no request is without a button.
  \<^item> \<open>AnalyticsView\<close>: statistics and comparison show as pressed or checked exactly what is in force; the table has the
    values of the chart. \<open>Inspect\<close>: the system page, and the page of a result, whose links are safe.
  \<^item> \<open>Canvas\<close>: the effect around the chart library refines a canvas with one chart that shows the option rendered last.

  \<^bold>\<open>Scripts.\<close> \<open>Files\<close> is a file tree with the calls of \<open>node:fs\<close>; \<open>Embed\<close> models
  \<open>web/scripts/sync-embedded-frontend.mjs\<close> on it. Shown: its check is exact up to collisions of SHA-256, and a
  synchronisation replaces the embedded copy and no other file. \<open>License\<close> models
  \<open>scripts/generate-frontend-license-bundle.mjs\<close>: the bundle of notices is complete and truthful. \<open>Harness\<close> models
  \<open>web/e2e/start-backend.mjs\<close> as a log of actions, with what the system answers a function of the log: whatever the
  answers, it removes labelled containers and its own directory only; which failures leave the directory behind.

  \<^bold>\<open>Conventions.\<close> Strings are restricted to code units below 256; the few literals beyond are named
  constants. An exception is the left value of a sum, \<open>null\<close> or \<open>undefined\<close> is \<open>None\<close>. A control that is
  disabled gives no request: its condition is a guard of the step. What the platform or a package does
  (URL parsing, collation, zone data, cron iteration, fetch, the query cache) is a parameter, with
  documented behaviour as a hypothesis of the theorems that need it.

  \<^bold>\<open>Not modelled.\<close> The Go daemon (another program behind the contract); class names and styles; what third-party
  packages do inside (the chart library draws, the table library sorts its rows, \<open>date-fns\<close> and \<open>Intl\<close> print dates, Radix opens
  dialogs and menus, React schedules renders); the clipboard; tests and the configuration of build tools, which
  are data without logic of their own.
\<close>

end
